(* ===== verification/AFS_Prelude.thy ===== *)
theory AFS_Prelude
  imports Main "HOL-Library.Word" "HOL-Library.List_Lexorder" "HOL-Library.Char_ord"
    "HOL-Library.Monad_Syntax" "HOL-Library.AList" "HOL-Library.Sublist"
begin

text \<open>
  The prelude of the development: the collections the component theories fill, the type
  synonyms they share, and generic lemmas on lists, association lists and options that more
  than one component uses. Nothing here is about a particular source file.
\<close>

named_theorems posix_simps "evaluation of the system calls in a quiet kernel"
named_theorems view_simps "what an operation does to the visible contents of a file system"
named_theorems sem_simps "evaluation of the semaphores"

type_synonym bytes = string
type_synonym path = string
type_synonym u32 = "32 word"
type_synonym u64 = "64 word"

abbreviation (input) NUL :: char where "NUL \<equiv> CHR 0x00"
abbreviation (input) NL :: char where "NL \<equiv> CHR 0x0A"

subsection \<open>C integer conversions on unbounded integers\<close>

text \<open>The value of an expression converted to \<open>int\<close>, \<open>unsigned int\<close> (two's complement).\<close>

definition to_int32 :: "int \<Rightarrow> int" where
  "to_int32 x = (x + 2 ^ 31) mod 2 ^ 32 - 2 ^ 31"

lemma to_int32_id: "- (2 ^ 31) \<le> x \<Longrightarrow> x < 2 ^ 31 \<Longrightarrow> to_int32 x = x"
  by (simp add: to_int32_def)

lemma to_int32_nat: "n < 2 ^ 31 \<Longrightarrow> to_int32 (int n) = int n"
  by (rule to_int32_id) (simp_all)

lemma to_int32_negative: "to_int32 (int n) < 0 \<longleftrightarrow> 2 ^ 31 \<le> n mod 2 ^ 32"
proof -
  define m where "m = int (n mod 2 ^ 32)"
  have m: "0 \<le> m" "m < 4294967296" by (simp_all add: m_def zmod_int)
  have "(int n + 2 ^ 31) mod 2 ^ 32 = (m + 2147483648) mod 4294967296"
    by (simp add: m_def zmod_int mod_simps)
  also have "\<dots> = (if m < 2147483648 then m + 2147483648 else m - 2147483648)"
    using m by (auto intro: mod_pos_pos_trivial simp: mod_pos_geq)
  finally have "to_int32 (int n) < 0 \<longleftrightarrow> 2147483648 \<le> m"
    using m by (simp add: to_int32_def)
  then show ?thesis by (simp add: m_def)
qed

subsection \<open>Lists\<close>

text \<open>
  Overwriting \<open>b\<close> at offset \<open>off\<close>, with the hole filled by NUL bytes; writing nothing changes nothing,
  wherever it is.
\<close>

definition overwrite :: "nat \<Rightarrow> bytes \<Rightarrow> bytes \<Rightarrow> bytes" where
  "overwrite off b d =
     (if b = [] then d else take off (d @ replicate (off - length d) NUL) @ b @ drop (off + length b) d)"

lemma overwrite_Nil [simp]: "overwrite off [] d = d"
  by (simp add: overwrite_def)

lemma overwrite_at_end [simp]: "overwrite (length d) b d = d @ b"
  by (simp add: overwrite_def)

lemma overwrite_0_Nil [simp]: "overwrite 0 b [] = b"
  by (simp add: overwrite_def)

lemma length_overwrite:
  "length (overwrite off b d) = (if b = [] then length d else max (off + length b) (length d))"
  by (auto simp: overwrite_def max_def)

lemma take_drop_overwrite: "take (length b) (drop off (overwrite off b d)) = b"
  by (simp add: overwrite_def)

lemma take_drop_split: "take n (drop k xs) @ drop (k + n) xs = drop k xs"
  by (metis add.commute append_take_drop_id drop_drop)

fun lowest_free :: "'a option list \<Rightarrow> nat" where
  "lowest_free [] = 0"
| "lowest_free (None # xs) = 0"
| "lowest_free (Some _ # xs) = Suc (lowest_free xs)"

definition set_slot :: "nat \<Rightarrow> 'a option \<Rightarrow> 'a option list \<Rightarrow> 'a option list" where
  "set_slot n v xs = (if n < length xs then xs[n := v] else xs @ replicate (n - length xs) None @ [v])"

definition slot :: "'a option list \<Rightarrow> nat \<Rightarrow> 'a option" where
  "slot xs n = (if n < length xs then xs ! n else None)"

lemma lowest_free_le: "lowest_free xs \<le> length xs"
  by (induction xs rule: lowest_free.induct) auto

lemma slot_lowest_free [simp]: "slot xs (lowest_free xs) = None"
  by (induction xs rule: lowest_free.induct) (auto simp: slot_def)

lemma slot_set_slot: "slot (set_slot n v xs) m = (if m = n then v else slot xs m)"
  by (auto simp: slot_def set_slot_def nth_append nth_list_update)

lemma slot_set_slot_same [simp]: "slot (set_slot n v xs) n = v"
  by (simp add: slot_set_slot)

lemma slot_set_slot_other [simp]: "m \<noteq> n \<Longrightarrow> slot (set_slot n v xs) m = slot xs m"
  by (simp add: slot_set_slot)

lemma slot_Some_mem: "slot xs n = Some v \<Longrightarrow> Some v \<in> set xs"
  by (auto simp: slot_def split: if_splits dest: nth_mem)

subsection \<open>Association lists sorted by key\<close>

abbreviation sorted_keys :: "('k::linorder \<times> 'v) list \<Rightarrow> bool" where
  "sorted_keys m \<equiv> sorted_wrt (<) (map fst m)"

lemma sorted_keys_distinct: "sorted_keys m \<Longrightarrow> distinct (map fst m)"
  by (simp add: strict_sorted_iff)

lemma map_of_sorted_Cons:
  "sorted_keys ((k, v) # m) \<Longrightarrow> map_of m k = None"
  by (auto simp: map_of_eq_None_iff)

lemma map_of_filter_key:
  "map_of (filter (\<lambda>x. fst x \<noteq> k) m) = (map_of m)(k := None)"
  by (induction m) (auto simp: fun_eq_iff)

lemma sorted_keys_filter: "sorted_keys m \<Longrightarrow> sorted_keys (filter P m)"
  by (induction m) auto

end
