(* ===== verification/CLib.thy ===== *)
theory CLib
  imports AFS_Prelude
begin

text \<open>
  The functions of the C and C++ standard library that the program's text processing uses:
  \<open>isspace\<close> (C locale), \<open>strtol\<close> in base 10, \<open>atoi\<close> (as glibc defines it, through
  \<open>strtol\<close>), \<open>std::stoi\<close> and \<open>std::to_string\<close>. The lemmas show that printing and
  parsing are inverse to each other.
\<close>

subsection \<open>Character classes\<close>

definition isspace :: "char \<Rightarrow> bool" where
  "isspace c \<longleftrightarrow> c = CHR '' '' \<or> (9 \<le> (of_char c :: nat) \<and> (of_char c :: nat) \<le> 13)"

definition isdigit :: "char \<Rightarrow> bool" where
  "isdigit c \<longleftrightarrow> 48 \<le> (of_char c :: nat) \<and> (of_char c :: nat) \<le> 57"

definition digit_val :: "char \<Rightarrow> nat" where
  "digit_val c = of_char c - 48"

definition digit_char :: "nat \<Rightarrow> char" where
  "digit_char d = char_of (48 + d)"

lemma digit_char_props:
  assumes "d < 10"
  shows "isdigit (digit_char d)" and "digit_val (digit_char d) = d"
  using assms by (auto simp: isdigit_def digit_val_def digit_char_def of_char_of)

lemma isdigit_not:
  "isdigit c \<Longrightarrow> \<not> isspace c \<and> c \<noteq> CHR ''-'' \<and> c \<noteq> CHR ''+'' \<and> c \<noteq> CHR '':'' \<and> c \<noteq> NL"
  by (auto simp: isdigit_def isspace_def)

subsection \<open>Printing: std::to_string and operator<<\<close>

fun show_nat :: "nat \<Rightarrow> string" where
  "show_nat n = (if n < 10 then [digit_char n] else show_nat (n div 10) @ [digit_char (n mod 10)])"

declare show_nat.simps [simp del]

definition show_int :: "int \<Rightarrow> string" where
  "show_int i = (if i < 0 then CHR ''-'' # show_nat (nat (- i)) else show_nat (nat i))"

subsection \<open>Parsing: strtol, atoi, stoi\<close>

definition digits_value :: "string \<Rightarrow> nat" where
  "digits_value ds = foldl (\<lambda>a c. 10 * a + digit_val c) 0 ds"

text \<open>The subject sequence of \<open>strtol\<close>: \<open>None\<close> when there is no digit (no conversion).\<close>

definition strtol_subject :: "string \<Rightarrow> int option" where
  "strtol_subject str =
     (let s = dropWhile isspace str;
          neg = (s \<noteq> [] \<and> hd s = CHR ''-'');
          t = (if s \<noteq> [] \<and> (hd s = CHR ''-'' \<or> hd s = CHR ''+'') then tl s else s);
          ds = takeWhile isdigit t
      in if ds = [] then None
         else Some (if neg then - int (digits_value ds) else int (digits_value ds)))"

text \<open>\<open>strtol\<close> saturates at the bounds of \<open>long\<close>; \<open>atoi\<close> truncates that to \<open>int\<close>.\<close>

definition strtol :: "string \<Rightarrow> int" where
  "strtol str = (case strtol_subject str of None \<Rightarrow> 0
     | Some v \<Rightarrow> max (- (2 ^ 63)) (min (2 ^ 63 - 1) v))"

definition atoi :: "string \<Rightarrow> int" where
  "atoi str = to_int32 (strtol str)"

datatype stoi_exn = Invalid_argument | Out_of_range

definition stoi :: "string \<Rightarrow> stoi_exn + int" where
  "stoi str = (case strtol_subject str of None \<Rightarrow> Inl Invalid_argument
     | Some v \<Rightarrow> if v < - (2 ^ 31) \<or> v \<ge> 2 ^ 31 then Inl Out_of_range else Inr v)"

subsection \<open>Printing and parsing are inverse\<close>

lemma show_nat_nonempty [simp]: "show_nat n \<noteq> []"
  by (subst show_nat.simps) simp

lemma show_nat_digits: "\<forall>c \<in> set (show_nat n). isdigit c"
proof (induction n rule: show_nat.induct)
  case (1 n)
  then show ?case
    by (subst show_nat.simps) (auto simp: digit_char_props)
qed

lemma digits_value_snoc: "digits_value (ds @ [c]) = 10 * digits_value ds + digit_val c"
  by (simp add: digits_value_def)

lemma digits_value_show_nat [simp]: "digits_value (show_nat n) = n"
proof (induction n rule: show_nat.induct)
  case (1 n)
  show ?case
  proof (cases "n < 10")
    case True
    then show ?thesis
      by (subst show_nat.simps) (simp add: digits_value_def digit_char_props)
  next
    case False
    with 1 show ?thesis
      by (subst show_nat.simps) (simp add: digits_value_snoc digit_char_props)
  qed
qed

lemma show_nat_inject [simp]: "show_nat a = show_nat b \<longleftrightarrow> a = b"
  by (metis digits_value_show_nat)

lemma takeWhile_show_nat [simp]: "takeWhile isdigit (show_nat n) = show_nat n"
  using show_nat_digits by (simp add: takeWhile_eq_all_conv)

lemma hd_show_nat: "isdigit (hd (show_nat n))"
  using show_nat_digits [of n] by (simp add: hd_in_set)

lemma dropWhile_show_nat [simp]: "dropWhile isspace (show_nat n) = show_nat n"
  using hd_show_nat [of n] isdigit_not by (cases "show_nat n") auto

lemma strtol_subject_show_nat: "strtol_subject (show_nat n) = Some (int n)"
  using hd_show_nat [of n] isdigit_not by (auto simp: strtol_subject_def Let_def)

lemma strtol_subject_show_int: "strtol_subject (show_int i) = Some i"
proof (cases "i < 0")
  case True
  then have "dropWhile isspace (show_int i) = CHR ''-'' # show_nat (nat (- i))"
    by (simp add: show_int_def isspace_def)
  with True show ?thesis
    by (simp add: strtol_subject_def Let_def)
next
  case False
  then show ?thesis by (simp add: show_int_def strtol_subject_show_nat)
qed

lemma stoi_show_int: "- (2 ^ 31) \<le> i \<Longrightarrow> i < 2 ^ 31 \<Longrightarrow> stoi (show_int i) = Inr i"
  by (simp add: stoi_def strtol_subject_show_int)

lemma stoi_show_nat: "n < 2 ^ 31 \<Longrightarrow> stoi (show_nat n) = Inr (int n)"
  by (simp add: stoi_def strtol_subject_show_nat)

lemma stoi_show_nat_overflow: "2 ^ 31 \<le> n \<Longrightarrow> stoi (show_nat n) = Inl Out_of_range"
  by (simp add: stoi_def strtol_subject_show_nat)

lemma atoi_show_int: "- (2 ^ 31) \<le> i \<Longrightarrow> i < 2 ^ 31 \<Longrightarrow> atoi (show_int i) = i"
  by (simp add: atoi_def strtol_def strtol_subject_show_int to_int32_id)

lemma show_nat_chars: "\<forall>c \<in> set (show_nat n). c \<noteq> CHR '':'' \<and> c \<noteq> NL"
  using show_nat_digits isdigit_not by blast

lemma show_int_chars: "\<forall>c \<in> set (show_int i). c \<noteq> CHR '':'' \<and> c \<noteq> NL"
  using show_nat_chars by (simp add: show_int_def)

lemma show_no_sep [simp]:
  "CHR '':'' \<notin> set (show_nat n)" "NL \<notin> set (show_nat n)"
  "CHR '':'' \<notin> set (show_int i)" "NL \<notin> set (show_int i)"
  using show_nat_chars show_int_chars by blast+

end
