(* ===== verification/Posix.thy ===== *)
theory Posix
  imports CLib
begin

text \<open>
  The part of the C library and the Linux kernel the client and the server call: a file system
  with a flat name space of full path strings, inodes, a table of open files and \<open>errno\<close>.
  Every call first consults a schedule of faults, which stands for every reason a call may fail
  other than the ones decided by this state (permissions, path resolution, I/O errors, limits)
  and for short transfers; with an empty schedule the kernel is quiet and only the failures
  decided by the state remain. What an uninitialised variable or the memory past a buffer
  holds is an arbitrary component of the state. Time stamps are not updated.
\<close>

unbundle bit_operations_syntax

subsection \<open>State\<close>

record stat =
  st_dev :: u64
  st_ino :: u64
  st_mode :: u32
  st_nlink :: u64
  st_uid :: u32
  st_gid :: u32
  st_rdev :: u64
  st_size :: u64
  st_blksize :: u64
  st_blocks :: u64
  st_atim :: u64
  st_mtim :: u64
  st_ctim :: u64
  st_atime :: u64             \<comment> \<open>the seconds of a time stamp; \<open>st_atim\<close> is its nanoseconds\<close>
  st_mtime :: u64
  st_ctime :: u64

record inode =
  i_isdir :: bool
  i_data :: bytes
  i_attr :: stat

record ofile =
  of_ino :: nat
  of_off :: nat
  of_r :: bool
  of_w :: bool

datatype fault = Pass | Fail int | Short nat

record statvfs =
  f_bsize :: u64
  f_frsize :: u64
  f_blocks :: u64
  f_bfree :: u64
  f_bavail :: u64
  f_files :: u64
  f_ffree :: u64
  f_favail :: u64
  f_fsid :: u64
  f_flag :: u64
  f_namemax :: u64

record fsys =
  names :: "(path \<times> nat) list"
  inodes :: "nat \<rightharpoonup> inode"
  next_ino :: nat
  fds :: "ofile option list"
  errno :: int
  faults :: "fault list"
  fresh_attr :: stat          \<comment> \<open>attributes a new inode gets, its size and number apart\<close>
  xattrs :: "path \<Rightarrow> (string \<times> string) list"
  vfs :: statvfs
  junk :: int                 \<comment> \<open>what an uninitialised int variable holds\<close>
  junk_stat :: stat           \<comment> \<open>what an uninitialised struct stat holds\<close>
  overread :: bytes           \<comment> \<open>the bytes that follow a heap buffer\<close>

abbreviation ENOENT :: int where "ENOENT \<equiv> 2"
abbreviation EBADF :: int where "EBADF \<equiv> 9"
abbreviation EACCES :: int where "EACCES \<equiv> 13"
abbreviation EEXIST :: int where "EEXIST \<equiv> 17"
abbreviation ENOTDIR :: int where "ENOTDIR \<equiv> 20"
abbreviation EISDIR :: int where "EISDIR \<equiv> 21"
abbreviation EINVAL :: int where "EINVAL \<equiv> 22"
abbreviation ERANGE :: int where "ERANGE \<equiv> 34"
abbreviation ENOTEMPTY :: int where "ENOTEMPTY \<equiv> 39"
abbreviation ENODATA :: int where "ENODATA \<equiv> 61"

abbreviation O_RDONLY :: u32 where "O_RDONLY \<equiv> 0"
abbreviation O_WRONLY :: u32 where "O_WRONLY \<equiv> 1"
abbreviation O_RDWR :: u32 where "O_RDWR \<equiv> 2"
abbreviation O_CREAT :: u32 where "O_CREAT \<equiv> 64"
abbreviation O_EXCL :: u32 where "O_EXCL \<equiv> 128"
abbreviation O_TRUNC :: u32 where "O_TRUNC \<equiv> 512"

definition has_flag :: "u32 \<Rightarrow> u32 \<Rightarrow> bool" where
  "has_flag flags f \<longleftrightarrow> flags AND f \<noteq> 0"

definition can_read :: "u32 \<Rightarrow> bool" where
  "can_read flags \<longleftrightarrow> flags AND 3 \<noteq> 1"

definition can_write :: "u32 \<Rightarrow> bool" where
  "can_write flags \<longleftrightarrow> flags AND 3 \<noteq> 0"

definition take_fault :: "fsys \<Rightarrow> fault \<times> fsys" where
  "take_fault s = (case faults s of [] \<Rightarrow> (Pass, s) | f # fs \<Rightarrow> (f, s\<lparr>faults := fs\<rparr>))"

definition limit :: "fault \<Rightarrow> nat \<Rightarrow> nat" where
  "limit f n = (case f of Short k \<Rightarrow> min k n | _ \<Rightarrow> n)"

definition fail :: "int \<Rightarrow> fsys \<Rightarrow> int \<times> fsys" where
  "fail e s = (-1, s\<lparr>errno := e\<rparr>)"

definition lookup :: "fsys \<Rightarrow> path \<Rightarrow> inode option" where
  "lookup s p = Option.bind (map_of (names s) p) (inodes s)"

definition ofile_of :: "fsys \<Rightarrow> int \<Rightarrow> ofile option" where
  "ofile_of s fd = (if fd < 0 then None else slot (fds s) (nat fd))"

definition has_children :: "fsys \<Rightarrow> path \<Rightarrow> bool" where
  "has_children s p \<longleftrightarrow> list_ex (\<lambda>q. prefix (p @ ''/'') q) (map fst (names s))"

definition stat_of :: "nat \<Rightarrow> inode \<Rightarrow> stat" where
  "stat_of i nd = (i_attr nd)\<lparr>st_ino := of_nat i, st_size := of_nat (length (i_data nd))\<rparr>"

definition set_data :: "nat \<Rightarrow> bytes \<Rightarrow> fsys \<Rightarrow> fsys" where
  "set_data i d s = (case inodes s i of None \<Rightarrow> s
     | Some nd \<Rightarrow> s\<lparr>inodes := (inodes s)(i \<mapsto> nd\<lparr>i_data := d\<rparr>)\<rparr>)"

definition set_fd :: "int \<Rightarrow> ofile option \<Rightarrow> fsys \<Rightarrow> fsys" where
  "set_fd fd f s = s\<lparr>fds := set_slot (nat fd) f (fds s)\<rparr>"

subsection \<open>Descriptors: open, close, dup, lseek, read, write\<close>

definition install :: "nat \<Rightarrow> u32 \<Rightarrow> fsys \<Rightarrow> int \<times> fsys" where
  "install i flags s =
     (let fd = int (lowest_free (fds s))
      in (fd, set_fd fd (Some \<lparr>of_ino = i, of_off = 0, of_r = can_read flags,
                               of_w = can_write flags\<rparr>) s))"

definition new_inode :: "path \<Rightarrow> bool \<Rightarrow> u32 \<Rightarrow> fsys \<Rightarrow> fsys" where
  "new_inode p dir mode s =
     s\<lparr>names := AList.update p (next_ino s) (names s),
       inodes := (inodes s)(next_ino s \<mapsto>
         \<lparr>i_isdir = dir, i_data = [], i_attr = (fresh_attr s)\<lparr>st_mode := mode\<rparr>\<rparr>),
       next_ino := Suc (next_ino s)\<rparr>"

definition sys_open :: "path \<Rightarrow> u32 \<Rightarrow> u32 \<Rightarrow> fsys \<Rightarrow> int \<times> fsys" where
  "sys_open p flags mode s =
     (case take_fault s of
        (Fail e, s) \<Rightarrow> fail e s
      | (_, s) \<Rightarrow>
         (case map_of (names s) p of
            None \<Rightarrow>
              if has_flag flags O_CREAT
              then install (next_ino s) flags (new_inode p False mode s)
              else fail ENOENT s
          | Some i \<Rightarrow>
             (case inodes s i of
                None \<Rightarrow> fail ENOENT s
              | Some nd \<Rightarrow>
                  if has_flag flags O_CREAT \<and> has_flag flags O_EXCL then fail EEXIST s
                  else if i_isdir nd \<and> (can_write flags \<or> has_flag flags O_CREAT \<or> has_flag flags O_TRUNC)
                  then fail EISDIR s
                  else install i flags
                         (if has_flag flags O_TRUNC then set_data i [] s else s))))"

definition sys_close :: "int \<Rightarrow> fsys \<Rightarrow> int \<times> fsys" where
  "sys_close fd s =
     (case take_fault s of
        (Fail e, s) \<Rightarrow> fail e s
      | (_, s) \<Rightarrow> (case ofile_of s fd of None \<Rightarrow> fail EBADF s | Some _ \<Rightarrow> (0, set_fd fd None s)))"

definition sys_dup :: "int \<Rightarrow> fsys \<Rightarrow> int \<times> fsys" where
  "sys_dup fd s =
     (case take_fault s of
        (Fail e, s) \<Rightarrow> fail e s
      | (_, s) \<Rightarrow> (case ofile_of s fd of None \<Rightarrow> fail EBADF s
                   | Some f \<Rightarrow> (let n = int (lowest_free (fds s)) in (n, set_fd n (Some f) s))))"

text \<open>The offset of the end of a file. For a directory it depends on the kind of file system; here it is 0.\<close>

definition file_size :: "fsys \<Rightarrow> nat \<Rightarrow> nat" where
  "file_size s i =
     (case inodes s i of None \<Rightarrow> 0 | Some nd \<Rightarrow> if i_isdir nd then 0 else length (i_data nd))"

text \<open>\<open>lseek(fd, 0, SEEK_END)\<close> and \<open>lseek(fd, 0, SEEK_SET)\<close>, the two uses the code makes.\<close>

definition sys_lseek_end :: "int \<Rightarrow> fsys \<Rightarrow> int \<times> fsys" where
  "sys_lseek_end fd s =
     (case take_fault s of
        (Fail e, s) \<Rightarrow> fail e s
      | (_, s) \<Rightarrow> (case ofile_of s fd of None \<Rightarrow> fail EBADF s
          | Some f \<Rightarrow> (int (file_size s (of_ino f)),
                       set_fd fd (Some (f\<lparr>of_off := file_size s (of_ino f)\<rparr>)) s)))"

definition sys_lseek_set :: "int \<Rightarrow> fsys \<Rightarrow> int \<times> fsys" where
  "sys_lseek_set fd s =
     (case take_fault s of
        (Fail e, s) \<Rightarrow> fail e s
      | (_, s) \<Rightarrow> (case ofile_of s fd of None \<Rightarrow> fail EBADF s
          | Some f \<Rightarrow> (0, set_fd fd (Some (f\<lparr>of_off := 0\<rparr>)) s)))"

text \<open>
  A read or write at a given offset; \<open>read\<close> and \<open>write\<close> use and advance the offset of
  the open file, \<open>pread\<close> and \<open>pwrite\<close> take it as an argument. The first component is
  the return value, the second the bytes stored into the caller's buffer.
\<close>

definition read_at :: "int \<Rightarrow> nat \<Rightarrow> (ofile \<Rightarrow> nat) \<Rightarrow> (ofile \<Rightarrow> nat \<Rightarrow> ofile) \<Rightarrow> fsys
    \<Rightarrow> int \<times> bytes \<times> fsys" where
  "read_at fd n off adv s =
     (case take_fault s of
        (Fail e, s) \<Rightarrow> (-1, [], s\<lparr>errno := e\<rparr>)
      | (flt, s) \<Rightarrow>
         (case ofile_of s fd of
            None \<Rightarrow> (-1, [], s\<lparr>errno := EBADF\<rparr>)
          | Some f \<Rightarrow>
             (case inodes s (of_ino f) of
                None \<Rightarrow> (-1, [], s\<lparr>errno := EBADF\<rparr>)
              | Some nd \<Rightarrow>
                  if \<not> of_r f then (-1, [], s\<lparr>errno := EBADF\<rparr>)
                  else if i_isdir nd then (-1, [], s\<lparr>errno := EISDIR\<rparr>)
                  else (let bs = take (limit flt n) (drop (off f) (i_data nd))
                        in (int (length bs), bs, set_fd fd (Some (adv f (length bs))) s)))))"

definition write_at :: "int \<Rightarrow> bytes \<Rightarrow> (ofile \<Rightarrow> nat) \<Rightarrow> (ofile \<Rightarrow> nat \<Rightarrow> ofile) \<Rightarrow> fsys
    \<Rightarrow> int \<times> fsys" where
  "write_at fd bs off adv s =
     (case take_fault s of
        (Fail e, s) \<Rightarrow> fail e s
      | (flt, s) \<Rightarrow>
         (case ofile_of s fd of
            None \<Rightarrow> fail EBADF s
          | Some f \<Rightarrow>
             (case inodes s (of_ino f) of
                None \<Rightarrow> fail EBADF s
              | Some nd \<Rightarrow>
                  if \<not> of_w f then fail EBADF s
                  else (let ws = take (limit flt (length bs)) bs
                        in (int (length ws),
                            set_fd fd (Some (adv f (length ws)))
                              (set_data (of_ino f) (overwrite (off f) ws (i_data nd)) s))))))"

definition sys_read :: "int \<Rightarrow> nat \<Rightarrow> fsys \<Rightarrow> int \<times> bytes \<times> fsys" where
  "sys_read fd n = read_at fd n of_off (\<lambda>f k. f\<lparr>of_off := of_off f + k\<rparr>)"

definition sys_pread :: "int \<Rightarrow> nat \<Rightarrow> nat \<Rightarrow> fsys \<Rightarrow> int \<times> bytes \<times> fsys" where
  "sys_pread fd n off = read_at fd n (\<lambda>_. off) (\<lambda>f _. f)"

definition sys_write :: "int \<Rightarrow> bytes \<Rightarrow> fsys \<Rightarrow> int \<times> fsys" where
  "sys_write fd bs = write_at fd bs of_off (\<lambda>f k. f\<lparr>of_off := of_off f + k\<rparr>)"

definition sys_pwrite :: "int \<Rightarrow> bytes \<Rightarrow> nat \<Rightarrow> fsys \<Rightarrow> int \<times> fsys" where
  "sys_pwrite fd bs off = write_at fd bs (\<lambda>_. off) (\<lambda>f _. f)"

subsection \<open>Names: stat, rename, unlink, truncate, chmod, chown, mkdir, rmdir, access\<close>

definition sys_fstat :: "int \<Rightarrow> fsys \<Rightarrow> int \<times> stat \<times> fsys" where
  "sys_fstat fd s =
     (case take_fault s of
        (Fail e, s) \<Rightarrow> (-1, junk_stat s, s\<lparr>errno := e\<rparr>)
      | (_, s) \<Rightarrow>
         (case ofile_of s fd of
            None \<Rightarrow> (-1, junk_stat s, s\<lparr>errno := EBADF\<rparr>)
          | Some f \<Rightarrow>
             (case inodes s (of_ino f) of
                None \<Rightarrow> (-1, junk_stat s, s\<lparr>errno := EBADF\<rparr>)
              | Some nd \<Rightarrow> (0, stat_of (of_ino f) nd, s))))"

definition sys_lstat :: "path \<Rightarrow> fsys \<Rightarrow> int \<times> stat \<times> fsys" where
  "sys_lstat p s =
     (case take_fault s of
        (Fail e, s) \<Rightarrow> (-1, junk_stat s, s\<lparr>errno := e\<rparr>)
      | (_, s) \<Rightarrow>
         (case map_of (names s) p of
            None \<Rightarrow> (-1, junk_stat s, s\<lparr>errno := ENOENT\<rparr>)
          | Some i \<Rightarrow>
             (case inodes s i of
                None \<Rightarrow> (-1, junk_stat s, s\<lparr>errno := ENOENT\<rparr>)
              | Some nd \<Rightarrow> (0, stat_of i nd, s))))"

definition moved :: "path \<Rightarrow> path \<Rightarrow> path \<Rightarrow> path" where
  "moved old new q = (if q = old then new
     else if prefix (old @ ''/'') q then new @ drop (length old) q else q)"

definition sys_rename :: "path \<Rightarrow> path \<Rightarrow> fsys \<Rightarrow> int \<times> fsys" where
  "sys_rename old new s =
     (case take_fault s of
        (Fail e, s) \<Rightarrow> fail e s
      | (_, s) \<Rightarrow>
         (case map_of (names s) old of
            None \<Rightarrow> fail ENOENT s
          | Some i \<Rightarrow>
              if old = new then (0, s)
              else
             (let dir = (case inodes s i of None \<Rightarrow> False | Some nd \<Rightarrow> i_isdir nd) in
              case lookup s new of
                Some nd \<Rightarrow>
                  if dir \<and> \<not> i_isdir nd then fail ENOTDIR s
                  else if \<not> dir \<and> i_isdir nd then fail EISDIR s
                  else if dir \<and> has_children s new then fail ENOTEMPTY s
                  else if dir \<and> prefix (old @ ''/'') new then fail EINVAL s
                  else (0, s\<lparr>names := (if dir
                         then map (\<lambda>(q, k). (moved old new q, k)) (AList.delete new (names s))
                         else AList.update new i (AList.delete old (names s)))\<rparr>)
              | None \<Rightarrow>
                  if dir \<and> (has_children s new \<or> prefix (old @ ''/'') new) then fail EINVAL s
                  else (0, s\<lparr>names := (if dir
                         then map (\<lambda>(q, k). (moved old new q, k)) (AList.delete new (names s))
                         else AList.update new i (AList.delete old (names s)))\<rparr>))))"

definition sys_unlink :: "path \<Rightarrow> fsys \<Rightarrow> int \<times> fsys" where
  "sys_unlink p s =
     (case take_fault s of
        (Fail e, s) \<Rightarrow> fail e s
      | (_, s) \<Rightarrow>
         (case lookup s p of
            None \<Rightarrow> fail ENOENT s
          | Some nd \<Rightarrow> if i_isdir nd then fail EISDIR s
                       else (0, s\<lparr>names := AList.delete p (names s)\<rparr>)))"

definition sys_truncate :: "path \<Rightarrow> int \<Rightarrow> fsys \<Rightarrow> int \<times> fsys" where
  "sys_truncate p len s =
     (case take_fault s of
        (Fail e, s) \<Rightarrow> fail e s
      | (_, s) \<Rightarrow>
         (if len < 0 then fail EINVAL s
          else case map_of (names s) p of
            None \<Rightarrow> fail ENOENT s
          | Some i \<Rightarrow>
             (case inodes s i of
                None \<Rightarrow> fail ENOENT s
              | Some nd \<Rightarrow> if i_isdir nd then fail EISDIR s
                  else (0, set_data i (take (nat len) (i_data nd)
                             @ replicate (nat len - length (i_data nd)) NUL) s))))"

definition set_attr :: "path \<Rightarrow> (stat \<Rightarrow> stat) \<Rightarrow> fsys \<Rightarrow> int \<times> fsys" where
  "set_attr p g s =
     (case take_fault s of
        (Fail e, s) \<Rightarrow> fail e s
      | (_, s) \<Rightarrow>
         (case map_of (names s) p of
            None \<Rightarrow> fail ENOENT s
          | Some i \<Rightarrow>
             (case inodes s i of
                None \<Rightarrow> fail ENOENT s
              | Some nd \<Rightarrow>
                  (0, s\<lparr>inodes := (inodes s)(i \<mapsto> nd\<lparr>i_attr := g (i_attr nd)\<rparr>)\<rparr>))))"

definition sys_chmod :: "path \<Rightarrow> u32 \<Rightarrow> fsys \<Rightarrow> int \<times> fsys" where
  "sys_chmod p mode = set_attr p (\<lambda>a. a\<lparr>st_mode := mode\<rparr>)"

definition sys_chown :: "path \<Rightarrow> u32 \<Rightarrow> u32 \<Rightarrow> fsys \<Rightarrow> int \<times> fsys" where
  "sys_chown p uid gid = set_attr p (\<lambda>a. a\<lparr>st_uid := uid, st_gid := gid\<rparr>)"

definition sys_mkdir :: "path \<Rightarrow> u32 \<Rightarrow> fsys \<Rightarrow> int \<times> fsys" where
  "sys_mkdir p mode s =
     (case take_fault s of
        (Fail e, s) \<Rightarrow> fail e s
      | (_, s) \<Rightarrow>
         (if map_of (names s) p \<noteq> None then fail EEXIST s else (0, new_inode p True mode s)))"

definition sys_rmdir :: "path \<Rightarrow> fsys \<Rightarrow> int \<times> fsys" where
  "sys_rmdir p s =
     (case take_fault s of
        (Fail e, s) \<Rightarrow> fail e s
      | (_, s) \<Rightarrow>
         (case lookup s p of
            None \<Rightarrow> fail ENOENT s
          | Some nd \<Rightarrow> if \<not> i_isdir nd then fail ENOTDIR s
                       else if has_children s p then fail ENOTEMPTY s
                       else (0, s\<lparr>names := AList.delete p (names s)\<rparr>)))"

text \<open>Permission checks of \<open>access\<close> are among the scheduled faults.\<close>

definition sys_access :: "path \<Rightarrow> u32 \<Rightarrow> fsys \<Rightarrow> int \<times> fsys" where
  "sys_access p mode s =
     (case take_fault s of
        (Fail e, s) \<Rightarrow> fail e s
      | (_, s) \<Rightarrow> (if lookup s p = None then fail ENOENT s else (0, s)))"

definition sys_getxattr :: "path \<Rightarrow> string \<Rightarrow> nat \<Rightarrow> fsys \<Rightarrow> int \<times> bytes \<times> fsys" where
  "sys_getxattr p name len s =
     (case take_fault s of
        (Fail e, s) \<Rightarrow> (-1, [], s\<lparr>errno := e\<rparr>)
      | (_, s) \<Rightarrow>
         (case lookup s p of
            None \<Rightarrow> (-1, [], s\<lparr>errno := ENOENT\<rparr>)
          | Some _ \<Rightarrow>
             (case map_of (xattrs s p) name of
                None \<Rightarrow> (-1, [], s\<lparr>errno := ENODATA\<rparr>)
              | Some v \<Rightarrow> if len = 0 then (int (length v), [], s)
                          else if len < length v then (-1, [], s\<lparr>errno := ERANGE\<rparr>)
                          else (int (length v), v, s))))"

definition sys_statvfs :: "path \<Rightarrow> fsys \<Rightarrow> int \<times> statvfs \<times> fsys" where
  "sys_statvfs p s =
     (case take_fault s of
        (Fail e, s) \<Rightarrow> (-1, vfs s, s\<lparr>errno := e\<rparr>)
      | (_, s) \<Rightarrow> (if lookup s p = None then (-1, vfs s, s\<lparr>errno := ENOENT\<rparr>)
                   else (0, vfs s, s)))"

text \<open>
  The entries of a directory as \<open>readdir\<close> returns them: the entry for the directory itself,
  then its children in the order of the name table. A name is a child when exactly one
  component follows the directory's path.
\<close>

type_synonym dirent = "nat \<times> string \<times> nat"  \<comment> \<open>\<open>d_ino\<close>, \<open>d_name\<close>, \<open>d_type\<close>\<close>

definition child_name :: "path \<Rightarrow> path \<Rightarrow> string option" where
  "child_name p q =
     (let base = (if p = ''/'' then p else p @ ''/''); r = drop (length base) q
      in if prefix base q \<and> r \<noteq> [] \<and> CHR ''/'' \<notin> set r then Some r else None)"

definition dir_entries :: "fsys \<Rightarrow> path \<Rightarrow> nat \<Rightarrow> dirent list" where
  "dir_entries s p self =
     (self, ''.'', 4) #
     List.map_filter (\<lambda>(q, i). map_option (\<lambda>n. (i, n,
         (case inodes s i of Some nd \<Rightarrow> if i_isdir nd then 4 else 8 | None \<Rightarrow> 0)))
       (child_name p q)) (names s)"

definition sys_opendir :: "path \<Rightarrow> fsys \<Rightarrow> dirent list option \<times> fsys" where
  "sys_opendir p s =
     (case take_fault s of
        (Fail e, s) \<Rightarrow> (None, s\<lparr>errno := e\<rparr>)
      | (_, s) \<Rightarrow>
         (case map_of (names s) p of
            None \<Rightarrow> (None, s\<lparr>errno := ENOENT\<rparr>)
          | Some i \<Rightarrow>
             (case inodes s i of
                None \<Rightarrow> (None, s\<lparr>errno := ENOENT\<rparr>)
              | Some nd \<Rightarrow> if \<not> i_isdir nd then (None, s\<lparr>errno := ENOTDIR\<rparr>)
                           else (Some (dir_entries s p i), s))))"

end
