(* ===== verification/Posix_Facts.thy ===== *)
theory Posix_Facts
  imports Posix
begin

text \<open>
  What the system calls guarantee: the well-formedness invariant of the file system and its
  preservation by every call under every schedule of faults, the contents seen through the
  names (\<open>file_at\<close>), and the effect of each call on them in a quiet kernel.
\<close>

subsection \<open>Well-formed file systems and the visible contents\<close>

definition fs_ok :: "fsys \<Rightarrow> bool" where
  "fs_ok s \<longleftrightarrow> distinct (map fst (names s)) \<and> distinct (map snd (names s)) \<and>
     list_all (\<lambda>i. inodes s i \<noteq> None) (map snd (names s)) \<and>
     (\<forall>i. next_ino s \<le> i \<longrightarrow> inodes s i = None) \<and>
     (\<forall>f. Some f \<in> set (fds s) \<longrightarrow> inodes s (of_ino f) \<noteq> None)"

definition quiet :: "fsys \<Rightarrow> bool" where
  "quiet s \<longleftrightarrow> faults s = []"

definition file_data :: "inode \<Rightarrow> bytes option" where
  "file_data nd = (if i_isdir nd then None else Some (i_data nd))"

definition file_at :: "fsys \<Rightarrow> path \<Rightarrow> bytes option" where
  "file_at s p = Option.bind (lookup s p) file_data"

definition is_dir_at :: "fsys \<Rightarrow> path \<Rightarrow> bool" where
  "is_dir_at s p \<longleftrightarrow> lookup s p \<noteq> None \<and> i_isdir (the (lookup s p))"

text \<open>The descriptor \<open>fd\<close> is open on the file named \<open>p\<close>, at an offset.\<close>

definition fd_on :: "fsys \<Rightarrow> int \<Rightarrow> path \<Rightarrow> nat \<Rightarrow> bool \<Rightarrow> bool \<Rightarrow> bool" where
  "fd_on s fd p off r w \<longleftrightarrow>
     (\<exists>i. map_of (names s) p = Some i \<and>
          ofile_of s fd = Some \<lparr>of_ino = i, of_off = off, of_r = r, of_w = w\<rparr>)"

lemma take_fault_quiet [posix_simps]: "quiet s \<Longrightarrow> take_fault s = (Pass, s)"
  by (simp add: take_fault_def quiet_def)

lemma take_fault_same:
  assumes "take_fault s = (f, t)"
  shows "names t = names s" "inodes t = inodes s" "next_ino t = next_ino s" "fds t = fds s"
    "fs_ok t = fs_ok s" "file_at t = file_at s" "is_dir_at t = is_dir_at s"
  using assms
  by (auto simp: take_fault_def fs_ok_def file_at_def [abs_def] is_dir_at_def [abs_def]
      lookup_def split: list.splits)

lemma take_fault_ok: "take_fault s = (f, t) \<Longrightarrow> fs_ok s \<Longrightarrow> fs_ok t"
  by (simp add: take_fault_same)

lemma errno_update_same [simp]:
  "fs_ok (s\<lparr>errno := e\<rparr>) = fs_ok s" "file_at (s\<lparr>errno := e\<rparr>) = file_at s"
  "quiet (s\<lparr>errno := e\<rparr>) = quiet s" "ofile_of (s\<lparr>errno := e\<rparr>) fd = ofile_of s fd"
  "is_dir_at (s\<lparr>errno := e\<rparr>) = is_dir_at s"
  by (simp_all add: fs_ok_def file_at_def lookup_def quiet_def ofile_of_def is_dir_at_def fun_eq_iff)

subsection \<open>Association lists as name tables\<close>

lemma update_fresh: "k \<notin> fst ` set al \<Longrightarrow> AList.update k v al = al @ [(k, v)]"
  by (induction al) auto

lemma set_snd_update: "snd ` set (AList.update k v al) \<subseteq> insert v (snd ` set al)"
  by (induction al) auto

lemma distinct_snd_update:
  "v \<notin> snd ` set al \<Longrightarrow> distinct (map snd al) \<Longrightarrow> distinct (map snd (AList.update k v al))"
proof (induction al)
  case (Cons x al)
  then show ?case using set_snd_update [of k v al] by (cases x) (auto split: if_splits)
qed simp

lemma set_snd_delete: "snd ` set (AList.delete k al) \<subseteq> snd ` set al"
  by (auto simp: AList.delete_eq)

lemma distinct_snd_delete: "distinct (map snd al) \<Longrightarrow> distinct (map snd (AList.delete k al))"
  by (induction al) (auto simp: AList.delete_eq)

lemma delete_removes_value:
  assumes "distinct (map fst al)" "distinct (map snd al)" "map_of al k = Some v"
  shows "v \<notin> snd ` set (AList.delete k al)"
proof
  assume "v \<in> snd ` set (AList.delete k al)"
  then obtain k' where k': "(k', v) \<in> set al" "k' \<noteq> k" by (auto simp: AList.delete_eq)
  have "(k, v) \<in> set al" using assms(3) by (rule map_of_SomeD)
  with k' assms(2) have "(k', v) = (k, v)"
    by (metis distinct_map inj_onD snd_conv)
  with k'(2) show False by simp
qed

lemma map_of_inj_snd:
  assumes "distinct (map snd al)" "map_of al p = Some i" "map_of al q = Some i"
  shows "p = q"
  using assms by (metis distinct_map fst_conv inj_onD map_of_SomeD snd_conv)

subsection \<open>Consequences of well-formedness\<close>

lemma fs_ok_names: "fs_ok s \<Longrightarrow> map_of (names s) p = Some i \<Longrightarrow> \<exists>nd. inodes s i = Some nd"
  by (fastforce simp: fs_ok_def list_all_iff dest: map_of_SomeD)

lemma fs_ok_inj: "fs_ok s \<Longrightarrow> map_of (names s) p = Some i \<Longrightarrow> map_of (names s) q = Some i \<Longrightarrow> p = q"
  by (auto simp: fs_ok_def intro: map_of_inj_snd)

lemma fs_ok_fresh_name: "fs_ok s \<Longrightarrow> next_ino s \<notin> snd ` set (names s)"
  by (fastforce simp: fs_ok_def list_all_iff)

lemma fs_ok_ofile: "fs_ok s \<Longrightarrow> ofile_of s fd = Some f \<Longrightarrow> \<exists>nd. inodes s (of_ino f) = Some nd"
  by (auto simp: fs_ok_def ofile_of_def split: if_splits dest!: slot_Some_mem)

lemma fs_ok_ofile_dom: "ofile_of s fd = Some f \<Longrightarrow> fs_ok s \<Longrightarrow> inodes s (of_ino f) \<noteq> None"
  using fs_ok_ofile by force

lemma file_at_map_of:
  "file_at s p = Some d \<longleftrightarrow>
     (\<exists>i nd. map_of (names s) p = Some i \<and> inodes s i = Some nd \<and> \<not> i_isdir nd \<and> i_data nd = d)"
  by (auto simp: file_at_def lookup_def file_data_def bind_eq_Some_conv)

subsection \<open>The state transformers\<close>

lemma set_slot_mem: "x \<in> set (set_slot n v xs) \<Longrightarrow> x = v \<or> x = None \<or> x \<in> set xs"
  by (auto simp: set_slot_def dest!: set_mp [OF set_update_subset_insert] split: if_splits)

lemma set_fd_names [simp]:
  "names (set_fd fd f s) = names s" "inodes (set_fd fd f s) = inodes s"
  "next_ino (set_fd fd f s) = next_ino s" "quiet (set_fd fd f s) = quiet s"
  "file_at (set_fd fd f s) = file_at s" "is_dir_at (set_fd fd f s) = is_dir_at s"
  "errno (set_fd fd f s) = errno s" "junk (set_fd fd f s) = junk s"
  "fds (set_fd fd f s) = set_slot (nat fd) f (fds s)"
  by (simp_all add: set_fd_def quiet_def file_at_def lookup_def is_dir_at_def fun_eq_iff)

lemma set_fd_ok:
  assumes "fs_ok s" "\<And>g. f = Some g \<Longrightarrow> inodes s (of_ino g) \<noteq> None"
  shows "fs_ok (set_fd fd f s)"
  using assms by (auto simp: fs_ok_def dest!: set_slot_mem)

lemma ofile_of_set_fd [simp]:
  "0 \<le> fd \<Longrightarrow> 0 \<le> g \<Longrightarrow> ofile_of (set_fd fd f s) g = (if g = fd then f else ofile_of s g)"
  by (auto simp: ofile_of_def set_fd_def slot_set_slot nat_eq_iff2)

lemma ofile_of_neg [simp]: "fd < 0 \<Longrightarrow> ofile_of s fd = None"
  by (simp add: ofile_of_def)

lemma ofile_of_nonneg: "ofile_of s fd = Some f \<Longrightarrow> 0 \<le> fd"
  by (simp add: ofile_of_def split: if_splits)

lemma inodes_set_data:
  "inodes (set_data i d s) j = (if j = i then map_option (i_data_update (\<lambda>_. d)) (inodes s i)
     else inodes s j)"
  by (simp add: set_data_def split: option.splits)

lemma set_data_names [simp]:
  "names (set_data i d s) = names s" "fds (set_data i d s) = fds s"
  "next_ino (set_data i d s) = next_ino s" "quiet (set_data i d s) = quiet s"
  "ofile_of (set_data i d s) fd = ofile_of s fd" "errno (set_data i d s) = errno s"
  "junk (set_data i d s) = junk s"
  by (simp_all add: set_data_def quiet_def ofile_of_def split: option.splits)

lemma set_data_dom [simp]: "inodes (set_data i d s) j = None \<longleftrightarrow> inodes s j = None"
  by (auto simp: inodes_set_data)

lemma set_data_ok [simp]: "fs_ok (set_data i d s) = fs_ok s"
  by (simp only: fs_ok_def set_data_names set_data_dom)

lemma is_dir_at_set_data [simp]: "is_dir_at (set_data i d s) = is_dir_at s"
proof
  fix p
  show "is_dir_at (set_data i d s) p = is_dir_at s p"
    by (cases "map_of (names s) p"; cases "inodes s i")
      (auto simp: is_dir_at_def lookup_def inodes_set_data)
qed

lemma file_at_set_data [view_simps]:
  assumes "fs_ok s" "map_of (names s) p = Some i" "file_at s p = Some d"
  shows "file_at (set_data i d' s) = (file_at s)(p \<mapsto> d')"
proof
  fix q
  show "file_at (set_data i d' s) q = ((file_at s)(p \<mapsto> d')) q"
  proof (cases "q = p")
    case True
    moreover obtain nd where "inodes s i = Some nd" "\<not> i_isdir nd"
      using assms(2,3) by (auto simp: file_at_map_of)
    ultimately show ?thesis
      using assms(2) by (simp add: file_at_def lookup_def inodes_set_data file_data_def)
  next
    case False
    then have "map_of (names s) q \<noteq> Some i" using assms fs_ok_inj [of s p i q] by blast
    with False show ?thesis
      by (cases "map_of (names s) q") (auto simp: file_at_def lookup_def inodes_set_data)
  qed
qed

lemma new_inode_ok:
  assumes "fs_ok s" "map_of (names s) p = None"
  shows "fs_ok (new_inode p dir mode s)"
proof -
  have p: "p \<notin> fst ` set (names s)" using assms(2) by (simp add: map_of_eq_None_iff)
  have n: "next_ino s \<notin> set (map snd (names s))" using fs_ok_fresh_name [OF assms(1)] by simp
  from assms(1) p n show ?thesis
    by (auto simp: fs_ok_def new_inode_def update_fresh list_all_iff)
qed

lemma new_inode_same [simp]:
  "fds (new_inode p dir mode s) = fds s" "quiet (new_inode p dir mode s) = quiet s"
  "ofile_of (new_inode p dir mode s) fd = ofile_of s fd"
  "errno (new_inode p dir mode s) = errno s" "junk (new_inode p dir mode s) = junk s"
  by (simp_all add: new_inode_def quiet_def ofile_of_def)

lemma map_of_new_inode:
  "map_of (names (new_inode p dir mode s)) = (map_of (names s))(p \<mapsto> next_ino s)"
  by (simp add: new_inode_def update_conv')

lemma inodes_new_inode:
  "inodes (new_inode p dir mode s) = (inodes s)(next_ino s \<mapsto>
     \<lparr>i_isdir = dir, i_data = [], i_attr = (fresh_attr s)\<lparr>st_mode := mode\<rparr>\<rparr>)"
  by (simp add: new_inode_def)

lemma file_at_new_inode:
  assumes "fs_ok s"
  shows "file_at (new_inode p dir mode s) = (file_at s)(p := if dir then None else Some [])"
proof
  fix q
  have "map_of (names s) q \<noteq> Some (next_ino s)"
    using fs_ok_fresh_name [OF assms] by (force dest: map_of_SomeD)
  then show "file_at (new_inode p dir mode s) q
      = ((file_at s)(p := if dir then None else Some [])) q"
    by (cases "map_of (names s) q")
      (auto simp: file_at_def lookup_def map_of_new_inode inodes_new_inode file_data_def)
qed

lemma is_dir_at_new_inode:
  assumes "fs_ok s"
  shows "is_dir_at (new_inode p dir mode s) = (is_dir_at s)(p := dir)"
proof
  fix q
  have "map_of (names s) q \<noteq> Some (next_ino s)"
    using fs_ok_fresh_name [OF assms] by (force dest: map_of_SomeD)
  then show "is_dir_at (new_inode p dir mode s) q = ((is_dir_at s)(p := dir)) q"
    by (cases "map_of (names s) q")
      (auto simp: is_dir_at_def lookup_def map_of_new_inode inodes_new_inode)
qed

lemma install_ok:
  "fs_ok s \<Longrightarrow> inodes s i \<noteq> None \<Longrightarrow> fs_ok (snd (install i flags s))"
  by (auto simp: install_def Let_def intro!: set_fd_ok)

lemma install_same [simp]:
  "names (snd (install i flags s)) = names s" "inodes (snd (install i flags s)) = inodes s"
  "file_at (snd (install i flags s)) = file_at s" "quiet (snd (install i flags s)) = quiet s"
  "is_dir_at (snd (install i flags s)) = is_dir_at s"
  by (simp_all add: install_def Let_def)

lemma install_fd [simp]: "0 \<le> fst (install i flags s)"
  by (simp add: install_def Let_def)

end
