(* ===== verification/Posix_Calls.thy ===== *)
theory Posix_Calls
  imports Posix_Facts
begin

text \<open>
  The effect of each system call: every call keeps the file system well-formed under every
  schedule of faults; in a quiet kernel each call of the client and the server succeeds and
  changes the visible contents as stated here. The statements give the resulting state as an
  obtained variable, so that a sequence of calls is a sequence of \<open>obtain\<close> steps.
\<close>

subsection \<open>Preservation of well-formedness under faults\<close>

lemma fail_ok [simp]: "fs_ok (snd (fail e s)) = fs_ok s" "fst (fail e s) = -1"
  "file_at (snd (fail e s)) = file_at s" "names (snd (fail e s)) = names s"
  "quiet (snd (fail e s)) = quiet s" "inodes (snd (fail e s)) = inodes s"
  "fds (snd (fail e s)) = fds s" "errno (snd (fail e s)) = e"
  by (simp_all add: fail_def)

lemmas call_splits = prod.splits fault.splits option.splits if_splits

lemma sys_open_ok: "fs_ok s \<Longrightarrow> fs_ok (snd (sys_open p flags mode s))"
  by (auto simp: sys_open_def new_inode_ok inodes_new_inode inodes_set_data
      split: prod.split fault.split option.split intro!: install_ok dest: take_fault_ok)

lemma close_fd_ok: "fs_ok s \<Longrightarrow> fs_ok (set_fd fd None s)"
  by (rule set_fd_ok) simp_all

lemma move_fd_ok:
  "ofile_of s fd = Some f \<Longrightarrow> of_ino f = of_ino g \<Longrightarrow> fs_ok s \<Longrightarrow> fs_ok (set_fd fd' (Some g) s)"
  by (auto intro!: set_fd_ok dest: fs_ok_ofile)

lemma sys_close_ok: "fs_ok s \<Longrightarrow> fs_ok (snd (sys_close fd s))"
  by (auto simp: sys_close_def close_fd_ok split: prod.split fault.split option.split
      dest: take_fault_ok)

lemma sys_dup_ok: "fs_ok s \<Longrightarrow> fs_ok (snd (sys_dup fd s))"
  by (auto simp: sys_dup_def Let_def split: prod.split fault.split option.split
      dest: take_fault_ok intro: move_fd_ok)

lemma read_at_ok:
  assumes "fs_ok s" "\<And>f k. of_ino (adv f k) = of_ino f"
  shows "fs_ok (snd (snd (read_at fd n off adv s)))"
  using assms by (auto simp: read_at_def Let_def
      split: prod.split fault.split option.split dest: take_fault_ok intro: move_fd_ok)

lemma write_at_ok:
  assumes "fs_ok s" "\<And>f k. of_ino (adv f k) = of_ino f"
  shows "fs_ok (snd (write_at fd bs off adv s))"
  using assms by (auto simp: write_at_def Let_def inodes_set_data
      split: prod.split fault.split option.split dest: take_fault_ok intro!: set_fd_ok)

lemma sys_rw_ok:
  assumes "fs_ok s"
  shows "fs_ok (snd (snd (sys_read fd n s)))" "fs_ok (snd (snd (sys_pread fd n off s)))"
    "fs_ok (snd (sys_write fd bs s))" "fs_ok (snd (sys_pwrite fd bs off s))"
  using assms by (simp_all add: sys_read_def sys_pread_def sys_write_def sys_pwrite_def
      read_at_ok write_at_ok)

lemma sys_lseek_ok:
  "fs_ok s \<Longrightarrow> fs_ok (snd (sys_lseek_end fd s))" "fs_ok s \<Longrightarrow> fs_ok (snd (sys_lseek_set fd s))"
  by (auto simp: sys_lseek_end_def sys_lseek_set_def
      split: prod.split fault.split option.split dest: take_fault_ok intro: move_fd_ok)

lemma sys_stat_ok:
  "fs_ok s \<Longrightarrow> fs_ok (snd (snd (sys_fstat fd s)))" "fs_ok s \<Longrightarrow> fs_ok (snd (snd (sys_lstat p s)))"
  by (auto simp: sys_fstat_def sys_lstat_def
      split: prod.split fault.split option.split dest: take_fault_ok)

lemma names_ok:
  assumes "fs_ok s" "distinct (map fst ns)" "distinct (map snd ns)"
    and "snd ` set ns \<subseteq> snd ` set (names s)"
  shows "fs_ok (s\<lparr>names := ns\<rparr>)"
proof -
  have "\<forall>i \<in> snd ` set (names s). inodes s i \<noteq> None"
    using assms(1) by (simp add: fs_ok_def list_all_iff)
  with assms(4) have "\<forall>i \<in> snd ` set ns. inodes s i \<noteq> None" by blast
  with assms(1-3) show ?thesis by (simp add: fs_ok_def list_all_iff)
qed

lemma delete_names_ok:
  "fs_ok s \<Longrightarrow> fs_ok (s\<lparr>names := AList.delete p (names s)\<rparr>)"
  by (rule names_ok) (simp_all add: fs_ok_def distinct_delete distinct_snd_delete set_snd_delete)

lemma sys_unlink_ok: "fs_ok s \<Longrightarrow> fs_ok (snd (sys_unlink p s))"
  by (auto simp: sys_unlink_def delete_names_ok dest: take_fault_ok
      split: prod.split fault.split option.split)

lemma sys_rmdir_ok: "fs_ok s \<Longrightarrow> fs_ok (snd (sys_rmdir p s))"
  by (auto simp: sys_rmdir_def delete_names_ok dest: take_fault_ok
      split: prod.split fault.split option.split)

lemma sys_mkdir_ok: "fs_ok s \<Longrightarrow> fs_ok (snd (sys_mkdir p mode s))"
  by (auto simp: sys_mkdir_def new_inode_ok dest: take_fault_ok
      split: prod.split fault.split option.split)

lemma sys_truncate_ok: "fs_ok s \<Longrightarrow> fs_ok (snd (sys_truncate p len s))"
  by (auto simp: sys_truncate_def dest: take_fault_ok
      split: prod.split fault.split option.split)

lemma update_inode_ok:
  "fs_ok s \<Longrightarrow> inodes s i = Some nd \<Longrightarrow> fs_ok (s\<lparr>inodes := (inodes s)(i \<mapsto> nd')\<rparr>)"
  by (auto simp: fs_ok_def list_all_iff)

lemma set_attr_ok: "fs_ok s \<Longrightarrow> fs_ok (snd (set_attr p g s))"
  by (auto simp: set_attr_def update_inode_ok dest: take_fault_ok
      split: prod.split fault.split option.split)

lemma sys_access_ok: "fs_ok s \<Longrightarrow> fs_ok (snd (sys_access p m s))"
  by (auto simp: sys_access_def dest: take_fault_ok split: prod.split fault.split)

text \<open>Renaming a directory renames its subtree; no two names collide.\<close>

lemma moved_cases:
  obtains (same) "moved old new q = q" "q \<noteq> old" "\<not> prefix (old @ ''/'') q"
  | (top) "q = old" "moved old new q = new"
  | (sub) r where "q = old @ ''/'' @ r" "moved old new q = new @ ''/'' @ r"
  by (cases "q = old"; cases "prefix (old @ ''/'') q") (auto simp: moved_def prefix_def)

lemma moved_inj_on:
  assumes A: "\<forall>q \<in> A. q \<noteq> new \<and> \<not> prefix (new @ ''/'') q"
  shows "inj_on (moved old new) A"
proof (rule inj_onI)
  fix a b
  assume ab: "a \<in> A" "b \<in> A" and eq: "moved old new a = moved old new b"
  have no: "c \<noteq> new" "c \<noteq> new @ ''/'' @ r" if "c \<in> A" for c r
    using A that by (auto simp: prefix_def)
  note na = no [OF ab(1)] and nb = no [OF ab(2)]
  show "a = b"
  proof (cases rule: moved_cases [of old new a])
    case same
    show ?thesis
      by (cases rule: moved_cases [of old new b]) (metis same(1) eq na)+
  next
    case top
    show ?thesis
      by (cases rule: moved_cases [of old new b])
        (metis top eq nb, metis top, metis top eq append_self_conv list.distinct(1) append_is_Nil_conv)
  next
    case (sub r)
    show ?thesis
      by (cases rule: moved_cases [of old new b])
        (metis sub eq nb, metis sub eq append_self_conv list.distinct(1) append_is_Nil_conv,
         metis sub eq same_append_eq)
  qed
qed

lemma rename_names_ok:
  assumes ok: "fs_ok s" and old: "map_of (names s) old = Some i" and ne: "old \<noteq> new"
  shows "fs_ok (s\<lparr>names := AList.update new i (AList.delete old (names s))\<rparr>)"
proof -
  let ?d = "AList.delete old (names s)"
  have 1: "distinct (map fst ?d)" "distinct (map snd ?d)" "i \<notin> snd ` set ?d"
    using ok old by (simp_all add: fs_ok_def distinct_delete distinct_snd_delete
        delete_removes_value)
  have "snd ` set (AList.update new i ?d) \<subseteq> insert i (snd ` set (names s))"
    using set_snd_update [of new i ?d] set_snd_delete [of old "names s"] by blast
  moreover have "i \<in> snd ` set (names s)" using map_of_SomeD [OF old] by force
  ultimately show ?thesis
    using 1 by (intro names_ok [OF ok]) (auto simp: distinct_update distinct_snd_update)
qed

lemma rename_dir_names_ok:
  assumes ok: "fs_ok s" and no: "\<not> has_children s new"
  shows "fs_ok (s\<lparr>names := map (\<lambda>(q, k). (moved old new q, k)) (AList.delete new (names s))\<rparr>)"
proof -
  let ?d = "AList.delete new (names s)"
  have "\<forall>q \<in> set (map fst ?d). q \<noteq> new \<and> \<not> prefix (new @ ''/'') q"
    using no by (auto simp: has_children_def list_ex_iff AList.delete_eq)
  then have "inj_on (moved old new) (set (map fst ?d))"
    by (rule moved_inj_on)
  moreover have "distinct (map fst ?d)" "distinct (map snd ?d)"
    using ok by (simp_all add: fs_ok_def distinct_delete distinct_snd_delete)
  moreover have "map fst (map (\<lambda>(q, k). (moved old new q, k)) ?d) = map (moved old new) (map fst ?d)"
    "map snd (map (\<lambda>(q, k). (moved old new q, k)) ?d) = map snd ?d"
    by (simp_all add: case_prod_beta comp_def)
  moreover have "snd ` set (map (\<lambda>(q, k). (moved old new q, k)) ?d) \<subseteq> snd ` set (names s)"
    using set_snd_delete [of new "names s"] by (simp add: image_image case_prod_beta)
  ultimately show ?thesis
    by (intro names_ok [OF ok]) (simp_all add: distinct_map del: map_map)
qed

lemma sys_rename_ok:
  assumes "fs_ok s"
  shows "fs_ok (snd (sys_rename old new s))"
proof -
  obtain f t where tf: "take_fault s = (f, t)" by fastforce
  then have ok: "fs_ok t" using assms by (rule take_fault_ok)
  show ?thesis
  proof (cases "map_of (names t) old")
    case None
    then show ?thesis using tf ok by (cases f) (auto simp: sys_rename_def)
  next
    case (Some i)
    note r = rename_names_ok [OF ok Some] and d = rename_dir_names_ok [OF ok]
    show ?thesis
      using tf ok Some r d by (cases f; cases "lookup t new") (simp_all add: sys_rename_def Let_def)
  qed
qed

subsection \<open>Effects in a quiet kernel\<close>

definition ready :: "fsys \<Rightarrow> bool" where
  "ready s \<longleftrightarrow> quiet s \<and> fs_ok s"

definition fds_but :: "int \<Rightarrow> fsys \<Rightarrow> fsys \<Rightarrow> bool" where
  "fds_but fd s t \<longleftrightarrow> (\<forall>g. g \<noteq> fd \<longrightarrow> ofile_of t g = ofile_of s g)"

lemma readyI: "quiet s \<Longrightarrow> fs_ok s \<Longrightarrow> ready s"
  by (simp add: ready_def)

lemma fds_but_set_fd [simp]: "0 \<le> fd \<Longrightarrow> fds_but fd s (set_fd fd f s)"
  by (auto simp: fds_but_def ofile_of_def slot_set_slot nat_eq_iff2)

lemma fds_but_refl [simp]: "fds_but fd s s"
  by (simp add: fds_but_def)

lemma fds_but_trans: "fds_but fd s t \<Longrightarrow> fds_but fd t u \<Longrightarrow> fds_but fd s u"
  by (simp add: fds_but_def)

lemma fd_on_ofile: "fd_on s fd p off r w \<Longrightarrow> ofile_of s fd \<noteq> None \<and> 0 \<le> fd"
  by (auto simp: fd_on_def dest: ofile_of_nonneg)

lemma install_spec:
  assumes "ready s" "map_of (names s) p = Some i" "inodes s i \<noteq> None"
  shows "\<exists>fd t. install i flags s = (fd, t) \<and> 0 \<le> fd \<and> ready t \<and> file_at t = file_at s \<and>
    is_dir_at t = is_dir_at s \<and> fd_on t fd p 0 (can_read flags) (can_write flags) \<and>
    ofile_of s fd = None \<and> fds_but fd s t \<and> names t = names s \<and> inodes t = inodes s"
proof -
  let ?fd = "int (lowest_free (fds s))"
  have "ready (snd (install i flags s))"
    using assms install_ok [of s i flags] by (simp add: ready_def)
  moreover have "ofile_of s ?fd = None" by (simp add: ofile_of_def)
  ultimately show ?thesis
    using assms(2) by (auto simp: install_def Let_def fd_on_def)
qed

lemma sys_open_existing:
  assumes "ready s" "file_at s p = Some d"
    and "\<not> (has_flag flags O_CREAT \<and> has_flag flags O_EXCL)" "\<not> has_flag flags O_TRUNC"
  shows "\<exists>fd t. sys_open p flags mode s = (fd, t) \<and> 0 \<le> fd \<and> ready t \<and> file_at t = file_at s \<and>
    is_dir_at t = is_dir_at s \<and> fd_on t fd p 0 (can_read flags) (can_write flags) \<and>
    ofile_of s fd = None \<and> fds_but fd s t \<and> names t = names s \<and> inodes t = inodes s"
proof -
  obtain i nd where i: "map_of (names s) p = Some i" "inodes s i = Some nd" "\<not> i_isdir nd"
    using assms(2) by (auto simp: file_at_map_of)
  have "sys_open p flags mode s = install i flags s"
    using assms(1,3,4) i by (auto simp: sys_open_def ready_def posix_simps)
  with install_spec [OF assms(1) i(1)] i(2) show ?thesis by simp
qed

lemma sys_open_creat:
  assumes "ready s" "\<not> is_dir_at s p"
    and "has_flag flags O_CREAT" "\<not> has_flag flags O_EXCL" "has_flag flags O_TRUNC"
  shows "\<exists>fd t. sys_open p flags mode s = (fd, t) \<and> 0 \<le> fd \<and> ready t \<and>
    file_at t = (file_at s)(p \<mapsto> []) \<and> is_dir_at t = is_dir_at s \<and>
    fd_on t fd p 0 (can_read flags) (can_write flags) \<and> ofile_of s fd = None \<and> fds_but fd s t"
proof (cases "map_of (names s) p")
  case None
  let ?u = "new_inode p False mode s"
  have "sys_open p flags mode s = install (next_ino s) flags ?u"
    using assms None by (simp add: sys_open_def ready_def posix_simps)
  moreover have "ready ?u" using assms(1) None by (simp add: ready_def new_inode_ok)
  moreover have "map_of (names ?u) p = Some (next_ino s)" "inodes ?u (next_ino s) \<noteq> None"
    by (simp_all add: map_of_new_inode inodes_new_inode)
  moreover have "is_dir_at ?u = is_dir_at s" "file_at ?u = (file_at s)(p \<mapsto> [])"
    using assms(1,2) by (simp_all add: is_dir_at_new_inode file_at_new_inode ready_def fun_upd_idem)
  ultimately show ?thesis
    using install_spec [of ?u p "next_ino s" flags] by (auto simp: fds_but_def)
next
  case (Some i)
  then obtain nd where nd: "inodes s i = Some nd"
    using assms(1) fs_ok_names [of s p i] by (auto simp: ready_def)
  with assms(2) Some have reg: "\<not> i_isdir nd" by (simp add: is_dir_at_def lookup_def)
  let ?u = "set_data i [] s"
  have "sys_open p flags mode s = install i flags ?u"
    using assms Some nd reg by (simp add: sys_open_def ready_def posix_simps)
  moreover have "ready ?u" using assms(1) by (simp add: ready_def)
  moreover have "file_at ?u = (file_at s)(p \<mapsto> [])"
    using assms(1) Some nd reg
    by (intro file_at_set_data [where d = "i_data nd"]) (auto simp: ready_def file_at_map_of)
  ultimately show ?thesis
    using install_spec [of ?u p i flags] Some nd by (auto simp: fds_but_def)
qed

lemma fd_on_inode:
  assumes "fd_on s fd p off r w" "file_at s p = Some d"
  obtains i nd where "map_of (names s) p = Some i" "inodes s i = Some nd" "\<not> i_isdir nd"
    "i_data nd = d" "ofile_of s fd = Some \<lparr>of_ino = i, of_off = off, of_r = r, of_w = w\<rparr>" "0 \<le> fd"
proof -
  from assms(2) obtain i nd where i: "map_of (names s) p = Some i" "inodes s i = Some nd"
    "\<not> i_isdir nd" "i_data nd = d" by (auto simp: file_at_map_of)
  with assms(1) have "ofile_of s fd = Some \<lparr>of_ino = i, of_off = off, of_r = r, of_w = w\<rparr>"
    by (simp add: fd_on_def)
  with i show thesis by (intro that) (auto dest: ofile_of_nonneg)
qed

lemma write_at_spec:
  assumes "ready s" "fd_on s fd p off r True" "file_at s p = Some d"
    and adv: "\<And>f k. adv f k = f\<lparr>of_off := new (of_off f) k\<rparr>"
  shows "\<exists>t. write_at fd bs at adv s = (int (length bs), t) \<and> ready t \<and>
    file_at t = (file_at s)(p \<mapsto> overwrite (at \<lparr>of_ino = the (map_of (names s) p), of_off = off, of_r = r, of_w = True\<rparr>) bs d) \<and>
    fd_on t fd p (new off (length bs)) r True \<and> fds_but fd s t \<and> is_dir_at t = is_dir_at s \<and> names t = names s"
proof -
  obtain i nd where i: "map_of (names s) p = Some i" "inodes s i = Some nd" "\<not> i_isdir nd"
    "i_data nd = d" "ofile_of s fd = Some \<lparr>of_ino = i, of_off = off, of_r = r, of_w = True\<rparr>" "0 \<le> fd"
    using assms(2,3) by (rule fd_on_inode)
  let ?f = "\<lparr>of_ino = i, of_off = off, of_r = r, of_w = True\<rparr>"
  let ?g = "\<lparr>of_ino = i, of_off = new off (length bs), of_r = r, of_w = True\<rparr>"
  let ?u = "set_data i (overwrite (at ?f) bs d) s"
  let ?t = "set_fd fd (Some ?g) ?u"
  have w: "write_at fd bs at adv s = (int (length bs), ?t)"
    using assms(1) i by (simp add: write_at_def ready_def posix_simps limit_def Let_def adv)
  have "ready ?t" using assms(1) i(2) by (auto simp: ready_def inodes_set_data intro!: set_fd_ok)
  moreover have "file_at ?t = (file_at s)(p \<mapsto> overwrite (at ?f) bs d)"
    using assms(1,3) i(1) by (simp add: file_at_set_data ready_def)
  moreover have "fds_but fd s ?t"
    using fds_but_set_fd [OF i(6), of ?u "Some ?g"] by (simp add: fds_but_def)
  ultimately show ?thesis using w i by (simp add: fd_on_def)
qed

lemma sys_write_spec:
  assumes "ready s" "fd_on s fd p off r True" "file_at s p = Some d"
  shows "\<exists>t. sys_write fd bs s = (int (length bs), t) \<and> ready t \<and>
    file_at t = (file_at s)(p \<mapsto> overwrite off bs d) \<and>
    fd_on t fd p (off + length bs) r True \<and> fds_but fd s t \<and> is_dir_at t = is_dir_at s \<and> names t = names s"
  using write_at_spec [OF assms, of "\<lambda>f k. f\<lparr>of_off := of_off f + k\<rparr>" "(+)" bs of_off]
  by (simp add: sys_write_def)

lemma sys_pwrite_spec:
  assumes "ready s" "fd_on s fd p off r True" "file_at s p = Some d"
  shows "\<exists>t. sys_pwrite fd bs pos s = (int (length bs), t) \<and> ready t \<and>
    file_at t = (file_at s)(p \<mapsto> overwrite pos bs d) \<and>
    fd_on t fd p off r True \<and> fds_but fd s t \<and> is_dir_at t = is_dir_at s \<and> names t = names s"
  using write_at_spec [OF assms, of "\<lambda>f _. f" "\<lambda>a _. a" bs "\<lambda>_. pos"]
  by (simp add: sys_pwrite_def)

lemma read_at_spec:
  assumes "ready s" "fd_on s fd p off True w" "file_at s p = Some d"
    and adv: "\<And>f k. adv f k = f\<lparr>of_off := new (of_off f) k\<rparr>"
  shows "\<exists>t bs. bs = take n (drop (at \<lparr>of_ino = the (map_of (names s) p), of_off = off, of_r = True, of_w = w\<rparr>) d) \<and>
    read_at fd n at adv s = (int (length bs), bs, t) \<and> ready t \<and> file_at t = file_at s \<and>
    fd_on t fd p (new off (length bs)) True w \<and> fds_but fd s t \<and> is_dir_at t = is_dir_at s \<and> names t = names s"
proof -
  obtain i nd where i: "map_of (names s) p = Some i" "inodes s i = Some nd" "\<not> i_isdir nd"
    "i_data nd = d" "ofile_of s fd = Some \<lparr>of_ino = i, of_off = off, of_r = True, of_w = w\<rparr>" "0 \<le> fd"
    using assms(2,3) by (rule fd_on_inode)
  let ?f = "\<lparr>of_ino = i, of_off = off, of_r = True, of_w = w\<rparr>"
  let ?bs = "take n (drop (at ?f) d)"
  let ?g = "\<lparr>of_ino = i, of_off = new off (length ?bs), of_r = True, of_w = w\<rparr>"
  let ?t = "set_fd fd (Some ?g) s"
  have "read_at fd n at adv s = (int (length ?bs), ?bs, ?t)"
    using assms(1) i by (simp add: read_at_def ready_def posix_simps limit_def Let_def adv)
  moreover have "ready ?t" using assms(1) i(2) by (auto simp: ready_def intro!: set_fd_ok)
  ultimately show ?thesis using i by (simp add: fd_on_def)
qed

lemma sys_read_spec:
  assumes "ready s" "fd_on s fd p off True w" "file_at s p = Some d"
  shows "\<exists>t bs. bs = take n (drop off d) \<and> sys_read fd n s = (int (length bs), bs, t) \<and> ready t \<and>
    file_at t = file_at s \<and> fd_on t fd p (off + length bs) True w \<and> fds_but fd s t \<and>
    is_dir_at t = is_dir_at s \<and> names t = names s"
  using read_at_spec [OF assms, of "\<lambda>f k. f\<lparr>of_off := of_off f + k\<rparr>" "(+)" n of_off]
  by (simp add: sys_read_def)

lemma sys_pread_spec:
  assumes "ready s" "fd_on s fd p off True w" "file_at s p = Some d"
  shows "\<exists>t bs. bs = take n (drop pos d) \<and> sys_pread fd n pos s = (int (length bs), bs, t) \<and> ready t \<and>
    file_at t = file_at s \<and> fd_on t fd p off True w \<and> fds_but fd s t \<and> is_dir_at t = is_dir_at s \<and> names t = names s"
  using read_at_spec [OF assms, of "\<lambda>f _. f" "\<lambda>a _. a" n "\<lambda>_. pos"]
  by (simp add: sys_pread_def)

lemma sys_close_spec:
  assumes "ready s" "ofile_of s fd \<noteq> None"
  shows "\<exists>t. sys_close fd s = (0, t) \<and> ready t \<and> file_at t = file_at s \<and> fds_but fd s t \<and>
    is_dir_at t = is_dir_at s \<and> names t = names s \<and> ofile_of t fd = None"
proof -
  have "0 \<le> fd" using assms(2) ofile_of_nonneg by auto
  with assms show ?thesis
    by (auto simp: sys_close_def ready_def posix_simps close_fd_ok)
qed

lemma sys_lseek_end_spec:
  assumes "ready s" "fd_on s fd p off r w" "file_at s p = Some d"
  shows "\<exists>t. sys_lseek_end fd s = (int (length d), t) \<and> ready t \<and> file_at t = file_at s \<and>
    fd_on t fd p (length d) r w \<and> fds_but fd s t \<and> is_dir_at t = is_dir_at s \<and> names t = names s"
proof -
  obtain i nd where i: "map_of (names s) p = Some i" "inodes s i = Some nd"
    "i_data nd = d" "ofile_of s fd = Some \<lparr>of_ino = i, of_off = off, of_r = r, of_w = w\<rparr>" "0 \<le> fd"
    using assms(2,3) by (rule fd_on_inode)
  with assms(3) have "\<not> i_isdir nd" by (auto simp: file_at_map_of)
  with assms(1) i show ?thesis
    by (auto simp: sys_lseek_end_def ready_def posix_simps fd_on_def file_size_def
        intro!: set_fd_ok)
qed

lemma sys_lseek_set_spec:
  assumes "ready s" "fd_on s fd p off r w" "file_at s p = Some d"
  shows "\<exists>t. sys_lseek_set fd s = (0, t) \<and> ready t \<and> file_at t = file_at s \<and>
    fd_on t fd p 0 r w \<and> fds_but fd s t \<and> is_dir_at t = is_dir_at s \<and> names t = names s"
proof -
  obtain i nd where i: "map_of (names s) p = Some i" "inodes s i = Some nd"
    "ofile_of s fd = Some \<lparr>of_ino = i, of_off = off, of_r = r, of_w = w\<rparr>" "0 \<le> fd"
    using assms(2,3) by (rule fd_on_inode)
  with assms(1) show ?thesis
    by (auto simp: sys_lseek_set_def ready_def posix_simps fd_on_def intro!: set_fd_ok)
qed

lemma sys_fstat_spec:
  assumes "ready s" "fd_on s fd p off r w" "file_at s p = Some d"
  shows "\<exists>st. sys_fstat fd s = (0, st, s) \<and> st_size st = of_nat (length d) \<and>
    st_ino st = of_nat (the (map_of (names s) p))"
proof -
  obtain i nd where "map_of (names s) p = Some i" "inodes s i = Some nd"
    "i_data nd = d" "ofile_of s fd = Some \<lparr>of_ino = i, of_off = off, of_r = r, of_w = w\<rparr>" "0 \<le> fd"
    using assms(2,3) by (rule fd_on_inode)
  with assms(1) show ?thesis
    by (simp add: sys_fstat_def ready_def posix_simps stat_of_def)
qed

lemma file_at_rename:
  assumes "fs_ok s" "map_of (names s) old = Some i" "inodes s i = Some nd" "old \<noteq> new"
  shows "file_at (s\<lparr>names := AList.update new i (AList.delete old (names s))\<rparr>)
    = (file_at s)(old := None, new := file_data nd)"
  using assms by (auto simp: fun_eq_iff file_at_def lookup_def update_conv' delete_conv')

lemma sys_rename_spec:
  assumes "ready s" "file_at s old = Some d" "\<not> is_dir_at s new" "old \<noteq> new"
  shows "\<exists>t. sys_rename old new s = (0, t) \<and> ready t \<and>
    file_at t = (file_at s)(old := None, new \<mapsto> d) \<and> fds t = fds s"
proof -
  obtain i nd where i: "map_of (names s) old = Some i" "inodes s i = Some nd" "\<not> i_isdir nd"
    "i_data nd = d" using assms(2) by (auto simp: file_at_map_of)
  let ?t = "s\<lparr>names := AList.update new i (AList.delete old (names s))\<rparr>"
  have "sys_rename old new s = (0, ?t)"
    using assms(1,3,4) i
    by (cases "lookup s new") (simp_all add: sys_rename_def ready_def posix_simps is_dir_at_def)
  moreover have "ready ?t"
    using assms(1,4) rename_names_ok [OF _ i(1)] by (simp add: ready_def quiet_def)
  moreover have "file_at ?t = (file_at s)(old := None, new \<mapsto> d)"
    using file_at_rename [OF _ i(1,2) assms(4)] assms(1) i(3,4) by (simp add: ready_def file_data_def)
  ultimately show ?thesis by simp
qed

lemma rename_keeps:
  assumes "ready s" "file_at s old = Some d" "\<not> is_dir_at s new" "old \<noteq> new" "sys_rename old new s = (r, t)"
  shows "is_dir_at t = is_dir_at s" "\<And>q. q \<noteq> old \<Longrightarrow> q \<noteq> new \<Longrightarrow> map_of (names t) q = map_of (names s) q"
proof -
  obtain i nd where i: "map_of (names s) old = Some i" "inodes s i = Some nd" "\<not> i_isdir nd"
    using assms(2) by (auto simp: file_at_map_of)
  have t: "t = s\<lparr>names := AList.update new i (AList.delete old (names s))\<rparr>"
    using assms i by (cases "lookup s new") (auto simp: sys_rename_def ready_def posix_simps is_dir_at_def)
  show "map_of (names t) q = map_of (names s) q" if "q \<noteq> old" "q \<noteq> new" for q
    using that by (simp add: t update_conv' delete_conv')
  show "is_dir_at t = is_dir_at s"
    using i assms(3) by (auto simp: t is_dir_at_def lookup_def update_conv' delete_conv' fun_eq_iff)
qed

lemma sys_unlink_spec:
  assumes "ready s" "file_at s p = Some d"
  shows "\<exists>t. sys_unlink p s = (0, t) \<and> ready t \<and> file_at t = (file_at s)(p := None) \<and> fds t = fds s"
proof -
  obtain i nd where "map_of (names s) p = Some i" "inodes s i = Some nd" "\<not> i_isdir nd"
    using assms(2) by (auto simp: file_at_map_of)
  with assms(1) show ?thesis
    by (auto simp: sys_unlink_def ready_def posix_simps lookup_def delete_names_ok
        quiet_def file_at_def delete_conv' fun_eq_iff)
qed

lemma sys_unlink_absent:
  "quiet s \<Longrightarrow> lookup s p = None \<Longrightarrow> sys_unlink p s = (-1, s\<lparr>errno := ENOENT\<rparr>)"
  by (simp add: sys_unlink_def posix_simps fail_def)

lemma sys_rename_absent:
  "quiet s \<Longrightarrow> map_of (names s) old = None \<Longrightarrow> sys_rename old new s = (-1, s\<lparr>errno := ENOENT\<rparr>)"
  by (simp add: sys_rename_def posix_simps fail_def)

end
