(* ===== verification/Posix_Faults.thy ===== *)
theory Posix_Faults
  imports Posix_Calls
begin

text \<open>
  Calls that may fail: in a calm kernel any call may fail with any error, but none is short. A
  call then either fails and changes nothing, or acts as it does in a quiet kernel. The lemmas
  here lift the effects of \<open>Posix_Calls\<close> to calm kernels.
\<close>

definition calm :: "fsys \<Rightarrow> bool" where
  "calm s \<longleftrightarrow> list_all (\<lambda>f. \<forall>k. f \<noteq> Short k) (faults s)"

lemma calm_quiet: "quiet s \<Longrightarrow> calm s"
  by (simp add: calm_def quiet_def)

text \<open>The schedule of faults is not part of the visible state.\<close>

lemma faults_update_same [simp]:
  "fs_ok (s\<lparr>faults := fs\<rparr>) = fs_ok s" "file_at (s\<lparr>faults := fs\<rparr>) = file_at s"
  "is_dir_at (s\<lparr>faults := fs\<rparr>) = is_dir_at s" "ofile_of (s\<lparr>faults := fs\<rparr>) g = ofile_of s g"
  "fd_on (s\<lparr>faults := fs\<rparr>) = fd_on s" "ready (s\<lparr>faults := []\<rparr>) = fs_ok s"
  by (simp_all add: fs_ok_def file_at_def lookup_def is_dir_at_def ofile_of_def fd_on_def
      ready_def quiet_def fun_eq_iff)

lemma errno_fd_on [simp]: "fd_on (s\<lparr>errno := e\<rparr>) = fd_on s"
  by (simp add: fd_on_def ofile_of_def fun_eq_iff)

text \<open>A call consults the schedule once, before it does anything else.\<close>

definition faultwise :: "(fsys \<Rightarrow> int \<times> fsys) \<Rightarrow> bool" where
  "faultwise c \<longleftrightarrow>
     (\<forall>s fs. faults s = Pass # fs \<longrightarrow> c s = map_prod id (\<lambda>t. t\<lparr>faults := fs\<rparr>) (c (s\<lparr>faults := []\<rparr>))) \<and>
     (\<forall>s e fs. faults s = Fail e # fs \<longrightarrow> c s = (-1, s\<lparr>faults := fs, errno := e\<rparr>)) \<and>
     (\<forall>s. faults s = [] \<longrightarrow> faults (snd (c s)) = [])"

text \<open>The visible state is unchanged.\<close>

definition unchanged :: "fsys \<Rightarrow> fsys \<Rightarrow> bool" where
  "unchanged s t \<longleftrightarrow> (fs_ok s \<longrightarrow> fs_ok t) \<and> file_at t = file_at s \<and> is_dir_at t = is_dir_at s \<and>
     (\<forall>g. ofile_of t g = ofile_of s g) \<and> (\<forall>fd p off r w. fd_on s fd p off r w \<longrightarrow> fd_on t fd p off r w)"

lemma faultwise_calm:
  assumes "faultwise c" "calm s" "c s = (k, t)"
  shows "calm t"
    and "k = -1 \<and> unchanged s t \<or> (\<exists>u fs. c (s\<lparr>faults := []\<rparr>) = (k, u) \<and> t = u\<lparr>faults := fs\<rparr>)"
proof -
  consider "faults s = []" | e fs where "faults s = Fail e # fs" | fs where "faults s = Pass # fs"
    using assms(2) by (cases "faults s"; cases "hd (faults s)") (auto simp: calm_def)
  then have "calm t \<and> (k = -1 \<and> unchanged s t \<or>
      (\<exists>u fs. c (s\<lparr>faults := []\<rparr>) = (k, u) \<and> t = u\<lparr>faults := fs\<rparr>))"
  proof cases
    case 1
    then have "faults t = []" "s\<lparr>faults := []\<rparr> = s" "t = t\<lparr>faults := []\<rparr>"
      using assms(1,3) by (auto simp: faultwise_def)
    then show ?thesis using assms(3) by (metis calm_quiet quiet_def)
  next
    case 2
    then have "c s = (-1, s\<lparr>faults := fs, errno := e\<rparr>)" using assms(1) by (simp add: faultwise_def)
    then show ?thesis using assms(2,3) 2 by (auto simp: calm_def unchanged_def)
  next
    case 3
    then have "c s = map_prod id (\<lambda>t. t\<lparr>faults := fs\<rparr>) (c (s\<lparr>faults := []\<rparr>))"
      using assms(1) by (simp add: faultwise_def)
    then show ?thesis
      using assms(2,3) 3 by (cases "c (s\<lparr>faults := []\<rparr>)") (auto simp: calm_def)
  qed
  then show "calm t"
    and "k = -1 \<and> unchanged s t \<or> (\<exists>u fs. c (s\<lparr>faults := []\<rparr>) = (k, u) \<and> t = u\<lparr>faults := fs\<rparr>)"
    by blast+
qed

lemma faultwise_calls:
  "faultwise (sys_open p flags mode)" "faultwise (sys_close fd)" "faultwise (sys_write fd bs)"
  "faultwise (sys_rename p q)" "faultwise (sys_unlink p)"
  by (auto simp: faultwise_def take_fault_def fail_def sys_open_def sys_close_def sys_write_def
      write_at_def sys_rename_def sys_unlink_def install_def new_inode_def set_fd_def set_data_def
      ofile_of_def lookup_def has_children_def limit_def Let_def
      split: option.split)

subsection \<open>Effects in a calm kernel\<close>

lemma ready_ok: "ready s \<Longrightarrow> fs_ok s"
  by (simp add: ready_def)

lemma unchanged_errno [simp]: "unchanged s (s\<lparr>errno := e\<rparr>)"
  by (simp add: unchanged_def)

lemma unchanged_trans: "unchanged s t \<Longrightarrow> unchanged t u \<Longrightarrow> unchanged s u"
  by (simp add: unchanged_def)

lemma calm_open_creat:
  assumes "calm s" "fs_ok s" "\<not> is_dir_at s p"
    and "has_flag flags O_CREAT" "\<not> has_flag flags O_EXCL" "has_flag flags O_TRUNC"
    and "sys_open p flags mode s = (fd, t)"
  shows "calm t \<and> fs_ok t \<and> is_dir_at t = is_dir_at s \<and>
    (fd = -1 \<and> file_at t = file_at s \<or>
     0 \<le> fd \<and> file_at t = (file_at s)(p \<mapsto> []) \<and> fd_on t fd p 0 (can_read flags) (can_write flags))"
  using faultwise_calm [OF faultwise_calls(1) assms(1,7)]
    sys_open_creat [of "s\<lparr>faults := []\<rparr>" p flags mode] assms
  by (auto simp: unchanged_def dest: ready_ok)

lemma calm_write:
  assumes "calm s" "fs_ok s" "fd_on s fd p off r True" "file_at s p = Some d"
    and "sys_write fd bs s = (k, t)"
  shows "calm t \<and> fs_ok t \<and> is_dir_at t = is_dir_at s \<and>
    (k = -1 \<and> file_at t = file_at s \<or>
     k = int (length bs) \<and> file_at t = (file_at s)(p \<mapsto> overwrite off bs d) \<and>
     fd_on t fd p (off + length bs) r True)"
  using faultwise_calm [OF faultwise_calls(3) assms(1,5)]
    sys_write_spec [of "s\<lparr>faults := []\<rparr>" fd p off r d bs] assms
  by (auto simp: unchanged_def dest: ready_ok)

lemma sys_close_unchanged:
  assumes "fs_ok s" "sys_close fd s = (k, t)"
  shows "fs_ok t \<and> file_at t = file_at s \<and> is_dir_at t = is_dir_at s"
proof -
  obtain f u where "take_fault s = (f, u)" by fastforce
  with assms take_fault_same [OF this] sys_close_ok [OF assms(1), of fd] show ?thesis
    by (cases f) (auto simp: sys_close_def fail_def split: option.splits)
qed

lemma calm_close:
  "calm s \<Longrightarrow> fs_ok s \<Longrightarrow> sys_close fd s = (k, t)
   \<Longrightarrow> calm t \<and> fs_ok t \<and> file_at t = file_at s \<and> is_dir_at t = is_dir_at s"
  using faultwise_calm(1) [OF faultwise_calls(2)] sys_close_unchanged by blast

lemma calm_rename:
  assumes "calm s" "fs_ok s" "file_at s old = Some d" "\<not> is_dir_at s new" "old \<noteq> new"
    and "sys_rename old new s = (k, t)"
  shows "calm t \<and> fs_ok t \<and>
    (k = -1 \<and> file_at t = file_at s \<or>
     k = 0 \<and> file_at t = (file_at s)(old := None, new \<mapsto> d))"
  using faultwise_calm [OF faultwise_calls(4) assms(1,6)]
    sys_rename_spec [of "s\<lparr>faults := []\<rparr>" old d new] assms
  by (auto simp: unchanged_def dest: ready_ok)

text \<open>Unlinking a name that is not a regular file fails whatever the schedule.\<close>

lemma sys_unlink_nofile:
  assumes "file_at s p = None" "sys_unlink p s = (k, t)"
  shows "k = -1 \<and> file_at t = file_at s \<and> fs_ok t = fs_ok s \<and> names t = names s
    \<and> inodes t = inodes s \<and> fds t = fds s \<and> (quiet s \<longrightarrow> quiet t)"
proof -
  obtain f u where tf: "take_fault s = (f, u)" by fastforce
  then have q: "quiet s \<Longrightarrow> quiet u" by (auto simp: take_fault_def quiet_def)
  have l: "lookup u p = lookup s p" using take_fault_same [OF tf] by (simp add: lookup_def)
  have "file_at u p = None" using assms(1) take_fault_same [OF tf] by simp
  then have no: "lookup u p = Some nd \<Longrightarrow> i_isdir nd" for nd
    by (auto simp: file_at_def file_data_def split: if_splits)
  have "\<exists>e. sys_unlink p s = (-1, u\<lparr>errno := e\<rparr>)"
    using tf no by (cases f) (auto simp: sys_unlink_def fail_def split: option.split)
  with assms(2) take_fault_same [OF tf] q show ?thesis by auto
qed

lemma sys_lstat_same:
  assumes "sys_lstat p s = (k, st, t)"
  shows "(k = 0 \<or> k = -1) \<and> fs_ok t = fs_ok s \<and> file_at t = file_at s \<and> is_dir_at t = is_dir_at s
    \<and> fds t = fds s \<and> (quiet s \<longrightarrow> quiet t) \<and> (calm s \<longrightarrow> calm t)"
proof -
  obtain f u where tf: "take_fault s = (f, u)" by fastforce
  then have q: "quiet s \<Longrightarrow> quiet u" "calm s \<Longrightarrow> calm u" 
    by (auto simp: take_fault_def quiet_def calm_def split: list.splits)
  from tf assms take_fault_same [OF tf] q show ?thesis
    by (cases f) (auto simp: sys_lstat_def calm_def split: option.splits)
qed

end
