(* ===== verification/Proto.thy ===== *)
theory Proto
  imports Posix_Faults
begin

text \<open>
  The messages of \<open>wiscAFS.proto\<close> and the conversions between \<open>struct stat\<close>, \<open>FileInfo\<close>
  and the cache's \<open>CacheFileInfo\<close>, each integer at its width: an \<open>int32\<close> field is a
  32-bit word read with \<open>sint\<close>, an \<open>unsigned int\<close> one is read with \<open>unat\<close>. Field names
  carry a prefix for the message they belong to.
\<close>

subsection \<open>Messages\<close>

record FileInfo =
  fi_dev :: u32
  fi_ino :: u32
  fi_mode :: u32
  fi_nlink :: u32
  fi_uid :: u32
  fi_gid :: u32
  fi_rdev :: u32
  fi_size :: u64
  fi_blksize :: u64
  fi_blocks :: u64
  fi_atim :: u64
  fi_mtim :: u64
  fi_ctim :: u64

record Statfs =
  sf_favail :: u32
  sf_bsize :: u64
  sf_blocks :: u32
  sf_bfree :: u32
  sf_bavail :: u32
  sf_files :: u32
  sf_ffree :: u32
  sf_fsid :: u64
  sf_namemax :: u64
  sf_frsize :: u64
  sf_flag :: u64

record FileLock =
  l_type :: u32
  l_whence :: u32
  l_start :: u32
  l_len :: u32
  l_pid :: u32

record RPCRequest =
  q_filename :: string
  q_path :: string
  q_mode :: u32
  q_flags :: u32
  q_data :: bytes
  q_fileDescriptor :: int
  q_fileSize :: u64
  q_xattr_name :: string
  q_xattr_value :: string
  q_xattr_size :: u32
  q_newfilename :: string
  q_filelock :: "FileLock option"

record RPCResponse =
  r_status :: int
  r_error :: int
  r_data :: bytes
  r_fileSize :: u64
  r_fileInfo :: "FileInfo option"
  r_statfs :: "Statfs option"
  r_xattr_value :: string
  r_xattr_size :: int
  r_file_descriptor :: int

record RPCDirReply =
  d_dino :: u32
  d_dname :: string
  d_dtype :: u32
  d_error :: int
  d_status :: int

text \<open>The default instance of a message, which is also what reading an absent field yields.\<close>

definition FileInfo_default :: FileInfo where
  "FileInfo_default = \<lparr>fi_dev = 0, fi_ino = 0, fi_mode = 0, fi_nlink = 0, fi_uid = 0, fi_gid = 0,
     fi_rdev = 0, fi_size = 0, fi_blksize = 0, fi_blocks = 0, fi_atim = 0, fi_mtim = 0, fi_ctim = 0\<rparr>"

definition Statfs_default :: Statfs where
  "Statfs_default = \<lparr>sf_favail = 0, sf_bsize = 0, sf_blocks = 0, sf_bfree = 0, sf_bavail = 0,
     sf_files = 0, sf_ffree = 0, sf_fsid = 0, sf_namemax = 0, sf_frsize = 0, sf_flag = 0\<rparr>"

definition RPCRequest_default :: RPCRequest where
  "RPCRequest_default = \<lparr>q_filename = [], q_path = [], q_mode = 0, q_flags = 0, q_data = [],
     q_fileDescriptor = 0, q_fileSize = 0, q_xattr_name = [], q_xattr_value = [],
     q_xattr_size = 0, q_newfilename = [], q_filelock = None\<rparr>"

definition RPCResponse_default :: RPCResponse where
  "RPCResponse_default = \<lparr>r_status = 0, r_error = 0, r_data = [], r_fileSize = 0,
     r_fileInfo = None, r_statfs = None, r_xattr_value = [], r_xattr_size = 0,
     r_file_descriptor = 0\<rparr>"

definition RPCDirReply_default :: RPCDirReply where
  "RPCDirReply_default = \<lparr>d_dino = 0, d_dname = [], d_dtype = 0, d_error = 0, d_status = 0\<rparr>"

lemma RPCResponse_default_simps [simp]:
  "r_status RPCResponse_default = 0" "r_error RPCResponse_default = 0"
  by (simp_all add: RPCResponse_default_def)

definition fileinfo :: "RPCResponse \<Rightarrow> FileInfo" where
  "fileinfo r = (case r_fileInfo r of None \<Rightarrow> FileInfo_default | Some fi \<Rightarrow> fi)"

definition statfs_of :: "RPCResponse \<Rightarrow> Statfs" where
  "statfs_of r = (case r_statfs r of None \<Rightarrow> Statfs_default | Some sf \<Rightarrow> sf)"

lemmas message_defaults = FileInfo_default_def Statfs_default_def RPCRequest_default_def
  RPCResponse_default_def RPCDirReply_default_def

lemma fileinfo_Some [simp]: "r_fileInfo r = Some fi \<Longrightarrow> fileinfo r = fi"
  by (simp add: fileinfo_def)

subsection \<open>Attributes\<close>

text \<open>\<open>setFileInfo\<close> of the server and of the client: each field is narrowed to the message's.\<close>

definition setFileInfo :: "stat \<Rightarrow> FileInfo" where
  "setFileInfo info = \<lparr>fi_dev = ucast (st_dev info), fi_ino = ucast (st_ino info),
     fi_mode = st_mode info, fi_nlink = ucast (st_nlink info), fi_uid = st_uid info,
     fi_gid = st_gid info, fi_rdev = ucast (st_rdev info), fi_size = st_size info,
     fi_blksize = st_blksize info, fi_blocks = st_blocks info, fi_atim = st_atim info,
     fi_mtim = st_mtim info, fi_ctim = st_ctim info\<rparr>"

definition setStatFS :: "statvfs \<Rightarrow> Statfs" where
  "setStatFS info = \<lparr>sf_favail = ucast (f_favail info), sf_bsize = f_bsize info,
     sf_blocks = ucast (f_blocks info), sf_bfree = ucast (f_bfree info),
     sf_bavail = ucast (f_bavail info), sf_files = ucast (f_files info),
     sf_ffree = ucast (f_ffree info), sf_fsid = f_fsid info, sf_namemax = f_namemax info,
     sf_frsize = f_frsize info, sf_flag = f_flag info\<rparr>"

record CacheFileInfo =
  c_dev :: u32
  c_ino :: u32
  c_mode :: u32
  c_nlink :: u32
  c_uid :: u32
  c_gid :: u32
  c_rdev :: u32
  c_size :: u64
  c_blksize :: u64
  c_blocks :: u64
  c_atim :: u64
  c_mtim :: u64
  c_ctim :: u64

definition cache_setFileInfo :: "FileInfo \<Rightarrow> CacheFileInfo" where
  "cache_setFileInfo info = \<lparr>c_dev = fi_dev info, c_ino = fi_ino info, c_mode = fi_mode info,
     c_nlink = fi_nlink info, c_uid = fi_uid info, c_gid = fi_gid info, c_rdev = fi_rdev info,
     c_size = fi_size info, c_blksize = fi_blksize info, c_blocks = fi_blocks info,
     c_atim = fi_atim info, c_mtim = fi_mtim info, c_ctim = fi_ctim info\<rparr>"

definition cache_getFileInfo :: "CacheFileInfo \<Rightarrow> FileInfo" where
  "cache_getFileInfo c = \<lparr>fi_dev = c_dev c, fi_ino = c_ino c, fi_mode = c_mode c,
     fi_nlink = c_nlink c, fi_uid = c_uid c, fi_gid = c_gid c, fi_rdev = c_rdev c,
     fi_size = c_size c, fi_blksize = c_blksize c, fi_blocks = c_blocks c, fi_atim = c_atim c,
     fi_mtim = c_mtim c, fi_ctim = c_ctim c\<rparr>"

lemma cache_FileInfo_inverse [simp]:
  "cache_getFileInfo (cache_setFileInfo fi) = fi" "cache_setFileInfo (cache_getFileInfo c) = c"
  by (simp_all add: cache_getFileInfo_def cache_setFileInfo_def)

lemma c_ino_set [simp]: "c_ino (cache_setFileInfo fi) = fi_ino fi"
  by (simp add: cache_setFileInfo_def)

subsection \<open>Temporary files\<close>

text \<open>The flags with which the client and the server create their temporary files.\<close>

definition creat_flags :: u32 where
  "creat_flags = (O_CREAT OR O_RDWR OR O_TRUNC)"

lemma creat_flags_facts [simp]:
  "has_flag creat_flags O_CREAT" "\<not> has_flag creat_flags O_EXCL" "has_flag creat_flags O_TRUNC"
  "can_read creat_flags" "can_write creat_flags"
  by (simp_all add: creat_flags_def has_flag_def can_read_def can_write_def)

definition client_path :: path where
  "client_path = ''/tmp/afs/''"

text \<open>\<open>OpenFile\<close> and \<open>CreateFile\<close> print the \<open>int32\<close> inode number of the reply, every other
  operation the \<open>unsigned int\<close> one of the cache.\<close>

definition reply_path :: "FileInfo \<Rightarrow> path" where
  "reply_path fi = client_path @ show_int (sint (fi_ino fi)) @ ''.tmp''"

definition cache_path :: "CacheFileInfo \<Rightarrow> path" where
  "cache_path c = client_path @ show_nat (unat (c_ino c)) @ ''.tmp''"

lemma sint_small: 
  assumes "unat (w :: u32) < 2 ^ 31" shows "sint w = int (unat w)"
proof -
  have "int (unat w) < int (2 ^ 31)" using assms by (simp only: of_nat_less_iff)
  then have u: "uint w < 2 ^ 31" by simp
  have "signed_take_bit 31 (uint w) = uint w"
  proof (rule signed_take_bit_int_eq_self)
    show "uint w < 2 ^ 31" by (rule u)
    have "- (2 ^ 31) \<le> (0 :: int)" by simp
    then show "- (2 ^ 31) \<le> uint w" using uint_ge_0 [of w] by (rule order_trans)
  qed
  then show ?thesis by (simp add: sint_uint)
qed
lemma reply_path_eq_cache_path:
  assumes "c_ino c = fi_ino fi" "unat (fi_ino fi) < 2 ^ 31"
  shows "reply_path fi = cache_path c"
  using assms by (simp add: reply_path_def cache_path_def show_int_def sint_small)

lemma cache_path_inject [simp]: "cache_path c = cache_path c' \<longleftrightarrow> c_ino c = c_ino c'"
  by (simp add: cache_path_def word_unat_eq_iff)

end
