(* ===== verification/Cache.thy ===== *)
theory Cache
  imports Proto
begin

text \<open>
  \<open>wiscAFS/cache/ClientCache.h\<close>: the client's map from file names to attributes, dirty flag and
  descriptor (a \<open>std::map\<close>, here an association list in the order of \<open>std::string\<close>), the
  semaphore around its operations and the text file it is saved to and loaded from.
  A blocked \<open>sem_wait\<close> is \<open>None\<close>.
\<close>

subsection \<open>Semaphores\<close>

type_synonym sem = nat

definition sem_wait :: "sem \<Rightarrow> sem option" where
  "sem_wait n = (if n = 0 then None else Some (n - 1))"

definition sem_post :: "sem \<Rightarrow> sem" where
  "sem_post n = Suc n"

lemma sem_wait_post [sem_simps]: "sem_wait (Suc n) = Some n" "sem_post n = Suc n"
  by (simp_all add: sem_wait_def sem_post_def)

lemma sem_wait_pos [sem_simps]: "0 < n \<Longrightarrow> sem_wait n = Some (n - 1)"
  by (simp add: sem_wait_def)

subsection \<open>The ordered map\<close>

text \<open>\<open>insert({k, v})\<close> leaves an existing entry alone; \<open>it->second = v\<close> replaces it.\<close>

fun map_insert :: "'k::linorder \<Rightarrow> 'v \<Rightarrow> ('k \<times> 'v) list \<Rightarrow> ('k \<times> 'v) list" where
  "map_insert k v [] = [(k, v)]"
| "map_insert k v ((k', v') # m) =
     (if k < k' then (k, v) # (k', v') # m
      else if k = k' then (k', v') # m
      else (k', v') # map_insert k v m)"

fun map_assign :: "'k \<Rightarrow> 'v \<Rightarrow> ('k \<times> 'v) list \<Rightarrow> ('k \<times> 'v) list" where
  "map_assign k v [] = []"
| "map_assign k v ((k', v') # m) = (if k = k' then (k', v) # m else (k', v') # map_assign k v m)"

definition map_erase :: "'k \<Rightarrow> ('k \<times> 'v) list \<Rightarrow> ('k \<times> 'v) list" where
  "map_erase k m = filter (\<lambda>x. fst x \<noteq> k) m"

lemma map_of_sorted_less: "sorted_keys ((k', w) # m) \<Longrightarrow> k < k' \<Longrightarrow> map_of ((k', w) # m) k = None"
  by (force simp: map_of_eq_None_iff)

lemma map_of_map_insert:
  "sorted_keys m \<Longrightarrow>
   map_of (map_insert k v m) = (if map_of m k = None then (map_of m)(k \<mapsto> v) else map_of m)"
proof (induction m)
  case (Cons x m)
  obtain k' w where x: "x = (k', w)" by fastforce
  show ?case
  proof (cases "k < k'")
    case True
    then show ?thesis using map_of_sorted_less [of k' w m k] Cons.prems x by (simp add: fun_eq_iff)
  next
    case False
    then show ?thesis using Cons x by (auto simp: fun_eq_iff)
  qed
qed simp

lemma map_insert_present:
  "sorted_keys m \<Longrightarrow> map_of m k \<noteq> None \<Longrightarrow> map_insert k v m = m"
proof (induction m)
  case (Cons x m)
  obtain k' w where x: "x = (k', w)" by fastforce
  show ?case
    using map_of_sorted_less [of k' w m k] Cons x by (cases "k < k'") (auto split: if_splits)
qed simp

lemma set_map_insert: "set (map fst (map_insert k v m)) = insert k (set (map fst m))"
  by (induction k v m rule: map_insert.induct) auto

lemma sorted_map_insert: "sorted_keys m \<Longrightarrow> sorted_keys (map_insert k v m)"
proof (induction k v m rule: map_insert.induct)
  case (2 k v k' v' m)
  then show ?case using set_map_insert [of k v m] by auto
qed simp

lemma map_fst_map_assign [simp]: "map fst (map_assign k v m) = map fst m"
  by (induction m) auto

lemma map_of_map_assign:
  "map_of (map_assign k v m) = (if map_of m k = None then map_of m else (map_of m)(k \<mapsto> v))"
  by (induction m) (auto simp: fun_eq_iff)

lemma map_assign_absent: "map_of m k = None \<Longrightarrow> map_assign k v m = m"
  by (induction m) (auto split: if_splits)

lemma map_of_map_erase: "map_of (map_erase k m) = (map_of m)(k := None)"
  by (simp add: map_erase_def map_of_filter_key)

lemma sorted_map_erase: "sorted_keys m \<Longrightarrow> sorted_keys (map_erase k m)"
  by (simp add: map_erase_def sorted_keys_filter)

subsection \<open>State\<close>

record ClientCacheValue =
  fileInfo :: CacheFileInfo
  isDirty :: bool
  fileDescriptor :: int

text \<open>The constructor ignores its \<open>isDirty\<close> argument.\<close>

definition ClientCacheValue_new :: "CacheFileInfo \<Rightarrow> bool \<Rightarrow> int \<Rightarrow> ClientCacheValue" where
  "ClientCacheValue_new attrs dirty fd = \<lparr>fileInfo = attrs, isDirty = False, fileDescriptor = fd\<rparr>"

type_synonym cache_map = "(string \<times> ClientCacheValue) list"

record DiskCache =
  cache :: cache_map
  cache_file :: "string option"     \<comment> \<open>contents of \<open>CACHE_FILE\<close>, \<open>None\<close> when absent\<close>
  file_opens :: bool                \<comment> \<open>whether \<open>CACHE_FILE\<close> can be opened for writing\<close>
  semaphore :: sem

subsection \<open>Saving and loading\<close>

definition save_line :: "string \<Rightarrow> ClientCacheValue \<Rightarrow> string" where
  "save_line key v =
     (let i = fileInfo v in
      key @ '':'' @ (if isDirty v then ''1'' else ''0'') @ '':'' @ show_int (fileDescriptor v) @ '':''
      @ show_nat (unat (c_dev i)) @ '':'' @ show_nat (unat (c_ino i)) @ '':''
      @ show_nat (unat (c_mode i)) @ '':'' @ show_nat (unat (c_nlink i)) @ '':''
      @ show_nat (unat (c_uid i)) @ '':'' @ show_nat (unat (c_gid i)) @ '':''
      @ show_nat (unat (c_rdev i)) @ '':'' @ show_nat (unat (c_size i)) @ '':''
      @ show_nat (unat (c_blksize i)) @ '':'' @ show_nat (unat (c_blocks i)) @ '':''
      @ show_nat (unat (c_atim i)) @ '':'' @ show_nat (unat (c_mtim i)) @ '':''
      @ show_nat (unat (c_ctim i)) @ '':'' @ [NL])"

definition saveCache :: "DiskCache \<Rightarrow> DiskCache" where
  "saveCache d =
     (if cache d = [] then (if file_opens d then d\<lparr>cache_file := Some []\<rparr> else d)
      else if file_opens d
      then d\<lparr>cache_file := Some (concat (map (\<lambda>(k, v). save_line k v) (cache d)))\<rparr>
      else d)"

text \<open>\<open>std::getline\<close>: the pieces between newlines; a last empty piece is not a line.\<close>

fun getlines :: "string \<Rightarrow> string \<Rightarrow> string list" where
  "getlines acc [] = (if acc = [] then [] else [rev acc])"
| "getlines acc (c # cs) = (if c = NL then rev acc # getlines [] cs else getlines (c # acc) cs)"

text \<open>The \<open>find\<close> loop over one line: every piece that a colon ends.\<close>

fun colon_fields :: "string \<Rightarrow> string \<Rightarrow> string list" where
  "colon_fields acc [] = []"
| "colon_fields acc (c # cs) =
     (if c = CHR '':'' then rev acc # colon_fields [] cs else colon_fields (c # acc) cs)"

text \<open>\<open>substrings[i]\<close> past the end of the vector is undefined, \<open>std::stoi\<close> may throw: both \<open>None\<close>.\<close>

definition stoi_at :: "string list \<Rightarrow> nat \<Rightarrow> int option" where
  "stoi_at xs i = (if i < length xs then (case stoi (xs ! i) of Inl _ \<Rightarrow> None | Inr v \<Rightarrow> Some v) else None)"

definition parse_entry :: "string list \<Rightarrow> (string \<times> ClientCacheValue) option" where
  "parse_entry subs = do {
     key \<leftarrow> (if subs = [] then None else Some (hd subs));
     dirty \<leftarrow> stoi_at subs 1;
     fd \<leftarrow> stoi_at subs 2;
     dev \<leftarrow> stoi_at subs 3;
     ino \<leftarrow> stoi_at subs 4;
     mode \<leftarrow> stoi_at subs 5;
     nlink \<leftarrow> stoi_at subs 6;
     uid \<leftarrow> stoi_at subs 7;
     gid \<leftarrow> stoi_at subs 8;
     rdev \<leftarrow> stoi_at subs 9;
     size \<leftarrow> stoi_at subs 10;
     blksize \<leftarrow> stoi_at subs 11;
     blocks \<leftarrow> stoi_at subs 12;
     atim \<leftarrow> stoi_at subs 13;
     mtim \<leftarrow> stoi_at subs 14;
     ctim \<leftarrow> stoi_at subs 15;
     Some (key, ClientCacheValue_new
       \<lparr>c_dev = word_of_int dev, c_ino = word_of_int ino, c_mode = word_of_int mode,
        c_nlink = word_of_int nlink, c_uid = word_of_int uid, c_gid = word_of_int gid,
        c_rdev = word_of_int rdev, c_size = word_of_int size, c_blksize = word_of_int blksize,
        c_blocks = word_of_int blocks, c_atim = word_of_int atim, c_mtim = word_of_int mtim,
        c_ctim = word_of_int ctim\<rparr> (dirty \<noteq> 0) fd)
   }"

text \<open>The vector \<open>substrings\<close> is declared outside the loop over the lines and never cleared.\<close>

fun load_lines :: "string list \<Rightarrow> string list \<Rightarrow> cache_map \<Rightarrow> cache_map option" where
  "load_lines [] subs m = Some m"
| "load_lines (l # ls) subs m = do {
     let subs = subs @ colon_fields [] l;
     (key, v) \<leftarrow> parse_entry subs;
     load_lines ls subs (map_insert key v m)
   }"

definition loadCache :: "DiskCache \<Rightarrow> DiskCache option" where
  "loadCache d = do {
     n \<leftarrow> sem_wait (semaphore d);
     m \<leftarrow> (case cache_file d of None \<Rightarrow> Some (cache d)
            | Some text \<Rightarrow> load_lines (getlines [] text) [] (cache d));
     Some (d\<lparr>cache := m, semaphore := sem_post n\<rparr>)
   }"

subsection \<open>Operations\<close>

definition getCacheValue :: "string \<Rightarrow> DiskCache \<Rightarrow> ClientCacheValue option" where
  "getCacheValue key d = map_of (cache d) key"

text \<open>A write through the pointer \<open>getCacheValue\<close> returned.\<close>

definition poke :: "string \<Rightarrow> ClientCacheValue \<Rightarrow> DiskCache \<Rightarrow> DiskCache" where
  "poke key v d = d\<lparr>cache := map_assign key v (cache d)\<rparr>"

definition addCacheValue :: "string \<Rightarrow> ClientCacheValue \<Rightarrow> DiskCache \<Rightarrow> DiskCache option" where
  "addCacheValue key v d = do {
     n \<leftarrow> sem_wait (semaphore d);
     let d = saveCache (d\<lparr>cache := map_insert key v (cache d), semaphore := n\<rparr>);
     Some (d\<lparr>semaphore := sem_post (semaphore d)\<rparr>)
   }"

definition updateCacheValue :: "string \<Rightarrow> ClientCacheValue \<Rightarrow> DiskCache \<Rightarrow> DiskCache option" where
  "updateCacheValue key v d = do {
     n \<leftarrow> sem_wait (semaphore d);
     let d = d\<lparr>semaphore := n\<rparr>;
     let d = (case map_of (cache d) key of None \<Rightarrow> d
              | Some _ \<Rightarrow> saveCache (d\<lparr>cache := map_assign key v (cache d)\<rparr>));
     Some (d\<lparr>semaphore := sem_post (semaphore d)\<rparr>)
   }"

definition deleteCacheValue :: "string \<Rightarrow> DiskCache \<Rightarrow> DiskCache option" where
  "deleteCacheValue key d = do {
     n \<leftarrow> sem_wait (semaphore d);
     let d = d\<lparr>semaphore := n\<rparr>;
     let d = (case map_of (cache d) key of None \<Rightarrow> d
              | Some _ \<Rightarrow> saveCache (d\<lparr>cache := map_erase key (cache d)\<rparr>));
     Some (d\<lparr>semaphore := sem_post (semaphore d)\<rparr>)
   }"

definition renameCacheValue :: "string \<Rightarrow> string \<Rightarrow> DiskCache \<Rightarrow> DiskCache option" where
  "renameCacheValue key new_key d = do {
     n \<leftarrow> sem_wait (semaphore d);
     let d = d\<lparr>semaphore := n\<rparr>;
     let d = (case map_of (cache d) key of None \<Rightarrow> d
              | Some temp \<Rightarrow>
                  saveCache (d\<lparr>cache := map_insert new_key temp (map_erase key (cache d))\<rparr>));
     Some (d\<lparr>semaphore := sem_post (semaphore d)\<rparr>)
   }"

end
