(* ===== verification/Cache_Facts.thy ===== *)
theory Cache_Facts
  imports Cache
begin

text \<open>
  The contract of the client cache as a locale over abstract operations, its consequences, the
  interpretation on the operations of \<open>ClientCache.h\<close>, and what survives a save followed by a
  load.
\<close>

subsection \<open>The contract of a cache\<close>

locale cache_contract =
  fixes invar :: "'d \<Rightarrow> bool"
    and look :: "string \<Rightarrow> 'd \<Rightarrow> 'v option"
    and add :: "string \<Rightarrow> 'v \<Rightarrow> 'd \<Rightarrow> 'd option"
    and upd :: "string \<Rightarrow> 'v \<Rightarrow> 'd \<Rightarrow> 'd option"
    and del :: "string \<Rightarrow> 'd \<Rightarrow> 'd option"
    and ren :: "string \<Rightarrow> string \<Rightarrow> 'd \<Rightarrow> 'd option"
  assumes add_law: "invar d \<Longrightarrow> \<exists>e. add k v d = Some e \<and> invar e \<and>
      (\<forall>j. look j e = (if j = k \<and> look k d = None then Some v else look j d))"
    and upd_law: "invar d \<Longrightarrow> \<exists>e. upd k v d = Some e \<and> invar e \<and>
      (\<forall>j. look j e = (if j = k \<and> look k d \<noteq> None then Some v else look j d))"
    and del_law: "invar d \<Longrightarrow> \<exists>e. del k d = Some e \<and> invar e \<and>
      (\<forall>j. look j e = (if j = k then None else look j d))"
    and ren_law: "invar d \<Longrightarrow> \<exists>e. ren k k' d = Some e \<and> invar e \<and>
      (\<forall>j. look j e =
        (if look k d = None then look j d
         else if j = k' \<and> (k' = k \<or> look k' d = None) then look k d
         else if j = k then None
         else look j d))"
begin

lemma add_then_look:
  assumes "invar d" "look k d = None"
  obtains e where "add k v d = Some e" "invar e" "look k e = Some v"
  using add_law [OF assms(1), of k v] assms(2) by auto

lemma add_keeps_existing:
  assumes "invar d" "look k d = Some w"
  obtains e where "add k v d = Some e" "invar e" "look k e = Some w"
  using add_law [OF assms(1), of k v] assms(2) by auto

lemma upd_then_look:
  assumes "invar d" "look k d = Some w"
  obtains e where "upd k v d = Some e" "invar e" "look k e = Some v"
    "\<And>j. j \<noteq> k \<Longrightarrow> look j e = look j d"
  using upd_law [OF assms(1), of k v] assms(2) by auto

lemma del_then_look:
  assumes "invar d"
  obtains e where "del k d = Some e" "invar e" "look k e = None"
    "\<And>j. j \<noteq> k \<Longrightarrow> look j e = look j d"
  using del_law [OF assms, of k] by auto

lemma ren_moves:
  assumes "invar d" "look k d = Some v" "look k' d = None"
  obtains e where "ren k k' d = Some e" "invar e" "look k' e = Some v" "look k e = None"
proof -
  obtain e where e: "ren k k' d = Some e" "invar e"
    "\<forall>j. look j e = (if look k d = None then look j d
       else if j = k' \<and> (k' = k \<or> look k' d = None) then look k d
       else if j = k then None else look j d)"
    using ren_law [OF assms(1), of k k'] by blast
  have "k \<noteq> k'" using assms(2,3) by auto
  with e assms(2,3) show thesis by (intro that [of e]) auto
qed

lemma ren_onto_existing:
  assumes "invar d" "look k d = Some v" "look k' d = Some w" "k \<noteq> k'"
  obtains e where "ren k k' d = Some e" "invar e" "look k' e = Some w" "look k e = None"
  using ren_law [OF assms(1), of k k'] assms(2-4) by auto

end

text \<open>A cache that is written to disk by its operations.\<close>

locale saved_cache = cache_contract +
  fixes saved :: "'d \<Rightarrow> bool"
  assumes add_saved: "invar d \<Longrightarrow> add k v d = Some e \<Longrightarrow> saved e"
    and upd_saved: "invar d \<Longrightarrow> upd k v d = Some e \<Longrightarrow> saved d \<or> look k d \<noteq> None \<Longrightarrow> saved e"
    and del_saved: "invar d \<Longrightarrow> del k d = Some e \<Longrightarrow> saved d \<or> look k d \<noteq> None \<Longrightarrow> saved e"
    and ren_saved: "invar d \<Longrightarrow> ren k k' d = Some e \<Longrightarrow> saved d \<or> look k d \<noteq> None \<Longrightarrow> saved e"
begin

lemma all_saved:
  assumes "invar d" "saved d"
  shows "(\<exists>e. add k v d = Some e \<and> invar e \<and> saved e) \<and> (\<exists>e. upd k v d = Some e \<and> invar e \<and> saved e) \<and>
    (\<exists>e. del k d = Some e \<and> invar e \<and> saved e) \<and> (\<exists>e. ren k k' d = Some e \<and> invar e \<and> saved e)"
  using add_law [OF assms(1), of k v] upd_law [OF assms(1), of k v] del_law [OF assms(1), of k]
    ren_law [OF assms(1), of k k'] add_saved upd_saved del_saved ren_saved assms by metis

end

subsection \<open>The cache of the client\<close>

definition cache_ok :: "DiskCache \<Rightarrow> bool" where
  "cache_ok d \<longleftrightarrow> sorted_keys (cache d) \<and> 0 < semaphore d"

definition cache_saved :: "DiskCache \<Rightarrow> bool" where
  "cache_saved d \<longleftrightarrow> (file_opens d \<longrightarrow>
     cache_file d = Some (concat (map (\<lambda>(k, v). save_line k v) (cache d))))"

lemma saveCache_same [simp]:
  "cache (saveCache d) = cache d" "semaphore (saveCache d) = semaphore d"
  "file_opens (saveCache d) = file_opens d"
  by (simp_all add: saveCache_def)

lemma saveCache_saved: "cache_saved (saveCache d)"
  by (simp add: cache_saved_def saveCache_def)

lemma cache_saved_semaphore [simp]: "cache_saved (d\<lparr>semaphore := n\<rparr>) = cache_saved d"
  by (simp add: cache_saved_def)

lemmas cache_op_defs = addCacheValue_def updateCacheValue_def deleteCacheValue_def
  renameCacheValue_def getCacheValue_def

interpretation dc: saved_cache cache_ok getCacheValue addCacheValue updateCacheValue
  deleteCacheValue renameCacheValue cache_saved
proof
  fix d k v
  assume "cache_ok d"
  then show "\<exists>e. addCacheValue k v d = Some e \<and> cache_ok e \<and> (\<forall>j. getCacheValue j e =
      (if j = k \<and> getCacheValue k d = None then Some v else getCacheValue j d))"
    by (auto simp: cache_op_defs cache_ok_def sem_simps sorted_map_insert map_of_map_insert)
next
  fix d k v
  assume "cache_ok d"
  then show "\<exists>e. updateCacheValue k v d = Some e \<and> cache_ok e \<and> (\<forall>j. getCacheValue j e =
      (if j = k \<and> getCacheValue k d \<noteq> None then Some v else getCacheValue j d))"
    by (cases "map_of (cache d) k")
      (auto simp: cache_op_defs cache_ok_def sem_simps map_of_map_assign)
next
  fix d k
  assume "cache_ok d"
  then show "\<exists>e. deleteCacheValue k d = Some e \<and> cache_ok e \<and> (\<forall>j. getCacheValue j e =
      (if j = k then None else getCacheValue j d))"
    by (cases "map_of (cache d) k")
      (auto simp: cache_op_defs cache_ok_def sem_simps map_of_map_erase sorted_map_erase)
next
  fix d k k'
  assume "cache_ok d"
  then show "\<exists>e. renameCacheValue k k' d = Some e \<and> cache_ok e \<and> (\<forall>j. getCacheValue j e =
      (if getCacheValue k d = None then getCacheValue j d
       else if j = k' \<and> (k' = k \<or> getCacheValue k' d = None) then getCacheValue k d
       else if j = k then None
       else getCacheValue j d))"
    by (cases "map_of (cache d) k")
      (auto simp: cache_op_defs cache_ok_def sem_simps map_of_map_erase sorted_map_erase
        sorted_map_insert map_of_map_insert)
next
  fix d k v e
  assume "cache_ok d" "addCacheValue k v d = Some e"
  then show "cache_saved e"
    by (auto simp: cache_op_defs cache_ok_def sem_simps saveCache_saved)
next
  fix d k v e
  assume "cache_ok d" "updateCacheValue k v d = Some e" "cache_saved d \<or> getCacheValue k d \<noteq> None"
  then show "cache_saved e"
    by (auto simp: cache_op_defs cache_ok_def sem_simps saveCache_saved Let_def split: option.splits)
next
  fix d k e
  assume "cache_ok d" "deleteCacheValue k d = Some e" "cache_saved d \<or> getCacheValue k d \<noteq> None"
  then show "cache_saved e"
    by (auto simp: cache_op_defs cache_ok_def sem_simps saveCache_saved Let_def split: option.splits)
next
  fix d k k' e
  assume "cache_ok d" "renameCacheValue k k' d = Some e" "cache_saved d \<or> getCacheValue k d \<noteq> None"
  then show "cache_saved e"
    by (auto simp: cache_op_defs cache_ok_def sem_simps saveCache_saved Let_def split: option.splits)
qed

lemma add_semaphore: "addCacheValue k v d = Some e \<Longrightarrow> semaphore e = semaphore d"
  by (auto simp: addCacheValue_def sem_wait_def sem_post_def split: if_splits)

lemma update_semaphore: "updateCacheValue k v d = Some e \<Longrightarrow> semaphore e = semaphore d"
  by (auto simp: updateCacheValue_def sem_wait_def sem_post_def Let_def split: if_splits option.splits)

lemma delete_semaphore: "deleteCacheValue k d = Some e \<Longrightarrow> semaphore e = semaphore d"
  by (auto simp: deleteCacheValue_def sem_wait_def sem_post_def Let_def split: if_splits option.splits)

lemma rename_semaphore: "renameCacheValue k k' d = Some e \<Longrightarrow> semaphore e = semaphore d"
  by (auto simp: renameCacheValue_def sem_wait_def sem_post_def Let_def split: if_splits option.splits)

lemma load_semaphore: "loadCache d = Some e \<Longrightarrow> semaphore e = semaphore d"
  by (auto simp: loadCache_def sem_wait_def sem_post_def bind_eq_Some_conv split: if_splits option.splits)

lemmas cache_semaphores = add_semaphore update_semaphore delete_semaphore rename_semaphore
  load_semaphore

lemma poke_ok [simp]: "cache_ok (poke k v d) = cache_ok d"
  by (simp add: cache_ok_def poke_def)

lemma get_poke:
  "getCacheValue j (poke k v d) = (if j = k \<and> getCacheValue k d \<noteq> None then Some v else getCacheValue j d)"
  by (simp add: getCacheValue_def poke_def map_of_map_assign)

subsection \<open>Save and load\<close>

definition save_fields :: "string \<Rightarrow> ClientCacheValue \<Rightarrow> string list" where
  "save_fields key v = (let i = fileInfo v in
     [key, if isDirty v then ''1'' else ''0'', show_int (fileDescriptor v),
      show_nat (unat (c_dev i)), show_nat (unat (c_ino i)), show_nat (unat (c_mode i)),
      show_nat (unat (c_nlink i)), show_nat (unat (c_uid i)), show_nat (unat (c_gid i)),
      show_nat (unat (c_rdev i)), show_nat (unat (c_size i)), show_nat (unat (c_blksize i)),
      show_nat (unat (c_blocks i)), show_nat (unat (c_atim i)), show_nat (unat (c_mtim i)),
      show_nat (unat (c_ctim i))])"

text \<open>Every number of the entry is in the range of \<open>std::stoi\<close>.\<close>

definition fits_int :: "ClientCacheValue \<Rightarrow> bool" where
  "fits_int v \<longleftrightarrow> (let i = fileInfo v in
     - (2 ^ 31) \<le> fileDescriptor v \<and> fileDescriptor v < 2 ^ 31 \<and>
     list_all (\<lambda>n. n < 2 ^ 31)
       [unat (c_dev i), unat (c_ino i), unat (c_mode i), unat (c_nlink i), unat (c_uid i),
        unat (c_gid i), unat (c_rdev i), unat (c_size i), unat (c_blksize i), unat (c_blocks i),
        unat (c_atim i), unat (c_mtim i), unat (c_ctim i)])"

definition plain :: "string \<Rightarrow> bool" where
  "plain s \<longleftrightarrow> CHR '':'' \<notin> set s \<and> NL \<notin> set s"

lemma save_line_fields: "save_line key v = concat (map (\<lambda>f. f @ '':'') (save_fields key v)) @ [NL]"
  by (simp add: save_line_def save_fields_def Let_def)

lemma colon_fields_piece:
  "CHR '':'' \<notin> set f \<Longrightarrow> colon_fields acc (f @ CHR '':'' # rest) = (rev acc @ f) # colon_fields [] rest"
  by (induction f arbitrary: acc) auto

lemma colon_fields_concat:
  "\<forall>f \<in> set fs. CHR '':'' \<notin> set f \<Longrightarrow> colon_fields [] (concat (map (\<lambda>f. f @ '':'') fs)) = fs"
  by (induction fs) (simp_all add: colon_fields_piece)

lemma getlines_piece:
  "NL \<notin> set l \<Longrightarrow> getlines acc (l @ NL # rest) = (rev acc @ l) # getlines [] rest"
  by (induction l arbitrary: acc) auto

lemma getlines_concat:
  "\<forall>l \<in> set ls. NL \<notin> set l \<Longrightarrow> getlines [] (concat (map (\<lambda>l. l @ [NL]) ls)) = ls"
  by (induction ls) (simp_all add: getlines_piece)

lemma save_fields_plain:
  "NL \<notin> set key \<Longrightarrow> \<forall>f \<in> set (save_fields key v). NL \<notin> set f"
  "CHR '':'' \<notin> set key \<Longrightarrow> \<forall>f \<in> set (save_fields key v). CHR '':'' \<notin> set f"
  by (simp_all add: save_fields_def Let_def)

definition save_text :: "string \<Rightarrow> ClientCacheValue \<Rightarrow> string" where
  "save_text key v = concat (map (\<lambda>f. f @ '':'') (save_fields key v))"

lemma save_text_NL: "NL \<notin> set key \<Longrightarrow> NL \<notin> set (save_text key v)"
  using save_fields_plain(1) [of key v] by (auto simp: save_text_def)

lemma getlines_saved:
  assumes "\<forall>k \<in> set (map fst m). NL \<notin> set k"
  shows "getlines [] (concat (map (\<lambda>(k, v). save_line k v) m)) = map (\<lambda>(k, v). save_text k v) m"
proof -
  have "map (\<lambda>(k, v). save_line k v) m = map (\<lambda>l. l @ [NL]) (map (\<lambda>(k, v). save_text k v) m)"
    by (simp add: save_line_fields save_text_def case_prod_beta)
  moreover have "\<forall>l \<in> set (map (\<lambda>(k, v). save_text k v) m). NL \<notin> set l"
    using assms by (auto simp: save_text_NL)
  ultimately show ?thesis by (simp add: getlines_concat del: map_map)
qed

lemma word_of_show: "word_of_int (int (unat w)) = w"
  by simp

lemma stoi_at_append: "i < length xs \<Longrightarrow> stoi_at (xs @ ys) i = stoi_at xs i"
  by (simp add: stoi_at_def nth_append)

lemma parse_entry_append: "length xs = 16 \<Longrightarrow> parse_entry (xs @ ys) = parse_entry xs"
  by (cases "xs = []") (simp_all add: parse_entry_def stoi_at_append hd_append)

lemma parse_entry_save_fields:
  assumes "fits_int v"
  shows "parse_entry (save_fields k v) = Some (k, v\<lparr>isDirty := False\<rparr>)"
proof -
  have "stoi ''1'' = Inr 1" "stoi ''0'' = Inr 0" by code_simp+
  then show ?thesis
    using assms by (simp add: parse_entry_def save_fields_def stoi_at_def Let_def fits_int_def
        stoi_show_nat stoi_show_int ClientCacheValue_new_def split: if_splits)
qed

lemma parse_entry_too_big:
  assumes "2 ^ 31 \<le> unat (c_size (fileInfo v)) \<or> 2 ^ 31 \<le> unat (c_ino (fileInfo v))"
  shows "parse_entry (save_fields k v) = None"
  using assms
  by (auto simp: parse_entry_def save_fields_def stoi_at_def Let_def stoi_show_nat_overflow
      bind_eq_None_conv)

lemma length_save_fields [simp]: "length (save_fields k v) = 16"
  by (simp add: save_fields_def Let_def)

text \<open>Once the first line is parsed, every later line yields the same entry again.\<close>

lemma load_lines_stuck:
  assumes "length xs = 16" "parse_entry xs = Some (k, v)" "sorted_keys m" "map_of m k \<noteq> None"
  shows "load_lines ls (xs @ ys) m = Some m"
  using assms
proof (induction ls arbitrary: ys)
  case (Cons l ls)
  then show ?case using Cons.IH [of "ys @ colon_fields [] l"]
    by (simp add: Let_def parse_entry_append map_insert_present)
qed simp

lemma load_lines_first:
  assumes "fits_int v" "plain k"
  shows "load_lines (save_text k v # ls) [] [] = Some [(k, v\<lparr>isDirty := False\<rparr>)]"
proof -
  have "colon_fields [] (save_text k v) = save_fields k v"
    using assms(2) save_fields_plain(2) [of k v] unfolding save_text_def plain_def
    by (intro colon_fields_concat) blast
  then show ?thesis
    using load_lines_stuck [OF length_save_fields parse_entry_save_fields [OF assms(1), of k],
        of "[(k, v\<lparr>isDirty := False\<rparr>)]" ls "[]"] assms(1)
    by (simp add: Let_def parse_entry_save_fields)
qed

end
