(* ===== verification/Server.thy ===== *)
theory Server
  imports Proto
begin

text \<open>
  \<open>wiscAFS/wiscAFS_server.cc\<close>: the handlers of the service. The server keeps no state of its own
  besides the file system, so a handler is a function from a request and a file system to a reply
  and a file system. Every handler of the source that returns does so with \<open>Status::OK\<close>; that constant is not
  repeated here, and \<open>CreateFile\<close>, which may throw instead, has its exception in the result. A streaming handler takes the list of requests the client sent, or returns the
  list of replies it wrote. The unused \<open>std::ifstream\<close> of \<open>OpenFile\<close> and \<open>CreateFile\<close> is left out.
\<close>

subsection \<open>C strings and buffers\<close>

text \<open>The \<open>n\<close> bytes at \<open>data.c_str()\<close>, and the C string that starts a buffer of bytes.\<close>

definition c_bytes :: "fsys \<Rightarrow> bytes \<Rightarrow> nat \<Rightarrow> bytes" where
  "c_bytes s data n = take n (data @ NUL # overread s)"

definition c_string :: "fsys \<Rightarrow> bytes \<Rightarrow> string" where
  "c_string s buf = takeWhile (\<lambda>c. c \<noteq> NUL) (buf @ overread s)"

lemma c_bytes_exact [simp]: "c_bytes s data (length data) = data"
  by (simp add: c_bytes_def)

text \<open>A signed value passed as a \<open>size_t\<close>.\<close>

definition size_arg :: "int \<Rightarrow> nat" where
  "size_arg n = nat (n mod 2 ^ 64)"

lemma size_arg_nat [simp]: "n < 2 ^ 64 \<Longrightarrow> size_arg (int n) = n"
  by (simp add: size_arg_def)

text \<open>
  The expression \<open>new char[n]\<close> with an \<open>int\<close> throws when \<open>n\<close> is negative; memory does not run out.
  A handler that may throw returns \<open>Inl\<close> the exception or \<open>Inr\<close> its reply.
\<close>

datatype cpp_exception = Bad_array_new_length

definition new_char_array :: "int \<Rightarrow> cpp_exception option" where
  "new_char_array n = (if n < 0 then Some Bad_array_new_length else None)"

subsection \<open>OpenFile: stream the file to the client\<close>

text \<open>The bytes between the offset of a descriptor and the end of its file.\<close>

definition unread :: "fsys \<Rightarrow> int \<Rightarrow> nat" where
  "unread s fd = (case ofile_of s fd of None \<Rightarrow> 0
     | Some f \<Rightarrow> file_size s (of_ino f) - of_off f)"

lemma sys_read_progress:
  assumes "sys_read fd n s = (k, bs, t)"
  shows "k = -1 \<or> k = 0 \<and> unread t fd = unread s fd \<or> 0 < k \<and> unread t fd < unread s fd"
proof -
  obtain f u where tf: "take_fault s = (f, u)" by fastforce
  have same: "ofile_of u fd = ofile_of s fd" "inodes u = inodes s" "fds u = fds s"
    using take_fault_same [OF tf] by (auto simp: ofile_of_def)
  show ?thesis
    using assms tf same ofile_of_nonneg [of s fd]
    by (cases f)
      (auto simp: sys_read_def read_at_def unread_def file_size_def Let_def min_def
        split: option.splits if_splits)
qed

function srv_open_loop :: "int \<Rightarrow> int \<Rightarrow> RPCResponse \<Rightarrow> fsys \<Rightarrow> RPCResponse list \<times> bool \<times> fsys" where
  "srv_open_loop fd sz reply s =
     (if sz = 0 then ([reply\<lparr>r_data := [], r_fileSize := 0\<rparr>], True, s)
      else
        (case sys_read fd (if sz < 1024 then size_arg sz else 1024) s of
           (bytesRead, buf, t) \<Rightarrow>
             if bytesRead = -1 then ([], False, t)
             else if bytesRead = 0 then ([], True, t)
             else (let reply = reply\<lparr>r_data := buf, r_fileSize := word_of_int bytesRead\<rparr>
                   in (case srv_open_loop fd (if sz < 1024 then sz else sz - 1024) reply t of
                         (rs, ok, u) \<Rightarrow> (reply # rs, ok, u)))))"
  by pat_completeness auto
termination
proof (relation "measure (\<lambda>(fd, sz, reply, s). unread s fd)", goal_cases)
  case 2
  then show ?case by (auto dest!: sys_read_progress [OF sym])
qed simp

declare srv_open_loop.simps [simp del]

text \<open>
  The size is an \<open>int\<close> here too. A file of 2 GiB makes it negative, and a read of the loop may then overrun
  its buffer, which is undefined: the properties of \<open>OpenFile\<close> are for smaller files.
\<close>

definition srv_OpenFile :: "RPCRequest \<Rightarrow> fsys \<Rightarrow> RPCResponse list \<times> fsys" where
  "srv_OpenFile request s =
     (let filename = q_filename request;
          flags = q_flags request;
          reply = RPCResponse_default;
          (fd, s) = sys_open filename flags (word_of_int (junk s)) s
      in if fd < 0 then ([], s)
         else
           (let (ret, file_info, s) = sys_fstat fd s
            in if ret = -1 then ([], s)
               else
                 (let reply = reply\<lparr>r_fileInfo := Some (setFileInfo file_info)\<rparr>;
                      (_, st, s) = sys_fstat fd s;
                      sz = to_int32 (sint (st_size st));
                      (rs, ok, s) = srv_open_loop fd sz reply s
                  in if ok then (rs, snd (sys_close fd s)) else (rs, s))))"

subsection \<open>CloseFile: receive the file into a temporary file, then rename it\<close>

definition failed :: "fsys \<Rightarrow> RPCResponse" where
  "failed s = RPCResponse_default\<lparr>r_status := -1, r_error := errno s\<rparr>"

definition temp_path :: "path \<Rightarrow> path" where
  "temp_path p = p @ ''.ttmmpp''"


text \<open>
  The loop over the requests: \<open>Inl\<close> is a return from inside the loop, \<open>Inr\<close> the descriptor and
  the two paths when the stream has ended.
\<close>

fun srv_close_loop :: "RPCRequest list \<Rightarrow> bool \<Rightarrow> int \<Rightarrow> path \<Rightarrow> path \<Rightarrow> fsys
    \<Rightarrow> (RPCResponse + int \<times> path \<times> path) \<times> fsys" where
  "srv_close_loop [] firstReq fd p tempPath s = (Inr (fd, p, tempPath), s)"
| "srv_close_loop (request # rest) firstReq fd p tempPath s =
     (let (early, fd, p, tempPath, s) =
        (if firstReq then
           (let p = q_filename request;
                (ret_stat, file_info, s) = sys_lstat p s
            in if ret_stat < -1 then (Some (failed s), fd, p, tempPath, s)
               else
                 (let tempPath = temp_path p;
                      (fd, s) = sys_open tempPath creat_flags 511 s
                  in if fd = -1 then (Some (failed s), fd, p, tempPath, s)
                     else (None, fd, p, tempPath, s)))
         else (None, fd, p, tempPath, s))
      in case early of
           Some reply \<Rightarrow> (Inl reply, s)
         | None \<Rightarrow>
             (let (res, s) = sys_write fd (c_bytes s (q_data request) (unat (q_fileSize request))) s
              in if res = -1
                 then (let s = snd (sys_close fd s) in (Inl (failed s), s))
                 else srv_close_loop rest False fd p tempPath s))"

definition srv_CloseFile :: "RPCRequest list \<Rightarrow> fsys \<Rightarrow> RPCResponse \<times> fsys" where
  "srv_CloseFile requests s =
     (case srv_close_loop requests True (junk s) [] [] s of
        (Inl reply, s) \<Rightarrow> (reply, s)
      | (Inr (fd, p, tempPath), s) \<Rightarrow>
          (let s = snd (sys_close fd s);
               (ret, s) = sys_rename tempPath p s
           in if ret < 0 then (failed s, s)
              else (let s = snd (sys_unlink tempPath s)
                    in (RPCResponse_default\<lparr>r_status := 0\<rparr>, s))))"

subsection \<open>The other handlers\<close>

definition srv_RenameFile :: "RPCRequest \<Rightarrow> fsys \<Rightarrow> RPCResponse \<times> fsys" where
  "srv_RenameFile request s =
     (let (ret, s) = sys_rename (q_filename request) (q_newfilename request) s
      in if ret = -1 then (failed s, s)
         else (RPCResponse_default\<lparr>r_status := 1\<rparr>, s))"

text \<open>
  The size is narrowed to \<open>int\<close>: an existing file of 2 GiB, or a failed \<open>lseek\<close>, makes it negative, and
  \<open>new char[sz]\<close> throws with the descriptor open.
\<close>

definition srv_CreateFile :: "RPCRequest \<Rightarrow> fsys \<Rightarrow> (cpp_exception + RPCResponse) \<times> fsys" where
  "srv_CreateFile request s =
     (let (fd, s) = sys_open (q_filename request) (q_flags request) (q_mode request) s
      in if fd < 0 then (Inr (failed s), s)
         else
           (let (ret, file_info, s) = sys_fstat fd s
            in if ret = -1 then (Inr (failed s), s)
               else
                 (let (sz, s) = sys_lseek_end fd s;
                      sz = to_int32 sz;
                      (_, s) = sys_lseek_set fd s
                  in (case new_char_array sz of
                        Some exn \<Rightarrow> (Inl exn, s)
                      | None \<Rightarrow>
                          (let (data, s) =
                             (if sz = 0 then ([], s)
                              else (let (err, buffer, s) = sys_read fd (size_arg sz) s
                                    in (c_string s buffer, s)));
                               (_, s) = sys_close fd s
                           in (Inr (RPCResponse_default\<lparr>r_data := data, r_fileInfo := Some (setFileInfo file_info),
                                 r_status := 1, r_error := errno s\<rparr>), s))))))"

definition srv_RemoveDir :: "RPCRequest \<Rightarrow> fsys \<Rightarrow> RPCResponse \<times> fsys" where
  "srv_RemoveDir request s =
     (let (result, s) = sys_rmdir (q_filename request) s
      in (RPCResponse_default\<lparr>r_status := (if result = -1 then -1 else 1), r_error := errno s\<rparr>, s))"

definition srv_CreateDir :: "RPCRequest \<Rightarrow> fsys \<Rightarrow> RPCResponse \<times> fsys" where
  "srv_CreateDir request s =
     (let (result, s) = sys_mkdir (q_filename request) (q_mode request) s
      in if result = -1 then (failed s, s)
         else (RPCResponse_default\<lparr>r_status := 1, r_error := errno s\<rparr>, s))"

definition srv_DeleteFile :: "RPCRequest \<Rightarrow> fsys \<Rightarrow> RPCResponse \<times> fsys" where
  "srv_DeleteFile request s =
     (let (result, s) = sys_unlink (q_filename request) s
      in if result = -1 then (failed s, s)
         else (RPCResponse_default\<lparr>r_status := 1\<rparr>, s))"

definition srv_AccessFile :: "RPCRequest \<Rightarrow> fsys \<Rightarrow> RPCResponse \<times> fsys" where
  "srv_AccessFile request s =
     (let (ret, s) = sys_access (q_filename request) (q_mode request) s
      in if ret = -1 then (failed s, s)
         else (RPCResponse_default\<lparr>r_status := 1\<rparr>, s))"

definition dir_reply :: "dirent \<Rightarrow> RPCDirReply" where
  "dir_reply de = (case de of (ino, name, typ) \<Rightarrow>
     RPCDirReply_default\<lparr>d_dino := of_nat ino, d_dname := name, d_dtype := of_nat typ,
       d_status := 1\<rparr>)"

definition srv_ReadDir :: "RPCRequest \<Rightarrow> fsys \<Rightarrow> RPCDirReply list \<times> fsys" where
  "srv_ReadDir request s =
     (case sys_opendir (q_filename request) s of
        (None, s) \<Rightarrow> ([RPCDirReply_default\<lparr>d_error := errno s, d_status := -1\<rparr>], s)
      | (Some entries, s) \<Rightarrow> (map dir_reply entries, s))"

definition srv_GetAttr :: "RPCRequest \<Rightarrow> fsys \<Rightarrow> RPCResponse \<times> fsys" where
  "srv_GetAttr request s =
     (let (ret, file_info, s) = sys_lstat (q_filename request) s
      in if ret = -1 then (failed s, s)
         else (RPCResponse_default\<lparr>r_fileInfo := Some (setFileInfo file_info), r_status := 1,
                 r_error := errno s\<rparr>, s))"

definition srv_GetXAttr :: "RPCRequest \<Rightarrow> fsys \<Rightarrow> RPCResponse \<times> fsys" where
  "srv_GetXAttr request s =
     (let (size, value, s) = sys_getxattr (q_filename request) (q_xattr_name request)
            (size_arg (sint (q_xattr_size request))) s;
          reply = RPCResponse_default\<lparr>r_xattr_value := c_string s value, r_xattr_size := size\<rparr>
      in if size < 0 then (reply\<lparr>r_status := -1, r_error := errno s\<rparr>, s)
         else (reply\<lparr>r_status := 1, r_error := errno s\<rparr>, s))"

definition srv_StatFS :: "RPCRequest \<Rightarrow> fsys \<Rightarrow> RPCResponse \<times> fsys" where
  "srv_StatFS request s =
     (let (ret, file_info, s) = sys_statvfs (q_filename request) s
      in if ret = -1 then (RPCResponse_default\<lparr>r_status := -1\<rparr>, s)
         else (RPCResponse_default\<lparr>r_statfs := Some (setStatFS file_info), r_status := 1\<rparr>, s))"

definition srv_Chmod :: "RPCRequest \<Rightarrow> fsys \<Rightarrow> RPCResponse \<times> fsys" where
  "srv_Chmod request s =
     (let (ret, s) = sys_chmod (q_filename request) (q_mode request) s
      in if ret < 0 then (failed s, s)
         else (RPCResponse_default\<lparr>r_status := 1\<rparr>, s))"

end
