(* ===== verification/Server_Facts.thy ===== *)
theory Server_Facts
  imports Server
begin

text \<open>
  What the handlers of the server guarantee: every handler keeps the file system well-formed under
  every schedule of faults; in a quiet kernel \<open>OpenFile\<close> streams the file in chunks of 1024 bytes
  and changes nothing, \<open>CloseFile\<close> replaces the file by the concatenation of the requests' data;
  when calls fail, \<open>CloseFile\<close> leaves either the old contents or the complete new ones.
\<close>

subsection \<open>Well-formedness under faults\<close>

lemmas calls_ok = sys_open_ok sys_close_ok sys_dup_ok sys_rw_ok sys_lseek_ok sys_stat_ok
  sys_unlink_ok sys_rmdir_ok sys_mkdir_ok sys_truncate_ok set_attr_ok sys_access_ok sys_rename_ok

lemma sys_query_ok:
  assumes "fs_ok s"
  shows "fs_ok (snd (sys_opendir p s))" "fs_ok (snd (snd (sys_getxattr p x n s)))"
    "fs_ok (snd (snd (sys_statvfs p s)))" "fs_ok (snd (sys_chmod p m s))"
    "fs_ok (snd (sys_chown p uid gid s))"
proof -
  show "fs_ok (snd (sys_opendir p s))"
    using assms by (auto simp: sys_opendir_def split: call_splits dest: take_fault_ok)
  show "fs_ok (snd (snd (sys_getxattr p x n s)))"
    using assms by (auto simp: sys_getxattr_def split: call_splits dest: take_fault_ok)
  show "fs_ok (snd (snd (sys_statvfs p s)))"
    using assms by (auto simp: sys_statvfs_def split: call_splits dest: take_fault_ok)
qed (simp_all add: sys_chmod_def sys_chown_def set_attr_ok assms)

text \<open>Rules that follow the structure of a handler.\<close>

lemma ok_bind:
  "fs_ok (snd x) \<Longrightarrow> (\<And>a t. x = (a, t) \<Longrightarrow> fs_ok t \<Longrightarrow> fs_ok (snd (f a t)))
   \<Longrightarrow> fs_ok (snd (case x of (a, t) \<Rightarrow> f a t))"
  by (cases x) simp

lemma ok_bind3:
  "fs_ok (snd (snd x)) \<Longrightarrow> (\<And>a b t. x = (a, b, t) \<Longrightarrow> fs_ok t \<Longrightarrow> fs_ok (snd (f a b t)))
   \<Longrightarrow> fs_ok (snd (case x of (a, b, t) \<Rightarrow> f a b t))"
  by (cases x) auto

lemma ok_cases:
  "fs_ok t \<Longrightarrow> fs_ok (snd (a, t))"
  "(c \<Longrightarrow> fs_ok (snd x)) \<Longrightarrow> (\<not> c \<Longrightarrow> fs_ok (snd y)) \<Longrightarrow> fs_ok (snd (if c then x else y))"
  "(opt = None \<Longrightarrow> fs_ok (snd x)) \<Longrightarrow> (\<And>v. opt = Some v \<Longrightarrow> fs_ok (snd (g v)))
   \<Longrightarrow> fs_ok (snd (case opt of None \<Rightarrow> x | Some v \<Rightarrow> g v))"
  "(\<And>v. e = Inl v \<Longrightarrow> fs_ok (snd (l v))) \<Longrightarrow> (\<And>v. e = Inr v \<Longrightarrow> fs_ok (snd (r v)))
   \<Longrightarrow> fs_ok (snd (case e of Inl v \<Rightarrow> l v | Inr v \<Rightarrow> r v))"
  by (auto split: option.split sum.split)

lemma ok_split:
  "(\<And>a b. y = (a, b) \<Longrightarrow> fs_ok (snd (f a b))) \<Longrightarrow> fs_ok (snd (case y of (a, b) \<Rightarrow> f a b))"
  by (cases y) simp

lemmas ok_rules = ok_bind3 ok_bind ok_cases calls_ok sys_query_ok ok_split

lemma srv_open_loop_ok: "fs_ok s \<Longrightarrow> fs_ok (snd (snd (srv_open_loop fd sz reply s)))"
proof (induction fd sz reply s rule: srv_open_loop.induct)
  case (1 fd sz reply s)
  obtain k buf u where r: "sys_read fd (if sz < 1024 then size_arg sz else 1024) s = (k, buf, u)"
    by (metis prod_cases3)
  note IH = 1(1) [OF _ r [symmetric] refl _ _ refl]
  have "fs_ok u" using sys_rw_ok(1) [OF 1(2)] r by (metis snd_conv)
  then show ?case
    using 1(2) IH by (subst srv_open_loop.simps) (auto simp: r Let_def split: prod.split)
qed

lemma srv_OpenFile_ok: "fs_ok s \<Longrightarrow> fs_ok (snd (srv_OpenFile request s))"
  unfolding srv_OpenFile_def Let_def
  by (rule ok_rules srv_open_loop_ok | assumption)+

lemma srv_close_loop_ok: "fs_ok s \<Longrightarrow> fs_ok (snd (srv_close_loop rqs b fd p tp s))"
proof (induction rqs arbitrary: b fd p tp s)
  case (Cons rq rest)
  have wr: "fs_ok (snd (let (res, s) = sys_write fd bs s in if res = -1
      then (let s = snd (sys_close fd s) in (Inl (failed s), s))
      else srv_close_loop rest False fd p tp s))" if "fs_ok s" for fd bs p tp s
    unfolding Let_def using that by - (rule ok_rules Cons.IH | assumption)+
  obtain k st u where l: "sys_lstat (q_filename rq) s = (k, st, u)" by (metis prod_cases3)
  obtain g v where o: "sys_open (temp_path (q_filename rq)) creat_flags 511 u = (g, v)" by fastforce
  have u: "fs_ok u" using sys_stat_ok(2) [OF Cons.prems] l by (metis snd_conv)
  then have "fs_ok v" using sys_open_ok o by (metis snd_conv)
  with u wr [OF Cons.prems] wr show ?case
    by (cases b; cases "k < -1"; cases "g = -1") (simp_all add: l o Let_def)
qed simp

lemma srv_CloseFile_ok: "fs_ok s \<Longrightarrow> fs_ok (snd (srv_CloseFile requests s))"
  unfolding srv_CloseFile_def Let_def
  by (rule ok_rules srv_close_loop_ok | assumption)+

lemma srv_unary_ok:
  assumes "fs_ok s"
  shows "fs_ok (snd (srv_RenameFile rq s))" "fs_ok (snd (srv_CreateFile rq s))"
    "fs_ok (snd (srv_RemoveDir rq s))" "fs_ok (snd (srv_CreateDir rq s))"
    "fs_ok (snd (srv_DeleteFile rq s))" "fs_ok (snd (srv_AccessFile rq s))"
    "fs_ok (snd (srv_ReadDir rq s))" "fs_ok (snd (srv_GetAttr rq s))"
    "fs_ok (snd (srv_GetXAttr rq s))" "fs_ok (snd (srv_StatFS rq s))"
    "fs_ok (snd (srv_Chmod rq s))"
  using assms
  unfolding srv_RenameFile_def srv_CreateFile_def srv_RemoveDir_def srv_CreateDir_def
      srv_DeleteFile_def srv_AccessFile_def srv_ReadDir_def srv_GetAttr_def srv_GetXAttr_def
      srv_StatFS_def srv_Chmod_def Let_def
  by - (rule ok_rules | assumption)+

subsection \<open>OpenFile in a quiet kernel\<close>

text \<open>The chunks a file is streamed in: full ones of 1024 bytes, then one that is shorter.\<close>

function fetch_chunks :: "bytes \<Rightarrow> bytes list" where
  "fetch_chunks d =
     (if length d < 1024 then [d] else take 1024 d # fetch_chunks (drop 1024 d))"
  by pat_completeness auto
termination by (relation "measure length") auto

declare fetch_chunks.simps [simp del]

lemma fetch_chunks_facts:
  "concat (fetch_chunks d) = d" "fetch_chunks d \<noteq> []"
  "\<forall>c \<in> set (fetch_chunks d). length c \<le> 1024" "length (last (fetch_chunks d)) < 1024"
proof -
  have "concat (fetch_chunks d) = d \<and> fetch_chunks d \<noteq> [] \<and>
      (\<forall>c \<in> set (fetch_chunks d). length c \<le> 1024) \<and> length (last (fetch_chunks d)) < 1024"
  proof (induction d rule: fetch_chunks.induct)
    case (1 d)
    then show ?case
      by (cases "length d < 1024") (simp_all add: fetch_chunks.simps [of d])
  qed
  then show "concat (fetch_chunks d) = d" "fetch_chunks d \<noteq> []"
    "\<forall>c \<in> set (fetch_chunks d). length c \<le> 1024" "length (last (fetch_chunks d)) < 1024"
    by simp_all
qed

definition chunk_reply :: "RPCResponse \<Rightarrow> bytes \<Rightarrow> RPCResponse" where
  "chunk_reply reply c = reply\<lparr>r_data := c, r_fileSize := of_nat (length c)\<rparr>"

lemma chunk_reply_simps [simp]:
  "chunk_reply (reply\<lparr>r_data := x, r_fileSize := y\<rparr>) = chunk_reply reply"
  "r_data (chunk_reply reply c) = c" "r_fileSize (chunk_reply reply c) = of_nat (length c)"
  "r_error (chunk_reply reply c) = r_error reply" "r_fileInfo (chunk_reply reply c) = r_fileInfo reply"
  by (simp_all add: chunk_reply_def fun_eq_iff)

text \<open>The effect of a loop that reads a file to its end and changes nothing else.\<close>

definition scanned :: "int \<Rightarrow> path \<Rightarrow> bytes \<Rightarrow> bool \<Rightarrow> fsys \<Rightarrow> fsys \<Rightarrow> bool" where
  "scanned fd p d w s t \<longleftrightarrow> ready t \<and> file_at t = file_at s \<and> fd_on t fd p (length d) True w \<and>
     fds_but fd s t \<and> is_dir_at t = is_dir_at s \<and> names t = names s"

lemma scanned_trans:
  "file_at u = file_at s \<Longrightarrow> fds_but fd s u \<Longrightarrow> is_dir_at u = is_dir_at s \<Longrightarrow> names u = names s \<Longrightarrow>
   scanned fd p d w u t \<Longrightarrow> scanned fd p d w s t"
  by (auto simp: scanned_def intro: fds_but_trans)

lemma srv_open_loop_spec:
  assumes "ready s" "fd_on s fd p off True w" "file_at s p = Some d" "off \<le> length d"
  shows "\<exists>t. srv_open_loop fd (int (length d - off)) reply s
      = (map (chunk_reply reply) (fetch_chunks (drop off d)), True, t) \<and> scanned fd p d w s t"
  using assms
proof (induction "length d - off" arbitrary: off s reply rule: less_induct)
  case less
  let ?r = "length d - off"
  have fc: "fetch_chunks (drop off d) = (if ?r < 1024 then [drop off d]
      else take 1024 (drop off d) # fetch_chunks (drop (off + 1024) d))"
    by (subst fetch_chunks.simps) (simp add: add.commute)
  consider "?r = 0" | "0 < ?r" "?r < 1024" | "1024 \<le> ?r" by linarith
  then show ?case
  proof cases
    case 1
    with less.prems have "off = length d" by simp
    with less.prems fc show ?thesis
      by (subst srv_open_loop.simps) (simp add: chunk_reply_def scanned_def)
  next
    case 2
    obtain t where t: "sys_read fd ?r s = (int ?r, drop off d, t)" "ready t"
      "file_at t = file_at s" "fd_on t fd p (length d) True w" "fds_but fd s t"
      "is_dir_at t = is_dir_at s" "names t = names s"
      using sys_read_spec [OF less.prems(1-3), of ?r] less.prems(4) by auto
    obtain u where u: "sys_read fd ?r t = (0, [], u)" "ready u"
      "file_at u = file_at t" "fd_on u fd p (length d) True w" "fds_but fd t u"
      "is_dir_at u = is_dir_at t" "names u = names t"
      using sys_read_spec [OF t(2,4), of d ?r] t(3) less.prems(3) by auto
    have stop: "srv_open_loop fd (int ?r) reply' t = ([], True, u)" for reply'
      using 2 u(1) by (subst srv_open_loop.simps) (simp del: of_nat_diff)
    have "scanned fd p d w s u" using t u by (auto simp: scanned_def intro: fds_but_trans)
    with 2 t(1) fc stop show ?thesis
      by (subst srv_open_loop.simps) (simp add: chunk_reply_def del: of_nat_diff)
  next
    case 3
    obtain t where t: "sys_read fd 1024 s = (1024, take 1024 (drop off d), t)" "ready t"
      "file_at t = file_at s" "fd_on t fd p (off + 1024) True w" "fds_but fd s t"
      "is_dir_at t = is_dir_at s" "names t = names s"
      using sys_read_spec [OF less.prems(1-3), of 1024] 3 by auto
    have le: "off + 1024 \<le> length d" "length d - (off + 1024) < ?r" using 3 by simp_all
    let ?reply = "reply\<lparr>r_data := take 1024 (drop off d), r_fileSize := 1024\<rparr>"
    obtain u where u: "srv_open_loop fd (int (length d - (off + 1024))) ?reply t
        = (map (chunk_reply ?reply) (fetch_chunks (drop (off + 1024) d)), True, u)"
      "scanned fd p d w t u"
      using less.hyps [OF le(2) t(2,4) _ le(1), of ?reply] t(3) less.prems(3)
      by (simp only: chunk_reply_simps) blast
    have "int ?r - 1024 = int (length d - (off + 1024))" "int ?r \<noteq> 0" "\<not> int ?r < 1024"
      using 3 by simp_all
    then show ?thesis
      using t u fc scanned_trans [OF t(3,5,6,7) u(2)]
      by (subst srv_open_loop.simps) (simp add: chunk_reply_def del: of_nat_diff)
  qed
qed

text \<open>No descriptor is opened or closed, and no offset moves.\<close>

definition same_fds :: "fsys \<Rightarrow> fsys \<Rightarrow> bool" where
  "same_fds s t \<longleftrightarrow> (\<forall>g. ofile_of t g = ofile_of s g)"

lemma same_fds_but:
  "fds_but fd s t \<Longrightarrow> ofile_of s fd = None \<Longrightarrow> fds_but fd t u \<Longrightarrow> ofile_of u fd = None \<Longrightarrow> same_fds s u"
  unfolding same_fds_def fds_but_def by metis

text \<open>The file system looks the same.\<close>

definition untouched :: "fsys \<Rightarrow> fsys \<Rightarrow> bool" where
  "untouched s t \<longleftrightarrow> file_at t = file_at s \<and> is_dir_at t = is_dir_at s \<and> same_fds s t"

text \<open>The inode number the reply carries, a 32-bit field.\<close>

definition ino_field :: "fsys \<Rightarrow> path \<Rightarrow> u32" where
  "ino_field s p = of_nat (the (map_of (names s) p))"

lemma fi_setFileInfo:
  "st_ino st = of_nat n \<Longrightarrow> fi_ino (setFileInfo st) = of_nat n"
  by (simp add: setFileInfo_def unsigned_of_nat of_nat_take_bit take_bit_word_eq_self)

lemma sint_of_nat_small: "n < 2 ^ 31 \<Longrightarrow> sint (of_nat n :: u64) = int n"
  by (simp add: signed_of_nat signed_take_bit_int_eq_self)

lemma srv_OpenFile_spec:
  assumes "ready s" "file_at s (q_filename rq) = Some d" "length d < 2 ^ 31"
    and "can_read (q_flags rq)" "\<not> (has_flag (q_flags rq) O_CREAT \<and> has_flag (q_flags rq) O_EXCL)"
    and "\<not> has_flag (q_flags rq) O_TRUNC"
  shows "\<exists>fi t. srv_OpenFile rq s
      = (map (chunk_reply (RPCResponse_default\<lparr>r_fileInfo := Some fi\<rparr>)) (fetch_chunks d), t) \<and>
    ready t \<and> untouched s t \<and> fi_ino fi = ino_field s (q_filename rq) \<and>
    fi_size fi = of_nat (length d)"
proof -
  let ?p = "q_filename rq"
  obtain fd u where u: "sys_open ?p (q_flags rq) (word_of_int (junk s)) s = (fd, u)" "0 \<le> fd"
    "ready u" "file_at u = file_at s" "is_dir_at u = is_dir_at s"
    "fd_on u fd ?p 0 True (can_write (q_flags rq))" "ofile_of s fd = None" "fds_but fd s u"
    "names u = names s"
    using sys_open_existing [OF assms(1,2,5,6), of "word_of_int (junk s)"] assms(4) by auto
  obtain st where st: "sys_fstat fd u = (0, st, u)" "st_size st = of_nat (length d)"
    "st_ino st = of_nat (the (map_of (names u) ?p))"
    using sys_fstat_spec [OF u(3,6)] u(4) assms(2) by auto
  let ?reply = "RPCResponse_default\<lparr>r_fileInfo := Some (setFileInfo st)\<rparr>"
  obtain v where v: "srv_open_loop fd (int (length d)) ?reply u
      = (map (chunk_reply ?reply) (fetch_chunks d), True, v)"
    "scanned fd ?p d (can_write (q_flags rq)) u v"
    using srv_open_loop_spec [OF u(3,6), of d ?reply] u(4) assms(2) by auto
  obtain w where w: "sys_close fd v = (0, w)" "ready w" "file_at w = file_at v"
    "is_dir_at w = is_dir_at v" "fds_but fd v w" "ofile_of w fd = None"
    using sys_close_spec [of v fd] v(2) by (auto simp: scanned_def dest: fd_on_ofile)
  have "srv_OpenFile rq s = (map (chunk_reply ?reply) (fetch_chunks d), w)"
    using u(1,2) st assms(3) v(1) w(1)
    by (simp add: srv_OpenFile_def sint_of_nat_small to_int32_nat)
  moreover have "untouched s w"
    using u v(2) w same_fds_but [of fd s u w]
    by (auto simp: untouched_def scanned_def intro: fds_but_trans)
  moreover have "fi_size (setFileInfo st) = of_nat (length d)" using st(2) by (simp add: setFileInfo_def)
  ultimately show ?thesis
    using w(2) fi_setFileInfo [OF st(3)] u(9) by (auto simp: ino_field_def)
qed

subsection \<open>CloseFile in a quiet kernel\<close>

text \<open>A request whose \<open>fileSize\<close> is the length of its data, as the client sends it.\<close>

definition sized :: "RPCRequest \<Rightarrow> bool" where
  "sized rq \<longleftrightarrow> unat (q_fileSize rq) = length (q_data rq)"

definition payload :: "RPCRequest list \<Rightarrow> bytes" where
  "payload rqs = concat (map q_data rqs)"

lemma temp_path_neq [simp]: "temp_path p \<noteq> p" "p \<noteq> temp_path p"
  by (simp_all add: temp_path_def)

lemma payload_simps [simp]: "payload [] = []" "payload (rq # rqs) = q_data rq @ payload rqs"
  by (simp_all add: payload_def)

lemma srv_close_loop_spec:
  assumes "ready s" "fd_on s fd tp (length e) r True" "file_at s tp = Some e" "list_all sized rqs"
  shows "\<exists>t. srv_close_loop rqs False fd p tp s = (Inr (fd, p, tp), t) \<and> ready t \<and>
    file_at t = (file_at s)(tp \<mapsto> e @ payload rqs) \<and> is_dir_at t = is_dir_at s \<and>
    ofile_of t fd \<noteq> None \<and> fds_but fd s t"
  using assms
proof (induction rqs arbitrary: e s)
  case Nil
  then show ?case by (auto simp: fun_upd_idem dest: fd_on_ofile)
next
  case (Cons rq rqs)
  obtain u where u: "sys_write fd (q_data rq) s = (int (length (q_data rq)), u)" "ready u"
    "file_at u = (file_at s)(tp \<mapsto> e @ q_data rq)" "fd_on u fd tp (length (e @ q_data rq)) r True"
    "fds_but fd s u" "is_dir_at u = is_dir_at s"
    using sys_write_spec [OF Cons.prems(1-3), of "q_data rq"] by auto
  have u_tp: "file_at u tp = Some (e @ q_data rq)" using u(3) by simp
  obtain t where "srv_close_loop rqs False fd p tp u = (Inr (fd, p, tp), t)" "ready t"
    "file_at t = (file_at u)(tp \<mapsto> (e @ q_data rq) @ payload rqs)" "is_dir_at t = is_dir_at u"
    "ofile_of t fd \<noteq> None" "fds_but fd u t"
    using Cons.IH [OF u(2,4) u_tp] Cons.prems(4) by (simp only: list.pred_inject) blast
  with u Cons.prems(4) show ?case
    by (auto simp: sized_def intro: fds_but_trans)
qed

text \<open>The upload before its rename: the temporary file holds the data, the descriptor is closed.\<close>

lemma srv_CloseFile_stages:
  assumes "ready s" "rqs \<noteq> []" "list_all sized rqs" "q_filename (hd rqs) = p" "\<not> is_dir_at s (temp_path p)"
  shows "\<exists>e. ready e \<and> file_at e = (file_at s)(temp_path p \<mapsto> payload rqs) \<and> is_dir_at e = is_dir_at s \<and>
    same_fds s e \<and>
    srv_CloseFile rqs s = (let (ret, s) = sys_rename (temp_path p) p e
      in if ret < 0 then (failed s, s) else (RPCResponse_default, snd (sys_unlink (temp_path p) s)))"
proof -
  let ?tp = "temp_path p"
  obtain rq rest where rqs: "rqs = rq # rest" "q_filename rq = p"
    using assms(2,4) by (cases rqs) auto
  obtain k st a where a: "sys_lstat p s = (k, st, a)" "k \<ge> -1" "ready a" "file_at a = file_at s"
    "is_dir_at a = is_dir_at s" "fds a = fds s"
    using sys_lstat_same [of p s] assms(1)
    by (cases "sys_lstat p s") (auto simp: ready_def)
  obtain fd b where b: "sys_open ?tp creat_flags 511 a = (fd, b)" "0 \<le> fd" "ready b"
    "file_at b = (file_at s)(?tp \<mapsto> [])" "is_dir_at b = is_dir_at s" "fd_on b fd ?tp 0 True True"
    "ofile_of a fd = None" "fds_but fd a b"
    using sys_open_creat [OF a(3), of ?tp creat_flags 511] assms(5) a(4,5) by auto
  obtain c where c: "srv_close_loop rqs False fd p ?tp b = (Inr (fd, p, ?tp), c)" "ready c"
    "file_at c = (file_at s)(?tp \<mapsto> payload rqs)" "is_dir_at c = is_dir_at s" "ofile_of c fd \<noteq> None"
    "fds_but fd b c"
    using srv_close_loop_spec [OF b(3), of fd ?tp "[]" True rqs p] b(4-6) assms(3) by auto
  have loop: "srv_close_loop rqs True (junk s) [] [] s = (Inr (fd, p, ?tp), c)"
    using c(1) a(1,2) b(1,2) unfolding rqs by (simp add: rqs(2))
  obtain e where e: "sys_close fd c = (0, e)" "ready e" "file_at e = file_at c" "fds_but fd c e"
    "is_dir_at e = is_dir_at c" "ofile_of e fd = None"
    using sys_close_spec [OF c(2,5)] by auto
  have "ofile_of a g = ofile_of s g" for g using a(6) by (simp add: ofile_of_def)
  moreover have "same_fds a e"
    using same_fds_but [OF b(8,7) fds_but_trans [OF c(6) e(4)] e(6)] .
  moreover have "srv_CloseFile rqs s = (let (ret, s) = sys_rename ?tp p e
      in if ret < 0 then (failed s, s) else (RPCResponse_default, snd (sys_unlink ?tp s)))"
    by (cases "sys_rename ?tp p e") (simp add: srv_CloseFile_def loop e(1) RPCResponse_default_def Let_def)
  ultimately show ?thesis
    using e c by (auto simp: same_fds_def)
qed

lemma srv_CloseFile_spec:
  assumes "ready s" "rqs \<noteq> []" "list_all sized rqs" "q_filename (hd rqs) = p"
    and "\<not> is_dir_at s p" "\<not> is_dir_at s (temp_path p)"
  shows "\<exists>t. srv_CloseFile rqs s = (RPCResponse_default, t) \<and> ready t \<and>
    file_at t = (file_at s)(p \<mapsto> payload rqs, temp_path p := None) \<and> same_fds s t \<and>
    is_dir_at t = is_dir_at s"
proof -
  let ?tp = "temp_path p"
  obtain e where e: "ready e" "file_at e = (file_at s)(?tp \<mapsto> payload rqs)" "is_dir_at e = is_dir_at s"
    "same_fds s e" and run: "srv_CloseFile rqs s = (let (ret, s) = sys_rename ?tp p e
      in if ret < 0 then (failed s, s) else (RPCResponse_default, snd (sys_unlink ?tp s)))"
    using srv_CloseFile_stages [OF assms(1-4,6)] by blast
  obtain f where f: "sys_rename ?tp p e = (0, f)" "ready f"
    "file_at f = (file_at e)(?tp := None, p \<mapsto> payload rqs)" "fds f = fds e"
    using sys_rename_spec [OF e(1), of ?tp "payload rqs" p] e(2,3) assms(5) by auto
  have dirs: "is_dir_at f = is_dir_at s"
    using rename_keeps(1) [OF e(1) _ _ _ f(1), of "payload rqs"] e(2,3) assms(5) by simp
  obtain l t where t: "sys_unlink ?tp f = (l, t)" by fastforce
  have t': "ready t" "file_at t = file_at f" "fds t = fds f" and n: "names t = names f" "inodes t = inodes f"
    using sys_unlink_nofile [OF _ t] f(2,3) by (auto simp: ready_def)
  have d: "is_dir_at t = is_dir_at f"
    by (simp add: is_dir_at_def [abs_def] lookup_def n)
  have ofs: "ofile_of t g = ofile_of e g" for g
    using t'(3) f(4) by (simp add: ofile_of_def)
  have "file_at t = (file_at s)(p \<mapsto> payload rqs, ?tp := None)"
    using t'(2) f(3) e(2) by (auto simp: fun_eq_iff)
  then show ?thesis
    using t'(1) d ofs dirs e(4) run f(1) t by (auto simp: same_fds_def)
qed

subsection \<open>CloseFile when calls fail\<close>

lemma calm_close_loop:
  assumes "calm s" "fs_ok s" "fd_on s fd tp (length e) r True" "file_at s tp = Some e"
    and "list_all sized rqs" "srv_close_loop rqs False fd p tp s = (res, t)"
  shows "calm t \<and> fs_ok t \<and> is_dir_at t = is_dir_at s \<and>
    (\<exists>e'. file_at t = (file_at s)(tp \<mapsto> e') \<and>
       (\<forall>x. res = Inr x \<longrightarrow> x = (fd, p, tp) \<and> e' = e @ payload rqs) \<and>
       (\<forall>reply. res = Inl reply \<longrightarrow> r_status reply = -1))"
  using assms
proof (induction rqs arbitrary: e s)
  case Nil
  then show ?case by (force simp: fun_upd_idem)
next
  case (Cons rq rqs)
  obtain k u where w: "sys_write fd (q_data rq) s = (k, u)" by fastforce
  have sz: "c_bytes s (q_data rq) (unat (q_fileSize rq)) = q_data rq"
    using Cons.prems(5) by (simp add: sized_def)
  note wr = calm_write [OF Cons.prems(1-4) w]
  show ?case
  proof (cases "k = -1")
    case True
    obtain l v where c: "sys_close fd u = (l, v)" by fastforce
    have "res = Inl (failed v)" "t = v"
      using Cons.prems(6) True w c sz by auto
    moreover have "calm v \<and> fs_ok v \<and> file_at v = file_at u \<and> is_dir_at v = is_dir_at u"
      using calm_close [OF _ _ c] wr by blast
    moreover have "file_at u = (file_at s)(tp \<mapsto> e)"
      using wr True Cons.prems(4) by (auto simp: fun_upd_idem)
    ultimately show ?thesis
      using wr by (auto simp: failed_def)
  next
    case False
    then have u: "calm u" "fs_ok u" "is_dir_at u = is_dir_at s"
      "fd_on u fd tp (length (e @ q_data rq)) r True" "file_at u = (file_at s)(tp \<mapsto> e @ q_data rq)"
      using wr by auto
    then have "file_at u tp = Some (e @ q_data rq)" by simp
    moreover have "srv_close_loop rqs False fd p tp u = (res, t)"
      using Cons.prems(6) False w sz by simp
    ultimately show ?thesis
      using Cons.IH [OF u(1,2,4)] Cons.prems(5)
      by (simp only: u(3,5) append_assoc payload_simps fun_upd_upd list.pred_inject)
  qed
qed

text \<open>
  With requests that carry their sizes, in a calm kernel, every file but the temporary one keeps
  its contents, and the file itself is either as it was or complete.
\<close>

lemma srv_CloseFile_atomic:
  assumes "calm s" "fs_ok s" "rqs \<noteq> []" "list_all sized rqs" "q_filename (hd rqs) = p"
    and "\<not> is_dir_at s p" "\<not> is_dir_at s (temp_path p)" "srv_CloseFile rqs s = (reply, t)"
  shows "(\<forall>q. q \<noteq> p \<longrightarrow> q \<noteq> temp_path p \<longrightarrow> file_at t q = file_at s q) \<and>
    (r_status reply = 0 \<and> file_at t p = Some (payload rqs) \<or>
     r_status reply = -1 \<and> file_at t p = file_at s p)"
proof -
  let ?tp = "temp_path p"
  obtain rq rest where rqs: "rqs = rq # rest" "q_filename rq = p"
    using assms(3,5) by (cases rqs) auto
  obtain k st a where l: "sys_lstat p s = (k, st, a)" by (metis prod_cases3)
  note a = sys_lstat_same [OF l]
  then have k: "\<not> k < -1" by auto
  obtain fd b where o: "sys_open ?tp creat_flags 511 a = (fd, b)" by fastforce
  have b: "calm b" "fs_ok b" "is_dir_at b = is_dir_at s"
    "fd = -1 \<and> file_at b = file_at s \<or>
     0 \<le> fd \<and> file_at b = (file_at s)(?tp \<mapsto> []) \<and> fd_on b fd ?tp 0 True True"
    using calm_open_creat [OF _ _ _ _ _ _ o] a assms(1,2,7) by auto
  show ?thesis
  proof (cases "fd = -1")
    case True
    then have "reply = failed b" "t = b"
      using assms(8) a l o unfolding rqs by (auto simp: srv_CloseFile_def rqs(2))
    then show ?thesis using b True by (simp add: failed_def)
  next
    case False
    obtain res c where c: "srv_close_loop rqs False fd p ?tp b = (res, c)" by fastforce
    have loop: "srv_close_loop rqs True (junk s) [] [] s = (res, c)"
      using c k l o False unfolding rqs by (simp add: rqs(2))
    have fdb: "fd_on b fd ?tp (length []) True True" "file_at b ?tp = Some []"
      using b(4) False by auto
    obtain e' where e': "calm c" "fs_ok c" "is_dir_at c = is_dir_at s"
      "file_at c = (file_at s)(?tp \<mapsto> e')"
      "\<And>x. res = Inr x \<Longrightarrow> x = (fd, p, ?tp) \<and> e' = payload rqs"
      "\<And>reply. res = Inl reply \<Longrightarrow> r_status reply = -1"
      using calm_close_loop [OF b(1,2) fdb assms(4) c] b(3,4) False by auto
    show ?thesis
    proof (cases res)
      case (Inl x)
      then show ?thesis
        using assms(8) loop e' by (auto simp: srv_CloseFile_def)
    next
      case (Inr x)
      obtain k1 d where d: "sys_close fd c = (k1, d)" by fastforce
      obtain k2 g where g: "sys_rename ?tp p d = (k2, g)" by fastforce
      obtain k3 h where h: "sys_unlink ?tp g = (k3, h)" by fastforce
      have d': "calm d" "fs_ok d" "file_at d = (file_at s)(?tp \<mapsto> payload rqs)" "is_dir_at d = is_dir_at s"
        using calm_close [OF e'(1,2) d] e'(3,4,5) Inr by auto
      have g': "k2 = -1 \<and> file_at g = file_at d \<or>
          k2 = 0 \<and> file_at g = (file_at d)(?tp := None, p \<mapsto> payload rqs)"
        using calm_rename [OF d'(1,2) _ _ _ g, of "payload rqs"] d'(3,4) assms(6) by simp
      have res: "(reply, t) = (if k2 < 0 then (failed g, g) else (RPCResponse_default\<lparr>r_status := 0\<rparr>, h))"
        using assms(8) loop e'(5) [OF Inr] Inr d g h
        by (auto simp: srv_CloseFile_def Let_def)
      show ?thesis
      proof (cases "k2 = -1")
        case True
        then show ?thesis using res g' d'(3) by (simp add: failed_def)
      next
        case False
        with g' have f: "file_at g = (file_at d)(?tp := None, p \<mapsto> payload rqs)" "k2 = 0" by auto
        then have "file_at h = file_at g"
          using sys_unlink_nofile [OF _ h] by simp
        then show ?thesis using res f d'(3) by auto
      qed
    qed
  qed
qed

text \<open>A stream without requests renames the empty path, which fails, so nothing is stored.\<close>

lemma srv_CloseFile_empty:
  assumes "ready s" "map_of (names s) [] = None"
  shows "\<exists>t. srv_CloseFile [] s = (failed t, t) \<and> errno t = ENOENT \<and> file_at t = file_at s \<and>
    is_dir_at t = is_dir_at s"
proof -
  obtain k u where u: "sys_close (junk s) s = (k, u)" by fastforce
  have "quiet u" "names u = names s"
    using u assms(1) by (auto simp: sys_close_def ready_def posix_simps fail_def
        split: option.splits)
  with u assms(2) sys_close_unchanged [OF _ u] assms(1) show ?thesis
    by (auto simp: srv_CloseFile_def sys_rename_absent ready_ok)
qed

end
