(* ===== verification/Client.thy ===== *)
theory Client
  imports Cache_Facts Server_Facts
begin

text \<open>
  \<open>wiscAFS/wiscAFS_client.cc\<close>: the operations of the client. The generated gRPC stub is a
  parameter: a unary call returns the reply or the code of a failed status, in which case the reply
  message is not filled in; a streaming call returns the messages read from the stream. The status
  of a stream is not part of the model, because the code never looks at it. An upload is opened,
  written and finished; it is abandoned when the writer goes out of scope before that.

  A client is its cache, its semaphore and the file system it runs on. An operation returns
  \<open>None\<close> when it blocks on a semaphore.
\<close>

subsection \<open>The stub\<close>

type_synonym 'srv unary = "RPCRequest \<Rightarrow> 'srv \<Rightarrow> (int + RPCResponse) \<times> 'srv"

record 'srv stub =
  rpc_OpenFile :: "RPCRequest \<Rightarrow> 'srv \<Rightarrow> RPCResponse list \<times> 'srv"
  upload_open :: "'srv \<Rightarrow> 'srv"
  upload_write :: "RPCRequest \<Rightarrow> 'srv \<Rightarrow> bool \<times> 'srv"
  upload_finish :: "'srv \<Rightarrow> (int + RPCResponse) \<times> 'srv"
  upload_drop :: "'srv \<Rightarrow> 'srv"
  rpc_CreateFile :: "'srv unary"
  rpc_DeleteFile :: "'srv unary"
  rpc_RenameFile :: "'srv unary"
  rpc_CreateDir :: "'srv unary"
  rpc_RemoveDir :: "'srv unary"
  rpc_OpenDir :: "'srv unary"
  rpc_GetAttr :: "'srv unary"
  rpc_GetXAttr :: "'srv unary"
  rpc_StatFS :: "'srv unary"
  rpc_AccessFile :: "'srv unary"
  rpc_Fcntl :: "'srv unary"
  rpc_Chmod :: "'srv unary"
  rpc_ReadDir :: "RPCRequest \<Rightarrow> 'srv \<Rightarrow> RPCDirReply list \<times> 'srv"

text \<open>The reply message after a unary call that was passed \<open>reply\<close>, and the code of its status.\<close>

definition reply_after :: "int + RPCResponse \<Rightarrow> RPCResponse \<Rightarrow> RPCResponse" where
  "reply_after r reply = (case r of Inl code \<Rightarrow> reply | Inr m \<Rightarrow> m)"

definition error_code :: "int + RPCResponse \<Rightarrow> int" where
  "error_code r = (case r of Inl code \<Rightarrow> code | Inr m \<Rightarrow> 0)"

text \<open>\<open>if (!status.ok()) { set_status(-1); set_error(code) }\<close>, as most operations have it.\<close>

definition checked :: "int + RPCResponse \<Rightarrow> RPCResponse" where
  "checked r = (case r of Inl code \<Rightarrow> RPCResponse_default\<lparr>r_status := -1, r_error := code\<rparr> | Inr m \<Rightarrow> m)"

subsection \<open>State\<close>

record client =
  diskCache :: DiskCache
  clientSem :: sem
  local :: fsys

definition set_errno :: "int \<Rightarrow> client \<Rightarrow> client" where
  "set_errno e c = c\<lparr>local := (local c)\<lparr>errno := e\<rparr>\<rparr>"

definition request_for :: "path \<Rightarrow> RPCRequest" where
  "request_for p = RPCRequest_default\<lparr>q_filename := p\<rparr>"

text \<open>\<open>set_status(-1); set_error(errno)\<close>\<close>

definition failing :: "RPCResponse \<Rightarrow> client \<Rightarrow> RPCResponse" where
  "failing reply c = reply\<lparr>r_status := -1, r_error := errno (local c)\<rparr>"

definition post :: "client \<Rightarrow> client" where
  "post c = c\<lparr>clientSem := sem_post (clientSem c)\<rparr>"

definition wait :: "client \<Rightarrow> client option" where
  "wait c = map_option (\<lambda>n. c\<lparr>clientSem := n\<rparr>) (sem_wait (clientSem c))"

definition in_cache :: "(DiskCache \<Rightarrow> DiskCache option) \<Rightarrow> client \<Rightarrow> client option" where
  "in_cache f c = map_option (\<lambda>d. c\<lparr>diskCache := d\<rparr>) (f (diskCache c))"

definition cached :: "client \<Rightarrow> path \<Rightarrow> ClientCacheValue option" where
  "cached c p = getCacheValue p (diskCache c)"

text \<open>A system call on the client's own file system.\<close>

definition on_local :: "(fsys \<Rightarrow> 'a \<times> fsys) \<Rightarrow> client \<Rightarrow> 'a \<times> client" where
  "on_local f c = (case f (local c) of (a, s) \<Rightarrow> (a, c\<lparr>local := s\<rparr>))"

text \<open>The same for a call with a second result.\<close>

definition on_local2 :: "(fsys \<Rightarrow> 'a \<times> 'b \<times> fsys) \<Rightarrow> client \<Rightarrow> 'a \<times> 'b \<times> client" where
  "on_local2 f c = (case f (local c) of (a, b, s) \<Rightarrow> (a, b, c\<lparr>local := s\<rparr>))"

subsection \<open>OpenFile\<close>

text \<open>The first reply creates the local copy and enters it into the cache.\<close>

definition open_first :: "path \<Rightarrow> RPCResponse \<Rightarrow> client \<Rightarrow> (int \<times> client) option" where
  "open_first filename reply c =
     (let (fd, c) = on_local (sys_open (reply_path (fileinfo reply)) creat_flags 511) c
      in if fd < 0 then Some (fd, c)
         else
           (let fileatts = cache_setFileInfo (fileinfo reply) in
            case cached c filename of
              None \<Rightarrow>
                (let ccv = ClientCacheValue_new fileatts False fd;
                     ccv = ccv\<lparr>fileInfo := (fileInfo ccv)\<lparr>c_ino := fi_ino (fileinfo reply)\<rparr>\<rparr>
                 in map_option (Pair fd) (in_cache (addCacheValue filename ccv) c))
            | Some ccv1 \<Rightarrow>
                (let ccv1 = ccv1\<lparr>fileInfo := fileatts, isDirty := False, fileDescriptor := fd\<rparr>;
                     c = c\<lparr>diskCache := poke filename ccv1 (diskCache c)\<rparr>
                 in map_option (Pair fd) (in_cache (updateCacheValue filename ccv1) c))))"

text \<open>\<open>Inl\<close> is a return from inside the loop, \<open>Inr\<close> the descriptor and the last reply at its end.\<close>

fun open_loop :: "path \<Rightarrow> RPCResponse list \<Rightarrow> bool \<Rightarrow> int \<Rightarrow> RPCResponse \<Rightarrow> client
    \<Rightarrow> ((RPCResponse + int \<times> RPCResponse) \<times> client) option" where
  "open_loop filename [] first fd reply c = Some (Inr (fd, reply), c)"
| "open_loop filename (reply # replies) first fd _ c =
     (if r_error reply \<noteq> 0 then Some (Inl (reply\<lparr>r_status := -1\<rparr>), c)
      else do {
        (fd, c) \<leftarrow> (if first then open_first filename reply c else Some (fd, c));
        if first \<and> fd < 0 then Some (Inl (failing reply c), c)
        else
          (let (res, c) = on_local
                 (sys_write fd (c_bytes (local c) (r_data reply) (unat (r_fileSize reply)))) c
           in if res = -1 then Some (Inl (failing reply c), c)
              else open_loop filename replies False fd reply c)
      })"

definition OpenFile :: "'srv stub \<Rightarrow> path \<Rightarrow> u32 \<Rightarrow> client \<Rightarrow> 'srv
    \<Rightarrow> (RPCResponse \<times> client \<times> 'srv) option" where
  "OpenFile stub filename flags c srv = do {
     c \<leftarrow> wait c;
     let (replies, srv) = rpc_OpenFile stub ((request_for filename)\<lparr>q_flags := flags\<rparr>) srv;
     (res, c) \<leftarrow> open_loop filename replies True (junk (local c)) RPCResponse_default c;
     Some (case res of Inl reply \<Rightarrow> reply | Inr (fd, reply) \<Rightarrow> reply\<lparr>r_file_descriptor := fd\<rparr>,
           post c, srv)
   }"

subsection \<open>CloseFile\<close>

text \<open>
  The upload loop: \<open>Inl\<close> is a return from inside it. The variable \<open>sz\<close>, an \<open>unsigned long\<close>,
  does not change.
\<close>

function upload_loop :: "'srv stub \<Rightarrow> int \<Rightarrow> nat \<Rightarrow> RPCRequest \<Rightarrow> client \<Rightarrow> 'srv
    \<Rightarrow> (RPCResponse + unit) \<times> client \<times> 'srv" where
  "upload_loop stub fd sz request c srv =
     (case sys_read fd (if sz < 1024 then sz else 1024) (local c) of
        (bytesRead, buf, s) \<Rightarrow>
          (let c = c\<lparr>local := s\<rparr> in
           if bytesRead = 0 then (Inr (), c, srv)
           else if bytesRead = -1 then (Inl (failing RPCResponse_default c), c, srv)
           else
             (let request = request\<lparr>q_data := buf, q_fileSize := word_of_int bytesRead\<rparr> in
              case upload_write stub request srv of
                (written, srv) \<Rightarrow>
                  if \<not> written then (Inl (failing RPCResponse_default c), c, srv)
                  else upload_loop stub fd sz request c srv)))"
  by pat_completeness auto
termination
proof (relation "measure (\<lambda>(stub, fd, sz, request, c, srv). unread (local c) fd)", goal_cases)
  case (2 stub fd sz request c srv)
  then show ?case by (auto dest!: sys_read_progress [OF sym])
qed simp

declare upload_loop.simps [simp del]

definition cached_path :: "ClientCacheValue \<Rightarrow> path" where
  "cached_path v = cache_path (fileInfo v)"

definition release_entry :: "path \<Rightarrow> path \<Rightarrow> client \<Rightarrow> client option" where
  "release_entry filename local_path c = do {
     c \<leftarrow> in_cache (deleteCacheValue filename) c;
     Some (snd (on_local (sys_unlink local_path) c))
   }"

definition CloseFile :: "'srv stub \<Rightarrow> path \<Rightarrow> bool \<Rightarrow> client \<Rightarrow> 'srv
    \<Rightarrow> (RPCResponse \<times> client \<times> 'srv) option" where
  "CloseFile stub filename release c srv = do {
     c \<leftarrow> wait c;
     case cached c filename of
       None \<Rightarrow>
         (let c = set_errno ENOENT c
          in Some (failing RPCResponse_default c, post c, srv))
     | Some ccv1 \<Rightarrow>
         if \<not> isDirty ccv1 then do {
           c \<leftarrow> (if release then release_entry filename (cached_path ccv1) c else Some c);
           Some (RPCResponse_default\<lparr>r_status := 1\<rparr>, post c, srv)
         }
         else
           (let local_path = cached_path ccv1;
                (fd, c) = on_local (sys_open local_path O_RDONLY 0) c
            in if fd = -1 then Some (failing RPCResponse_default c, post c, srv)
               else
                 (let (sz, c) = on_local (sys_lseek_end fd) c;
                      (_, c) = on_local (sys_lseek_set fd) c;
                      request = (request_for filename)\<lparr>q_fileDescriptor := fileDescriptor ccv1\<rparr>;
                      srv = upload_open stub srv;
                      (res, c, srv) = upload_loop stub fd (size_arg sz) request c srv
                  in case res of
                       Inl reply \<Rightarrow> Some (reply, post c, upload_drop stub srv)
                     | Inr _ \<Rightarrow>
                         (let (r, srv) = upload_finish stub srv;
                              reply = reply_after r RPCResponse_default;
                              (_, c) = on_local (sys_close fd) c
                          in do {
                               c \<leftarrow> (if release then release_entry filename local_path c else Some c);
                               Some (reply\<lparr>r_status := 1\<rparr>, post c, srv)
                             })))
   }"

subsection \<open>RenameFile, CreateFile, DeleteFile\<close>

definition RenameFile :: "'srv stub \<Rightarrow> path \<Rightarrow> path \<Rightarrow> client \<Rightarrow> 'srv
    \<Rightarrow> (RPCResponse \<times> client \<times> 'srv) option" where
  "RenameFile stub oldname newname c srv = do {
     c \<leftarrow> wait c;
     (stop, c) \<leftarrow> (case cached c oldname of
        None \<Rightarrow> Some (False, c)
      | Some _ \<Rightarrow> do {
          c \<leftarrow> in_cache (renameCacheValue oldname newname) c;
          Some (cached c newname = None, c)
        });
     if stop then Some (RPCResponse_default\<lparr>r_status := -1, r_error := EACCES\<rparr>, post c, srv)
     else
       (let (r, srv) = rpc_RenameFile stub ((request_for oldname)\<lparr>q_newfilename := newname\<rparr>) srv;
            reply = reply_after r RPCResponse_default;
            c = (if error_code r = 0 then c else set_errno (r_error reply) c)
        in Some (reply, post c, srv))
   }"

definition CreateFile :: "'srv stub \<Rightarrow> path \<Rightarrow> u32 \<Rightarrow> u32 \<Rightarrow> client \<Rightarrow> 'srv
    \<Rightarrow> (RPCResponse \<times> client \<times> 'srv) option" where
  "CreateFile stub filename flags mode c srv = do {
     c \<leftarrow> wait c;
     let (r, srv) = rpc_CreateFile stub ((request_for filename)\<lparr>q_flags := flags, q_mode := mode\<rparr>) srv;
     case r of
       Inl code \<Rightarrow> Some (RPCResponse_default\<lparr>r_status := -1, r_error := code\<rparr>, post c, srv)
     | Inr reply \<Rightarrow>
         (let (fd, c) = on_local (sys_open (reply_path (fileinfo reply)) creat_flags 511) c
          in if fd < 0 then Some (failing reply c, post c, srv)
             else
               (let (_, c) = on_local (sys_write fd (r_data reply)) c;
                    ccv = ClientCacheValue_new (cache_setFileInfo (fileinfo reply)) False fd;
                    ccv = ccv\<lparr>fileInfo := (fileInfo ccv)\<lparr>c_ino := fi_ino (fileinfo reply)\<rparr>\<rparr>
                in do {
                     c \<leftarrow> in_cache (addCacheValue filename ccv) c;
                     Some (reply\<lparr>r_status := 1, r_file_descriptor := fd\<rparr>, post c, srv)
                   }))
   }"

definition DeleteFile :: "'srv stub \<Rightarrow> path \<Rightarrow> client \<Rightarrow> 'srv
    \<Rightarrow> (RPCResponse \<times> client \<times> 'srv) option" where
  "DeleteFile stub filename c srv = do {
     c \<leftarrow> wait c;
     let (r, srv) = rpc_DeleteFile stub (request_for filename) srv;
     let reply = checked r;
     c \<leftarrow> (case cached c filename of None \<Rightarrow> Some c
          | Some _ \<Rightarrow> in_cache (deleteCacheValue filename) c);
     Some (reply, post (set_errno (r_error reply) c), srv)
   }"

subsection \<open>ReadFile and WriteFile\<close>

text \<open>
  Both return the descriptor of the cache entry; without one they set \<open>errno\<close> and run off the end
  of a function that has a result, which is the inner \<open>None\<close>. The outer \<open>None\<close> of \<open>WriteFile\<close> is a
  block on the semaphore of the cache.
\<close>

definition ReadFile :: "path \<Rightarrow> client \<Rightarrow> int option \<times> client" where
  "ReadFile filename c = (case cached c filename of
     None \<Rightarrow> (None, set_errno ENOENT c)
   | Some ccv1 \<Rightarrow> (Some (fileDescriptor ccv1), c))"

definition WriteFile :: "path \<Rightarrow> client \<Rightarrow> (int option \<times> client) option" where
  "WriteFile filename c = (case cached c filename of
     None \<Rightarrow> Some (None, set_errno ENOENT c)
   | Some ccv1 \<Rightarrow>
       if \<not> isDirty ccv1 then
         (let ccv1 = ccv1\<lparr>isDirty := True\<rparr>;
              c = c\<lparr>diskCache := poke filename ccv1 (diskCache c)\<rparr>
          in map_option (Pair (Some (fileDescriptor ccv1)))
               (in_cache (updateCacheValue filename ccv1) c))
       else Some (Some (fileDescriptor ccv1), c))"

subsection \<open>The operations that only call the server\<close>

text \<open>A unary call whose failure is stored in the reply and whose error becomes \<open>errno\<close>.\<close>

definition forward :: "'srv unary \<Rightarrow> RPCRequest \<Rightarrow> client \<Rightarrow> 'srv \<Rightarrow> RPCResponse \<times> client \<times> 'srv" where
  "forward rpc request c srv =
     (let (r, srv) = rpc request srv; reply = checked r
      in (reply, set_errno (r_error reply) c, srv))"

definition CreateDir :: "'srv stub \<Rightarrow> path \<Rightarrow> u32 \<Rightarrow> client \<Rightarrow> 'srv \<Rightarrow> RPCResponse \<times> client \<times> 'srv" where
  "CreateDir stub dirname mode = forward (rpc_CreateDir stub) ((request_for dirname)\<lparr>q_mode := mode\<rparr>)"

definition RemoveDir :: "'srv stub \<Rightarrow> path \<Rightarrow> client \<Rightarrow> 'srv \<Rightarrow> RPCResponse \<times> client \<times> 'srv" where
  "RemoveDir stub dirname = forward (rpc_RemoveDir stub) ((request_for dirname)\<lparr>q_path := dirname\<rparr>)"

definition OpenDir :: "'srv stub \<Rightarrow> path \<Rightarrow> client \<Rightarrow> 'srv \<Rightarrow> RPCResponse \<times> client \<times> 'srv" where
  "OpenDir stub dirname c srv =
     (let (r, srv) = rpc_OpenDir stub (request_for dirname) srv;
          reply = (case r of Inl code \<Rightarrow> RPCResponse_default\<lparr>r_status := -1\<rparr> | Inr m \<Rightarrow> m)
      in (reply, set_errno (r_error reply) c, srv))"

definition AccessFile :: "'srv stub \<Rightarrow> path \<Rightarrow> u32 \<Rightarrow> client \<Rightarrow> 'srv \<Rightarrow> RPCResponse \<times> client \<times> 'srv" where
  "AccessFile stub filename mode c srv =
     (let (reply, c, srv) = forward (rpc_AccessFile stub) (request_for filename) c srv
      in (reply\<lparr>r_status := 1\<rparr>, c, srv))"

definition client_Statfs :: "'srv stub \<Rightarrow> path \<Rightarrow> client \<Rightarrow> 'srv \<Rightarrow> RPCResponse \<times> client \<times> 'srv" where
  "client_Statfs stub filename c srv =
     (let (r, srv) = rpc_StatFS stub (request_for filename) srv;
          reply = (case r of Inl code \<Rightarrow> RPCResponse_default\<lparr>r_status := - code\<rparr> | Inr m \<Rightarrow> m)
      in (reply, set_errno (r_error reply) c, srv))"

text \<open>
  The callback of \<open>ReadDir\<close> is FUSE's: given a buffer, a name and the inode number and mode of
  the entry it returns the buffer and whether it is full.
\<close>

type_synonym 'buf fill = "'buf \<Rightarrow> string \<Rightarrow> u32 \<Rightarrow> u32 \<Rightarrow> 'buf \<times> bool"

fun readdir_loop :: "RPCDirReply list \<Rightarrow> 'buf fill \<Rightarrow> 'buf \<Rightarrow> RPCDirReply \<Rightarrow> RPCDirReply \<times> bool \<times> 'buf" where
  "readdir_loop [] filler buf reply = (reply, False, buf)"
| "readdir_loop (reply # replies) filler buf _ =
     (if d_status reply = -1 then (reply, True, buf)
      else
        (let (buf, full) = filler buf (takeWhile (\<lambda>ch. ch \<noteq> NUL) (d_dname reply)) (d_dino reply)
                             (push_bit 12 (d_dtype reply AND 255))
         in if full then (reply, False, buf) else readdir_loop replies filler buf reply))"

definition client_ReadDir :: "'srv stub \<Rightarrow> path \<Rightarrow> 'buf \<Rightarrow> 'buf fill \<Rightarrow> client \<Rightarrow> 'srv
    \<Rightarrow> RPCDirReply \<times> 'buf \<times> client \<times> 'srv" where
  "client_ReadDir stub p buf filler c srv =
     (let (replies, srv) = rpc_ReadDir stub (request_for p) srv;
          (reply, early, buf) = readdir_loop replies filler buf (RPCDirReply_default\<lparr>d_error := -1\<rparr>)
      in (reply, buf, if early then c else set_errno (d_error reply) c, srv))"

subsection \<open>The operations that use the local copy\<close>

definition TruncateFile :: "path \<Rightarrow> int \<Rightarrow> client \<Rightarrow> RPCResponse \<times> client" where
  "TruncateFile filename len c = (case cached c filename of
     None \<Rightarrow> (failing RPCResponse_default c, c)
   | Some ccv1 \<Rightarrow>
       (let (trunc_ret, c) = on_local (sys_truncate (cached_path ccv1) len) c
        in if trunc_ret = -1 then (failing RPCResponse_default c, c)
           else (RPCResponse_default\<lparr>r_status := 1\<rparr>, c)))"

definition Chown :: "path \<Rightarrow> u32 \<Rightarrow> u32 \<Rightarrow> client \<Rightarrow> RPCResponse \<times> client" where
  "Chown filename uid gid c = (case cached c filename of
     None \<Rightarrow> (failing RPCResponse_default c, c)
   | Some ccv1 \<Rightarrow>
       (let (trunc_ret, c) = on_local (sys_chown (cached_path ccv1) uid gid) c
        in if trunc_ret = -1 then (failing RPCResponse_default c, c)
           else (RPCResponse_default\<lparr>r_status := 1\<rparr>, c)))"

definition GetAttr :: "'srv stub \<Rightarrow> path \<Rightarrow> client \<Rightarrow> 'srv
    \<Rightarrow> (RPCResponse \<times> client \<times> 'srv) option" where
  "GetAttr stub filename c srv = do {
     c \<leftarrow> wait c;
     let (reply, c, srv) = (case cached c filename of
           None \<Rightarrow> (let (r, srv) = rpc_GetAttr stub (request_for filename) srv in (checked r, c, srv))
         | Some ccv \<Rightarrow>
             (let (_, buf, c) = on_local2 (sys_lstat (cached_path ccv)) c
              in (RPCResponse_default\<lparr>r_fileInfo := Some (setFileInfo buf), r_status := 0\<rparr>, c, srv)));
     Some (reply, post (set_errno (r_error reply) c), srv)
   }"

text \<open>The caller's buffer is \<open>value\<close>; the result carries its contents after the call.\<close>

definition GetXAttr :: "'srv stub \<Rightarrow> path \<Rightarrow> string \<Rightarrow> nat \<Rightarrow> bytes \<Rightarrow> client \<Rightarrow> 'srv
    \<Rightarrow> RPCResponse \<times> bytes \<times> client \<times> 'srv" where
  "GetXAttr stub filename name len value c srv =
     (case cached c filename of
        None \<Rightarrow>
          (let (reply, c, srv) = forward (rpc_GetXAttr stub)
                 ((request_for filename)\<lparr>q_xattr_name := name, q_xattr_size := of_nat len\<rparr>) c srv
           in (reply, value, c, srv))
      | Some ccv \<Rightarrow>
          (let (attrSize, v, c) = on_local2 (sys_getxattr (cached_path ccv) name len) c;
               value = overwrite 0 v value;
               reply = RPCResponse_default\<lparr>r_xattr_value := c_string (local c) value,
                         r_xattr_size := attrSize, r_status := 0, r_error := errno (local c)\<rparr>
           in (reply, value, set_errno (r_error reply) c, srv)))"

text \<open>\<open>struct flock\<close> with its fields converted to the message's, and the local \<open>fcntl\<close>, a parameter.\<close>

definition client_Fcntl :: "'srv stub \<Rightarrow> (int \<Rightarrow> int \<Rightarrow> FileLock \<Rightarrow> fsys \<Rightarrow> int \<times> fsys) \<Rightarrow> path \<Rightarrow> int
    \<Rightarrow> int \<Rightarrow> FileLock \<Rightarrow> client \<Rightarrow> 'srv \<Rightarrow> RPCResponse \<times> client \<times> 'srv" where
  "client_Fcntl stub fcntl filename fh cmd fl c srv =
     (let (reply, c) = (case cached c filename of
            None \<Rightarrow> (RPCResponse_default, c)
          | Some ccv \<Rightarrow>
              (let (ret, c) = on_local (fcntl fh cmd fl) c
               in (if ret = -1 then failing RPCResponse_default c
                   else RPCResponse_default\<lparr>r_status := 0\<rparr>, c)));
          fileLock = \<lparr>l_type = l_type fl, l_whence = l_whence fl, l_start = l_start fl, l_len = 0,
                      l_pid = l_pid fl\<rparr>;
          (r, srv) = rpc_Fcntl stub ((request_for filename)\<lparr>q_filelock := Some fileLock\<rparr>) srv
      in (case r of Inl code \<Rightarrow> reply\<lparr>r_status := code\<rparr> | Inr m \<Rightarrow> m, c, srv))"

text \<open>\<open>chmod\<close> is applied to the file's name, not to its local copy.\<close>

definition client_Chmod :: "'srv stub \<Rightarrow> path \<Rightarrow> u32 \<Rightarrow> client \<Rightarrow> 'srv \<Rightarrow> RPCResponse \<times> client \<times> 'srv" where
  "client_Chmod stub filename mode c srv =
     (let (reply, c) = (case cached c filename of
            None \<Rightarrow> (RPCResponse_default, c)
          | Some ccv \<Rightarrow>
              (let (ret, c) = on_local (sys_chmod filename mode) c
               in (if ret = -1 then failing RPCResponse_default c
                   else RPCResponse_default\<lparr>r_status := 0\<rparr>, c)));
          (r, srv) = rpc_Chmod stub ((request_for filename)\<lparr>q_mode := mode\<rparr>) srv
      in (case r of Inl code \<Rightarrow> reply\<lparr>r_status := code\<rparr> | Inr m \<Rightarrow> m, c, srv))"

text \<open>The constructor: the cache is loaded and the semaphore initialised to one.\<close>

definition wiscAFSClient_new :: "DiskCache \<Rightarrow> fsys \<Rightarrow> client option" where
  "wiscAFSClient_new d s = map_option (\<lambda>d. \<lparr>diskCache = d, clientSem = 1, local = s\<rparr>) (loadCache d)"

end
