(* ===== verification/Client_Facts.thy ===== *)
theory Client_Facts
  imports Client
begin

text \<open>
  What holds of every client operation whatever the server answers and whichever local calls fail:
  it returns, keeps the client well-formed and gives back the semaphores it took. The operations
  with an effect on files are treated in \<open>Client_Service\<close>.
\<close>

subsection \<open>Steady steps\<close>

definition core_ok :: "client \<Rightarrow> bool" where
  "core_ok c \<longleftrightarrow> cache_ok (diskCache c) \<and> fs_ok (local c)"

definition client_ok :: "client \<Rightarrow> bool" where
  "client_ok c \<longleftrightarrow> core_ok c \<and> 0 < clientSem c"

text \<open>A step that keeps the client well-formed and leaves both semaphores where they were.\<close>

definition steady :: "client \<Rightarrow> client \<Rightarrow> bool" where
  "steady c c' \<longleftrightarrow> (core_ok c \<longrightarrow> core_ok c') \<and> clientSem c' = clientSem c \<and>
     semaphore (diskCache c') = semaphore (diskCache c)"

lemma steady_refl [simp]: "steady c c"
  by (simp add: steady_def)

lemma steady_trans [trans]: "steady a b \<Longrightarrow> steady b c \<Longrightarrow> steady a c"
  by (simp add: steady_def)

lemma client_ok_steady: "steady c c' \<Longrightarrow> client_ok c \<Longrightarrow> client_ok c'"
  by (simp add: steady_def client_ok_def)

lemma steady_errno [simp]: "steady c (set_errno e c)"
  by (simp add: steady_def set_errno_def core_ok_def)

lemma set_errno_simps [simp]:
  "cached (set_errno e c) = cached c" "diskCache (set_errno e c) = diskCache c"
  "clientSem (set_errno e c) = clientSem c" "errno (local (set_errno e c)) = e"
  by (simp_all add: set_errno_def cached_def fun_eq_iff)

lemma steady_local: "(fs_ok (local c) \<Longrightarrow> fs_ok s) \<Longrightarrow> steady c (c\<lparr>local := s\<rparr>)"
  by (simp add: steady_def core_ok_def)

lemma steady_on_local:
  assumes "\<And>s. fs_ok s \<Longrightarrow> fs_ok (snd (f s))" "on_local f c = (a, c')"
  shows "steady c c'"
  using assms(2) assms(1) [of "local c"]
  by (auto simp: on_local_def split: prod.splits intro!: steady_local)

lemma steady_on_local2:
  assumes "\<And>s. fs_ok s \<Longrightarrow> fs_ok (snd (snd (f s)))" "on_local2 f c = (a, b, c')"
  shows "steady c c'"
  using assms(2) assms(1) [of "local c"]
  by (auto simp: on_local2_def split: prod.splits intro!: steady_local)

text \<open>The cache operations of a client with a well-formed cache return.\<close>

lemma steady_in_cache:
  assumes "\<exists>e. f (diskCache c) = Some e \<and> cache_ok e"
    and "\<And>d e. f d = Some e \<Longrightarrow> semaphore e = semaphore d"
  shows "\<exists>c'. in_cache f c = Some c' \<and> steady c c'"
  using assms by (fastforce simp: in_cache_def steady_def core_ok_def)

lemma core_ok_cache: "core_ok c \<Longrightarrow> cache_ok (diskCache c)"
  by (simp add: core_ok_def)

lemma cache_steps:
  assumes "core_ok c"
  shows "\<exists>c'. in_cache (addCacheValue k v) c = Some c' \<and> steady c c'"
    "\<exists>c'. in_cache (updateCacheValue k v) c = Some c' \<and> steady c c'"
    "\<exists>c'. in_cache (deleteCacheValue k) c = Some c' \<and> steady c c'"
    "\<exists>c'. in_cache (renameCacheValue k k') c = Some c' \<and> steady c c'"
  using dc.add_law [OF core_ok_cache [OF assms], of k v]
    dc.upd_law [OF core_ok_cache [OF assms], of k v]
    dc.del_law [OF core_ok_cache [OF assms], of k]
    dc.ren_law [OF core_ok_cache [OF assms], of k k']
  by (blast intro: steady_in_cache cache_semaphores)+

lemma steady_poke: "steady c (c\<lparr>diskCache := poke k v (diskCache c)\<rparr>)"
  by (simp add: steady_def core_ok_def) (simp add: poke_def)

lemma steady_core: "steady c c' \<Longrightarrow> core_ok c \<Longrightarrow> core_ok c'"
  by (simp add: steady_def)

lemma steady_poke_update:
  assumes "core_ok c"
  shows "\<exists>c'. in_cache (updateCacheValue k v) (c\<lparr>diskCache := poke k w (diskCache c)\<rparr>) = Some c'
    \<and> steady c c'"
  using cache_steps(2) [OF steady_core [OF steady_poke assms]] steady_trans [OF steady_poke] by blast

subsection \<open>Operations under the semaphore\<close>

text \<open>An operation that, run on a client that may be waited on, returns and gives everything back.\<close>

definition returns :: "('a \<times> client \<times> 'srv) option \<Rightarrow> client \<Rightarrow> bool" where
  "returns out c \<longleftrightarrow> (\<exists>a c' srv'. out = Some (a, c', srv') \<and> steady c c')"

lemma returns_Some: "steady c c' \<Longrightarrow> returns (Some (a, c', srv)) c"
  by (auto simp: returns_def)

lemma wait_ok:
  assumes "client_ok c"
  obtains c1 where "wait c = Some c1" "core_ok c1" "\<forall>c2. steady c1 c2 \<longrightarrow> steady c (post c2)"
proof -
  obtain n where n: "clientSem c = Suc n" using assms by (cases "clientSem c") (auto simp: client_ok_def)
  have w: "wait c = Some (c\<lparr>clientSem := n\<rparr>)" by (simp add: wait_def n sem_simps)
  show thesis
    by (rule that [OF w])
      (use assms n in \<open>auto simp: client_ok_def core_ok_def steady_def post_def sem_simps\<close>)
qed

lemma wait_same:
  "wait c = Some c1 \<Longrightarrow> cached c1 = cached c \<and> local c1 = local c \<and> diskCache c1 = diskCache c"
  by (auto simp: wait_def cached_def fun_eq_iff)

lemma open_first_returns:
  assumes "core_ok c"
  shows "\<exists>fd c'. open_first filename reply c = Some (fd, c') \<and> steady c c'"
proof -
  obtain fd c1 where o: "on_local (sys_open (reply_path (fileinfo reply)) creat_flags 511) c = (fd, c1)"
    by fastforce
  have s: "steady c c1" using o by (rule steady_on_local [rotated]) (rule sys_open_ok)
  note c1 = steady_core [OF s assms]
  have lift: "\<exists>fd' c'. map_option (Pair fd) X = Some (fd', c') \<and> steady c c'"
    if "\<exists>c'. X = Some c' \<and> steady c1 c'" for X
    using that steady_trans [OF s] by auto
  show ?thesis
    using s lift [OF cache_steps(1) [OF c1]] lift [OF steady_poke_update [OF c1]]
    by (cases "fd < 0"; cases "cached c1 filename") (simp_all add: open_first_def o Let_def)
qed

lemma open_loop_returns:
  "core_ok c \<Longrightarrow> \<exists>r c'. open_loop filename replies first fd reply0 c = Some (r, c') \<and> steady c c'"
proof (induction replies arbitrary: first fd reply0 c)
  case (Cons reply replies)
  obtain fd1 c1 where f: "(if first then open_first filename reply c else Some (fd, c)) = Some (fd1, c1)"
    "steady c c1"
    using open_first_returns [OF Cons.prems, of filename reply] by (cases first) auto
  obtain res c2 where w: "on_local (sys_write fd1
      (c_bytes (local c1) (r_data reply) (unat (r_fileSize reply)))) c1 = (res, c2)" by fastforce
  have s2: "steady c1 c2" using w by (rule steady_on_local [rotated]) (rule sys_rw_ok(3))
  note s = steady_trans [OF f(2) s2]
  obtain r c' where "open_loop filename replies False fd1 reply c2 = Some (r, c')" "steady c2 c'"
    using Cons.IH [OF steady_core [OF s Cons.prems]] by blast
  with s f s2 w show ?case
    by (auto simp: Let_def intro: steady_trans)
qed simp

lemma OpenFile_returns:
  assumes "client_ok c"
  shows "returns (OpenFile stub filename flags c srv) c"
proof -
  obtain c1 where w: "wait c = Some c1" "core_ok c1" "\<forall>c2. steady c1 c2 \<longrightarrow> steady c (post c2)"
    using wait_ok [OF assms] .
  note c1 = w(1,2) w(3) [rule_format]
  obtain replies srv' where r: "rpc_OpenFile stub ((request_for filename)\<lparr>q_flags := flags\<rparr>) srv = (replies, srv')"
    by fastforce
  obtain r c2 where "open_loop filename replies True (junk (local c1)) RPCResponse_default c1 = Some (r, c2)"
    "steady c1 c2" using open_loop_returns [OF c1(2)] by blast
  with c1 r show ?thesis by (simp add: OpenFile_def returns_Some)
qed

lemma upload_loop_steady:
  assumes "upload_loop stub fd sz request c srv = (r, c', srv')"
  shows "steady c c'"
  using assms
proof (induction stub fd sz request c srv rule: upload_loop.induct)
  case (1 stub fd sz request c srv)
  obtain k buf s where rd: "sys_read fd (if sz < 1024 then sz else 1024) (local c) = (k, buf, s)"
    by (metis prod_cases3)
  let ?c = "c\<lparr>local := s\<rparr>" and ?rq = "request\<lparr>q_data := buf, q_fileSize := word_of_int k\<rparr>"
  have s: "steady c ?c" using sys_rw_ok(1) rd by (intro steady_local) (metis snd_conv)
  obtain w srv1 where w: "upload_write stub ?rq srv = (w, srv1)" by fastforce
  note IH = 1(1) [OF rd [symmetric] refl refl _ _ refl w [symmetric]]
  show ?case
    using 1(2) s IH
    by (subst (asm) upload_loop.simps) (auto simp: rd w Let_def split: if_splits intro: steady_trans)
qed

lemma release_returns:
  assumes "core_ok c"
  shows "\<exists>c'. (if release then release_entry p lp c else Some c) = Some c' \<and> steady c c'"
proof -
  obtain c1 where c1: "in_cache (deleteCacheValue p) c = Some c1" "steady c c1"
    using cache_steps(3) [OF assms] by blast
  obtain a c2 where u: "on_local (sys_unlink lp) c1 = (a, c2)" by fastforce
  have "steady c1 c2" using u by (rule steady_on_local [rotated]) (rule sys_unlink_ok)
  with c1 u show ?thesis by (auto simp: release_entry_def intro: steady_trans)
qed

lemma steady_sys:
  "on_local (sys_open p fl md) c = (a, c') \<Longrightarrow> steady c c'"
  "on_local (sys_close fd) c = (a, c') \<Longrightarrow> steady c c'"
  "on_local (sys_dup fd) c = (a, c') \<Longrightarrow> steady c c'"
  "on_local (sys_write fd bs) c = (a, c') \<Longrightarrow> steady c c'"
  "on_local (sys_pwrite fd bs off) c = (a, c') \<Longrightarrow> steady c c'"
  "on_local (sys_lseek_end fd) c = (a, c') \<Longrightarrow> steady c c'"
  "on_local (sys_lseek_set fd) c = (a, c') \<Longrightarrow> steady c c'"
  "on_local (sys_truncate p len) c = (a, c') \<Longrightarrow> steady c c'"
  "on_local (sys_chmod p md) c = (a, c') \<Longrightarrow> steady c c'"
  "on_local (sys_chown p u g) c = (a, c') \<Longrightarrow> steady c c'"
  "on_local2 (sys_lstat p) c = (a, st, c') \<Longrightarrow> steady c c'"
  "on_local2 (sys_getxattr p x n) c = (a, v, c') \<Longrightarrow> steady c c'"
  by (auto elim!: steady_on_local [rotated] steady_on_local2 [rotated]
      intro: calls_ok sys_query_ok)

lemma CloseFile_returns:
  assumes "client_ok c"
  shows "returns (CloseFile stub filename release c srv) c"
proof -
  obtain c1 where w: "wait c = Some c1" "core_ok c1" "\<forall>c2. steady c1 c2 \<longrightarrow> steady c (post c2)"
    using wait_ok [OF assms] .
  note c1 = w(1,2) w(3) [rule_format]
  show ?thesis
  proof (cases "cached c1 filename")
    case None
    with c1 show ?thesis by (auto simp: CloseFile_def Let_def intro!: returns_Some c1(3))
  next
    case (Some v)
    show ?thesis
    proof (cases "isDirty v")
      case False
      with Some c1 release_returns [OF c1(2), of release filename "cached_path v"]
      show ?thesis by (auto simp: CloseFile_def intro!: returns_Some c1(3))
    next
      case True
      obtain fd c2 where o: "on_local (sys_open (cached_path v) O_RDONLY 0) c1 = (fd, c2)" by fastforce
      obtain sz c3 where e: "on_local (sys_lseek_end fd) c2 = (sz, c3)" by fastforce
      obtain z c4 where b: "on_local (sys_lseek_set fd) c3 = (z, c4)" by fastforce
      let ?rq = "(request_for filename)\<lparr>q_fileDescriptor := fileDescriptor v\<rparr>"
      obtain res c5 srv5 where u: "upload_loop stub fd (size_arg sz) ?rq c4 (upload_open stub srv)
          = (res, c5, srv5)" by (metis prod_cases3)
      obtain y c6 where cl: "on_local (sys_close fd) c5 = (y, c6)" by fastforce
      obtain r srv6 where f: "upload_finish stub srv5 = (r, srv6)" by fastforce
      have s2: "steady c1 c2" using o by (rule steady_sys)
      have s5: "steady c1 c5"
        using s2 steady_sys(6) [OF e] steady_sys(7) [OF b] upload_loop_steady [OF u]
        by (blast intro: steady_trans)
      have s6: "steady c1 c6" using s5 steady_sys(2) [OF cl] by (rule steady_trans)
      obtain c7 where c7: "(if release then release_entry filename (cached_path v) c6 else Some c6) = Some c7"
        "steady c6 c7" using release_returns [OF steady_core [OF s6 c1(2)]] by blast
      note s7 = steady_trans [OF s6 c7(2)]
      show ?thesis
        using c1 Some True o e b u cl f s2 s5 s7 c7(1)
        by (auto simp: CloseFile_def Let_def split: sum.split intro!: returns_Some c1(3))
    qed
  qed
qed

lemma RenameFile_returns:
  assumes "client_ok c"
  shows "returns (RenameFile stub oldname newname c srv) c"
proof -
  obtain c1 where w: "wait c = Some c1" "core_ok c1" "\<forall>c2. steady c1 c2 \<longrightarrow> steady c (post c2)"
    using wait_ok [OF assms] .
  note c1 = w(1,2) w(3) [rule_format]
  obtain c2 where c2: "in_cache (renameCacheValue oldname newname) c1 = Some c2" "steady c1 c2"
    using cache_steps(4) [OF c1(2)] by blast
  note s = steady_trans [OF c2(2) steady_errno]
  show ?thesis
    using c1 c2 s
    by (cases "cached c1 oldname")
      (auto simp: RenameFile_def Let_def split: prod.split intro!: returns_Some c1(3))
qed

lemma CreateFile_returns:
  assumes "client_ok c"
  shows "returns (CreateFile stub filename flags mode c srv) c"
proof -
  obtain c1 where w: "wait c = Some c1" "core_ok c1" "\<forall>c2. steady c1 c2 \<longrightarrow> steady c (post c2)"
    using wait_ok [OF assms] .
  note c1 = w(1,2) w(3) [rule_format]
  obtain r srv1 where r: "rpc_CreateFile stub ((request_for filename)\<lparr>q_flags := flags, q_mode := mode\<rparr>) srv
      = (r, srv1)" by fastforce
  show ?thesis
  proof (cases r)
    case (Inl code)
    with c1 r show ?thesis by (auto simp: CreateFile_def intro!: returns_Some c1(3))
  next
    case (Inr reply)
    obtain fd c2 where o: "on_local (sys_open (reply_path (fileinfo reply)) creat_flags 511) c1 = (fd, c2)"
      by fastforce
    obtain k c3 where wr: "on_local (sys_write fd (r_data reply)) c2 = (k, c3)" by fastforce
    have s2: "steady c1 c2" using o by (rule steady_sys)
    have s3: "steady c1 c3" using s2 steady_sys(4) [OF wr] by (rule steady_trans)
    let ?v = "(ClientCacheValue_new (cache_setFileInfo (fileinfo reply)) False fd)"
    let ?w = "?v\<lparr>fileInfo := (fileInfo ?v)\<lparr>c_ino := fi_ino (fileinfo reply)\<rparr>\<rparr>"
    obtain c4 where c4: "in_cache (addCacheValue filename ?w) c3 = Some c4" "steady c3 c4"
      using cache_steps(1) [OF steady_core [OF s3 c1(2)]] by blast
    show ?thesis
      using c1 r Inr o wr s2 c4(1) steady_trans [OF s3 c4(2)]
      by (auto simp: CreateFile_def Let_def intro!: returns_Some c1(3))
  qed
qed

lemma DeleteFile_returns:
  assumes "client_ok c"
  shows "returns (DeleteFile stub filename c srv) c"
proof -
  obtain c1 where w: "wait c = Some c1" "core_ok c1" "\<forall>c2. steady c1 c2 \<longrightarrow> steady c (post c2)"
    using wait_ok [OF assms] .
  note c1 = w(1,2) w(3) [rule_format]
  obtain c2 where c2: "in_cache (deleteCacheValue filename) c1 = Some c2" "steady c1 c2"
    using cache_steps(3) [OF c1(2)] by blast
  show ?thesis
    using c1(1) c2 c1(3) [OF steady_errno] c1(3) [OF steady_trans [OF c2(2) steady_errno]]
    by (cases "cached c1 filename")
      (auto simp: DeleteFile_def Let_def split: prod.split intro!: returns_Some)
qed

lemma GetAttr_returns:
  assumes "client_ok c"
  shows "returns (GetAttr stub filename c srv) c"
proof -
  obtain c1 where w: "wait c = Some c1" "core_ok c1" "\<forall>c2. steady c1 c2 \<longrightarrow> steady c (post c2)"
    using wait_ok [OF assms] .
  note c1 = w(1,2) w(3) [rule_format]
  have l: "on_local2 (sys_lstat p) c1 = (a, st, c2) \<Longrightarrow> steady c (post (set_errno e c2))" for p a st c2 e
    by (intro c1(3) steady_trans [OF steady_sys(11) steady_errno])
  show ?thesis
    using c1(1) c1(3) [OF steady_errno] l
    by (cases "cached c1 filename")
      (auto simp: GetAttr_def Let_def split: prod.split intro!: returns_Some)
qed

lemma WriteFile_returns:
  assumes "core_ok c"
  shows "\<exists>r c'. WriteFile filename c = Some (r, c') \<and> steady c c' \<and>
    (cached c filename \<noteq> None \<longrightarrow> r = Some (fileDescriptor (the (cached c filename))))"
proof (cases "cached c filename")
  case None
  then show ?thesis by (simp add: WriteFile_def)
next
  case (Some v)
  then show ?thesis
    using steady_poke_update [OF assms, of filename "v\<lparr>isDirty := True\<rparr>" "v\<lparr>isDirty := True\<rparr>"]
    by (auto simp: WriteFile_def Let_def)
qed

lemma total_steady:
  "forward rpc rq c srv = (a, c', srv') \<Longrightarrow> steady c c'"
  "AccessFile stub p md c srv = (a, c', srv') \<Longrightarrow> steady c c'"
  "OpenDir stub p c srv = (a, c', srv') \<Longrightarrow> steady c c'"
  "client_Statfs stub p c srv = (a, c', srv') \<Longrightarrow> steady c c'"
  "client_ReadDir stub p buf filler c srv = (d, b, c', srv') \<Longrightarrow> steady c c'"
  "TruncateFile p len c = (a, c') \<Longrightarrow> steady c c'"
  "Chown p u g c = (a, c') \<Longrightarrow> steady c c'"
  "client_Chmod stub p md c srv = (a, c', srv') \<Longrightarrow> steady c c'"
  by (auto simp: forward_def AccessFile_def OpenDir_def client_Statfs_def client_ReadDir_def
      TruncateFile_def Chown_def client_Chmod_def Let_def
      split: prod.splits option.splits if_splits intro: steady_sys)

lemma GetXAttr_steady:
  assumes "GetXAttr stub p x n v c srv = (a, w, c', srv')"
  shows "steady c c'"
proof (cases "cached c p")
  case None
  then show ?thesis
    using assms by (auto simp: GetXAttr_def split: prod.splits intro: total_steady)
next
  case (Some e)
  obtain k u c1 where "on_local2 (sys_getxattr (cached_path e) x n) c = (k, u, c1)"
    by (metis prod_cases3)
  with assms Some show ?thesis
    by (auto simp: GetXAttr_def Let_def intro: steady_trans [OF steady_sys(12)])
qed

end
