(* ===== verification/Client_Service.thy ===== *)
theory Client_Service
  imports Client_Facts
begin

text \<open>
  The interface between the client and the file service behind the stub, as a locale: a fetch
  delivers the file in chunks, and an upload of sized requests replaces it by their data. The
  client's open and flush are proved correct against these laws only; the interpretation on the
  handlers of the server, run directly, discharges them.
\<close>

subsection \<open>The contract of the service\<close>

definition open_request :: "path \<Rightarrow> u32 \<Rightarrow> RPCRequest" where
  "open_request p flags = (request_for p)\<lparr>q_flags := flags\<rparr>"

definition plain_flags :: "u32 \<Rightarrow> bool" where
  "plain_flags fl \<longleftrightarrow> can_read fl \<and> \<not> (has_flag fl O_CREAT \<and> has_flag fl O_EXCL) \<and> \<not> has_flag fl O_TRUNC"

locale afs_service =
  fixes stub :: "'srv stub"
    and ok :: "'srv \<Rightarrow> bool"
    and view :: "'srv \<Rightarrow> path \<Rightarrow> bytes option"
    and ino_of :: "'srv \<Rightarrow> path \<Rightarrow> u32"
    and storable :: "'srv \<Rightarrow> path \<Rightarrow> bool"
    and pending :: "'srv \<Rightarrow> RPCRequest list"
  assumes fetch: "ok srv \<Longrightarrow> view srv p = Some d \<Longrightarrow> length d < 2 ^ 31 \<Longrightarrow> plain_flags fl \<Longrightarrow>
      \<exists>fi srv'. rpc_OpenFile stub (open_request p fl) srv
          = (map (chunk_reply (RPCResponse_default\<lparr>r_fileInfo := Some fi\<rparr>)) (fetch_chunks d), srv') \<and>
        ok srv' \<and> view srv' = view srv \<and> storable srv' = storable srv \<and> fi_ino fi = ino_of srv p"
    and start: "ok srv \<Longrightarrow> ok (upload_open stub srv) \<and> view (upload_open stub srv) = view srv \<and>
        storable (upload_open stub srv) = storable srv \<and> pending (upload_open stub srv) = []"
    and send: "ok srv \<Longrightarrow> \<exists>srv'. upload_write stub rq srv = (True, srv') \<and> ok srv' \<and>
        view srv' = view srv \<and> storable srv' = storable srv \<and> pending srv' = pending srv @ [rq]"
    and store: "ok srv \<Longrightarrow> pending srv \<noteq> [] \<Longrightarrow> list_all sized (pending srv) \<Longrightarrow>
        q_filename (hd (pending srv)) = p \<Longrightarrow> storable srv p \<Longrightarrow>
      \<exists>srv'. upload_finish stub srv = (Inr RPCResponse_default, srv') \<and> ok srv' \<and>
        view srv' = (view srv)(p \<mapsto> payload (pending srv), temp_path p := None)"

subsection \<open>Receiving the chunks\<close>

text \<open>What the client's files look like to the operations: contents, directories, descriptors.\<close>

lemma cached_local [simp]: "cached (c\<lparr>local := s\<rparr>) = cached c"
  by (simp add: cached_def fun_eq_iff)

lemma on_local_eq: "f (local c) = (a, s) \<Longrightarrow> on_local f c = (a, c\<lparr>local := s\<rparr>)"
  by (simp add: on_local_def)

lemma chunk_sized:
  "length ch \<le> 1024 \<Longrightarrow> unat (r_fileSize (chunk_reply reply ch)) = length ch"
  by (simp add: unsigned_of_nat take_bit_nat_eq_self)

lemma open_loop_chunks:
  assumes "ready (local c)" "fd_on (local c) fd lp (length e) True True" "file_at (local c) lp = Some e"
    and "list_all (\<lambda>ch. length ch \<le> 1024) chs" "r_error reply = 0" "r_error reply0 = 0"
  shows "\<exists>s last_reply. open_loop filename (map (chunk_reply reply) chs) False fd reply0 c
      = Some (Inr (fd, last_reply), c\<lparr>local := s\<rparr>) \<and> ready s \<and>
    file_at s = (file_at (local c))(lp \<mapsto> e @ concat chs) \<and> is_dir_at s = is_dir_at (local c) \<and>
    fd_on s fd lp (length (e @ concat chs)) True True \<and> fds_but fd (local c) s \<and>
    last_reply = (if chs = [] then reply0 else chunk_reply reply (last chs))"
  using assms
proof (induction chs arbitrary: c e reply0)
  case Nil
  then show ?case by (intro exI [of _ "local c"]) (simp add: fun_upd_idem)
next
  case (Cons ch chs)
  let ?r = "chunk_reply reply ch"
  obtain s where s: "sys_write fd ch (local c) = (int (length ch), s)" "ready s"
    "file_at s = (file_at (local c))(lp \<mapsto> e @ ch)" "fd_on s fd lp (length (e @ ch)) True True"
    "fds_but fd (local c) s" "is_dir_at s = is_dir_at (local c)"
    using sys_write_spec [OF Cons.prems(1-3), of ch] by auto
  have w: "on_local (sys_write fd (c_bytes (local c) (r_data ?r) (unat (r_fileSize ?r)))) c
      = (int (length ch), c\<lparr>local := s\<rparr>)"
    using s(1) Cons.prems(4) chunk_sized [of ch reply] by (intro on_local_eq) simp
  let ?c = "c\<lparr>local := s\<rparr>"
  have c': "ready (local ?c)" "fd_on (local ?c) fd lp (length (e @ ch)) True True"
    "file_at (local ?c) lp = Some (e @ ch)" "list_all (\<lambda>ch. length ch \<le> 1024) chs" "r_error ?r = 0"
    using s Cons.prems(4,5) by simp_all
  obtain t lr where t: "open_loop filename (map (chunk_reply reply) chs) False fd ?r ?c
      = Some (Inr (fd, lr), ?c\<lparr>local := t\<rparr>)" "ready t"
    "file_at t = (file_at (local ?c))(lp \<mapsto> (e @ ch) @ concat chs)" "is_dir_at t = is_dir_at (local ?c)"
    "fd_on t fd lp (length ((e @ ch) @ concat chs)) True True" "fds_but fd (local ?c) t"
    "lr = (if chs = [] then ?r else chunk_reply reply (last chs))"
    using Cons.IH [OF c'(1-4) Cons.prems(5) c'(5)] by blast
  show ?case
    using t s w Cons.prems(5) fds_but_trans [OF s(5), of t]
    by (intro exI [of _ t] exI [of _ lr]) (simp add: Let_def)
qed

subsection \<open>The cache of a client\<close>

lemma cache_add:
  assumes "cache_ok (diskCache c)" "cached c p = None"
  shows "\<exists>d. in_cache (addCacheValue p v) c = Some (c\<lparr>diskCache := d\<rparr>) \<and> cache_ok d \<and>
    semaphore d = semaphore (diskCache c) \<and> (\<forall>q. getCacheValue q d = ((cached c)(p \<mapsto> v)) q)"
proof -
  obtain d where "addCacheValue p v (diskCache c) = Some d" "cache_ok d"
    "\<forall>j. getCacheValue j d = (if j = p \<and> getCacheValue p (diskCache c) = None then Some v
       else getCacheValue j (diskCache c))"
    using dc.add_law [OF assms(1), of p v] by blast
  with assms(2) add_semaphore show ?thesis
    by (intro exI [of _ d]) (auto simp: in_cache_def cached_def)
qed

lemma cache_assign:
  assumes "cache_ok (diskCache c)" "cached c p \<noteq> None"
  shows "\<exists>d. in_cache (updateCacheValue p v) (c\<lparr>diskCache := poke p v (diskCache c)\<rparr>)
      = Some (c\<lparr>diskCache := d\<rparr>) \<and> cache_ok d \<and> semaphore d = semaphore (diskCache c) \<and>
    (\<forall>q. getCacheValue q d = ((cached c)(p \<mapsto> v)) q)"
proof -
  let ?d = "poke p v (diskCache c)"
  have ok: "cache_ok ?d" using assms(1) by simp
  obtain d where d: "updateCacheValue p v ?d = Some d" "cache_ok d"
    "\<forall>j. getCacheValue j d = (if j = p \<and> getCacheValue p ?d \<noteq> None then Some v else getCacheValue j ?d)"
    using dc.upd_law [OF ok, of p v] by blast
  have look: "getCacheValue j ?d = ((cached c)(p \<mapsto> v)) j" for j
    using assms(2) by (simp add: get_poke cached_def)
  have "semaphore d = semaphore (diskCache c)"
    using update_semaphore [OF d(1)] by (simp add: poke_def)
  with d look show ?thesis
    by (intro exI [of _ d]) (simp add: in_cache_def)
qed

subsection \<open>A local copy\<close>

text \<open>The client holds a copy of \<open>p\<close> with contents \<open>d\<close>, open for reading and writing at \<open>fd\<close>.\<close>

definition has_copy :: "client \<Rightarrow> path \<Rightarrow> bytes \<Rightarrow> bool \<Rightarrow> int \<Rightarrow> bool" where
  "has_copy c p d dirty fd \<longleftrightarrow> (\<exists>v off. cached c p = Some v \<and> isDirty v = dirty \<and>
     fileDescriptor v = fd \<and> file_at (local c) (cached_path v) = Some d \<and>
     fd_on (local c) fd (cached_path v) off True True)"

definition client_ready :: "client \<Rightarrow> bool" where
  "client_ready c \<longleftrightarrow> client_ok c \<and> quiet (local c)"

definition core_ready :: "client \<Rightarrow> bool" where
  "core_ready c \<longleftrightarrow> ready (local c) \<and> cache_ok (diskCache c)"

lemma client_ready_parts: "client_ready c \<longleftrightarrow> core_ready c \<and> 0 < clientSem c"
  by (auto simp: client_ready_def client_ok_def core_ok_def core_ready_def ready_def)

lemma client_ready_ok: "client_ready c \<Longrightarrow> client_ok c"
  by (simp add: client_ready_def)

text \<open>Running under the client's semaphore changes nothing that is read.\<close>

lemma wait_ready:
  assumes "client_ready c"
  obtains c1 where "wait c = Some c1" "core_ready c1" "cached c1 = cached c" "local c1 = local c"
    "diskCache c1 = diskCache c" "clientSem c = Suc (clientSem c1)"
proof -
  obtain n where n: "clientSem c = Suc n"
    using assms by (cases "clientSem c") (auto simp: client_ready_parts)
  show thesis
    by (rule that [of "c\<lparr>clientSem := n\<rparr>"])
      (use assms n in \<open>auto simp: wait_def sem_simps client_ready_parts core_ready_def cached_def\<close>)
qed

lemma post_simps [simp]:
  "cached (post c) = cached c" "local (post c) = local c" "diskCache (post c) = diskCache c"
  "clientSem (post c) = Suc (clientSem c)" "client_ready (post c) = core_ready c"
  "has_copy (post c) = has_copy c"
  by (simp_all add: post_def cached_def client_ready_parts core_ready_def sem_simps has_copy_def fun_eq_iff)

text \<open>The path of the local copy of a file with the given inode number.\<close>

definition copy_path :: "u32 \<Rightarrow> path" where
  "copy_path i = client_path @ show_nat (unat i) @ ''.tmp''"

lemma cached_path_copy: "cached_path v = copy_path (c_ino (fileInfo v))"
  by (simp add: cached_path_def cache_path_def copy_path_def)

lemma reply_path_copy: "unat (fi_ino fi) < 2 ^ 31 \<Longrightarrow> reply_path fi = copy_path (fi_ino fi)"
  by (simp add: reply_path_def copy_path_def show_int_def sint_small)

lemma open_first_spec:
  assumes "core_ready c" "unat (fi_ino (fileinfo reply)) < 2 ^ 31"
    and "\<not> is_dir_at (local c) (copy_path (fi_ino (fileinfo reply)))"
  defines "lp \<equiv> copy_path (fi_ino (fileinfo reply))"
  shows "\<exists>fd c'. open_first p reply c = Some (fd, c') \<and> 0 \<le> fd \<and> core_ready c' \<and>
    clientSem c' = clientSem c \<and> file_at (local c') = (file_at (local c))(lp \<mapsto> []) \<and>
    is_dir_at (local c') = is_dir_at (local c) \<and> has_copy c' p [] False fd \<and>
    fd_on (local c') fd lp 0 True True \<and> fds_but fd (local c) (local c') \<and>
    ofile_of (local c) fd = None \<and>
    (\<exists>v. cached c' = (cached c)(p \<mapsto> v) \<and> cached_path v = lp)"
proof -
  let ?fi = "fileinfo reply"
  have ready: "ready (local c)" using assms(1) by (simp add: core_ready_def)
  obtain fd s where s: "sys_open (reply_path ?fi) creat_flags 511 (local c) = (fd, s)" "0 \<le> fd"
    "ready s" "file_at s = (file_at (local c))(lp \<mapsto> [])" "is_dir_at s = is_dir_at (local c)"
    "fd_on s fd lp 0 True True" "ofile_of (local c) fd = None" "fds_but fd (local c) s"
    using sys_open_creat [OF ready, of lp creat_flags 511] assms(2,3)
    by (auto simp: reply_path_copy lp_def)
  let ?c = "c\<lparr>local := s\<rparr>"
  have ok: "cache_ok (diskCache ?c)" and c_same: "cached ?c = cached c"
    using assms(1) by (simp_all add: core_ready_def cached_def fun_eq_iff)
  have "\<exists>v d. open_first p reply c = Some (fd, ?c\<lparr>diskCache := d\<rparr>) \<and> cache_ok d \<and>
      (\<forall>q. getCacheValue q d = ((cached c)(p \<mapsto> v)) q) \<and> isDirty v = False \<and> fileDescriptor v = fd \<and>
      c_ino (fileInfo v) = fi_ino ?fi"
  proof (cases "cached c p")
    case None
    let ?v = "ClientCacheValue_new (cache_setFileInfo ?fi) False fd"
    let ?w = "?v\<lparr>fileInfo := (fileInfo ?v)\<lparr>c_ino := fi_ino ?fi\<rparr>\<rparr>"
    show ?thesis
      using cache_add [OF ok, of p ?w] None c_same s(1,2)
      by (intro exI [of _ ?w]) (auto simp: open_first_def on_local_eq Let_def ClientCacheValue_new_def)
  next
    case (Some u)
    let ?w = "u\<lparr>fileInfo := cache_setFileInfo ?fi, isDirty := False, fileDescriptor := fd\<rparr>"
    show ?thesis
      using cache_assign [OF ok, of p ?w] Some c_same s(1,2)
      by (intro exI [of _ ?w]) (auto simp: open_first_def on_local_eq Let_def)
  qed
  then obtain v d where v: "open_first p reply c = Some (fd, ?c\<lparr>diskCache := d\<rparr>)" "cache_ok d"
    "\<forall>q. getCacheValue q d = ((cached c)(p \<mapsto> v)) q" "\<not> isDirty v" "fileDescriptor v = fd"
    "c_ino (fileInfo v) = fi_ino ?fi" by blast
  have "cached (?c\<lparr>diskCache := d\<rparr>) = (cached c)(p \<mapsto> v)"
    using v(3) by (simp add: cached_def fun_eq_iff)
  then show ?thesis
    using v s assms(1)
    by (intro exI [of _ fd] exI [of _ "?c\<lparr>diskCache := d\<rparr>"])
      (auto simp: core_ready_def has_copy_def cached_path_copy lp_def)
qed

subsection \<open>Sending the chunks\<close>

definition upload_request :: "RPCRequest \<Rightarrow> bytes \<Rightarrow> RPCRequest" where
  "upload_request rq ch = rq\<lparr>q_data := ch, q_fileSize := of_nat (length ch)\<rparr>"

lemma upload_request_simps [simp]:
  "upload_request (rq\<lparr>q_data := x, q_fileSize := y\<rparr>) = upload_request rq"
  "upload_request (upload_request rq x) = upload_request rq"
  "q_data (upload_request rq ch) = ch" "q_filename (upload_request rq ch) = q_filename rq"
  by (simp_all add: upload_request_def fun_eq_iff)

lemma upload_request_sized: "length ch \<le> 1024 \<Longrightarrow> sized (upload_request rq ch)"
  by (simp add: sized_def upload_request_def unsigned_of_nat take_bit_nat_eq_self)

function upload_chunks :: "bytes \<Rightarrow> bytes list" where
  "upload_chunks d = (if d = [] then [] else take 1024 d # upload_chunks (drop 1024 d))"
  by pat_completeness auto
termination by (relation "measure length") auto

declare upload_chunks.simps [simp del]

lemma upload_chunks_facts:
  "concat (upload_chunks d) = d" "upload_chunks d = [] \<longleftrightarrow> d = []"
  "list_all (\<lambda>ch. length ch \<le> 1024) (upload_chunks d)"
proof -
  have "concat (upload_chunks d) = d \<and> (upload_chunks d = [] \<longleftrightarrow> d = []) \<and>
      list_all (\<lambda>ch. length ch \<le> 1024) (upload_chunks d)"
  proof (induction d rule: upload_chunks.induct)
    case (1 d)
    then show ?case by (cases "d = []") (simp_all add: upload_chunks.simps [of d] upload_chunks.simps [of "[]"])
  qed
  then show "concat (upload_chunks d) = d" "upload_chunks d = [] \<longleftrightarrow> d = []"
    "list_all (\<lambda>ch. length ch \<le> 1024) (upload_chunks d)" by simp_all
qed

lemma payload_upload [simp]: "payload (map (upload_request rq) chs) = concat chs"
  by (induction chs) simp_all

context afs_service
begin

lemma upload_loop_sends:
  assumes "ready (local c)" "fd_on (local c) fd lp off True w" "file_at (local c) lp = Some d"
    and "off \<le> length d" "length d < 1024 \<longrightarrow> off = 0 \<or> off = length d" "ok srv"
  shows "\<exists>s srv'. upload_loop stub fd (length d) rq c srv = (Inr (), c\<lparr>local := s\<rparr>, srv') \<and>
    scanned fd lp d w (local c) s \<and> ok srv' \<and> view srv' = view srv \<and> storable srv' = storable srv \<and>
    pending srv' = pending srv @ map (upload_request rq) (upload_chunks (drop off d))"
  using assms
proof (induction "length d - off" arbitrary: off c srv rq rule: less_induct)
  case less
  let ?n = "if length d < 1024 then length d else 1024"
  define bs where bs_def: "bs = take ?n (drop off d)"
  obtain s where s: "sys_read fd ?n (local c) = (int (length bs), bs, s)" "ready s"
    "file_at s = file_at (local c)" "fd_on s fd lp (off + length bs) True w"
    "fds_but fd (local c) s" "is_dir_at s = is_dir_at (local c)" "names s = names (local c)"
    using sys_read_spec [OF less.prems(1-3), of ?n] unfolding bs_def by blast
  let ?c = "c\<lparr>local := s\<rparr>"
  show ?case
  proof (cases "off = length d")
    case True
    then have "upload_loop stub fd (length d) rq c srv = (Inr (), ?c, srv)"
      using s(1) by (subst upload_loop.simps) (simp add: bs_def)
    then show ?thesis
      using s True less.prems(6)
      by (intro exI [of _ s] exI [of _ srv]) (simp add: scanned_def upload_chunks.simps bs_def)
  next
    case False
    with less.prems(4) have lt: "off < length d" by simp
    have bs: "bs = take 1024 (drop off d)" "0 < length bs" "off + length bs \<le> length d"
      using less.prems(5) lt by (auto simp: bs_def)
    let ?rq = "rq\<lparr>q_data := bs, q_fileSize := word_of_int (int (length bs))\<rparr>"
    obtain srv1 where srv1: "upload_write stub ?rq srv = (True, srv1)" "ok srv1" "view srv1 = view srv"
      "storable srv1 = storable srv" "pending srv1 = pending srv @ [?rq]"
      using send [OF less.prems(6)] by blast
    let ?off = "off + length bs"
    have full: "off + length bs = length d" if "length d < 1024"
      using that less.prems(5) lt by (auto simp: bs_def)
    have c': "ready (local ?c)" "fd_on (local ?c) fd lp ?off True w" "file_at (local ?c) lp = Some d"
      "?off \<le> length d" "length d < 1024 \<longrightarrow> ?off = 0 \<or> ?off = length d"
      using s less.prems(3) lt bs(2,3) full by auto
    have dec: "length d - ?off < length d - off" using bs(2,3) by linarith
    obtain t srv' where t: "upload_loop stub fd (length d) ?rq ?c srv1 = (Inr (), ?c\<lparr>local := t\<rparr>, srv')"
      "scanned fd lp d w (local ?c) t" "ok srv'" "view srv' = view srv1" "storable srv' = storable srv1"
      "pending srv' = pending srv1 @ map (upload_request ?rq) (upload_chunks (drop ?off d))"
      using less.hyps [OF dec c'(1-5) srv1(2)] by blast
    have step: "upload_loop stub fd (length d) rq c srv = (Inr (), c\<lparr>local := t\<rparr>, srv')"
      using s(1) srv1(1) t(1) bs(2) by (subst upload_loop.simps) (simp add: Let_def)
    have "upload_chunks (drop off d) = bs # upload_chunks (drop ?off d)"
      using lt bs(1) by (subst upload_chunks.simps) (auto simp: min_def add.commute)
    moreover have "?rq = upload_request rq bs" by (simp add: upload_request_def)
    moreover have "scanned fd lp d w (local c) t"
      using scanned_trans [OF s(3,5,6,7)] t(2) by simp
    ultimately show ?thesis
      using step t srv1 by (intro exI [of _ t] exI [of _ srv']) simp
  qed
qed

subsubsection \<open>Open fetches, close stores\<close>

text \<open>\<open>OpenFile\<close> makes a clean local copy of the server's file and changes nothing on the server.\<close>

lemma open_fetches:
  assumes "client_ready c" "ok srv" "view srv p = Some d" "length d < 2 ^ 31" "plain_flags fl"
    and "unat (ino_of srv p) < 2 ^ 31" "\<not> is_dir_at (local c) (copy_path (ino_of srv p))"
  shows "\<exists>reply c' srv' fd v. OpenFile stub p fl c srv = Some (reply, c', srv') \<and>
    r_status reply = 0 \<and> r_file_descriptor reply = fd \<and> 0 \<le> fd \<and> client_ready c' \<and>
    has_copy c' p d False fd \<and> cached c' = (cached c)(p \<mapsto> v) \<and> cached_path v = copy_path (ino_of srv p) \<and>
    file_at (local c') = (file_at (local c))(copy_path (ino_of srv p) \<mapsto> d) \<and>
    is_dir_at (local c') = is_dir_at (local c) \<and> fds_but fd (local c) (local c') \<and>
    ofile_of (local c) fd = None \<and> ok srv' \<and> view srv' = view srv \<and> storable srv' = storable srv"
proof -
  let ?lp = "copy_path (ino_of srv p)"
  obtain fi srv' where f: "rpc_OpenFile stub (open_request p fl) srv
      = (map (chunk_reply (RPCResponse_default\<lparr>r_fileInfo := Some fi\<rparr>)) (fetch_chunks d), srv')"
    "ok srv'" "view srv' = view srv" "storable srv' = storable srv" "fi_ino fi = ino_of srv p"
    using fetch [OF assms(2-5)] by blast
  let ?reply = "RPCResponse_default\<lparr>r_fileInfo := Some fi\<rparr>"
  obtain ch chs where chs: "fetch_chunks d = ch # chs" using fetch_chunks_facts(2) by (cases "fetch_chunks d") auto
  have sizes: "length ch \<le> 1024" "list_all (\<lambda>ch. length ch \<le> 1024) chs" "ch @ concat chs = d"
    using fetch_chunks_facts(1,3) [of d] by (simp_all add: chs list_all_iff)
  obtain c1 where c1: "wait c = Some c1" "core_ready c1" "cached c1 = cached c" "local c1 = local c"
    "diskCache c1 = diskCache c" "clientSem c = Suc (clientSem c1)"
    using wait_ready [OF assms(1)] .
  obtain fd c2 v where c2: "open_first p (chunk_reply ?reply ch) c1 = Some (fd, c2)" "0 \<le> fd" "core_ready c2"
    "clientSem c2 = clientSem c1" "file_at (local c2) = (file_at (local c))(?lp \<mapsto> [])"
    "is_dir_at (local c2) = is_dir_at (local c)" "has_copy c2 p [] False fd"
    "fd_on (local c2) fd ?lp 0 True True" "fds_but fd (local c) (local c2)" "ofile_of (local c) fd = None"
    "cached c2 = (cached c)(p \<mapsto> v)" "cached_path v = ?lp"
    using open_first_spec [OF c1(2), of "chunk_reply ?reply ch" p] assms(6,7) f(5) c1(3,4)
    by (auto simp: fileinfo_def)
  have c2': "ready (local c2)" "fd_on (local c2) fd ?lp (length []) True True" "file_at (local c2) ?lp = Some []"
    using c2 by (simp_all add: core_ready_def)
  obtain s lr where s: "open_loop p (map (chunk_reply ?reply) (ch # chs)) False fd RPCResponse_default c2
      = Some (Inr (fd, lr), c2\<lparr>local := s\<rparr>)" "ready s"
    "file_at s = (file_at (local c2))(?lp \<mapsto> [] @ concat (ch # chs))" "is_dir_at s = is_dir_at (local c2)"
    "fd_on s fd ?lp (length ([] @ concat (ch # chs))) True True" "fds_but fd (local c2) s"
    "lr = chunk_reply ?reply (last (ch # chs))"
    using open_loop_chunks [OF c2', of "ch # chs" ?reply RPCResponse_default p] sizes
    by (auto simp: RPCResponse_default_def)
  let ?c = "c2\<lparr>local := s\<rparr>"
  have "open_loop p (map (chunk_reply ?reply) (fetch_chunks d)) True (junk (local c1)) RPCResponse_default c1
      = Some (Inr (fd, lr), ?c)"
    using s(1) c2(1,2) by (simp add: chs Let_def)
  then have run: "OpenFile stub p fl c srv = Some (lr\<lparr>r_file_descriptor := fd\<rparr>, post ?c, srv')"
    using c1(1) f(1) by (simp add: OpenFile_def open_request_def)
  have "has_copy ?c p d False fd"
    using c2(7,11,12) s(3,5) sizes(3) by (auto simp: has_copy_def)
  moreover have "cached ?c = (cached c)(p \<mapsto> v)" using c2(11) by simp
  moreover have "core_ready ?c" using c2(3) s(2) by (simp add: core_ready_def)
  moreover have "r_status (lr\<lparr>r_file_descriptor := fd\<rparr>) = 0"
    by (simp add: s(7) chunk_reply_def RPCResponse_default_def)
  ultimately show ?thesis
    using run c2 s(3,4) f(2-4) sizes(3) fds_but_trans [OF c2(9) s(6)] by auto
qed

text \<open>
  \<open>CloseFile\<close> on a dirty, non-empty copy sends it in sized requests, and returns status 1 whatever the
  service replies.
\<close>

lemma close_uploads:
  assumes "client_ready c" "has_copy c p d True fd" "d \<noteq> []" "length d < 2 ^ 63" "ok srv"
  shows "\<exists>g rq c3 c4 srv1 c'. upload_loop stub g (length d) rq c3 (upload_open stub srv) = (Inr (), c4, srv1) \<and>
    ok srv1 \<and> view srv1 = view srv \<and> storable srv1 = storable srv \<and> pending srv1 \<noteq> [] \<and>
    list_all sized (pending srv1) \<and> q_filename (hd (pending srv1)) = p \<and> payload (pending srv1) = d \<and>
    client_ready c' \<and> has_copy c' p d True fd \<and> cached c' = cached c \<and> file_at (local c') = file_at (local c) \<and>
    (\<forall>r srv2. upload_finish stub srv1 = (r, srv2) \<longrightarrow>
       CloseFile stub p False c srv = Some ((reply_after r RPCResponse_default)\<lparr>r_status := 1\<rparr>, c', srv2))"
proof -
  obtain c1 where c1: "wait c = Some c1" "core_ready c1" "cached c1 = cached c" "local c1 = local c"
    "diskCache c1 = diskCache c" "clientSem c = Suc (clientSem c1)"
    using wait_ready [OF assms(1)] .
  obtain v off where v: "cached c p = Some v" "isDirty v" "fileDescriptor v = fd"
    "file_at (local c) (cached_path v) = Some d" "fd_on (local c) fd (cached_path v) off True True"
    using assms(2) by (auto simp: has_copy_def)
  let ?lp = "cached_path v" and ?s = "local c"
  have ready: "ready ?s" using assms(1) by (simp add: client_ready_parts core_ready_def)
  have fl: "\<not> (has_flag O_RDONLY O_CREAT \<and> has_flag O_RDONLY O_EXCL)" "\<not> has_flag O_RDONLY O_TRUNC"
    "can_read O_RDONLY" by (simp_all add: has_flag_def can_read_def)
  obtain g s1 w where s1: "sys_open ?lp O_RDONLY 0 ?s = (g, s1)" "0 \<le> g" "ready s1" "file_at s1 = file_at ?s"
    "fd_on s1 g ?lp 0 True w" "ofile_of ?s g = None" "fds_but g ?s s1" "names s1 = names ?s"
    using sys_open_existing [OF ready v(4) fl(1,2), of 0] fl(3) by auto
  obtain s2 where s2: "sys_lseek_end g s1 = (int (length d), s2)" "ready s2" "file_at s2 = file_at s1"
    "fd_on s2 g ?lp (length d) True w" "fds_but g s1 s2" "names s2 = names s1"
    using sys_lseek_end_spec [OF s1(3,5)] s1(4) v(4) by auto
  obtain s3 where s3: "sys_lseek_set g s2 = (0, s3)" "ready s3" "file_at s3 = file_at s2"
    "fd_on s3 g ?lp 0 True w" "fds_but g s2 s3" "names s3 = names s2"
    using sys_lseek_set_spec [OF s2(2,4)] s1(4) s2(3) v(4) by auto
  let ?c3 = "c1\<lparr>local := s3\<rparr>"
  let ?rq = "(request_for p)\<lparr>q_fileDescriptor := fileDescriptor v\<rparr>"
  let ?srv = "upload_open stub srv"
  note up = start [OF assms(5)]
  have c3: "ready (local ?c3)" "fd_on (local ?c3) g ?lp 0 True w" "file_at (local ?c3) ?lp = Some d"
    using s1(4) s2(3) s3(2-4) v(4) by simp_all
  obtain s4 srv1 where s4: "upload_loop stub g (length d) ?rq ?c3 ?srv = (Inr (), ?c3\<lparr>local := s4\<rparr>, srv1)"
    "scanned g ?lp d w (local ?c3) s4" "ok srv1" "view srv1 = view ?srv" "storable srv1 = storable ?srv"
    "pending srv1 = pending ?srv @ map (upload_request ?rq) (upload_chunks (drop 0 d))"
    using upload_loop_sends [OF c3 _ _ conjunct1 [OF up]] by blast
  have pend: "pending srv1 = map (upload_request ?rq) (upload_chunks d)" using s4(6) up by simp
  have ne: "upload_chunks d \<noteq> []" using upload_chunks_facts(2) assms(3) by simp
  have sent: "list_all sized (pending srv1)" "q_filename (hd (pending srv1)) = p" "pending srv1 \<noteq> []"
    "payload (pending srv1) = d"
    using upload_chunks_facts [of d] ne
    by (auto simp: pend list_all_iff upload_request_sized hd_map request_for_def)
  have g: "ofile_of s4 g \<noteq> None" using s4(2) by (auto simp: scanned_def dest: fd_on_ofile)
  have r4: "ready s4" using s4(2) by (simp add: scanned_def)
  obtain s5 where s5: "sys_close g s4 = (0, s5)" "ready s5" "file_at s5 = file_at s4" "fds_but g s4 s5"
    "ofile_of s5 g = None" "names s5 = names s4"
    using sys_close_spec [OF r4 g] by blast
  let ?c5 = "c1\<lparr>local := s5\<rparr>"
  have len: "size_arg (int (length d)) = length d" using assms(4) by simp
  have run: "CloseFile stub p False c srv = Some ((reply_after r RPCResponse_default)\<lparr>r_status := 1\<rparr>, post ?c5, srv2)"
    if "upload_finish stub srv1 = (r, srv2)" for r srv2
    using c1 v(1,2) s1(1,2) s2(1) s3(1) s4(1) that s5(1) len
    by (simp add: CloseFile_def on_local_eq Let_def)
  have fl5: "file_at s5 = file_at ?s" using s5(3) s4(2) s3(3) s2(3) s1(4) by (simp add: scanned_def)
  have "has_copy ?c5 p d True fd"
  proof -
    have "fd \<noteq> g" using v(5) s1(6) by (auto simp: fd_on_def)
    then have "ofile_of s5 fd = ofile_of ?s fd"
      using s1(7) s2(5) s3(5) s4(2) s5(4) by (simp add: fds_but_def scanned_def)
    moreover have "names s5 = names ?s"
      using s5(6) s4(2) s3(6) s2(6) s1(8) by (simp add: scanned_def)
    ultimately show ?thesis
      using v c1(3) fl5 by (auto simp: has_copy_def fd_on_def)
  qed
  then have "client_ready (post ?c5)" "has_copy (post ?c5) p d True fd" "cached (post ?c5) = cached c"
    "file_at (local (post ?c5)) = file_at (local c)"
    using c1(2,3) s5(2) fl5 by (simp_all add: core_ready_def)
  moreover have "view srv1 = view srv" "storable srv1 = storable srv" using s4(4,5) up by simp_all
  ultimately show ?thesis using s4(1,3) sent run by blast
qed

text \<open>\<open>CloseFile\<close> on a dirty, non-empty copy replaces the server's file by the copy.\<close>

lemma close_stores:
  assumes "client_ready c" "has_copy c p d True fd" "d \<noteq> []" "length d < 2 ^ 63" "ok srv" "storable srv p"
  shows "\<exists>reply c' srv'. CloseFile stub p False c srv = Some (reply, c', srv') \<and>
    r_status reply = 1 \<and> client_ready c' \<and> has_copy c' p d True fd \<and> cached c' = cached c \<and>
    file_at (local c') = file_at (local c) \<and> ok srv' \<and>
    view srv' = (view srv)(p \<mapsto> d, temp_path p := None)"
proof -
  obtain srv1 c' where u: "ok srv1" "view srv1 = view srv" "storable srv1 = storable srv" "pending srv1 \<noteq> []"
    "list_all sized (pending srv1)" "q_filename (hd (pending srv1)) = p" "payload (pending srv1) = d"
    and c': "client_ready c'" "has_copy c' p d True fd" "cached c' = cached c"
      "file_at (local c') = file_at (local c)"
    and run: "\<And>r srv2. upload_finish stub srv1 = (r, srv2) \<Longrightarrow>
      CloseFile stub p False c srv = Some ((reply_after r RPCResponse_default)\<lparr>r_status := 1\<rparr>, c', srv2)"
    using close_uploads [OF assms(1-5)] by blast
  obtain srv2 where "upload_finish stub srv1 = (Inr RPCResponse_default, srv2)" "ok srv2"
    "view srv2 = (view srv1)(p \<mapsto> payload (pending srv1), temp_path p := None)"
    using store [OF u(1,4-6)] assms(6) u(3) by auto
  with run c' u(2,7) show ?thesis by auto
qed

end

end
