(* ===== verification/Direct.thy ===== *)
theory Direct
  imports Client_Service
begin

text \<open>
  The stub that calls the handlers of \<open>wiscAFS_server.cc\<close> directly: a channel that loses nothing.
  The state behind it is the server's file system and the requests of the upload in progress. An
  upload that is dropped half-way ends the server's stream of requests, as a cancelled call does.
  \<open>OpenDir\<close> and \<open>Fcntl\<close> are not implemented by the server, for which gRPC answers code 12.
\<close>

type_synonym server = "fsys \<times> RPCRequest list"

definition handle :: "(RPCRequest \<Rightarrow> fsys \<Rightarrow> 'r \<times> fsys) \<Rightarrow> RPCRequest \<Rightarrow> server \<Rightarrow> 'r \<times> server" where
  "handle h rq srv = (case h rq (fst srv) of (r, s) \<Rightarrow> (r, (s, snd srv)))"

definition handled :: "(RPCRequest \<Rightarrow> fsys \<Rightarrow> RPCResponse \<times> fsys) \<Rightarrow> server unary" where
  "handled h rq srv = (case handle h rq srv of (r, srv) \<Rightarrow> (Inr r, srv))"

text \<open>An exception that leaves a handler is caught by gRPC and sent as code 2, \<open>UNKNOWN\<close>.\<close>

definition guarded :: "(RPCRequest \<Rightarrow> fsys \<Rightarrow> (cpp_exception + RPCResponse) \<times> fsys) \<Rightarrow> server unary" where
  "guarded h rq srv =
     (case handle h rq srv of (Inl _, srv) \<Rightarrow> (Inl 2, srv) | (Inr r, srv) \<Rightarrow> (Inr r, srv))"

definition unimplemented :: "server unary" where
  "unimplemented rq srv = (Inl 12, srv)"

definition direct :: "server stub" where
  "direct = \<lparr>rpc_OpenFile = handle srv_OpenFile,
     upload_open = (\<lambda>srv. (fst srv, [])),
     upload_write = (\<lambda>rq srv. (True, (fst srv, snd srv @ [rq]))),
     upload_finish = (\<lambda>srv. case srv_CloseFile (snd srv) (fst srv) of (r, s) \<Rightarrow> (Inr r, (s, []))),
     upload_drop = (\<lambda>srv. (snd (srv_CloseFile (snd srv) (fst srv)), [])),
     rpc_CreateFile = guarded srv_CreateFile,
     rpc_DeleteFile = handled srv_DeleteFile,
     rpc_RenameFile = handled srv_RenameFile,
     rpc_CreateDir = handled srv_CreateDir,
     rpc_RemoveDir = handled srv_RemoveDir,
     rpc_OpenDir = unimplemented,
     rpc_GetAttr = handled srv_GetAttr,
     rpc_GetXAttr = handled srv_GetXAttr,
     rpc_StatFS = handled srv_StatFS,
     rpc_AccessFile = handled srv_AccessFile,
     rpc_Fcntl = unimplemented,
     rpc_Chmod = handled srv_Chmod,
     rpc_ReadDir = handle srv_ReadDir\<rparr>"

definition direct_ok :: "server \<Rightarrow> bool" where
  "direct_ok srv \<longleftrightarrow> ready (fst srv)"

definition direct_view :: "server \<Rightarrow> path \<Rightarrow> bytes option" where
  "direct_view srv = file_at (fst srv)"

definition direct_ino :: "server \<Rightarrow> path \<Rightarrow> u32" where
  "direct_ino srv = ino_field (fst srv)"

text \<open>Neither the file nor its temporary file is a directory.\<close>

definition direct_storable :: "server \<Rightarrow> path \<Rightarrow> bool" where
  "direct_storable srv p \<longleftrightarrow> \<not> is_dir_at (fst srv) p \<and> \<not> is_dir_at (fst srv) (temp_path p)"

lemmas direct_defs = direct_ok_def direct_view_def direct_ino_def direct_storable_def

interpretation ds: afs_service direct direct_ok direct_view direct_ino direct_storable snd
proof
  fix srv :: server and p d fl
  assume "direct_ok srv" "direct_view srv p = Some d" "length d < 2 ^ 31" "plain_flags fl"
  then obtain fi t where "srv_OpenFile (open_request p fl) (fst srv)
      = (map (chunk_reply (RPCResponse_default\<lparr>r_fileInfo := Some fi\<rparr>)) (fetch_chunks d), t)"
    "ready t" "untouched (fst srv) t" "fi_ino fi = ino_field (fst srv) p"
    using srv_OpenFile_spec [of "fst srv" "open_request p fl" d]
    by (auto simp: direct_defs open_request_def request_for_def plain_flags_def)
  then show "\<exists>fi srv'. rpc_OpenFile direct (open_request p fl) srv
      = (map (chunk_reply (RPCResponse_default\<lparr>r_fileInfo := Some fi\<rparr>)) (fetch_chunks d), srv') \<and>
    direct_ok srv' \<and> direct_view srv' = direct_view srv \<and> direct_storable srv' = direct_storable srv \<and>
    fi_ino fi = direct_ino srv p"
    by (intro exI [of _ fi] exI [of _ "(t, snd srv)"])
      (simp add: direct_def handle_def direct_defs untouched_def fun_eq_iff)
next
  fix srv :: server
  assume "direct_ok srv"
  then show "direct_ok (upload_open direct srv) \<and> direct_view (upload_open direct srv) = direct_view srv \<and>
      direct_storable (upload_open direct srv) = direct_storable srv \<and> snd (upload_open direct srv) = []"
    by (simp add: direct_def direct_defs fun_eq_iff)
next
  fix srv :: server and rq
  assume "direct_ok srv"
  then show "\<exists>srv'. upload_write direct rq srv = (True, srv') \<and> direct_ok srv' \<and>
      direct_view srv' = direct_view srv \<and> direct_storable srv' = direct_storable srv \<and>
      snd srv' = snd srv @ [rq]"
    by (simp add: direct_def direct_defs fun_eq_iff)
next
  fix srv :: server and p
  assume "direct_ok srv" "snd srv \<noteq> []" "list_all sized (snd srv)" "q_filename (hd (snd srv)) = p"
    "direct_storable srv p"
  then obtain t where "srv_CloseFile (snd srv) (fst srv) = (RPCResponse_default, t)" "ready t"
    "file_at t = (file_at (fst srv))(p \<mapsto> payload (snd srv), temp_path p := None)"
    using srv_CloseFile_spec [of "fst srv" "snd srv" p] by (auto simp: direct_defs)
  then show "\<exists>srv'. upload_finish direct srv = (Inr RPCResponse_default, srv') \<and> direct_ok srv' \<and>
      direct_view srv' = (direct_view srv)(p \<mapsto> payload (snd srv), temp_path p := None)"
    by (intro exI [of _ "(t, [])"]) (simp add: direct_def direct_defs)
qed

subsection \<open>Inode numbers\<close>

lemma next_ino_calls [simp]:
  "next_ino (snd (sys_close fd s)) = next_ino s" "next_ino (snd (sys_write fd bs s)) = next_ino s"
  "next_ino (snd (sys_rename p q s)) = next_ino s" "next_ino (snd (sys_unlink p s)) = next_ino s"
  "next_ino (snd (snd (sys_lstat p s))) = next_ino s"
  by (auto simp: sys_close_def sys_write_def write_at_def sys_rename_def sys_unlink_def sys_lstat_def
      take_fault_def fail_def Let_def split: list.split fault.split option.split)

lemma next_ino_open: "next_ino (snd (sys_open p fl md s)) \<le> Suc (next_ino s)"
  by (auto simp: sys_open_def take_fault_def fail_def install_def new_inode_def Let_def
      split: list.split fault.split option.split)

lemma next_ino_close_loop_rest:
  "next_ino (snd (srv_close_loop rqs False fd p tp s)) = next_ino s"
proof (induction rqs arbitrary: s)
  case (Cons rq rqs)
  obtain k u where w: "sys_write fd (c_bytes s (q_data rq) (unat (q_fileSize rq))) s = (k, u)" by fastforce
  have "next_ino u = next_ino s" using next_ino_calls(2) w by (metis snd_conv)
  with w Cons show ?case by (simp add: Let_def)
qed simp

lemma next_ino_close_loop:
  "next_ino (snd (srv_close_loop rqs True fd p tp s)) \<le> Suc (next_ino s)"
proof (cases rqs)
  case (Cons rq rest)
  obtain k st u where l: "sys_lstat (q_filename rq) s = (k, st, u)" by (metis prod_cases3)
  obtain g v where o: "sys_open (temp_path (q_filename rq)) creat_flags 511 u = (g, v)" by fastforce
  have u: "next_ino u = next_ino s" using next_ino_calls(5) l by (metis snd_conv)
  then have v: "next_ino v \<le> Suc (next_ino s)" using next_ino_open o by (metis snd_conv)
  obtain j w where wr: "sys_write g (c_bytes v (q_data rq) (unat (q_fileSize rq))) v = (j, w)" by fastforce
  have "next_ino w = next_ino v" using next_ino_calls(2) wr by (metis snd_conv)
  with u v l o wr Cons show ?thesis
    by (cases "k < -1"; cases "g = -1"; cases "j = -1") (simp_all add: Let_def next_ino_close_loop_rest)
qed simp

lemma next_ino_CloseFile: "next_ino (snd (srv_CloseFile rqs s)) \<le> Suc (next_ino s)"
proof -
  obtain r t where r: "srv_close_loop rqs True (junk s) [] [] s = (r, t)" by fastforce
  then have t: "next_ino t \<le> Suc (next_ino s)" using next_ino_close_loop by (metis snd_conv)
  have "next_ino (snd (sys_rename q p (snd (sys_close fd t)))) = next_ino t" for p q fd by simp
  then have "next_ino u = next_ino t" if "sys_rename q p (snd (sys_close fd t)) = (k, u)" for p q fd k u
    using that by (metis snd_conv)
  with r t show ?thesis
    by (auto simp: srv_CloseFile_def Let_def split: sum.split prod.split)
qed

lemma direct_ino_small:
  assumes "direct_ok srv" "direct_view srv p \<noteq> None" "next_ino (fst srv) \<le> 2 ^ 31"
  shows "unat (direct_ino srv p) < 2 ^ 31"
proof -
  obtain i nd where i: "map_of (names (fst srv)) p = Some i" "inodes (fst srv) i = Some nd"
    using assms(2) by (auto simp: direct_defs file_at_map_of)
  have "i < next_ino (fst srv)"
  proof (rule ccontr)
    assume "\<not> i < next_ino (fst srv)"
    then have "inodes (fst srv) i = None"
      using assms(1) by (auto simp: direct_defs ready_def fs_ok_def)
    with i(2) show False by simp
  qed
  with assms(3) i(1) show ?thesis
    by (simp add: direct_defs ino_field_def unsigned_of_nat take_bit_nat_eq_self)
qed

lemma upload_loop_direct:
  "upload_loop direct fd sz rq c srv = (r, c', srv') \<Longrightarrow> fst srv' = fst srv"
proof (induction "direct" fd sz rq c srv rule: upload_loop.induct)
  case (1 fd sz request c srv)
  obtain k buf s where rd: "sys_read fd (if sz < 1024 then sz else 1024) (local c) = (k, buf, s)"
    by (metis prod_cases3)
  let ?rq = "request\<lparr>q_data := buf, q_fileSize := word_of_int k\<rparr>"
  have w: "upload_write direct ?rq srv = (True, (fst srv, snd srv @ [?rq]))" by (simp add: direct_def)
  note IH = 1(1) [OF rd [symmetric] refl refl _ _ refl w [symmetric]]
  show ?case
    using 1(2) IH by (subst (asm) upload_loop.simps) (auto simp: rd w Let_def split: if_splits)
qed

lemma next_ino_client_CloseFile:
  assumes "CloseFile direct p release c srv = Some (r, c', srv')"
  shows "next_ino (fst srv') \<le> Suc (next_ino (fst srv))"
proof -
  have fin: "next_ino (fst z) \<le> Suc (next_ino (fst x))" if "upload_finish direct x = (y, z)" for x y z
    using next_ino_CloseFile [of "snd x" "fst x"] that
    by (cases "srv_CloseFile (snd x) (fst x)") (auto simp: direct_def)
  have drop: "next_ino (fst (upload_drop direct x)) \<le> Suc (next_ino (fst x))" for x
    using next_ino_CloseFile [of "snd x" "fst x"] by (simp add: direct_def)
  obtain c1 where c1: "wait c = Some c1" using assms by (cases "wait c") (auto simp: CloseFile_def)
  show ?thesis
  proof (cases "cached c1 p")
    case None
    with assms c1 show ?thesis by (auto simp: CloseFile_def Let_def)
  next
    case (Some v)
    obtain fd c2 where o: "on_local (sys_open (cached_path v) O_RDONLY 0) c1 = (fd, c2)" by fastforce
    obtain sz c3 where e: "on_local (sys_lseek_end fd) c2 = (sz, c3)" by fastforce
    obtain k c4 where b: "on_local (sys_lseek_set fd) c3 = (k, c4)" by fastforce
    obtain res c5 srv5 where u: "upload_loop direct fd (size_arg sz)
        ((request_for p)\<lparr>q_fileDescriptor := fileDescriptor v\<rparr>) c4 (upload_open direct srv) = (res, c5, srv5)"
      by (metis prod_cases3)
    obtain y c6 where cl: "on_local (sys_close fd) c5 = (y, c6)" by fastforce
    obtain z srv6 where f: "upload_finish direct srv5 = (z, srv6)" by (metis surj_pair)
    have "fst srv5 = fst srv" using upload_loop_direct [OF u] by (simp add: direct_def)
    then have "next_ino (fst srv6) \<le> Suc (next_ino (fst srv))"
      "next_ino (fst (upload_drop direct srv5)) \<le> Suc (next_ino (fst srv))"
      using fin [OF f] drop [of srv5] by simp_all
    with assms c1 Some o e b u cl f show ?thesis
      by (cases "isDirty v"; cases "fd = -1"; cases res)
        (auto simp: CloseFile_def Let_def bind_eq_Some_conv split: if_splits)
  qed
qed

end
