(* ===== verification/Wisc_Ops.thy ===== *)
theory Wisc_Ops
  imports Direct
begin

text \<open>
  \<open>unreliablefs/wiscAFS_ops.cc\<close>: the FUSE operations of the mounted file system, on top of the
  client. Most of them hold the semaphore \<open>wiscOPSem\<close> while they run. An operation returns \<open>None\<close>
  when it blocks on a semaphore or when a client function runs off its end. The number that
  \<open>fuse_file_info.fh\<close> holds is the descriptor stored in it.
\<close>

record fuse_file_info =
  ffi_flags :: u32
  ffi_fh :: int

record mount =
  opSem :: sem
  afsClient :: client

text \<open>A result, a mount and a server after an operation, if it returns.\<close>

type_synonym ('a, 'srv) outcome = "('a \<times> mount \<times> 'srv) option"

definition lock_ops :: "mount \<Rightarrow> mount option" where
  "lock_ops m = map_option (\<lambda>n. m\<lparr>opSem := n\<rparr>) (sem_wait (opSem m))"

definition unlock_ops :: "mount \<Rightarrow> mount" where
  "unlock_ops m = m\<lparr>opSem := sem_post (opSem m)\<rparr>"

definition kernel_of :: "mount \<Rightarrow> fsys" where
  "kernel_of m = local (afsClient m)"

definition on_kernel :: "(fsys \<Rightarrow> 'a \<times> fsys) \<Rightarrow> mount \<Rightarrow> 'a \<times> mount" where
  "on_kernel f m = (case on_local f (afsClient m) of (a, c) \<Rightarrow> (a, m\<lparr>afsClient := c\<rparr>))"

text \<open>A client operation that may block, one that does not, and one that is local.\<close>

definition via :: "(client \<Rightarrow> 'srv \<Rightarrow> ('a \<times> client \<times> 'srv) option) \<Rightarrow> mount \<Rightarrow> 'srv \<Rightarrow> ('a, 'srv) outcome" where
  "via f m srv = do {
     (a, c, srv) \<leftarrow> f (afsClient m) srv;
     Some (a, m\<lparr>afsClient := c\<rparr>, srv)
   }"

definition total :: "(client \<Rightarrow> 'srv \<Rightarrow> 'a \<times> client \<times> 'srv) \<Rightarrow> client \<Rightarrow> 'srv \<Rightarrow> ('a \<times> client \<times> 'srv) option" where
  "total f c srv = Some (f c srv)"

definition purely :: "(client \<Rightarrow> 'a \<times> client) \<Rightarrow> client \<Rightarrow> 'srv \<Rightarrow> ('a \<times> client \<times> 'srv) option" where
  "purely f c srv = (case f c of (a, c) \<Rightarrow> Some (a, c, srv))"

text \<open>\<open>if (ret.status() == -1) return -ret.error(); return 0;\<close>\<close>

definition status_result :: "RPCResponse \<Rightarrow> int" where
  "status_result ret = (if r_status ret = -1 then - r_error ret else 0)"

text \<open>An operation that waits for the semaphore, calls the client, posts and returns its status.\<close>

definition locked :: "(client \<Rightarrow> 'srv \<Rightarrow> (RPCResponse \<times> client \<times> 'srv) option) \<Rightarrow> mount \<Rightarrow> 'srv
    \<Rightarrow> (RPCResponse, 'srv) outcome" where
  "locked f m srv = do {
     m \<leftarrow> lock_ops m;
     (ret, m, srv) \<leftarrow> via f m srv;
     Some (ret, unlock_ops m, srv)
   }"

definition returning :: "(RPCResponse, 'srv) outcome \<Rightarrow> (int, 'srv) outcome" where
  "returning o' = map_option (map_prod status_result id) o'"

subsection \<open>Attributes\<close>

text \<open>
  The attributes copied out of a reply: \<open>int32\<close> fields are sign-extended, and the nanoseconds the
  message carries become the seconds of the time stamps.
\<close>

definition stat_of_reply :: "FileInfo \<Rightarrow> stat" where
  "stat_of_reply i = \<lparr>st_dev = scast (fi_dev i), st_ino = scast (fi_ino i), st_mode = fi_mode i,
     st_nlink = scast (fi_nlink i), st_uid = fi_uid i, st_gid = fi_gid i, st_rdev = scast (fi_rdev i),
     st_size = fi_size i, st_blksize = fi_blksize i, st_blocks = fi_blocks i,
     st_atim = 0, st_mtim = 0, st_ctim = 0, st_atime = fi_atim i, st_mtime = fi_mtim i,
     st_ctime = fi_ctim i\<rparr>"

definition wiscAFS_getattr :: "'srv stub \<Rightarrow> path \<Rightarrow> mount \<Rightarrow> 'srv \<Rightarrow> (int \<times> stat, 'srv) outcome" where
  "wiscAFS_getattr stub p m srv = do {
     (ret, m, srv) \<leftarrow> locked (GetAttr stub p) m srv;
     Some ((status_result ret, stat_of_reply (fileinfo ret)), m, srv)
   }"

definition wiscAFS_fgetattr :: "'srv stub \<Rightarrow> path \<Rightarrow> fuse_file_info option \<Rightarrow> mount \<Rightarrow> 'srv
    \<Rightarrow> (int \<times> stat, 'srv) outcome" where
  "wiscAFS_fgetattr stub p fi m srv = (case fi of
     None \<Rightarrow> wiscAFS_getattr stub p m srv
   | Some f \<Rightarrow>
       (let ((ret, buf), m) = on_kernel (\<lambda>s. case sys_fstat (ffi_fh f) s of (r, st, s) \<Rightarrow> ((r, st), s)) m
        in Some ((if ret = -1 then - errno (kernel_of m) else 0, buf), m, srv)))"

text \<open>With a null \<open>value\<close> the operation works on a buffer of its own, which nobody reads.\<close>

definition wiscAFS_getxattr :: "'srv stub \<Rightarrow> path \<Rightarrow> string \<Rightarrow> bytes option \<Rightarrow> nat \<Rightarrow> mount \<Rightarrow> 'srv
    \<Rightarrow> (int \<times> bytes option, 'srv) outcome" where
  "wiscAFS_getxattr stub p name value len m srv = do {
     let buf = (case value of None \<Rightarrow> overread (kernel_of m) | Some v \<Rightarrow> v);
     ((ret, buf), m, srv) \<leftarrow> via (total (\<lambda>c srv. case GetXAttr stub p name len buf c srv of
        (ret, buf, c, srv) \<Rightarrow> ((ret, buf), c, srv))) m srv;
     let out = (\<lambda>b. if value = None then None else Some b);
     Some (if r_xattr_size ret < 0 then (- r_error ret, out buf)
           else (0, out (overwrite 0 (c_bytes (kernel_of m) (r_xattr_value ret)
                                        (nat (r_xattr_size ret))) buf)), m, srv)
   }"

definition wiscAFS_chmod :: "'srv stub \<Rightarrow> path \<Rightarrow> u32 \<Rightarrow> mount \<Rightarrow> 'srv \<Rightarrow> (int, 'srv) outcome" where
  "wiscAFS_chmod stub p mode m srv = returning (locked (total (client_Chmod stub p mode)) m srv)"

definition wiscAFS_chown :: "path \<Rightarrow> u32 \<Rightarrow> u32 \<Rightarrow> mount \<Rightarrow> 'srv \<Rightarrow> (int, 'srv) outcome" where
  "wiscAFS_chown p uid gid m srv = returning (locked (purely (Chown p uid gid)) m srv)"

definition wiscAFS_access :: "'srv stub \<Rightarrow> path \<Rightarrow> u32 \<Rightarrow> mount \<Rightarrow> 'srv \<Rightarrow> (int, 'srv) outcome" where
  "wiscAFS_access stub p mode m srv = returning (locked (total (AccessFile stub p mode)) m srv)"

text \<open>The field \<open>f_ffree\<close> is set twice and \<open>f_bfree\<close> not at all.\<close>

definition wiscAFS_statfs :: "'srv stub \<Rightarrow> path \<Rightarrow> statvfs \<Rightarrow> mount \<Rightarrow> 'srv
    \<Rightarrow> (int \<times> statvfs, 'srv) outcome" where
  "wiscAFS_statfs stub p buf m srv = do {
     (ret, m, srv) \<leftarrow> via (total (client_Statfs stub p)) m srv;
     let sf = statfs_of ret;
     let buf = buf\<lparr>f_bsize := sf_bsize sf, f_frsize := sf_frsize sf, f_blocks := ucast (sf_blocks sf),
                   f_ffree := ucast (sf_ffree sf), f_bavail := ucast (sf_bavail sf),
                   f_files := ucast (sf_files sf), f_favail := ucast (sf_favail sf),
                   f_fsid := sf_fsid sf, f_flag := sf_flag sf, f_namemax := sf_namemax sf\<rparr>;
     Some ((if r_status ret = -1 then - errno (kernel_of m) else 0, buf), m, srv)
   }"

subsection \<open>Names\<close>

definition wiscAFS_mkdir :: "'srv stub \<Rightarrow> path \<Rightarrow> u32 \<Rightarrow> mount \<Rightarrow> 'srv \<Rightarrow> (int, 'srv) outcome" where
  "wiscAFS_mkdir stub p mode m srv = returning (via (total (CreateDir stub p mode)) m srv)"

definition wiscAFS_rmdir :: "'srv stub \<Rightarrow> path \<Rightarrow> mount \<Rightarrow> 'srv \<Rightarrow> (int, 'srv) outcome" where
  "wiscAFS_rmdir stub p m srv = returning (via (total (RemoveDir stub p)) m srv)"

definition wiscAFS_unlink :: "'srv stub \<Rightarrow> path \<Rightarrow> mount \<Rightarrow> 'srv \<Rightarrow> (int, 'srv) outcome" where
  "wiscAFS_unlink stub p m srv = returning (locked (DeleteFile stub p) m srv)"

definition wiscAFS_rename :: "'srv stub \<Rightarrow> path \<Rightarrow> path \<Rightarrow> mount \<Rightarrow> 'srv \<Rightarrow> (int, 'srv) outcome" where
  "wiscAFS_rename stub oldname newname m srv = returning (locked (RenameFile stub oldname newname) m srv)"

text \<open>The local variable \<open>dir\<close> stays null.\<close>

definition wiscAFS_opendir :: "'srv stub \<Rightarrow> path \<Rightarrow> fuse_file_info \<Rightarrow> mount \<Rightarrow> 'srv
    \<Rightarrow> (int, 'srv) outcome" where
  "wiscAFS_opendir stub p fi m srv = do {
     (ret, m, srv) \<leftarrow> via (total (OpenDir stub p)) m srv;
     Some (- errno (kernel_of m), m, srv)
   }"

definition wiscAFS_readdir :: "'srv stub \<Rightarrow> path \<Rightarrow> 'buf \<Rightarrow> 'buf fill \<Rightarrow> mount \<Rightarrow> 'srv
    \<Rightarrow> (int \<times> 'buf, 'srv) outcome" where
  "wiscAFS_readdir stub p buf filler m srv = do {
     ((res, buf), m, srv) \<leftarrow> via (total (\<lambda>c srv. case client_ReadDir stub p buf filler c srv of
        (res, buf, c, srv) \<Rightarrow> ((res, buf), c, srv))) m srv;
     Some ((if d_status res = -1 then - d_error res else 0, buf), m, srv)
   }"

subsection \<open>Open files\<close>

definition wiscAFS_open :: "'srv stub \<Rightarrow> path \<Rightarrow> fuse_file_info \<Rightarrow> mount \<Rightarrow> 'srv
    \<Rightarrow> (int \<times> fuse_file_info, 'srv) outcome" where
  "wiscAFS_open stub p fi m srv = do {
     (ret, m, srv) \<leftarrow> locked (OpenFile stub p (ffi_flags fi)) m srv;
     Some (if r_status ret = -1 then (- r_error ret, fi)
           else (0, fi\<lparr>ffi_fh := r_file_descriptor ret\<rparr>), m, srv)
   }"

definition wiscAFS_create :: "'srv stub \<Rightarrow> path \<Rightarrow> u32 \<Rightarrow> fuse_file_info \<Rightarrow> mount \<Rightarrow> 'srv
    \<Rightarrow> (int \<times> fuse_file_info, 'srv) outcome" where
  "wiscAFS_create stub p mode fi m srv = do {
     (ret, m, srv) \<leftarrow> locked (CreateFile stub p (ffi_flags fi) mode) m srv;
     Some (if r_status ret = -1 then (- r_error ret, fi)
           else (0, fi\<lparr>ffi_fh := r_file_descriptor ret\<rparr>), m, srv)
   }"

definition wiscAFS_flush :: "'srv stub \<Rightarrow> path \<Rightarrow> fuse_file_info \<Rightarrow> mount \<Rightarrow> 'srv
    \<Rightarrow> (int, 'srv) outcome" where
  "wiscAFS_flush stub p fi m srv = returning (locked (\<lambda>c srv.
     let (fd, c) = on_local (sys_dup (ffi_fh fi)) c;
         (_, c) = on_local (sys_close fd) c
     in CloseFile stub p False c srv) m srv)"

definition wiscAFS_release :: "fuse_file_info \<Rightarrow> mount \<Rightarrow> 'srv \<Rightarrow> (int, 'srv) outcome" where
  "wiscAFS_release fi m srv = (let (_, m) = on_kernel (sys_close (ffi_fh fi)) m in Some (0, m, srv))"

definition wiscAFS_truncate :: "path \<Rightarrow> int \<Rightarrow> mount \<Rightarrow> 'srv \<Rightarrow> (int, 'srv) outcome" where
  "wiscAFS_truncate p len m srv = returning (locked (purely (TruncateFile p (to_int32 len))) m srv)"

text \<open>
  \<open>read\<close> and \<open>write\<close> do not wait for the semaphore; without a \<open>fuse_file_info\<close> they open the file.
  The first result of \<open>read\<close> is the return value, the second what the buffer received.
\<close>

definition file_descriptor :: "'srv stub \<Rightarrow> path \<Rightarrow> u32 \<Rightarrow> fuse_file_info option \<Rightarrow> mount \<Rightarrow> 'srv
    \<Rightarrow> (int, 'srv) outcome" where
  "file_descriptor stub p flags fi m srv = (case fi of
     None \<Rightarrow> map_option (map_prod r_file_descriptor id) (via (OpenFile stub p flags) m srv)
   | Some f \<Rightarrow> Some (ffi_fh f, m, srv))"

definition close_if_opened :: "fuse_file_info option \<Rightarrow> int \<Rightarrow> mount \<Rightarrow> mount" where
  "close_if_opened fi fd m = (if fi = None then snd (on_kernel (sys_close fd) m) else m)"

definition wiscAFS_read :: "'srv stub \<Rightarrow> path \<Rightarrow> nat \<Rightarrow> nat \<Rightarrow> fuse_file_info option \<Rightarrow> mount \<Rightarrow> 'srv
    \<Rightarrow> (int \<times> bytes, 'srv) outcome" where
  "wiscAFS_read stub p len offset fi m srv = do {
     (fd, m, srv) \<leftarrow> file_descriptor stub p O_RDONLY fi m srv;
     if fd = -1 then
       (let m = unlock_ops m in Some ((- errno (kernel_of m), []), m, srv))
     else
       (let ((k, buf), m) = on_kernel (\<lambda>s. case sys_pread fd len offset s of (k, b, s) \<Rightarrow> ((k, b), s)) m;
            ret = to_int32 k;
            ret = (if ret = -1 then - errno (kernel_of m) else ret)
        in Some ((ret, buf), close_if_opened fi fd m, srv))
   }"

definition wiscAFS_write :: "'srv stub \<Rightarrow> path \<Rightarrow> bytes \<Rightarrow> nat \<Rightarrow> fuse_file_info option \<Rightarrow> mount \<Rightarrow> 'srv
    \<Rightarrow> (int, 'srv) outcome" where
  "wiscAFS_write stub p buf offset fi m srv = do {
     (fd, m, srv) \<leftarrow> file_descriptor stub p O_WRONLY fi m srv;
     if fd = -1 then Some (- errno (kernel_of m), m, srv)
     else do {
       let (k, m) = on_kernel (sys_pwrite fd buf offset) m;
       let ret = to_int32 k;
       let ret = (if ret = -1 then - errno (kernel_of m) else ret);
       (w, c) \<leftarrow> WriteFile p (afsClient m);
       afsRet \<leftarrow> w;
       let m = m\<lparr>afsClient := c\<rparr>;
       if afsRet = -1 then Some (- errno (kernel_of m), m, srv)
       else Some (ret, close_if_opened fi fd m, srv)
     }
   }"

text \<open>\<open>wiscAFS_init\<close>: a new client on a fresh channel, and the semaphore at one.\<close>

definition wiscAFS_init :: "DiskCache \<Rightarrow> fsys \<Rightarrow> mount option" where
  "wiscAFS_init d s = map_option (\<lambda>c. \<lparr>opSem = 1, afsClient = c\<rparr>) (wiscAFSClient_new d s)"

end
