(* ===== verification/Wisc_Facts.thy ===== *)
theory Wisc_Facts
  imports Wisc_Ops
begin

text \<open>
  What the FUSE operations guarantee: they return and give the semaphores back, a write changes the
  local copy only, a read reads it, a flush stores it, an open fetches it.
\<close>

definition mount_ok :: "mount \<Rightarrow> bool" where
  "mount_ok m \<longleftrightarrow> client_ok (afsClient m) \<and> 0 < opSem m"

definition mount_ready :: "mount \<Rightarrow> bool" where
  "mount_ready m \<longleftrightarrow> client_ready (afsClient m) \<and> 0 < opSem m"

lemma mount_ready_ok: "mount_ready m \<Longrightarrow> mount_ok m"
  by (simp add: mount_ready_def mount_ok_def client_ready_ok)

text \<open>The semaphores of a mount: its own, the client's and the cache's.\<close>

definition sems :: "mount \<Rightarrow> sem \<times> sem \<times> sem" where
  "sems m = (opSem m, clientSem (afsClient m), semaphore (diskCache (afsClient m)))"

definition balanced :: "('a, 'srv) outcome \<Rightarrow> mount \<Rightarrow> bool" where
  "balanced out m \<longleftrightarrow> (\<exists>a m' srv'. out = Some (a, m', srv') \<and> mount_ok m' \<and> sems m' = sems m)"

lemma balancedI: "mount_ok m' \<Longrightarrow> sems m' = sems m \<Longrightarrow> balanced (Some (a, m', srv)) m"
  by (simp add: balanced_def)

lemma steady_mount:
  assumes "steady (afsClient m) c" "mount_ok m"
  shows "mount_ok (m\<lparr>afsClient := c\<rparr>)" "sems (m\<lparr>afsClient := c\<rparr>) = sems m"
  using assms by (auto simp: mount_ok_def sems_def steady_def client_ok_def)

lemma locked_balanced:
  assumes "mount_ok m" "returns (f (afsClient m) srv) (afsClient m)"
  shows "balanced (locked f m srv) m"
proof -
  obtain n where n: "opSem m = Suc n" using assms(1) by (cases "opSem m") (auto simp: mount_ok_def)
  obtain a c' srv' where f: "f (afsClient m) srv = Some (a, c', srv')" "steady (afsClient m) c'"
    using assms(2) by (auto simp: returns_def)
  have "locked f m srv = Some (a, m\<lparr>afsClient := c'\<rparr>, srv')"
    using f(1) n by (simp add: locked_def lock_ops_def via_def unlock_ops_def sem_simps)
  then show ?thesis using steady_mount [OF f(2) assms(1)] by (simp add: balanced_def)
qed

lemma via_balanced:
  assumes "mount_ok m" "returns (f (afsClient m) srv) (afsClient m)"
  shows "balanced (via f m srv) m"
  using assms steady_mount by (fastforce simp: returns_def via_def balanced_def)

lemma balanced_returning: "balanced out m \<Longrightarrow> balanced (returning out) m"
  by (auto simp: balanced_def returning_def)

lemma balanced_bind:
  assumes "balanced out m" "\<And>a m' srv'. mount_ok m' \<Longrightarrow> sems m' = sems m \<Longrightarrow> balanced (g (a, m', srv')) m'"
  shows "balanced (out \<bind> g) m"
  using assms by (fastforce simp: balanced_def)

lemma returns_total:
  "(\<And>a c' srv'. f c srv = (a, c', srv') \<Longrightarrow> steady c c') \<Longrightarrow> returns (total f c srv) c"
  by (cases "f c srv") (auto simp: total_def returns_def)

lemma returns_purely:
  "(\<And>a c'. f c = (a, c') \<Longrightarrow> steady c c') \<Longrightarrow> returns (purely f c srv) c"
  by (cases "f c") (auto simp: purely_def returns_def)

lemma mount_client_ok: "mount_ok m \<Longrightarrow> client_ok (afsClient m)"
  by (simp add: mount_ok_def)

text \<open>The operations that hold the semaphore, and those that only call the client.\<close>

lemma locked_ops_balanced:
  assumes "mount_ok m"
  shows "balanced (wiscAFS_getattr stub p m srv) m" "balanced (wiscAFS_unlink stub p m srv) m"
    "balanced (wiscAFS_open stub p fi m srv) m" "balanced (wiscAFS_flush stub p fi m srv) m"
    "balanced (wiscAFS_create stub p mode fi m srv) m" "balanced (wiscAFS_truncate p len m srv) m"
    "balanced (wiscAFS_access stub p mode m srv) m" "balanced (wiscAFS_rename stub p q m srv) m"
    "balanced (wiscAFS_chmod stub p mode m srv) m" "balanced (wiscAFS_chown p uid gid m srv) m"
proof -
  note lock = locked_balanced [OF assms] and ok = mount_client_ok [OF assms]
  have flush: "returns (let (fd, c) = on_local (sys_dup (ffi_fh fi)) (afsClient m);
         (_, c) = on_local (sys_close fd) c in CloseFile stub p False c srv) (afsClient m)"
  proof -
    obtain fd c1 where d: "on_local (sys_dup (ffi_fh fi)) (afsClient m) = (fd, c1)" by fastforce
    obtain k c2 where c: "on_local (sys_close fd) c1 = (k, c2)" by fastforce
    have s: "steady (afsClient m) c2" using steady_sys(3) [OF d] steady_sys(2) [OF c] by (rule steady_trans)
    show ?thesis
      using CloseFile_returns [OF client_ok_steady [OF s ok], of stub p False srv] d c s
      by (auto simp: returns_def intro: steady_trans)
  qed
  show "balanced (wiscAFS_getattr stub p m srv) m" "balanced (wiscAFS_open stub p fi m srv) m"
    "balanced (wiscAFS_create stub p mode fi m srv) m"
    using lock [of "GetAttr stub p", OF GetAttr_returns [OF ok], of srv]
      lock [of "OpenFile stub p (ffi_flags fi)", OF OpenFile_returns [OF ok], of srv]
      lock [of "CreateFile stub p (ffi_flags fi) mode", OF CreateFile_returns [OF ok], of srv]
    by (auto simp: wiscAFS_getattr_def wiscAFS_open_def wiscAFS_create_def balanced_def)
  show "balanced (wiscAFS_unlink stub p m srv) m"
    unfolding wiscAFS_unlink_def by (intro balanced_returning lock DeleteFile_returns ok)
  show "balanced (wiscAFS_rename stub p q m srv) m"
    unfolding wiscAFS_rename_def by (intro balanced_returning lock RenameFile_returns ok)
  show "balanced (wiscAFS_flush stub p fi m srv) m"
    unfolding wiscAFS_flush_def by (intro balanced_returning lock flush)
  show "balanced (wiscAFS_truncate p len m srv) m"
    unfolding wiscAFS_truncate_def
    by (intro balanced_returning lock returns_purely) (rule total_steady)
  show "balanced (wiscAFS_chown p uid gid m srv) m"
    unfolding wiscAFS_chown_def
    by (intro balanced_returning lock returns_purely) (rule total_steady)
  show "balanced (wiscAFS_access stub p mode m srv) m"
    unfolding wiscAFS_access_def
    by (intro balanced_returning lock returns_total) (rule total_steady)
  show "balanced (wiscAFS_chmod stub p mode m srv) m"
    unfolding wiscAFS_chmod_def
    by (intro balanced_returning lock returns_total) (rule total_steady)
qed

lemma unlocked_ops_balanced:
  assumes "mount_ok m"
  shows "balanced (wiscAFS_mkdir stub p mode m srv) m" "balanced (wiscAFS_rmdir stub p m srv) m"
    "balanced (wiscAFS_statfs stub p buf m srv) m" "balanced (wiscAFS_opendir stub p fi m srv) m"
    "balanced (wiscAFS_readdir stub p b filler m srv) m"
    "balanced (wiscAFS_getxattr stub p name value len m srv) m"
proof -
  note via = via_balanced [OF assms]
  show "balanced (wiscAFS_mkdir stub p mode m srv) m"
    unfolding wiscAFS_mkdir_def CreateDir_def
    by (intro balanced_returning via returns_total) (rule total_steady)
  show "balanced (wiscAFS_rmdir stub p m srv) m"
    unfolding wiscAFS_rmdir_def RemoveDir_def
    by (intro balanced_returning via returns_total) (rule total_steady)
  show "balanced (wiscAFS_statfs stub p buf m srv) m"
    unfolding wiscAFS_statfs_def Let_def
    by (rule balanced_bind, intro via returns_total, rule total_steady(4)) (auto intro: balancedI)
  show "balanced (wiscAFS_opendir stub p fi m srv) m"
    unfolding wiscAFS_opendir_def
    by (rule balanced_bind, intro via returns_total, rule total_steady(3)) (auto intro: balancedI)
  show "balanced (wiscAFS_readdir stub p b filler m srv) m"
    unfolding wiscAFS_readdir_def
    by (rule balanced_bind, intro via returns_total)
      (auto split: prod.splits intro: balancedI total_steady(5))
  show "balanced (wiscAFS_getxattr stub p name value len m srv) m"
    unfolding wiscAFS_getxattr_def Let_def
    by (rule balanced_bind, intro via returns_total)
      (auto split: prod.splits intro: balancedI GetXAttr_steady)
qed

subsection \<open>Descriptors\<close>

lemma on_kernel_eq: "f (kernel_of m) = (a, s) \<Longrightarrow>
    on_kernel f m = (a, m\<lparr>afsClient := (afsClient m)\<lparr>local := s\<rparr>\<rparr>)"
  by (simp add: on_kernel_def on_local_def kernel_of_def)

lemma on_kernel_mount:
  assumes "\<And>s. fs_ok s \<Longrightarrow> fs_ok (snd (f s))" "on_kernel f m = (a, m')" "mount_ok m"
  shows "mount_ok m'" "sems m' = sems m"
proof -
  obtain b c where c: "on_local f (afsClient m) = (b, c)" by fastforce
  have "steady (afsClient m) c" using assms(1) c by (rule steady_on_local)
  then show "mount_ok m'" "sems m' = sems m"
    using steady_mount assms(2,3) c by (auto simp: on_kernel_def)
qed

lemma paired_ok:
  "fs_ok s \<Longrightarrow> fs_ok (snd (case sys_pread fd n off s of (k, b, s) \<Rightarrow> ((k, b), s)))"
  "fs_ok s \<Longrightarrow> fs_ok (snd (case sys_fstat fd s of (r, st, s) \<Rightarrow> ((r, st), s)))"
  using sys_rw_ok(2) [of s fd n off] sys_stat_ok(1) [of s fd]
  by (cases "sys_pread fd n off s"; cases "sys_fstat fd s"; simp)+

lemma fd_ops_balanced:
  assumes "mount_ok m"
  shows "balanced (wiscAFS_release fi m srv) m"
    "balanced (wiscAFS_fgetattr stub p fio m srv) m"
    "ffi_fh fi \<noteq> -1 \<Longrightarrow> balanced (wiscAFS_read stub p len off (Some fi) m srv) m"
    "ffi_fh fi \<noteq> -1 \<Longrightarrow> cached (afsClient m) p \<noteq> None \<Longrightarrow>
       balanced (wiscAFS_write stub p buf off (Some fi) m srv) m"
proof -
  show "balanced (wiscAFS_release fi m srv) m"
    using on_kernel_mount [OF sys_close_ok _ assms]
    by (auto simp: wiscAFS_release_def intro: balancedI split: prod.split)
  show "balanced (wiscAFS_fgetattr stub p fio m srv) m"
    using on_kernel_mount [OF paired_ok(2) _ assms] locked_ops_balanced(1) [OF assms]
    by (auto simp: wiscAFS_fgetattr_def Let_def intro: balancedI split: prod.split option.split)
  show "balanced (wiscAFS_read stub p len off (Some fi) m srv) m" if "ffi_fh fi \<noteq> -1"
    using on_kernel_mount [OF paired_ok(1) _ assms] that
    by (auto simp: wiscAFS_read_def file_descriptor_def close_if_opened_def Let_def
        intro!: balancedI split: prod.split)
  show "balanced (wiscAFS_write stub p buf off (Some fi) m srv) m"
    if fd: "ffi_fh fi \<noteq> -1" and inc: "cached (afsClient m) p \<noteq> None"
  proof -
    obtain k m1 where w: "on_kernel (sys_pwrite (ffi_fh fi) buf off) m = (k, m1)" by fastforce
    have m1: "mount_ok m1" "sems m1 = sems m"
      using on_kernel_mount [OF sys_rw_ok(4) w assms] by simp_all
    have same: "cached (afsClient m1) = cached (afsClient m)"
      using w by (auto simp: on_kernel_def on_local_def split: prod.splits)
    obtain r c where r: "WriteFile p (afsClient m1) = Some (Some r, c)" "steady (afsClient m1) c"
      using WriteFile_returns [of "afsClient m1" p] m1(1) inc same
      by (auto simp: mount_ok_def client_ok_def)
    show ?thesis
      using w r(1) fd steady_mount [OF r(2) m1(1)] m1(2)
      by (auto simp: wiscAFS_write_def file_descriptor_def close_if_opened_def Let_def intro!: balancedI)
  qed
qed

text \<open>A \<open>read\<close> on descriptor -1 posts a semaphore it has not waited for.\<close>

lemma read_posts:
  assumes "ffi_fh fi = -1"
  shows "wiscAFS_read stub p len off (Some fi) m srv
    = Some ((- errno (kernel_of m), []), m\<lparr>opSem := Suc (opSem m)\<rparr>, srv)"
  using assms by (simp add: wiscAFS_read_def file_descriptor_def unlock_ops_def kernel_of_def sem_simps)

subsection \<open>Reading and writing the local copy\<close>

definition holds :: "mount \<Rightarrow> path \<Rightarrow> bytes \<Rightarrow> bool \<Rightarrow> int \<Rightarrow> bool" where
  "holds m = has_copy (afsClient m)"

lemma read_copy:
  assumes "mount_ready m" "holds m p d dirty (ffi_fh fi)" "len < 2 ^ 31"
  shows "\<exists>m'. wiscAFS_read stub p len off (Some fi) m srv
      = Some ((int (length (take len (drop off d))), take len (drop off d)), m', srv) \<and>
    mount_ready m' \<and> holds m' p d dirty (ffi_fh fi) \<and> file_at (kernel_of m') = file_at (kernel_of m)"
proof -
  let ?fd = "ffi_fh fi" and ?c = "afsClient m"
  obtain v o' where v: "cached ?c p = Some v" "isDirty v = dirty" "fileDescriptor v = ?fd"
    "file_at (local ?c) (cached_path v) = Some d" "fd_on (local ?c) ?fd (cached_path v) o' True True"
    using assms(2) by (auto simp: holds_def has_copy_def)
  have r: "ready (local ?c)" using assms(1) by (simp add: mount_ready_def client_ready_parts core_ready_def)
  obtain t bs where t: "bs = take len (drop off d)" "sys_pread ?fd len off (local ?c) = (int (length bs), bs, t)"
    "ready t" "file_at t = file_at (local ?c)" "fd_on t ?fd (cached_path v) o' True True"
    using sys_pread_spec [OF r v(5,4)] by blast
  let ?m = "m\<lparr>afsClient := ?c\<lparr>local := t\<rparr>\<rparr>"
  have k: "on_kernel (\<lambda>s. case sys_pread ?fd len off s of (k, b, s) \<Rightarrow> ((k, b), s)) m
      = ((int (length bs), bs), ?m)"
    by (rule on_kernel_eq) (simp add: kernel_of_def t(2))
  have len: "to_int32 (int (length bs)) = int (length bs)"
    using assms(3) t(1) by (intro to_int32_nat) simp
  have "?fd \<noteq> -1" using v(5) by (auto dest: fd_on_ofile)
  then have "wiscAFS_read stub p len off (Some fi) m srv = Some ((int (length bs), bs), ?m, srv)"
    using k len by (simp add: wiscAFS_read_def file_descriptor_def close_if_opened_def)
  moreover have "holds ?m p d dirty ?fd" using v t(4,5) by (auto simp: holds_def has_copy_def)
  moreover have "mount_ready ?m"
    using assms(1) t(3) by (simp add: mount_ready_def client_ready_parts core_ready_def)
  ultimately show ?thesis using t(1,4) by (auto simp: kernel_of_def)
qed

lemma WriteFile_marks:
  assumes "core_ready c" "has_copy c p d dirty fd"
  shows "\<exists>c'. WriteFile p c = Some (Some fd, c') \<and> core_ready c' \<and> has_copy c' p d True fd \<and>
    local c' = local c \<and> clientSem c' = clientSem c"
proof -
  obtain v o' where v: "cached c p = Some v" "isDirty v = dirty" "fileDescriptor v = fd"
    "file_at (local c) (cached_path v) = Some d" "fd_on (local c) fd (cached_path v) o' True True"
    using assms(2) by (auto simp: has_copy_def)
  show ?thesis
  proof (cases dirty)
    case True
    with assms v show ?thesis by (intro exI [of _ c]) (simp add: WriteFile_def)
  next
    case False
    let ?v = "v\<lparr>isDirty := True\<rparr>"
    have ok: "cache_ok (diskCache c)" using assms(1) by (simp add: core_ready_def)
    obtain e where e: "in_cache (updateCacheValue p ?v) (c\<lparr>diskCache := poke p ?v (diskCache c)\<rparr>)
        = Some (c\<lparr>diskCache := e\<rparr>)" "cache_ok e" "\<forall>q. getCacheValue q e = ((cached c)(p \<mapsto> ?v)) q"
      using cache_assign [OF ok, of p ?v] v(1) by auto
    let ?c = "c\<lparr>diskCache := e\<rparr>"
    have "WriteFile p c = Some (Some fd, ?c)" using e(1) v False by (simp add: WriteFile_def)
    moreover have "has_copy ?c p d True fd"
      unfolding has_copy_def using v e(3)
      by (intro exI [of _ ?v] exI [of _ o']) (simp add: cached_def cached_path_def)
    ultimately show ?thesis using assms(1) e(2) by (intro exI [of _ ?c]) (simp add: core_ready_def)
  qed
qed

lemma write_copy:
  assumes "mount_ready m" "holds m p d dirty (ffi_fh fi)" "length buf < 2 ^ 31"
  shows "\<exists>m'. wiscAFS_write stub p buf off (Some fi) m srv = Some (int (length buf), m', srv) \<and>
    mount_ready m' \<and> holds m' p (overwrite off buf d) True (ffi_fh fi) \<and>
    is_dir_at (kernel_of m') = is_dir_at (kernel_of m)"
proof -
  let ?fd = "ffi_fh fi" and ?c = "afsClient m"
  obtain v o' where v: "cached ?c p = Some v" "isDirty v = dirty" "fileDescriptor v = ?fd"
    "file_at (local ?c) (cached_path v) = Some d" "fd_on (local ?c) ?fd (cached_path v) o' True True"
    using assms(2) by (auto simp: holds_def has_copy_def)
  have r: "ready (local ?c)" using assms(1) by (simp add: mount_ready_def client_ready_parts core_ready_def)
  obtain t where t: "sys_pwrite ?fd buf off (local ?c) = (int (length buf), t)" "ready t"
    "file_at t = (file_at (local ?c))(cached_path v \<mapsto> overwrite off buf d)"
    "fd_on t ?fd (cached_path v) o' True True" "is_dir_at t = is_dir_at (local ?c)"
    using sys_pwrite_spec [OF r v(5,4)] by blast
  let ?c1 = "?c\<lparr>local := t\<rparr>"
  have k: "on_kernel (sys_pwrite ?fd buf off) m = (int (length buf), m\<lparr>afsClient := ?c1\<rparr>)"
    by (rule on_kernel_eq) (simp add: kernel_of_def t(1))
  have "core_ready ?c1" "has_copy ?c1 p (overwrite off buf d) dirty ?fd"
    using assms(1) v t by (auto simp: mount_ready_def client_ready_parts core_ready_def has_copy_def)
  then obtain c' where c': "WriteFile p ?c1 = Some (Some ?fd, c')" "core_ready c'"
    "has_copy c' p (overwrite off buf d) True ?fd" "local c' = local ?c1" "clientSem c' = clientSem ?c1"
    using WriteFile_marks by blast
  have "?fd \<noteq> -1" using v(5) by (auto dest: fd_on_ofile)
  then have "wiscAFS_write stub p buf off (Some fi) m srv = Some (int (length buf), m\<lparr>afsClient := c'\<rparr>, srv)"
    using k c'(1) assms(3) by (simp add: wiscAFS_write_def file_descriptor_def close_if_opened_def to_int32_nat)
  then show ?thesis
    using c'(2-5) assms(1) t(5)
    by (auto simp: mount_ready_def client_ready_parts holds_def kernel_of_def)
qed

subsection \<open>Flush and open\<close>

text \<open>\<open>close(dup(fd))\<close> changes nothing that is seen.\<close>

lemma dup_close:
  assumes "ready s" "ofile_of s fd \<noteq> None"
  shows "\<exists>g t u. sys_dup fd s = (g, t) \<and> sys_close g t = (0, u) \<and> ready u \<and> file_at u = file_at s \<and>
    is_dir_at u = is_dir_at s \<and> names u = names s \<and> same_fds s u"
proof -
  obtain f where f: "ofile_of s fd = Some f" using assms(2) by auto
  let ?g = "int (lowest_free (fds s))" and ?t = "set_fd (int (lowest_free (fds s))) (Some f) s"
  have free: "ofile_of s ?g = None" by (simp add: ofile_of_def)
  have d: "sys_dup fd s = (?g, ?t)"
    using assms(1) f by (simp add: sys_dup_def ready_def posix_simps Let_def)
  have t: "ready ?t" "ofile_of ?t ?g \<noteq> None"
    using assms(1) f by (auto simp: ready_def intro!: move_fd_ok)
  obtain u where u: "sys_close ?g ?t = (0, u)" "ready u" "file_at u = file_at ?t" "fds_but ?g ?t u"
    "is_dir_at u = is_dir_at ?t" "names u = names ?t" "ofile_of u ?g = None"
    using sys_close_spec [OF t] by blast
  have "same_fds s u" using same_fds_but [OF _ free u(4,7)] by simp
  with d u show ?thesis by auto
qed

context afs_service
begin

text \<open>A flush sends a dirty, non-empty copy and returns 0 whatever the service replies.\<close>

lemma flush_uploads:
  assumes "mount_ready m" "holds m p d True (ffi_fh fi)" "d \<noteq> []" "length d < 2 ^ 63" "ok srv"
  shows "\<exists>g rq c3 c4 srv1 m'. upload_loop stub g (length d) rq c3 (upload_open stub srv) = (Inr (), c4, srv1) \<and>
    ok srv1 \<and> view srv1 = view srv \<and> storable srv1 = storable srv \<and> pending srv1 \<noteq> [] \<and>
    list_all sized (pending srv1) \<and> q_filename (hd (pending srv1)) = p \<and> payload (pending srv1) = d \<and>
    mount_ready m' \<and> holds m' p d True (ffi_fh fi) \<and>
    (\<forall>r srv2. upload_finish stub srv1 = (r, srv2) \<longrightarrow> wiscAFS_flush stub p fi m srv = Some (0, m', srv2))"
proof -
  let ?c = "afsClient m" and ?fd = "ffi_fh fi"
  obtain v o' where v: "cached ?c p = Some v" "isDirty v" "fileDescriptor v = ?fd"
    "file_at (local ?c) (cached_path v) = Some d" "fd_on (local ?c) ?fd (cached_path v) o' True True"
    using assms(2) by (auto simp: holds_def has_copy_def)
  have r: "ready (local ?c)" using assms(1) by (simp add: mount_ready_def client_ready_parts core_ready_def)
  have fd: "ofile_of (local ?c) ?fd \<noteq> None" using v(5) by (auto dest: fd_on_ofile)
  obtain g t u where u: "sys_dup ?fd (local ?c) = (g, t)" "sys_close g t = (0, u)" "ready u"
    "file_at u = file_at (local ?c)" "names u = names (local ?c)" "same_fds (local ?c) u"
    using dup_close [OF r fd] by blast
  let ?c1 = "?c\<lparr>local := u\<rparr>"
  have "fd_on u ?fd (cached_path v) o' True True" using v(5) u(5,6) by (simp add: fd_on_def same_fds_def)
  then have c1: "client_ready ?c1" "has_copy ?c1 p d True ?fd"
    using assms(1) u(3,4) v
    by (auto simp: mount_ready_def client_ready_parts core_ready_def has_copy_def)
  obtain n where n: "opSem m = Suc n" using assms(1) by (cases "opSem m") (auto simp: mount_ready_def)
  obtain g' rq c3 c4 srv1 c' where up: "upload_loop stub g' (length d) rq c3 (upload_open stub srv) = (Inr (), c4, srv1)"
    "ok srv1" "view srv1 = view srv" "storable srv1 = storable srv" "pending srv1 \<noteq> []"
    "list_all sized (pending srv1)" "q_filename (hd (pending srv1)) = p" "payload (pending srv1) = d"
    and c': "client_ready c'" "has_copy c' p d True ?fd"
    and run: "\<And>r srv2. upload_finish stub srv1 = (r, srv2) \<Longrightarrow>
      CloseFile stub p False ?c1 srv = Some ((reply_after r RPCResponse_default)\<lparr>r_status := 1\<rparr>, c', srv2)"
    using close_uploads [OF c1 assms(3-5)] by blast
  have "wiscAFS_flush stub p fi m srv = Some (0, m\<lparr>afsClient := c'\<rparr>, srv2)"
    if "upload_finish stub srv1 = (r, srv2)" for r srv2
    using u(1,2) run [OF that] n
    by (simp add: wiscAFS_flush_def locked_def lock_ops_def unlock_ops_def via_def sem_simps
        returning_def status_result_def on_local_eq)
  moreover have "mount_ready (m\<lparr>afsClient := c'\<rparr>)" "holds (m\<lparr>afsClient := c'\<rparr>) p d True ?fd"
    using c' n by (auto simp: mount_ready_def holds_def)
  ultimately show ?thesis using up by blast
qed

lemma flush_stores:
  assumes "mount_ready m" "holds m p d True (ffi_fh fi)" "d \<noteq> []" "length d < 2 ^ 63"
    and "ok srv" "storable srv p"
  shows "\<exists>m' srv'. wiscAFS_flush stub p fi m srv = Some (0, m', srv') \<and> mount_ready m' \<and>
    holds m' p d True (ffi_fh fi) \<and> ok srv' \<and> view srv' = (view srv)(p \<mapsto> d, temp_path p := None)"
proof -
  obtain srv1 m' where u: "ok srv1" "view srv1 = view srv" "storable srv1 = storable srv" "pending srv1 \<noteq> []"
    "list_all sized (pending srv1)" "q_filename (hd (pending srv1)) = p" "payload (pending srv1) = d"
    and m': "mount_ready m'" "holds m' p d True (ffi_fh fi)"
    and run: "\<And>r srv2. upload_finish stub srv1 = (r, srv2) \<Longrightarrow> wiscAFS_flush stub p fi m srv = Some (0, m', srv2)"
    using flush_uploads [OF assms(1-5)] by blast
  obtain srv2 where "upload_finish stub srv1 = (Inr RPCResponse_default, srv2)" "ok srv2"
    "view srv2 = (view srv1)(p \<mapsto> payload (pending srv1), temp_path p := None)"
    using store [OF u(1,4-6)] assms(6) u(3) by auto
  with run m' u(2,7) show ?thesis by auto
qed

lemma mount_open_fetches:
  assumes "mount_ready m" "ok srv" "view srv p = Some d" "length d < 2 ^ 31" "plain_flags (ffi_flags fi)"
    and "unat (ino_of srv p) < 2 ^ 31" "\<forall>i. \<not> is_dir_at (kernel_of m) (copy_path i)"
  shows "\<exists>fi' m' srv'. wiscAFS_open stub p fi m srv = Some ((0, fi'), m', srv') \<and> mount_ready m' \<and>
    holds m' p d False (ffi_fh fi') \<and> (\<forall>i. \<not> is_dir_at (kernel_of m') (copy_path i)) \<and>
    ok srv' \<and> view srv' = view srv \<and> storable srv' = storable srv"
proof -
  obtain n where n: "opSem m = Suc n" using assms(1) by (cases "opSem m") (auto simp: mount_ready_def)
  have c: "client_ready (afsClient m)" "\<not> is_dir_at (local (afsClient m)) (copy_path (ino_of srv p))"
    using assms(1,7) by (simp_all add: mount_ready_def kernel_of_def)
  obtain reply c' srv' fd where c': "OpenFile stub p (ffi_flags fi) (afsClient m) srv = Some (reply, c', srv')"
    "r_status reply = 0" "r_file_descriptor reply = fd" "client_ready c'" "has_copy c' p d False fd"
    "is_dir_at (local c') = is_dir_at (local (afsClient m))" "ok srv'" "view srv' = view srv"
    "storable srv' = storable srv"
    using open_fetches [OF c(1) assms(2-6) c(2)] by blast
  have "wiscAFS_open stub p fi m srv = Some ((0, fi\<lparr>ffi_fh := fd\<rparr>), m\<lparr>afsClient := c'\<rparr>, srv')"
    using c'(1-3) n by (simp add: wiscAFS_open_def locked_def lock_ops_def unlock_ops_def via_def sem_simps)
  then show ?thesis
    using c'(4-9) n assms(7)
    by (intro exI [of _ "fi\<lparr>ffi_fh := fd\<rparr>"] exI [of _ "m\<lparr>afsClient := c'\<rparr>"] exI [of _ srv'])
      (auto simp: mount_ready_def holds_def kernel_of_def)
qed

end

lemma next_ino_flush:
  assumes "wiscAFS_flush direct p fi m srv = Some (r, m', srv')"
  shows "next_ino (fst srv') \<le> Suc (next_ino (fst srv))"
proof -
  obtain m1 where m1: "lock_ops m = Some m1"
    using assms by (cases "lock_ops m") (auto simp: wiscAFS_flush_def returning_def locked_def)
  obtain g c1 where d: "on_local (sys_dup (ffi_fh fi)) (afsClient m1) = (g, c1)" by fastforce
  obtain k c2 where c: "on_local (sys_close g) c1 = (k, c2)" by fastforce
  show ?thesis
    using assms m1 d c
    by (auto dest!: next_ino_client_CloseFile simp: wiscAFS_flush_def returning_def locked_def via_def bind_eq_Some_conv)
qed

end
