(* ===== verification/Posix_Samples.thy ===== *)
theory Posix_Samples
  imports Posix_Calls
begin

text \<open>
  Concrete file systems at which the properties are applied: an empty one, one that holds a
  single file, each with a schedule of faults, and one that holds a directory.
\<close>

definition stat0 :: stat where
  "stat0 = \<lparr>st_dev = 0, st_ino = 0, st_mode = 0, st_nlink = 1, st_uid = 0, st_gid = 0, st_rdev = 0,
     st_size = 0, st_blksize = 0, st_blocks = 0, st_atim = 0, st_mtim = 0, st_ctim = 0,
     st_atime = 0, st_mtime = 0, st_ctime = 0\<rparr>"

definition vfs0 :: statvfs where
  "vfs0 = \<lparr>f_bsize = 0, f_frsize = 0, f_blocks = 0, f_bfree = 0, f_bavail = 0, f_files = 0,
     f_ffree = 0, f_favail = 0, f_fsid = 0, f_flag = 0, f_namemax = 0\<rparr>"

definition empty_fs :: "fault list \<Rightarrow> fsys" where
  "empty_fs fs = \<lparr>names = [], inodes = Map.empty, next_ino = 0, fds = [], errno = 0, faults = fs,
     fresh_attr = stat0, xattrs = (\<lambda>_. []), vfs = vfs0, junk = 7, junk_stat = stat0, overread = []\<rparr>"

definition one_file :: "path \<Rightarrow> bytes \<Rightarrow> fault list \<Rightarrow> fsys" where
  "one_file p d fs = (empty_fs fs)\<lparr>names := [(p, 0)], next_ino := 1,
     inodes := [0 \<mapsto> \<lparr>i_isdir = False, i_data = d, i_attr = stat0\<rparr>]\<rparr>"

lemma empty_fs_facts [simp]:
  "fs_ok (empty_fs fs)" "quiet (empty_fs []) " "ready (empty_fs [])" "file_at (empty_fs fs) p = None"
  "\<not> is_dir_at (empty_fs fs) p" "faults (empty_fs fs) = fs" "names (empty_fs fs) = []"
  by (simp_all add: fs_ok_def quiet_def ready_def empty_fs_def file_at_def is_dir_at_def lookup_def)

lemma one_file_facts [simp]:
  "fs_ok (one_file p d fs)" "ready (one_file p d [])" "file_at (one_file p d fs) p = Some d"
  "file_at (one_file p d fs) q = (if q = p then Some d else None)"
  "\<not> is_dir_at (one_file p d fs) q" "faults (one_file p d fs) = fs" "next_ino (one_file p d fs) = 1"
  "map_of (names (one_file p d fs)) q = (if q = p then Some 0 else None)"
  by (auto simp: fs_ok_def quiet_def ready_def one_file_def empty_fs_def file_at_def is_dir_at_def
      lookup_def file_data_def)

definition one_dir :: "path \<Rightarrow> fsys" where
  "one_dir p = (empty_fs [])\<lparr>names := [(p, 0)], next_ino := 1,
     inodes := [0 \<mapsto> \<lparr>i_isdir = True, i_data = [], i_attr = stat0\<rparr>]\<rparr>"

lemma one_dir_facts:
  "ready (one_dir p)" "file_at (one_dir p) q = None" "is_dir_at (one_dir p) q \<longleftrightarrow> q = p"
  by (auto simp: fs_ok_def quiet_def ready_def one_dir_def empty_fs_def file_at_def is_dir_at_def
      lookup_def file_data_def)

end
