(* ===== verification/Samples.thy ===== *)
theory Samples
  imports Wisc_Facts Posix_Samples
begin

text \<open>
  Concrete states at which the properties are applied: uploads, clients and mounts with and without
  a local copy of a file.
\<close>

text \<open>A request of an upload, as the client sends it.\<close>

definition upload_of :: "path \<Rightarrow> bytes \<Rightarrow> RPCRequest" where
  "upload_of p d = upload_request (request_for p) d"

lemma upload_of_facts [simp]:
  "q_filename (upload_of p d) = p" "q_data (upload_of p d) = d"
  "length d \<le> 1024 \<Longrightarrow> sized (upload_of p d)"
  by (simp_all add: upload_of_def request_for_def upload_request_sized)

text \<open>A fresh client and mount, and one that holds an open copy of a file.\<close>

definition empty_cache :: DiskCache where
  "empty_cache = \<lparr>cache = [], cache_file = None, file_opens = True, semaphore = 1\<rparr>"

definition fresh_mount :: mount where
  "fresh_mount = \<lparr>opSem = 1, afsClient = \<lparr>diskCache = empty_cache, clientSem = 1, local = empty_fs []\<rparr>\<rparr>"

definition sample_entry :: "bool \<Rightarrow> ClientCacheValue" where
  "sample_entry dirty = \<lparr>fileInfo = cache_setFileInfo FileInfo_default, isDirty = dirty, fileDescriptor = 0\<rparr>"

definition copy_fs :: "bytes \<Rightarrow> fsys" where
  "copy_fs d = (one_file ''/tmp/afs/0.tmp'' d [])\<lparr>fds := [Some \<lparr>of_ino = 0, of_off = 0, of_r = True, of_w = True\<rparr>]\<rparr>"

definition copy_mount :: "path \<Rightarrow> bytes \<Rightarrow> bool \<Rightarrow> mount" where
  "copy_mount p d dirty = \<lparr>opSem = 1, afsClient = \<lparr>diskCache = empty_cache\<lparr>cache := [(p, sample_entry dirty)]\<rparr>,
     clientSem = 1, local = copy_fs d\<rparr>\<rparr>"

lemma fresh_mount_facts [simp]:
  "mount_ready fresh_mount" "mount_ok fresh_mount" "\<not> is_dir_at (kernel_of fresh_mount) p"
  "client_ready (afsClient fresh_mount)" "client_ok (afsClient fresh_mount)"
  by (simp_all add: mount_ready_def mount_ok_def fresh_mount_def client_ready_parts core_ready_def
      client_ok_def core_ok_def cache_ok_def empty_cache_def kernel_of_def)

lemma show_nat_0: "show_nat 0 = ''0''"
  by code_simp

lemma sample_entry_path: "cached_path (sample_entry dirty) = ''/tmp/afs/0.tmp''"
  by (simp add: cached_path_def cache_path_def sample_entry_def cache_setFileInfo_def
      FileInfo_default_def client_path_def show_nat_0)

lemma sample_entry_simps [simp]:
  "isDirty (sample_entry dirty) = dirty" "fileDescriptor (sample_entry dirty) = 0"
  by (simp_all add: sample_entry_def)

lemma copy_fs_facts [simp]:
  "ready (copy_fs d)" "fs_ok (copy_fs d)" "file_at (copy_fs d) q = (if q = ''/tmp/afs/0.tmp'' then Some d else None)"
  "fd_on (copy_fs d) 0 ''/tmp/afs/0.tmp'' 0 True True" "\<not> is_dir_at (copy_fs d) q"
  by (auto simp: copy_fs_def ready_def quiet_def fs_ok_def one_file_def empty_fs_def fd_on_def ofile_of_def
      slot_def file_at_def lookup_def file_data_def is_dir_at_def)

lemma copy_mount_facts [simp]:
  "mount_ready (copy_mount p d dirty)" "mount_ok (copy_mount p d dirty)"
  "holds (copy_mount p d dirty) p d dirty 0" "cached (afsClient (copy_mount p d dirty)) p \<noteq> None"
  "client_ready (afsClient (copy_mount p d dirty))" "has_copy (afsClient (copy_mount p d dirty)) p d dirty 0"
  by (auto simp: mount_ready_def mount_ok_def copy_mount_def client_ready_parts core_ready_def
      client_ok_def core_ok_def cache_ok_def empty_cache_def kernel_of_def holds_def has_copy_def
      cached_def getCacheValue_def sample_entry_path intro!: exI [of _ 0])

end
