(* ===== verification/Server_Properties.thy ===== *)
theory Server_Properties
  imports Samples
begin

text \<open>
  The properties of the server's handlers, each with the state at which it is applied.
\<close>

text \<open>C6. An upload is atomic under failures. Whatever calls of \<open>CloseFile\<close> fail, in any order and
with any error (none being short), every file other than the target and its temporary file is left
alone, and the target holds its old contents, with status -1, or the complete upload, with status 0.\<close>

theorem upload_atomic:
  assumes "calm s" "fs_ok s" "rqs \<noteq> []" "list_all sized rqs" "q_filename (hd rqs) = p"
    and "\<not> is_dir_at s p" "\<not> is_dir_at s (temp_path p)" "srv_CloseFile rqs s = (reply, t)"
  shows "(\<forall>q. q \<noteq> p \<longrightarrow> q \<noteq> temp_path p \<longrightarrow> file_at t q = file_at s q) \<and>
    (r_status reply = 0 \<and> file_at t p = Some (payload rqs) \<or>
     r_status reply = -1 \<and> file_at t p = file_at s p)"
  using assms by (rule srv_CloseFile_atomic)

text \<open>The second write of an upload of two requests fails: the file keeps its contents.\<close>

theorem upload_atomic_witness:
  defines "s \<equiv> one_file ''/a'' ''old'' [Pass, Pass, Pass, Fail 5]"
  defines "out \<equiv> srv_CloseFile [upload_of ''/a'' ''ne'', upload_of ''/a'' ''w''] s"
  shows "r_status (fst out) = -1 \<and> file_at (snd out) ''/a'' = Some ''old''"
proof -
  have st: "r_status (fst out) = -1" unfolding out_def s_def by code_simp
  have "calm s" by (simp add: s_def calm_def)
  then have "r_status (fst out) = 0 \<and> file_at (snd out) ''/a'' = Some (payload [upload_of ''/a'' ''ne'', upload_of ''/a'' ''w'']) \<or>
     r_status (fst out) = -1 \<and> file_at (snd out) ''/a'' = file_at s ''/a''"
    using upload_atomic [of s "[upload_of ''/a'' ''ne'', upload_of ''/a'' ''w'']" "''/a''" "fst out" "snd out"]
    by (simp add: s_def out_def)
  with st show ?thesis by (simp add: s_def)
qed

text \<open>C7. \<open>OpenFile\<close> streams the whole file. In a quiet kernel a file below 2 GiB opened for
reading is delivered as messages that carry its attributes, at most 1024 bytes each with their exact
length, whose data concatenated are the file; the visible file system and the server's open files are
as before.\<close>

theorem open_streams_file:
  assumes "ready s" "file_at s (q_filename rq) = Some d" "length d < 2 ^ 31" "plain_flags (q_flags rq)"
  shows "\<exists>replies t. srv_OpenFile rq s = (replies, t) \<and> replies \<noteq> [] \<and> concat (map r_data replies) = d \<and>
    (\<forall>r \<in> set replies. length (r_data r) \<le> 1024 \<and> unat (r_fileSize r) = length (r_data r) \<and>
       fi_size (fileinfo r) = of_nat (length d) \<and> fi_ino (fileinfo r) = ino_field s (q_filename rq)) \<and>
    file_at t = file_at s \<and> same_fds s t \<and> ready t"
proof -
  obtain fi t where r: "srv_OpenFile rq s
      = (map (chunk_reply (RPCResponse_default\<lparr>r_fileInfo := Some fi\<rparr>)) (fetch_chunks d), t)"
    "ready t" "untouched s t" "fi_ino fi = ino_field s (q_filename rq)" "fi_size fi = of_nat (length d)"
    using srv_OpenFile_spec [OF assms(1-3)] assms(4) by (auto simp: plain_flags_def)
  moreover have "map r_data (map (chunk_reply x) chs) = chs" for x chs by (induction chs) simp_all
  moreover have "\<forall>c \<in> set (fetch_chunks d). unat (of_nat (length c) :: u64) = length c"
    using fetch_chunks_facts(3) [of d] by (auto simp: unsigned_of_nat intro!: take_bit_nat_eq_self)
  ultimately show ?thesis
    using fetch_chunks_facts [of d] by (auto simp: untouched_def chunk_sized fileinfo_def)
qed

theorem open_streams_file_witness:
  "\<exists>replies t. srv_OpenFile (open_request ''/a'' O_RDONLY) (one_file ''/a'' ''hello'' []) = (replies, t) \<and>
     concat (map r_data replies) = ''hello''"
  using open_streams_file [of "one_file ''/a'' ''hello'' []" "open_request ''/a'' O_RDONLY" "''hello''"]
  by (auto simp: open_request_def request_for_def plain_flags_def can_read_def has_flag_def)

text \<open>C8. \<open>CloseFile\<close> stores the upload. In a quiet kernel a non-empty stream of sized requests
replaces the file by the concatenation of their data; the temporary file is gone, no descriptor is
leaked and the reply's status is 0.\<close>

theorem close_stores_upload:
  assumes "ready s" "rqs \<noteq> []" "list_all sized rqs" "q_filename (hd rqs) = p"
    and "\<not> is_dir_at s p" "\<not> is_dir_at s (temp_path p)"
  shows "\<exists>t. srv_CloseFile rqs s = (RPCResponse_default, t) \<and> ready t \<and>
    file_at t = (file_at s)(p \<mapsto> payload rqs, temp_path p := None) \<and> same_fds s t"
  using srv_CloseFile_spec [OF assms] by blast

theorem close_stores_upload_witness:
  "\<exists>t. srv_CloseFile [upload_of ''/a'' ''ne'', upload_of ''/a'' ''w''] (one_file ''/a'' ''old'' [])
     = (RPCResponse_default, t) \<and> file_at t ''/a'' = Some ''new''"
  using close_stores_upload [of "one_file ''/a'' ''old'' []" "[upload_of ''/a'' ''ne'', upload_of ''/a'' ''w'']" "''/a''"]
  by auto

text \<open>C10. An upload without data is lost. A stream that ends before its first request makes
\<open>CloseFile\<close> rename the empty path to itself, which fails with \<open>ENOENT\<close>; no file changes.\<close>

theorem empty_upload_stores_nothing:
  assumes "ready s" "map_of (names s) [] = None"
  shows "\<exists>t. srv_CloseFile [] s = (failed t, t) \<and> errno t = ENOENT \<and> file_at t = file_at s"
  using srv_CloseFile_empty [OF assms] by blast

theorem empty_upload_stores_nothing_witness:
  "\<exists>t. srv_CloseFile [] (one_file ''/a'' ''old'' []) = (failed t, t) \<and> file_at t ''/a'' = Some ''old''"
  using empty_upload_stores_nothing [of "one_file ''/a'' ''old'' []"] by auto

text \<open>C11. \<open>CreateFile\<close> crashes on large files. For an existing file whose size is negative as an \<open>int\<close>,
from 2 GiB to 4 GiB for instance, \<open>new char[sz]\<close> throws: no file changes, and the descriptor opened for
the request stays open.\<close>

theorem create_crashes_on_large_file:
  assumes "ready s" "file_at s (q_filename rq) = Some d" "2 ^ 31 \<le> length d mod 2 ^ 32"
    and "\<not> (has_flag (q_flags rq) O_CREAT \<and> has_flag (q_flags rq) O_EXCL)" "\<not> has_flag (q_flags rq) O_TRUNC"
  shows "\<exists>fd t. srv_CreateFile rq s = (Inl Bad_array_new_length, t) \<and> file_at t = file_at s \<and>
    ofile_of s fd = None \<and> ofile_of t fd \<noteq> None"
proof -
  let ?p = "q_filename rq"
  obtain fd u where u: "sys_open ?p (q_flags rq) (q_mode rq) s = (fd, u)" "0 \<le> fd" "ready u"
    "file_at u = file_at s" "fd_on u fd ?p 0 (can_read (q_flags rq)) (can_write (q_flags rq))" "ofile_of s fd = None"
    using sys_open_existing [OF assms(1,2,4,5)] by blast
  obtain st where st: "sys_fstat fd u = (0, st, u)"
    using sys_fstat_spec [OF u(3,5)] u(4) assms(2) by auto
  obtain v where v: "sys_lseek_end fd u = (int (length d), v)" "ready v" "file_at v = file_at u"
    "fd_on v fd ?p (length d) (can_read (q_flags rq)) (can_write (q_flags rq))"
    using sys_lseek_end_spec [OF u(3,5)] u(4) assms(2) by auto
  obtain w where w: "sys_lseek_set fd v = (0, w)" "file_at w = file_at v"
    "fd_on w fd ?p 0 (can_read (q_flags rq)) (can_write (q_flags rq))"
    using sys_lseek_set_spec [OF v(2,4)] v(3) u(4) assms(2) by auto
  have "srv_CreateFile rq s = (Inl Bad_array_new_length, w)"
    using u(1,2) st v(1) w(1) assms(3)
    by (simp add: srv_CreateFile_def new_char_array_def to_int32_negative Let_def)
  with u(4,6) v(3) w(2) fd_on_ofile [OF w(3)] show ?thesis by auto
qed

theorem create_crashes_on_large_file_witness:
  "\<exists>fd t. srv_CreateFile ((request_for ''/a'')\<lparr>q_flags := O_RDONLY\<rparr>) (one_file ''/a'' (replicate (2 ^ 31) NUL) [])
     = (Inl Bad_array_new_length, t) \<and> ofile_of t fd \<noteq> None"
  using create_crashes_on_large_file [of "one_file ''/a'' (replicate (2 ^ 31) NUL) []"
      "(request_for ''/a'')\<lparr>q_flags := O_RDONLY\<rparr>" "replicate (2 ^ 31) NUL"]
  by (auto simp: request_for_def has_flag_def)

end
