(* ===== verification/Refinement.thy ===== *)
theory Refinement
  imports Main
begin

text \<open>
  Refinement of an abstract service by an implementation, for sequences of calls: the interface shared
  by the server over its file system and the client's cache over its map.
\<close>

fun run_calls :: "('c \<Rightarrow> 's \<Rightarrow> 'o \<times> 's) \<Rightarrow> 'c list \<Rightarrow> 's \<Rightarrow> 'o list \<times> 's" where
  "run_calls step [] s = ([], s)"
| "run_calls step (c # cs) s =
     (let (a, s) = step c s; (as, s) = run_calls step cs s in (a # as, s))"

fun all_covered :: "('s \<Rightarrow> 'c \<Rightarrow> bool) \<Rightarrow> ('c \<Rightarrow> 's \<Rightarrow> 'o \<times> 's) \<Rightarrow> 's \<Rightarrow> 'c list \<Rightarrow> bool" where
  "all_covered ok step v [] = True"
| "all_covered ok step v (c # cs) = (ok v c \<and> all_covered ok step (snd (step c v)) cs)"

text \<open>An implementation refines a specification when every covered call gives the same answer.\<close>

locale refines =
  fixes impl :: "'c \<Rightarrow> 's \<Rightarrow> 'o \<times> 's"
    and spec :: "'c \<Rightarrow> 'a \<Rightarrow> 'o \<times> 'a"
    and abs :: "'s \<Rightarrow> 'a"
    and good :: "'s \<Rightarrow> bool"
    and ok :: "'a \<Rightarrow> 'c \<Rightarrow> bool"
  assumes sim: "good s \<Longrightarrow> ok (abs s) c \<Longrightarrow>
      \<exists>a t. impl c s = (a, t) \<and> spec c (abs s) = (a, abs t) \<and> good t"
begin

lemma run:
  "good s \<Longrightarrow> all_covered ok spec (abs s) cs \<Longrightarrow>
    \<exists>as t. run_calls impl cs s = (as, t) \<and> run_calls spec cs (abs s) = (as, abs t) \<and> good t"
proof (induction cs arbitrary: s)
  case (Cons c cs)
  then obtain a t where t: "impl c s = (a, t)" "spec c (abs s) = (a, abs t)" "good t"
    using sim [of s c] by auto
  with Cons.IH [of t] Cons.prems(2) show ?case by auto
qed simp

end

end
