(* ===== verification/Vault.thy ===== *)
theory Vault
  imports Server_Facts Refinement
begin

text \<open>
  What the service promises, apart from how the server keeps it: a vault maps paths to files and
  directories, and a call of a client answers and changes the vault. The handlers of
  \<open>wiscAFS_server.cc\<close> implement it.
\<close>

subsection \<open>The abstract service\<close>

datatype entry = Regular bytes | Directory

type_synonym vault = "path \<Rightarrow> entry option"

datatype server_call = Fetch RPCRequest | Store "RPCRequest list" | Rename RPCRequest | Create RPCRequest
  | Delete RPCRequest | Mkdir RPCRequest | Rmdir RPCRequest | Access RPCRequest
  | Attributes RPCRequest | Mode RPCRequest

datatype answer = Contents bytes | Agreed | Refused int | Crashed

definition occupied :: "vault \<Rightarrow> path \<Rightarrow> bool" where
  "occupied v p \<longleftrightarrow> (\<exists>q. prefix (p @ ''/'') q \<and> v q \<noteq> None)"

text \<open>A directory moves with everything below it.\<close>

definition relocate :: "path \<Rightarrow> path \<Rightarrow> vault \<Rightarrow> vault" where
  "relocate a b v q =
     (if q = a \<or> prefix (a @ ''/'') q then None
      else if q = b then v a
      else if prefix (b @ ''/'') q then v (a @ drop (length b) q)
      else v q)"

definition rename_refusal :: "path \<Rightarrow> path \<Rightarrow> vault \<Rightarrow> int option" where
  "rename_refusal a b v =
     (case (v a, v b) of
        (None, _) \<Rightarrow> Some ENOENT
      | (Some Directory, Some (Regular _)) \<Rightarrow> Some ENOTDIR
      | (Some (Regular _), Some Directory) \<Rightarrow> Some EISDIR
      | (Some (Regular _), _) \<Rightarrow> None
      | (Some Directory, Some Directory) \<Rightarrow>
          if occupied v b then Some ENOTEMPTY else if prefix (a @ ''/'') b then Some EINVAL else None
      | (Some Directory, None) \<Rightarrow>
          if occupied v b \<or> prefix (a @ ''/'') b then Some EINVAL else None)"

text \<open>A size that is negative as an \<open>int\<close>.\<close>

definition oversized :: "bytes \<Rightarrow> bool" where
  "oversized d \<longleftrightarrow> 2 ^ 31 \<le> length d mod 2 ^ 32"

fun vault_step :: "server_call \<Rightarrow> vault \<Rightarrow> answer \<times> vault" where
  "vault_step (Fetch rq) v = (case v (q_filename rq) of Some (Regular d) \<Rightarrow> (Contents d, v) | _ \<Rightarrow> (Contents [], v))"
| "vault_step (Store rqs) v =
     (let p = q_filename (hd rqs)
      in if v (temp_path p) = Some Directory then (Refused EISDIR, v)
         else if v p = Some Directory then (Refused EISDIR, v(temp_path p \<mapsto> Regular (payload rqs)))
         else (Agreed, v(p \<mapsto> Regular (payload rqs), temp_path p := None)))"
| "vault_step (Rename rq) v =
     (let a = q_filename rq; b = q_newfilename rq
      in if v a \<noteq> None \<and> a = b then (Agreed, v)
         else (case rename_refusal a b v of
                 Some e \<Rightarrow> (Refused e, v)
               | None \<Rightarrow> (Agreed, if v a = Some Directory then relocate a b v else v(a := None, b := v a))))"
| "vault_step (Create rq) v =
     (let p = q_filename rq; has = has_flag (q_flags rq)
      in case v p of
           None \<Rightarrow> if has O_CREAT then (Agreed, v(p \<mapsto> Regular [])) else (Refused ENOENT, v)
         | Some x \<Rightarrow>
             if has O_CREAT \<and> has O_EXCL then (Refused EEXIST, v)
             else (case x of
                 Directory \<Rightarrow>
                   if can_write (q_flags rq) \<or> has O_CREAT \<or> has O_TRUNC then (Refused EISDIR, v) else (Agreed, v)
               | Regular d \<Rightarrow>
                   if has O_TRUNC then (Agreed, v(p \<mapsto> Regular []))
                   else (if oversized d then Crashed else Agreed, v)))"
| "vault_step (Delete rq) v =
     (case v (q_filename rq) of
        None \<Rightarrow> (Refused ENOENT, v)
      | Some Directory \<Rightarrow> (Refused EISDIR, v)
      | Some (Regular _) \<Rightarrow> (Agreed, v(q_filename rq := None)))"
| "vault_step (Mkdir rq) v =
     (if v (q_filename rq) \<noteq> None then (Refused EEXIST, v) else (Agreed, v(q_filename rq \<mapsto> Directory)))"
| "vault_step (Rmdir rq) v =
     (case v (q_filename rq) of
        None \<Rightarrow> (Refused ENOENT, v)
      | Some (Regular _) \<Rightarrow> (Refused ENOTDIR, v)
      | Some Directory \<Rightarrow>
          if occupied v (q_filename rq) then (Refused ENOTEMPTY, v) else (Agreed, v(q_filename rq := None)))"
| "vault_step (Access rq) v = (if v (q_filename rq) = None then Refused ENOENT else Agreed, v)"
| "vault_step (Attributes rq) v = (if v (q_filename rq) = None then Refused ENOENT else Agreed, v)"
| "vault_step (Mode rq) v = (if v (q_filename rq) = None then Refused ENOENT else Agreed, v)"

text \<open>
  The calls the promise covers: a fetch for reading of a file below 2 GiB, without flags that would
  change it, and an upload of at least one request, each carrying its size. Every other call is
  covered.
\<close>

fun covered :: "vault \<Rightarrow> server_call \<Rightarrow> bool" where
  "covered v (Fetch rq) =
     (can_read (q_flags rq) \<and> \<not> has_flag (q_flags rq) O_CREAT \<and> \<not> has_flag (q_flags rq) O_TRUNC \<and>
      (case v (q_filename rq) of Some (Regular d) \<Rightarrow> length d < 2 ^ 31 | Some Directory \<Rightarrow> False | None \<Rightarrow> True))"
| "covered v (Store rqs) = (rqs \<noteq> [] \<and> list_all sized rqs)"
| "covered v _ = True"

text \<open>The calls that are one request and one reply.\<close>

fun single :: "server_call \<Rightarrow> bool" where
  "single (Fetch _) = False"
| "single (Store _) = False"
| "single _ = True"

subsection \<open>The server\<close>

definition verdict :: "RPCResponse \<Rightarrow> answer" where
  "verdict reply = (if r_status reply < 0 then Refused (r_error reply) else Agreed)"

fun outcome :: "cpp_exception + RPCResponse \<Rightarrow> answer" where
  "outcome (Inl _) = Crashed"
| "outcome (Inr reply) = verdict reply"

fun server_step :: "server_call \<Rightarrow> fsys \<Rightarrow> answer \<times> fsys" where
  "server_step (Fetch rq) s = map_prod (\<lambda>rs. Contents (concat (map r_data rs))) id (srv_OpenFile rq s)"
| "server_step (Store rqs) s = map_prod verdict id (srv_CloseFile rqs s)"
| "server_step (Rename rq) s = map_prod verdict id (srv_RenameFile rq s)"
| "server_step (Create rq) s = map_prod outcome id (srv_CreateFile rq s)"
| "server_step (Delete rq) s = map_prod verdict id (srv_DeleteFile rq s)"
| "server_step (Mkdir rq) s = map_prod verdict id (srv_CreateDir rq s)"
| "server_step (Rmdir rq) s = map_prod verdict id (srv_RemoveDir rq s)"
| "server_step (Access rq) s = map_prod verdict id (srv_AccessFile rq s)"
| "server_step (Attributes rq) s = map_prod verdict id (srv_GetAttr rq s)"
| "server_step (Mode rq) s = map_prod verdict id (srv_Chmod rq s)"

definition entry_of :: "inode \<Rightarrow> entry" where
  "entry_of nd = (if i_isdir nd then Directory else Regular (i_data nd))"

definition vault_of :: "fsys \<Rightarrow> vault" where
  "vault_of s p = map_option entry_of (lookup s p)"

end
