(* ===== verification/Vault_Facts.thy ===== *)
theory Vault_Facts
  imports Vault
begin

text \<open>
  The server implements the vault: what each change of the file system does to its abstraction, one
  lemma per call, and the simulation.
\<close>

subsection \<open>The abstraction of a file system\<close>

lemma vault_of_views:
  "vault_of s p = (if is_dir_at s p then Some Directory else map_option Regular (file_at s p))"
  by (cases "lookup s p") (auto simp: vault_of_def is_dir_at_def file_at_def file_data_def entry_of_def)

lemma vault_of_same: "names t = names s \<Longrightarrow> inodes t = inodes s \<Longrightarrow> vault_of t = vault_of s"
  by (rule ext) (simp add: vault_of_def lookup_def)

lemma vault_of_update [simp]:
  "vault_of (s\<lparr>errno := e\<rparr>) = vault_of s" "vault_of (set_fd fd f s) = vault_of s"
  "vault_of (snd (install i flags s)) = vault_of s"
  by (rule vault_of_same; simp)+

lemma vault_of_None: "fs_ok s \<Longrightarrow> vault_of s p = None \<longleftrightarrow> map_of (names s) p = None"
  using fs_ok_names [of s p] by (cases "map_of (names s) p") (auto simp: vault_of_def lookup_def)

lemma vault_of_Some:
  "fs_ok s \<Longrightarrow> vault_of s p = Some x \<longleftrightarrow>
    (\<exists>i nd. map_of (names s) p = Some i \<and> inodes s i = Some nd \<and> lookup s p = Some nd \<and> entry_of nd = x)"
  by (cases "map_of (names s) p") (auto simp: vault_of_def lookup_def)

lemma entry_of_simps [simp]:
  "entry_of nd = Directory \<longleftrightarrow> i_isdir nd" "entry_of nd = Regular d \<longleftrightarrow> \<not> i_isdir nd \<and> i_data nd = d"
  by (auto simp: entry_of_def)

lemma occupied_vault:
  assumes "fs_ok s"
  shows "occupied (vault_of s) p = has_children s p"
proof -
  have "vault_of s q \<noteq> None \<longleftrightarrow> q \<in> fst ` set (names s)" for q
    by (simp add: vault_of_None [OF assms] map_of_eq_None_iff)
  then show ?thesis by (auto simp: occupied_def has_children_def list_ex_iff)
qed

lemma vault_delete: "vault_of (s\<lparr>names := AList.delete p (names s)\<rparr>) = (vault_of s)(p := None)"
  by (simp add: fun_eq_iff vault_of_def lookup_def delete_conv')

lemma vault_new_inode:
  assumes "fs_ok s"
  shows "vault_of (new_inode p dir mode s) = (vault_of s)(p \<mapsto> if dir then Directory else Regular [])"
  using file_at_new_inode [OF assms] is_dir_at_new_inode [OF assms]
  by (auto simp: fun_eq_iff vault_of_views)

lemma vault_set_data:
  assumes "fs_ok s" "vault_of s p = Some (Regular d)" "map_of (names s) p = Some i"
  shows "vault_of (set_data i d' s) = (vault_of s)(p \<mapsto> Regular d')"
proof -
  have "file_at s p = Some d" "\<not> is_dir_at s p"
    using assms(2) by (auto simp: vault_of_views split: if_splits)
  then show ?thesis
    using file_at_set_data [OF assms(1,3)] by (auto simp: fun_eq_iff vault_of_views)
qed

lemma vault_rename_file:
  assumes "fs_ok s" "map_of (names s) a = Some i" "a \<noteq> b"
  shows "vault_of (s\<lparr>names := AList.update b i (AList.delete a (names s))\<rparr>) = (vault_of s)(a := None, b := vault_of s a)"
  using assms by (auto simp: fun_eq_iff vault_of_def lookup_def update_conv' delete_conv')

lemma map_of_map_inj:
  "inj_on f (insert c (fst ` set al)) \<Longrightarrow> map_of (map (\<lambda>(q, k). (f q, k)) al) (f c) = map_of al c"
  by (induction al) (auto simp: inj_on_def)

lemma map_of_map_None:
  "q \<notin> f ` fst ` set al \<Longrightarrow> map_of (map (\<lambda>(q, k). (f q, k)) al) q = None"
  by (induction al) auto

text \<open>A path below two others makes one of them lie below the other.\<close>

lemma below_both:
  assumes "prefix (a @ ''/'') q" "prefix (b @ ''/'') q"
  shows "a = b \<or> prefix (a @ ''/'') b \<or> prefix (b @ ''/'') a"
  using prefix_same_cases [OF assms] by (auto simp: prefix_snoc)

lemma map_of_moved:
  assumes no: "\<forall>q \<in> fst ` set al. \<not> prefix (b @ ''/'') q" and out: "\<not> prefix (a @ ''/'') b" and ne: "a \<noteq> b"
  shows "map_of (map (\<lambda>(q, k). (moved a b q, k)) (AList.delete b al)) q =
    (if q = a \<or> prefix (a @ ''/'') q then None
     else if q = b then map_of al a
     else if prefix (b @ ''/'') q then map_of al (a @ drop (length b) q)
     else map_of al q)" (is "map_of ?m q = ?r q")
proof (cases "prefix (b @ ''/'') a")
  case True
  have below: "prefix (b @ ''/'') c" if "c = a \<or> prefix (a @ ''/'') c" for c
    using that True by (auto intro: prefix_order.trans [OF _ prefixI] simp: prefix_def)
  have none: "map_of al c = None" if "prefix (b @ ''/'') c" for c
    using that no by (auto simp: map_of_eq_None_iff)
  have "moved a b c = c" if "(c, k) \<in> set al" for c k
    using below [of c] no that by (force simp: moved_def)
  then have "?m = AList.delete b al" by (auto simp: AList.delete_eq intro!: map_idI)
  moreover have "map_of al (a @ drop (length b) q) = None" if "prefix (b @ ''/'') q"
    using that by (intro none below) (auto simp: prefix_def)
  ultimately show ?thesis
    using none below [of q] none [OF True] by (auto simp: delete_conv')
next
  case False
  have keys: "c \<noteq> b" "\<not> prefix (b @ ''/'') c" if "c \<in> fst ` set (AList.delete b al)" for c
    using that no by (auto simp: AList.delete_eq)
  have src: "map_of ?m (moved a b c) = map_of al c" if "c \<noteq> b" "\<not> prefix (b @ ''/'') c" for c
  proof -
    have "inj_on (moved a b) (insert c (fst ` set (AList.delete b al)))"
      using keys that by (intro moved_inj_on) auto
    then show ?thesis using that(1) by (simp add: map_of_map_inj delete_conv')
  qed
  have apart: "\<not> (prefix (a @ ''/'') c \<and> prefix (b @ ''/'') c)" for c
    using below_both [of a c b] False out ne by auto
  consider "q = a \<or> prefix (a @ ''/'') q" | "q = b" | r where "q = b @ ''/'' @ r"
    | "q \<noteq> a" "\<not> prefix (a @ ''/'') q" "q \<noteq> b" "\<not> prefix (b @ ''/'') q"
    by (auto simp: prefix_def)
  then show ?thesis
  proof cases
    case 1
    have "q \<noteq> moved a b c" for c
    proof (cases rule: moved_cases [of a b c])
      case (sub r)
      then show ?thesis using 1 False apart [of "b @ ''/'' @ r"] by auto
    qed (use 1 ne out in auto)
    then show ?thesis using 1 by (auto intro!: map_of_map_None)
  next
    case 2
    then show ?thesis using src [of a] ne out False by (simp add: moved_def)
  next
    case (3 r)
    then have "\<not> prefix (a @ ''/'') q" "q \<noteq> b" "q \<noteq> a"
      using apart [of q] False by (auto simp: prefix_def)
    moreover have "a @ ''/'' @ r \<noteq> b" "\<not> prefix (b @ ''/'') (a @ ''/'' @ r)"
      using apart [of "a @ ''/'' @ r"] out by (auto simp: prefix_def)
    ultimately show ?thesis using src [of "a @ ''/'' @ r"] 3 by (simp add: moved_def)
  next
    case 4
    then show ?thesis using src [of q] by (simp add: moved_def)
  qed
qed

lemma vault_rename_dir:
  assumes "fs_ok s" "\<not> has_children s b" "\<not> prefix (a @ ''/'') b" "a \<noteq> b"
  shows "vault_of (s\<lparr>names := map (\<lambda>(q, k). (moved a b q, k)) (AList.delete b (names s))\<rparr>)
    = relocate a b (vault_of s)"
proof
  have "\<forall>q \<in> fst ` set (names s). \<not> prefix (b @ ''/'') q"
    using assms(2) by (auto simp: has_children_def list_ex_iff)
  from map_of_moved [OF this assms(3,4)]
  show "vault_of (s\<lparr>names := map (\<lambda>(q, k). (moved a b q, k)) (AList.delete b (names s))\<rparr>) q
      = relocate a b (vault_of s) q" for q
    by (simp add: vault_of_def lookup_def relocate_def)
qed

subsection \<open>The calls\<close>

text \<open>The server's answer to a call and its new state are those of the vault.\<close>

definition simulated :: "fsys \<Rightarrow> server_call \<Rightarrow> bool" where
  "simulated s c \<longleftrightarrow> (\<exists>a t. server_step c s = (a, t) \<and> vault_step c (vault_of s) = (a, vault_of t) \<and> ready t)"

lemma lookup_cases:
  assumes "fs_ok s"
  obtains (absent) "lookup s p = None" "map_of (names s) p = None" "vault_of s p = None"
  | (regular) i nd where "lookup s p = Some nd" "map_of (names s) p = Some i" "inodes s i = Some nd"
      "\<not> i_isdir nd" "vault_of s p = Some (Regular (i_data nd))"
  | (dir) i nd where "lookup s p = Some nd" "map_of (names s) p = Some i" "inodes s i = Some nd"
      "i_isdir nd" "vault_of s p = Some Directory"
proof (cases "map_of (names s) p")
  case None
  then show thesis using absent by (simp add: lookup_def vault_of_def)
next
  case (Some i)
  then obtain nd where "inodes s i = Some nd" using fs_ok_names [OF assms] by blast
  with Some show thesis
    using regular [of nd i] dir [of nd i] by (cases "i_isdir nd") (simp_all add: lookup_def vault_of_def entry_of_def)
qed

lemma quiet_names [simp]: "quiet (s\<lparr>names := ns\<rparr>) = quiet s" "quiet (s\<lparr>inodes := m\<rparr>) = quiet s"
  by (simp_all add: quiet_def)

lemmas simulated_simps = simulated_def ready_def posix_simps fail_def verdict_def failed_def

lemma simulated_Delete:
  assumes "quiet s" "fs_ok s"
  shows "simulated s (Delete rq)"
  using assms srv_unary_ok(5) [OF assms(2), of rq]
  by (cases rule: lookup_cases [OF assms(2), of "q_filename rq"])
    (auto simp: simulated_simps srv_DeleteFile_def sys_unlink_def vault_delete)

lemma simulated_Mkdir:
  assumes "quiet s" "fs_ok s"
  shows "simulated s (Mkdir rq)"
  using assms srv_unary_ok(4) [OF assms(2), of rq]
  by (cases rule: lookup_cases [OF assms(2), of "q_filename rq"])
    (auto simp: simulated_simps srv_CreateDir_def sys_mkdir_def vault_new_inode)

lemma simulated_Rmdir:
  assumes "quiet s" "fs_ok s"
  shows "simulated s (Rmdir rq)"
  using assms srv_unary_ok(3) [OF assms(2), of rq]
  by (cases rule: lookup_cases [OF assms(2), of "q_filename rq"])
    (auto simp: simulated_simps srv_RemoveDir_def sys_rmdir_def vault_delete occupied_vault)

lemma simulated_Access:
  assumes "quiet s" "fs_ok s"
  shows "simulated s (Access rq)"
  using assms
  by (cases rule: lookup_cases [OF assms(2), of "q_filename rq"])
    (auto simp: simulated_simps srv_AccessFile_def sys_access_def)

lemma simulated_Attributes:
  assumes "quiet s" "fs_ok s"
  shows "simulated s (Attributes rq)"
  using assms
  by (cases rule: lookup_cases [OF assms(2), of "q_filename rq"])
    (auto simp: simulated_simps srv_GetAttr_def sys_lstat_def)

lemma vault_set_attr:
  assumes "inodes s i = Some nd"
  shows "vault_of (s\<lparr>inodes := (inodes s)(i \<mapsto> nd\<lparr>i_attr := x\<rparr>)\<rparr>) = vault_of s"
proof
  fix p
  show "vault_of (s\<lparr>inodes := (inodes s)(i \<mapsto> nd\<lparr>i_attr := x\<rparr>)\<rparr>) p = vault_of s p"
    using assms by (cases "map_of (names s) p") (simp_all add: vault_of_def lookup_def entry_of_def)
qed

lemma simulated_Mode:
  assumes "quiet s" "fs_ok s"
  shows "simulated s (Mode rq)"
  using assms srv_unary_ok(11) [OF assms(2), of rq]
  by (cases rule: lookup_cases [OF assms(2), of "q_filename rq"])
    (auto simp: simulated_simps srv_Chmod_def sys_chmod_def set_attr_def vault_set_attr)

lemma simulated_Rename:
  assumes "quiet s" "fs_ok s"
  shows "simulated s (Rename rq)"
  using assms srv_unary_ok(1) [OF assms(2), of rq]
  by (cases rule: lookup_cases [OF assms(2), of "q_filename rq"]; cases rule: lookup_cases [OF assms(2), of "q_newfilename rq"])
    (auto simp: simulated_simps srv_RenameFile_def sys_rename_def Let_def rename_refusal_def occupied_vault
      vault_rename_file vault_rename_dir)

lemma simulated_Fetch:
  assumes "ready s" "covered (vault_of s) (Fetch rq)"
  shows "simulated s (Fetch rq)"
proof -
  have fl: "can_read (q_flags rq)" "\<not> has_flag (q_flags rq) O_CREAT" "\<not> has_flag (q_flags rq) O_TRUNC"
    using assms(2) by simp_all
  have ok: "quiet s" "fs_ok s" using assms(1) by (simp_all add: ready_def)
  from ok(2) show ?thesis
  proof (cases rule: lookup_cases [where p = "q_filename rq"])
    case absent
    then show ?thesis
      using ok fl by (simp add: simulated_simps srv_OpenFile_def sys_open_def)
  next
    case (regular i nd)
    let ?d = "i_data nd"
    have d: "file_at s (q_filename rq) = Some ?d" "length ?d < 2 ^ 31"
      using regular assms(2) by (auto simp: file_at_map_of)
    obtain fi t where t: "srv_OpenFile rq s
        = (map (chunk_reply (RPCResponse_default\<lparr>r_fileInfo := Some fi\<rparr>)) (fetch_chunks ?d), t)"
      "ready t" "untouched s t"
      using srv_OpenFile_spec [OF assms(1) d] fl by auto
    have "concat (map r_data (map (chunk_reply x) chs)) = concat chs" for x chs by (induction chs) simp_all
    then have "concat (map r_data (fst (srv_OpenFile rq s))) = ?d"
      using t(1) fetch_chunks_facts(1) [of ?d] by simp
    moreover have "vault_of t = vault_of s"
      using t(3) by (simp add: fun_eq_iff vault_of_views untouched_def)
    ultimately show ?thesis using t(1,2) regular by (simp add: simulated_def)
  next
    case dir
    then show ?thesis using assms(2) by simp
  qed
qed

lemma vault_dirs: "vault_of s p = Some Directory \<longleftrightarrow> is_dir_at s p"
  by (simp add: vault_of_views)

text \<open>The temporary file cannot be opened when a directory has its name.\<close>

lemma simulated_Store_temp_dir:
  assumes "ready s" "rqs \<noteq> []" "is_dir_at s (temp_path (q_filename (hd rqs)))"
  shows "simulated s (Store rqs)"
proof -
  let ?p = "q_filename (hd rqs)"
  obtain rq rest where rqs: "rqs = rq # rest" using assms(2) by (cases rqs) auto
  have ok: "quiet s" "fs_ok s" using assms(1) by (simp_all add: ready_def)
  obtain k st a where a: "sys_lstat ?p s = (k, st, a)" "k \<ge> -1" "quiet a" "names a = names s" "inodes a = inodes s"
    "fs_ok a"
    using ok by (cases "sys_lstat ?p s")
      (auto simp: sys_lstat_def posix_simps split: option.splits)
  obtain i nd where i: "map_of (names a) (temp_path ?p) = Some i" "inodes a i = Some nd" "i_isdir nd"
    using assms(3) ok(2) a(4,5) by (auto simp: vault_dirs [symmetric] vault_of_Some)
  have o: "sys_open (temp_path ?p) creat_flags 511 a = (-1, a\<lparr>errno := EISDIR\<rparr>)"
    using a(3) i by (simp add: sys_open_def posix_simps fail_def)
  have "srv_CloseFile rqs s = (failed (a\<lparr>errno := EISDIR\<rparr>), a\<lparr>errno := EISDIR\<rparr>)"
    using a(1,2) o unfolding rqs by (simp add: srv_CloseFile_def Let_def)
  moreover have "vault_of a = vault_of s" by (rule vault_of_same [OF a(4,5)])
  ultimately show ?thesis
    using assms(3) a(3,6) by (simp add: simulated_simps vault_dirs Let_def)
qed

lemma simulated_Store:
  assumes "ready s" "rqs \<noteq> []" "list_all sized rqs"
  shows "simulated s (Store rqs)"
proof (cases "is_dir_at s (temp_path (q_filename (hd rqs)))")
  case True
  then show ?thesis using assms by (intro simulated_Store_temp_dir)
next
  case nt: False
  let ?p = "q_filename (hd rqs)"
  let ?tp = "temp_path ?p"
  show ?thesis
  proof (cases "is_dir_at s ?p")
    case False
    obtain t where t: "srv_CloseFile rqs s = (RPCResponse_default, t)" "ready t"
      "file_at t = (file_at s)(?p \<mapsto> payload rqs, ?tp := None)" "is_dir_at t = is_dir_at s"
      using srv_CloseFile_spec [OF assms refl False nt] by blast
    have "vault_of t = (vault_of s)(?p \<mapsto> Regular (payload rqs), ?tp := None)"
      using t(3,4) False nt by (auto simp: fun_eq_iff vault_of_views)
    then show ?thesis
      using t(1,2) False nt by (simp add: simulated_def vault_dirs verdict_def RPCResponse_default_def Let_def)
  next
    case True
    obtain e where e: "ready e" "file_at e = (file_at s)(?tp \<mapsto> payload rqs)" "is_dir_at e = is_dir_at s"
      and run: "srv_CloseFile rqs s = (let (ret, s) = sys_rename ?tp ?p e
        in if ret < 0 then (failed s, s) else (RPCResponse_default, snd (sys_unlink ?tp s)))"
      using srv_CloseFile_stages [OF assms refl nt] by blast
    have q: "quiet e" "fs_ok e" using e(1) by (simp_all add: ready_def)
    have "file_at e ?tp = Some (payload rqs)" using e(2) by simp
    then obtain i nd where i: "map_of (names e) ?tp = Some i" "inodes e i = Some nd" "\<not> i_isdir nd"
      by (auto simp: file_at_map_of)
    have "is_dir_at e ?p" using True e(3) by simp
    then obtain nd' where "lookup e ?p = Some nd'" "i_isdir nd'"
      by (auto simp: is_dir_at_def)
    then have "sys_rename ?tp ?p e = (-1, e\<lparr>errno := EISDIR\<rparr>)"
      using i q by (simp add: sys_rename_def posix_simps fail_def)
    moreover have "vault_of e = (vault_of s)(?tp \<mapsto> Regular (payload rqs))"
      using e(2,3) nt by (auto simp: fun_eq_iff vault_of_views)
    ultimately show ?thesis
      using run True nt q by (simp add: simulated_simps vault_dirs Let_def)
  qed
qed

text \<open>The calls of \<open>CreateFile\<close> on its descriptor change neither names nor inodes.\<close>

definition kept :: "fsys \<Rightarrow> fsys \<Rightarrow> bool" where
  "kept s t \<longleftrightarrow> names t = names s \<and> inodes t = inodes s \<and> quiet t"

lemma kept_calls:
  assumes "quiet s"
  shows "sys_read fd n s = (k, bs, t) \<Longrightarrow> kept s t" "sys_close fd s = (k, t) \<Longrightarrow> kept s t"
    "sys_lseek_end fd s = (k, t) \<Longrightarrow> kept s t" "sys_lseek_set fd s = (k, t) \<Longrightarrow> kept s t"
    "sys_fstat fd s = (k, st, t) \<Longrightarrow> kept s t"
  using assms
  by (auto simp: kept_def sys_read_def read_at_def sys_close_def sys_lseek_end_def sys_lseek_set_def sys_fstat_def
      posix_simps fail_def Let_def split: option.splits if_splits)

lemma kept_trans: "kept s t \<Longrightarrow> kept t u \<Longrightarrow> kept s u"
  by (simp add: kept_def)

lemma oversized_iff: "to_int32 (int (length d)) < 0 \<longleftrightarrow> oversized d"
  by (simp only: to_int32_negative oversized_def)

lemma to_int32_0: "to_int32 0 = 0" by (simp add: to_int32_def)

lemma oversized_Nil [simp]: "\<not> oversized []" by (simp add: oversized_def)

text \<open>
  After a successful open, \<open>CreateFile\<close> agrees and changes nothing more, but for a file whose size is
  negative as an \<open>int\<close>, where it throws.
\<close>

lemma create_opened:
  assumes "sys_open (q_filename rq) (q_flags rq) (q_mode rq) s = install i fl u" "quiet u" "inodes u i = Some nd"
  shows "\<exists>r t. srv_CreateFile rq s = (r, t) \<and> kept u t \<and>
    outcome r = (if \<not> i_isdir nd \<and> oversized (i_data nd) then Crashed else Agreed)"
proof -
  obtain fd a where a: "install i fl u = (fd, a)" by fastforce
  obtain f where fd: "0 \<le> fd" "kept u a" "ofile_of a fd = Some f" "inodes a (of_ino f) = Some nd"
    using a assms(2,3) by (auto simp: install_def Let_def kept_def)
  obtain st where st: "sys_fstat fd a = (0, st, a)"
    using fd by (auto simp: sys_fstat_def posix_simps kept_def)
  obtain sz b where b: "sys_lseek_end fd a = (sz, b)" by fastforce
  have sz: "sz = (if i_isdir nd then 0 else int (length (i_data nd)))"
    using b fd by (auto simp: sys_lseek_end_def posix_simps kept_def file_size_def)
  obtain k c where c: "sys_lseek_set fd b = (k, c)" by fastforce
  obtain e bs d where d: "sys_read fd (size_arg (to_int32 sz)) c = (e, bs, d)" by (metis prod_cases3)
  let ?d = "if to_int32 sz = 0 then c else d"
  obtain l t where t: "sys_close fd ?d = (l, t)" by fastforce
  have ab: "kept a b" using fd(2) kept_calls(3) [OF _ b] by (simp add: kept_def)
  then have bc: "kept b c" using kept_calls(4) [OF _ c] by (simp add: kept_def)
  then have cd: "kept c ?d" using kept_calls(1) [OF _ d] by (simp add: kept_def)
  then have dt: "kept ?d t" using kept_calls(2) [OF _ t] by (simp add: kept_def)
  have uc: "kept u c" by (rule kept_trans [OF fd(2) kept_trans [OF ab bc]])
  show ?thesis
  proof (cases "to_int32 sz < 0")
    case True
    then have "srv_CreateFile rq s = (Inl Bad_array_new_length, c)"
      using fd(1) st b c by (simp add: srv_CreateFile_def assms(1) a new_char_array_def Let_def)
    moreover have "\<not> i_isdir nd \<and> oversized (i_data nd)"
      using True sz by (auto simp: oversized_iff [symmetric] to_int32_0 split: if_splits)
    ultimately show ?thesis using uc by simp
  next
    case False
    obtain reply where "srv_CreateFile rq s = (Inr reply, t)" "r_status reply = 1"
      using fd(1) st b c d t False
      by (auto simp: srv_CreateFile_def assms(1) a new_char_array_def Let_def split: if_splits)
    moreover have "i_isdir nd \<or> \<not> oversized (i_data nd)"
      using False sz by (auto simp: oversized_iff)
    ultimately show ?thesis
      using kept_trans [OF uc kept_trans [OF cd dt]] by (auto simp: verdict_def)
  qed
qed

text \<open>The open of \<open>CreateFile\<close> decides what the service decides.\<close>

lemma create_cases:
  assumes "take_fault s = (f, u)" "\<And>e. f \<noteq> Fail e" "fs_ok u"
  obtains (refused) e where "sys_open (q_filename rq) (q_flags rq) (q_mode rq) s = fail e u"
      "vault_step (Create rq) (vault_of u) = (Refused e, vault_of u)"
  | (opened) i nd w where "sys_open (q_filename rq) (q_flags rq) (q_mode rq) s = install i (q_flags rq) w"
      "inodes w i = Some nd" "quiet w = quiet u"
      "vault_step (Create rq) (vault_of u)
         = (if \<not> i_isdir nd \<and> oversized (i_data nd) then Crashed else Agreed, vault_of w)"
proof -
  let ?has = "has_flag (q_flags rq)" and ?open = "sys_open (q_filename rq) (q_flags rq) (q_mode rq) s"
  have f: "f = Pass \<or> (\<exists>k. f = Short k)" using assms(2) by (cases f) auto
  note open_simps = sys_open_def assms(1)
  from assms(3) show thesis
  proof (cases rule: lookup_cases [where p = "q_filename rq"])
    case absent
    show thesis
    proof (cases "?has O_CREAT")
      case True
      let ?w = "new_inode (q_filename rq) False (q_mode rq) u"
      let ?nd = "\<lparr>i_isdir = False, i_data = [], i_attr = (fresh_attr u)\<lparr>st_mode := q_mode rq\<rparr>\<rparr>"
      have nd: "inodes ?w (next_ino u) = Some ?nd" "\<not> oversized (i_data ?nd)" by (simp_all add: inodes_new_inode)
      have "?open = install (next_ino u) (q_flags rq) ?w"
        using f absent True by (auto simp: open_simps)
      then show thesis
        using absent True assms(3) nd(2)
        by (intro opened [OF _ nd(1)]) (simp_all add: quiet_def new_inode_def vault_new_inode [unfolded new_inode_def])
    next
      case False
      then show thesis using f absent by (intro refused [of ENOENT]) (auto simp: open_simps)
    qed
  next
    case (regular i nd)
    show thesis
    proof (cases "?has O_CREAT \<and> ?has O_EXCL")
      case True
      then show thesis using f regular by (intro refused [of EEXIST]) (auto simp: open_simps)
    next
      case False
      let ?w = "if ?has O_TRUNC then set_data i [] u else u"
      let ?nd = "if ?has O_TRUNC then nd\<lparr>i_data := []\<rparr> else nd"
      have "?open = install i (q_flags rq) ?w" using f regular False by (auto simp: open_simps)
      moreover have "inodes ?w i = Some ?nd" using regular by (simp add: inodes_set_data)
      moreover have "quiet ?w = quiet u" by (simp add: quiet_def set_data_def split: option.split)
      ultimately show thesis
        using regular False assms(3) by (elim opened) (auto simp: vault_set_data)
    qed
  next
    case (dir i nd)
    show thesis
    proof (cases "?has O_CREAT \<or> can_write (q_flags rq) \<or> ?has O_TRUNC")
      case True
      then show thesis
        using f dir
        by (intro refused [of "if ?has O_CREAT \<and> ?has O_EXCL then EEXIST else EISDIR"]) (auto simp: open_simps)
    next
      case False
      then show thesis using f dir by (intro opened [of i u nd]) (auto simp: open_simps)
    qed
  qed
qed

lemma simulated_Create:
  assumes "quiet s" "fs_ok s"
  shows "simulated s (Create rq)"
  using take_fault_quiet [OF assms(1)] fault.distinct(1) assms(2)
proof (cases rule: create_cases [where rq = rq])
  case refused
  then show ?thesis using assms by (simp add: simulated_simps srv_CreateFile_def)
next
  case (opened i nd w)
  obtain r t where t: "srv_CreateFile rq s = (r, t)" "kept w t"
      "outcome r = (if \<not> i_isdir nd \<and> oversized (i_data nd) then Crashed else Agreed)"
    using create_opened [OF opened(1) _ opened(2)] opened(3) assms(1) by blast
  have "vault_of t = vault_of w" using t(2) by (auto simp: kept_def intro: vault_of_same)
  moreover have "fs_ok t" using srv_unary_ok(2) [OF assms(2), of rq] t(1) by simp
  ultimately show ?thesis using t opened(4) by (simp add: simulated_def ready_def kept_def)
qed

subsection \<open>Calls that fail\<close>

text \<open>
  What is left of the promise when system calls fail: the server agrees only when it has done what the
  service would do, and a refusal changes nothing. \<open>CreateFile\<close> is the exception: it may refuse, or
  crash, when the file has been created already.
\<close>

definition safe_outcome :: "server_call \<Rightarrow> vault \<Rightarrow> answer \<Rightarrow> vault \<Rightarrow> bool" where
  "safe_outcome c v a w \<longleftrightarrow>
     a = Agreed \<and> vault_step c v = (Agreed, w) \<or>
     (\<exists>e. a = Refused e) \<and> w = v \<or>
     (\<exists>rq. c = Create rq) \<and> a \<noteq> Agreed \<and> w = snd (vault_step c v)"

text \<open>A call that is not scheduled to fail behaves as in a quiet kernel.\<close>

lemma vault_of_faults [simp]: "vault_of (s\<lparr>faults := fs\<rparr>) = vault_of s"
  by (rule vault_of_same) simp_all

lemma take_fault_cases:
  assumes "fs_ok s"
  obtains (failing) e u where "take_fault s = (Fail e, u)" "vault_of u = vault_of s"
  | (passing) f u where "take_fault s = (f, u)" "\<And>e. f \<noteq> Fail e" "fs_ok u" "vault_of u = vault_of s"
proof -
  obtain f u where f: "take_fault s = (f, u)" by fastforce
  then have "vault_of u = vault_of s" "fs_ok u"
    using take_fault_same [OF f] assms by (auto intro: vault_of_same)
  with f show thesis using failing [of _ u] passing [of f u] by (cases f) auto
qed

lemmas safe_simps = safe_outcome_def fail_def verdict_def failed_def

lemma safe_Delete:
  assumes "fs_ok s"
  shows "safe_outcome (Delete rq) (vault_of s) (fst (server_step (Delete rq) s))
    (vault_of (snd (server_step (Delete rq) s)))"
  using assms
proof (cases rule: take_fault_cases)
  case failing
  then show ?thesis by (simp add: srv_DeleteFile_def sys_unlink_def safe_simps)
next
  case (passing f)
  show ?thesis
    using passing(1-3) unfolding passing(4) [symmetric]
    by (cases f; cases rule: lookup_cases [OF passing(3), of "q_filename rq"])
      (auto simp: srv_DeleteFile_def sys_unlink_def safe_simps vault_delete)
qed

lemma safe_Mkdir:
  assumes "fs_ok s"
  shows "safe_outcome (Mkdir rq) (vault_of s) (fst (server_step (Mkdir rq) s))
    (vault_of (snd (server_step (Mkdir rq) s)))"
  using assms
proof (cases rule: take_fault_cases)
  case failing
  then show ?thesis by (simp add: srv_CreateDir_def sys_mkdir_def safe_simps)
next
  case (passing f)
  show ?thesis
    using passing(1-3) unfolding passing(4) [symmetric]
    by (cases f; cases rule: lookup_cases [OF passing(3), of "q_filename rq"])
      (auto simp: srv_CreateDir_def sys_mkdir_def safe_simps vault_new_inode)
qed

lemma safe_Rmdir:
  assumes "fs_ok s"
  shows "safe_outcome (Rmdir rq) (vault_of s) (fst (server_step (Rmdir rq) s))
    (vault_of (snd (server_step (Rmdir rq) s)))"
  using assms
proof (cases rule: take_fault_cases)
  case failing
  then show ?thesis by (simp add: srv_RemoveDir_def sys_rmdir_def safe_simps)
next
  case (passing f)
  show ?thesis
    using passing(1-3) unfolding passing(4) [symmetric]
    by (cases f; cases rule: lookup_cases [OF passing(3), of "q_filename rq"])
      (auto simp: srv_RemoveDir_def sys_rmdir_def safe_simps vault_delete occupied_vault)
qed

lemma safe_Access:
  assumes "fs_ok s"
  shows "safe_outcome (Access rq) (vault_of s) (fst (server_step (Access rq) s))
    (vault_of (snd (server_step (Access rq) s)))"
  using assms
proof (cases rule: take_fault_cases)
  case failing
  then show ?thesis by (simp add: srv_AccessFile_def sys_access_def safe_simps)
next
  case (passing f)
  show ?thesis
    using passing(1-3) unfolding passing(4) [symmetric]
    by (cases f; cases rule: lookup_cases [OF passing(3), of "q_filename rq"])
      (auto simp: srv_AccessFile_def sys_access_def safe_simps)
qed

lemma safe_Attributes:
  assumes "fs_ok s"
  shows "safe_outcome (Attributes rq) (vault_of s) (fst (server_step (Attributes rq) s))
    (vault_of (snd (server_step (Attributes rq) s)))"
  using assms
proof (cases rule: take_fault_cases)
  case failing
  then show ?thesis by (simp add: srv_GetAttr_def sys_lstat_def safe_simps)
next
  case (passing f)
  show ?thesis
    using passing(1-3) unfolding passing(4) [symmetric]
    by (cases f; cases rule: lookup_cases [OF passing(3), of "q_filename rq"])
      (auto simp: srv_GetAttr_def sys_lstat_def safe_simps)
qed

lemma safe_Mode:
  assumes "fs_ok s"
  shows "safe_outcome (Mode rq) (vault_of s) (fst (server_step (Mode rq) s))
    (vault_of (snd (server_step (Mode rq) s)))"
  using assms
proof (cases rule: take_fault_cases)
  case failing
  then show ?thesis by (simp add: srv_Chmod_def sys_chmod_def set_attr_def safe_simps)
next
  case (passing f)
  show ?thesis
    using passing(1-3) unfolding passing(4) [symmetric]
    by (cases f; cases rule: lookup_cases [OF passing(3), of "q_filename rq"])
      (auto simp: srv_Chmod_def sys_chmod_def set_attr_def safe_simps vault_set_attr)
qed

lemma safe_Rename:
  assumes "fs_ok s"
  shows "safe_outcome (Rename rq) (vault_of s) (fst (server_step (Rename rq) s))
    (vault_of (snd (server_step (Rename rq) s)))"
  using assms
proof (cases rule: take_fault_cases)
  case failing
  then show ?thesis by (simp add: srv_RenameFile_def sys_rename_def Let_def safe_simps)
next
  case (passing f)
  show ?thesis
    using passing(1-3) unfolding passing(4) [symmetric]
    by (cases f; cases rule: lookup_cases [OF passing(3), of "q_filename rq"]; cases rule: lookup_cases [OF passing(3), of "q_newfilename rq"])
      (auto simp: srv_RenameFile_def sys_rename_def Let_def safe_simps
        rename_refusal_def occupied_vault vault_rename_file vault_rename_dir)
qed

text \<open>The calls of \<open>CreateFile\<close> on its descriptor keep the tree, whether they fail or not.\<close>

lemma take_fault_fds: "take_fault s = (f, u) \<Longrightarrow> names u = names s \<and> inodes u = inodes s \<and> ofile_of u = ofile_of s"
  by (simp add: take_fault_same ofile_of_def fun_eq_iff)

lemma tree_kept:
  "sys_fstat fd s = (k, st, t) \<Longrightarrow> names t = names s \<and> inodes t = inodes s \<and> ofile_of t = ofile_of s"
  "sys_lseek_end fd s = (k', t) \<Longrightarrow> names t = names s \<and> inodes t = inodes s"
  "sys_lseek_set fd s = (k', t) \<Longrightarrow> names t = names s \<and> inodes t = inodes s"
  "sys_read fd n s = (k, bs, t) \<Longrightarrow> names t = names s \<and> inodes t = inodes s"
  "sys_close fd s = (k', t) \<Longrightarrow> names t = names s \<and> inodes t = inodes s"
proof -
  obtain f u where f: "take_fault s = (f, u)" by fastforce
  have [simp]: "ofile_of (u\<lparr>errno := e\<rparr>) = ofile_of u" for e by (simp add: ofile_of_def fun_eq_iff)
  note calls = sys_fstat_def sys_lseek_end_def sys_lseek_set_def sys_read_def read_at_def sys_close_def
    fail_def Let_def f take_fault_fds [OF f]
  show "sys_fstat fd s = (k, st, t) \<Longrightarrow> names t = names s \<and> inodes t = inodes s \<and> ofile_of t = ofile_of s"
    using take_fault_fds [OF f] by (cases f) (auto simp: sys_fstat_def f split: option.splits)
  show "sys_lseek_end fd s = (k', t) \<Longrightarrow> names t = names s \<and> inodes t = inodes s"
    by (cases f) (auto simp: calls split: option.splits)
  show "sys_lseek_set fd s = (k', t) \<Longrightarrow> names t = names s \<and> inodes t = inodes s"
    by (cases f) (auto simp: calls split: option.splits)
  show "sys_read fd n s = (k, bs, t) \<Longrightarrow> names t = names s \<and> inodes t = inodes s"
    by (cases f) (auto simp: calls split: option.splits if_splits)
  show "sys_close fd s = (k', t) \<Longrightarrow> names t = names s \<and> inodes t = inodes s"
    by (cases f) (auto simp: calls split: option.splits)
qed

lemma create_opened_faults:
  assumes "sys_open (q_filename rq) (q_flags rq) (q_mode rq) s = install i fl u" "inodes u i = Some nd"
  shows "\<exists>r t. srv_CreateFile rq s = (r, t) \<and> names t = names u \<and> inodes t = inodes u \<and>
    (outcome r = Agreed \<longrightarrow> i_isdir nd \<or> \<not> oversized (i_data nd))"
proof -
  obtain fd a where a: "install i fl u = (fd, a)" by fastforce
  obtain f where fd: "0 \<le> fd" "names a = names u" "inodes a = inodes u" "ofile_of a fd = Some f" "of_ino f = i"
    using a by (auto simp: install_def Let_def)
  obtain k st a' where st: "sys_fstat fd a = (k, st, a')" by (metis prod_cases3)
  obtain sz b where b: "sys_lseek_end fd a' = (sz, b)" by fastforce
  obtain k' c where c: "sys_lseek_set fd b = (k', c)" by fastforce
  obtain e bs d where d: "sys_read fd (size_arg (to_int32 sz)) c = (e, bs, d)" by (metis prod_cases3)
  let ?d = "if to_int32 sz = 0 then c else d"
  obtain l t where t: "sys_close fd ?d = (l, t)" by fastforce
  have a': "names a' = names u" "inodes a' = inodes u" "ofile_of a' fd = Some f"
    using tree_kept(1) [OF st] fd by simp_all
  have c': "names c = names u" "inodes c = inodes u"
    using tree_kept(2) [OF b] tree_kept(3) [OF c] a' by simp_all
  have t': "names t = names u" "inodes t = inodes u"
    using tree_kept(4) [OF d] tree_kept(5) [OF t] c' by (simp_all split: if_splits)
  have sz: "sz = -1 \<or> i_isdir nd \<or> sz = int (length (i_data nd))"
  proof -
    obtain g v where g: "take_fault a' = (g, v)" by fastforce
    then have "ofile_of v fd = Some f" "inodes v i = Some nd"
      using take_fault_fds [OF g] a' assms(2) by simp_all
    then show ?thesis
      using b fd(5) by (cases g) (auto simp: sys_lseek_end_def g fail_def file_size_def split: if_splits)
  qed
  consider "k = -1" | "k \<noteq> -1" "to_int32 sz < 0" | "k \<noteq> -1" "0 \<le> to_int32 sz" by linarith
  then show ?thesis
  proof cases
    case 1
    then have "srv_CreateFile rq s = (Inr (failed a'), a')"
      using fd(1) st by (simp add: srv_CreateFile_def assms(1) a Let_def)
    then show ?thesis using a' by (auto simp: verdict_def failed_def)
  next
    case 2
    then have "srv_CreateFile rq s = (Inl Bad_array_new_length, c)"
      using fd(1) st b c by (simp add: srv_CreateFile_def assms(1) a new_char_array_def Let_def)
    then show ?thesis using c' by auto
  next
    case 3
    then obtain reply where "srv_CreateFile rq s = (Inr reply, t)"
      using fd(1) st b c d t
      by (auto simp: srv_CreateFile_def assms(1) a new_char_array_def Let_def split: if_splits)
    moreover have "i_isdir nd \<or> \<not> oversized (i_data nd)"
      using 3 sz by (auto simp: oversized_iff [symmetric] to_int32_def)
    ultimately show ?thesis using t' by auto
  qed
qed

lemma safe_Create:
  assumes "fs_ok s"
  shows "safe_outcome (Create rq) (vault_of s) (fst (server_step (Create rq) s))
    (vault_of (snd (server_step (Create rq) s)))"
  using assms
proof (cases rule: take_fault_cases)
  case failing
  then show ?thesis by (simp add: srv_CreateFile_def sys_open_def safe_simps)
next
  case (passing f u)
  from passing(1-3) show ?thesis
  proof (cases rule: create_cases [where rq = rq])
    case refused
    then show ?thesis using passing(4) by (simp add: srv_CreateFile_def safe_simps)
  next
    case (opened i nd w)
    obtain r t where t: "srv_CreateFile rq s = (r, t)" "names t = names w" "inodes t = inodes w"
        "outcome r = Agreed \<longrightarrow> i_isdir nd \<or> \<not> oversized (i_data nd)"
      using create_opened_faults [OF opened(1,2)] by blast
    moreover have "vault_of t = vault_of w" by (rule vault_of_same [OF t(2,3)])
    ultimately show ?thesis
      using opened(4) passing(4) by (auto simp: safe_outcome_def simp del: vault_step.simps)
  qed
qed

lemma safe_single:
  assumes "fs_ok s" "single c" "server_step c s = (a, t)"
  shows "fs_ok t \<and> safe_outcome c (vault_of s) a (vault_of t)"
proof -
  have "safe_outcome c (vault_of s) (fst (server_step c s)) (vault_of (snd (server_step c s)))"
    using assms(2) safe_Rename safe_Create safe_Delete safe_Mkdir safe_Rmdir safe_Access safe_Attributes
      safe_Mode assms(1) by (cases c) (simp_all del: server_step.simps)
  moreover have "fs_ok (snd (server_step c s))"
    using srv_unary_ok [OF assms(1)] assms(2) by (cases c) simp_all
  ultimately show ?thesis using assms(3) by simp
qed

subsection \<open>The refinement\<close>

interpretation vaulted: refines server_step vault_step vault_of ready covered
proof
  fix s c
  assume s: "ready s" and c: "covered (vault_of s) c"
  then have q: "quiet s" "fs_ok s" by (simp_all add: ready_def)
  note calls = simulated_Delete [OF q] simulated_Mkdir [OF q] simulated_Rmdir [OF q] simulated_Access [OF q]
    simulated_Attributes [OF q] simulated_Mode [OF q] simulated_Rename [OF q] simulated_Create [OF q]
  have "simulated s c"
    using s c calls by (cases c) (auto intro: simulated_Fetch simulated_Store)
  then show "\<exists>a t. server_step c s = (a, t) \<and> vault_step c (vault_of s) = (a, vault_of t) \<and> ready t"
    by (simp add: simulated_def)
qed

end
