(* ===== verification/Vault_Properties.thy ===== *)
theory Vault_Properties
  imports Vault_Facts Samples
begin

text \<open>
  The refinement of the vault by the server, and a session at which it is applied.
\<close>


text \<open>C9. The server fails safe. Whatever the request and whichever system calls fail, with any error, a
handler of one request and one reply agrees only if it has done exactly what the service would do, and
a refusal changes nothing. \<open>CreateFile\<close> alone may refuse, or crash, and yet have created or emptied the
file, as the service would have.\<close>

theorem server_fails_safe:
  assumes "fs_ok s" "single c" "server_step c s = (a, t)"
  shows "fs_ok t \<and>
    (a = Agreed \<and> vault_step c (vault_of s) = (Agreed, vault_of t) \<or>
     (\<exists>e. a = Refused e) \<and> vault_of t = vault_of s \<or>
     (\<exists>rq. c = Create rq) \<and> a \<noteq> Agreed \<and> vault_of t = snd (vault_step c (vault_of s)))"
  using safe_single [OF assms] unfolding safe_outcome_def .

theorem server_fails_safe_witness:
  "\<exists>t. server_step (Rename ((request_for ''/a'')\<lparr>q_newfilename := ''/b''\<rparr>)) (one_file ''/a'' ''old'' [Fail 5])
     = (Refused 5, t) \<and> vault_of t ''/a'' = Some (Regular ''old'') \<and> vault_of t ''/b'' = None"
proof -
  let ?c = "Rename ((request_for ''/a'')\<lparr>q_newfilename := ''/b''\<rparr>)" and ?s = "one_file ''/a'' ''old'' [Fail 5]"
  have a: "fst (server_step ?c ?s) = Refused 5" by code_simp
  have v: "vault_of ?s ''/a'' = Some (Regular ''old'')" "vault_of ?s ''/b'' = None"
    by (simp_all add: vault_of_views)
  obtain t where t: "server_step ?c ?s = (Refused 5, t)" using a by (metis prod.collapse)
  have "vault_of t = vault_of ?s"
    using server_fails_safe [OF _ _ t] by (simp del: server_step.simps vault_step.simps)
  with t v show ?thesis by simp
qed



end
