(* ===== verification/Mount_Properties.thy ===== *)
theory Mount_Properties
  imports Samples
begin

text \<open>
  The properties of the client and of the FUSE operations: what they guarantee for any server, and
  what the code does where it does not do what its callers expect.
\<close>



text \<open>C14. \<open>read\<close> and \<open>write\<close> on an open file return and keep the semaphores too: \<open>read\<close> on any
descriptor but -1, \<open>write\<close> if moreover the file has a cache entry.\<close>

theorem read_write_return:
  assumes "mount_ok m" "ffi_fh fi \<noteq> -1" "cached (afsClient m) p \<noteq> None"
  shows "balanced (wiscAFS_read stub p len off (Some fi) m srv) m \<and>
    balanced (wiscAFS_write stub p buf off (Some fi) m srv) m"
  by (intro conjI fd_ops_balanced assms)

theorem read_write_return_witness:
  "balanced (wiscAFS_write direct ''/a'' ''xy'' 3 (Some \<lparr>ffi_flags = 0, ffi_fh = 0\<rparr>)
     (copy_mount ''/a'' ''hello'' False) (empty_fs [], [])) (copy_mount ''/a'' ''hello'' False)"
  using read_write_return [of "copy_mount ''/a'' ''hello'' False" "\<lparr>ffi_flags = 0, ffi_fh = 0\<rparr>" "''/a''"
      direct 0 3 "(empty_fs [], [])" "''xy''"] by simp

text \<open>C15. A \<open>read\<close> on descriptor -1 posts \<open>wiscOPSem\<close> without having waited for it: it adds one to
the semaphore, so that two operations that exclude each other by it may then overlap.\<close>

theorem read_unbalances_semaphore:
  assumes "ffi_fh fi = -1"
  shows "\<exists>r m' m1 m2. wiscAFS_read stub p len off (Some fi) m srv = Some (r, m', srv) \<and>
    opSem m' = Suc (opSem m) \<and> (0 < opSem m \<longrightarrow> lock_ops m' = Some m1 \<and> lock_ops m1 = Some m2)"
  using read_posts [OF assms, of stub p len off m srv]
  by (cases "opSem m") (auto simp: lock_ops_def sem_simps)

theorem read_unbalances_semaphore_witness:
  "\<exists>r m'. wiscAFS_read direct ''/a'' 4 0 (Some \<lparr>ffi_flags = 0, ffi_fh = -1\<rparr>) fresh_mount (empty_fs [], [])
     = Some (r, m', (empty_fs [], [])) \<and> opSem m' = Suc (opSem fresh_mount)"
  using read_unbalances_semaphore [of "\<lparr>ffi_flags = 0, ffi_fh = -1\<rparr>" direct "''/a''" 4 0 fresh_mount "(empty_fs [], [])"]
  by auto

text \<open>C16. A file that is written and read through the same mount. A \<open>write\<close> to an open copy returns
the number of bytes, and a \<open>read\<close> after it returns the requested range of the copy with these bytes in
place; neither touches the server.\<close>

theorem read_own_write:
  assumes "mount_ready m" "holds m p d dirty (ffi_fh fi)" "length buf < 2 ^ 31" "len < 2 ^ 31"
  shows "\<exists>m1 m2. wiscAFS_write stub p buf off (Some fi) m srv = Some (int (length buf), m1, srv) \<and>
    wiscAFS_read stub p len pos (Some fi) m1 srv
      = Some ((int (length (take len (drop pos (overwrite off buf d)))),
               take len (drop pos (overwrite off buf d))), m2, srv) \<and>
    holds m2 p (overwrite off buf d) True (ffi_fh fi)"
proof -
  obtain m1 where m1: "wiscAFS_write stub p buf off (Some fi) m srv = Some (int (length buf), m1, srv)"
    "mount_ready m1" "holds m1 p (overwrite off buf d) True (ffi_fh fi)"
    using write_copy [OF assms(1-3), of stub off srv] by blast
  then show ?thesis using read_copy [OF m1(2,3) assms(4), of stub pos srv] by blast
qed

theorem read_own_write_witness:
  "\<exists>m1 m2. wiscAFS_write direct ''/a'' ''XY'' 3 (Some \<lparr>ffi_flags = 2, ffi_fh = 0\<rparr>)
       (copy_mount ''/a'' ''hello'' False) (empty_fs [], []) = Some (2, m1, (empty_fs [], [])) \<and>
     wiscAFS_read direct ''/a'' 10 1 (Some \<lparr>ffi_flags = 2, ffi_fh = 0\<rparr>) m1 (empty_fs [], [])
       = Some ((4, ''elXY''), m2, (empty_fs [], []))"
  using read_own_write [of "copy_mount ''/a'' ''hello'' False" "''/a''" "''hello''" False
      "\<lparr>ffi_flags = 2, ffi_fh = 0\<rparr>" "''XY''" 10 direct 3 "(empty_fs [], [])" 1]
  by (auto simp: overwrite_def)

text \<open>C17. \<open>open\<close> on a mount fetches the server's file into a clean local copy; the server keeps its
files.\<close>

theorem open_makes_copy:
  assumes "mount_ready m" "ready (fst srv)" "file_at (fst srv) p = Some d" "length d < 2 ^ 31"
    and "plain_flags (ffi_flags fi)" "next_ino (fst srv) \<le> 2 ^ 31"
    and "\<forall>i. \<not> is_dir_at (kernel_of m) (copy_path i)"
  shows "\<exists>fi' m' srv'. wiscAFS_open direct p fi m srv = Some ((0, fi'), m', srv') \<and> mount_ready m' \<and>
    holds m' p d False (ffi_fh fi') \<and> ready (fst srv') \<and> file_at (fst srv') = file_at (fst srv)"
proof -
  have "unat (direct_ino srv p) < 2 ^ 31"
    using direct_ino_small [of srv p] assms(2,3,6) by (simp add: direct_defs)
  then show ?thesis
    using ds.mount_open_fetches [of m srv p d fi] assms by (auto simp: direct_defs)
qed

theorem open_makes_copy_witness:
  "\<exists>fi' m' srv'. wiscAFS_open direct ''/a'' \<lparr>ffi_flags = 2, ffi_fh = 0\<rparr> fresh_mount
       (one_file ''/a'' ''hello'' [], []) = Some ((0, fi'), m', srv') \<and> holds m' ''/a'' ''hello'' False (ffi_fh fi')"
  using open_makes_copy [of fresh_mount "(one_file ''/a'' ''hello'' [], [])" "''/a''" "''hello''" "\<lparr>ffi_flags = 2, ffi_fh = 0\<rparr>"]
  by (auto simp: plain_flags_def can_read_def has_flag_def)

text \<open>C18. \<open>flush\<close> of a written, non-empty copy makes it the server's file.\<close>

theorem flush_stores_copy:
  assumes "mount_ready m" "holds m p d True (ffi_fh fi)" "d \<noteq> []" "length d < 2 ^ 63" "ready (fst srv)"
    and "\<not> is_dir_at (fst srv) p" "\<not> is_dir_at (fst srv) (temp_path p)"
  shows "\<exists>m' srv'. wiscAFS_flush direct p fi m srv = Some (0, m', srv') \<and> mount_ready m' \<and>
    ready (fst srv') \<and> file_at (fst srv') = (file_at (fst srv))(p \<mapsto> d, temp_path p := None)"
  using ds.flush_stores [of m p d fi srv] assms by (auto simp: direct_defs)

theorem flush_stores_copy_witness:
  "\<exists>m' srv'. wiscAFS_flush direct ''/a'' \<lparr>ffi_flags = 2, ffi_fh = 0\<rparr> (copy_mount ''/a'' ''hello'' True)
       (one_file ''/a'' ''old'' [], []) = Some (0, m', srv') \<and> file_at (fst srv') ''/a'' = Some ''hello''"
  using flush_stores_copy [of "copy_mount ''/a'' ''hello'' True" "''/a''" "''hello''" "\<lparr>ffi_flags = 2, ffi_fh = 0\<rparr>"
      "(one_file ''/a'' ''old'' [], [])"] by auto

end
