(* ===== verification/Ini.thy ===== *)
theory Ini
  imports CLib
begin

text \<open>
  \<open>unreliablefs/conf.c\<close>: the INI parser, with the switches as \<open>conf.h\<close> leaves them (stack buffer of
  200 bytes, multi-line values, byte-order mark, inline comments; no stop on the first error). A C
  string is a list without the terminating NUL. The user data of the handler is threaded through it,
  a handler returning 0 on error. A reader is given the size of the buffer and a stream.
\<close>

abbreviation INI_MAX_LINE :: nat where "INI_MAX_LINE \<equiv> 200"
abbreviation MAX_SECTION :: nat where "MAX_SECTION \<equiv> 50"
abbreviation MAX_NAME :: nat where "MAX_NAME \<equiv> 50"

subsection \<open>String helpers\<close>

definition rstrip :: "string \<Rightarrow> string" where
  "rstrip s = rev (dropWhile isspace (rev s))"

definition lskip :: "string \<Rightarrow> string" where
  "lskip s = dropWhile isspace s"

text \<open>
  The string is split where the returned pointer points; the second argument is \<open>was_space\<close>, and
  \<open>chars\<close> is \<open>None\<close> for a null pointer.
\<close>

fun find_chars_or_comment :: "string option \<Rightarrow> bool \<Rightarrow> string \<Rightarrow> string \<times> string" where
  "find_chars_or_comment chars was_space [] = ([], [])"
| "find_chars_or_comment chars was_space (c # s) =
     (if (case chars of None \<Rightarrow> False | Some cs \<Rightarrow> c \<in> set cs) \<or> was_space \<and> c = CHR '';''
      then ([], c # s)
      else (case find_chars_or_comment chars (isspace c) s of (a, b) \<Rightarrow> (c # a, b)))"

definition strncpy0 :: "string \<Rightarrow> nat \<Rightarrow> string" where
  "strncpy0 src size' = take (size' - 1) src"

subsection \<open>One line\<close>

type_synonym 'u ini_handler = "string \<Rightarrow> string \<Rightarrow> string \<Rightarrow> 'u \<Rightarrow> int \<times> 'u"

text \<open>
  What \<open>ini_parse_stream\<close> keeps from line to line. Its \<open>int\<close> counters are natural numbers here: they agree on
  files of fewer than 2 ^ 31 lines, and on longer ones the increment of the source is undefined.
\<close>

record 'u ini_state =
  ini_section :: string
  prev_name :: string
  lineno :: nat
  ini_error :: nat
  user :: 'u

definition ini_start :: "'u \<Rightarrow> 'u ini_state" where
  "ini_start u = \<lparr>ini_section = [], prev_name = [], lineno = 0, ini_error = 0, user = u\<rparr>"

definition note_error :: "'u ini_state \<Rightarrow> 'u ini_state" where
  "note_error st = (if ini_error st = 0 then st\<lparr>ini_error := lineno st\<rparr> else st)"

definition call_handler :: "'u ini_handler \<Rightarrow> string \<Rightarrow> string \<Rightarrow> 'u ini_state \<Rightarrow> 'u ini_state" where
  "call_handler handler name value st =
     (case handler (ini_section st) name value (user st) of
        (r, u) \<Rightarrow> (let st = st\<lparr>user := u\<rparr> in if r = 0 then note_error st else st))"

definition UTF8_BOM :: string where
  "UTF8_BOM = [CHR 0xEF, CHR 0xBB, CHR 0xBF]"

definition ini_line :: "'u ini_handler \<Rightarrow> string \<Rightarrow> 'u ini_state \<Rightarrow> 'u ini_state" where
  "ini_line handler line st =
     (let st = st\<lparr>lineno := Suc (lineno st)\<rparr>;
          bom = (lineno st = 1 \<and> prefix UTF8_BOM line);
          text = rstrip (if bom then drop 3 line else line);
          start = lskip text;
          moved = (bom \<or> start \<noteq> text)
      in if start = [] \<or> hd start \<in> set '';#'' then st
         else if prev_name st \<noteq> [] \<and> moved then call_handler handler (prev_name st) start st
         else if hd start = CHR ''['' then
           (case find_chars_or_comment (Some '']'') False (tl start) of
              (name, rest) \<Rightarrow>
                if rest \<noteq> [] \<and> hd rest = CHR '']''
                then st\<lparr>ini_section := strncpy0 name MAX_SECTION, prev_name := []\<rparr>
                else note_error st)
         else
           (case find_chars_or_comment (Some ''=:'') False start of
              (before, rest) \<Rightarrow>
                if rest \<noteq> [] \<and> (hd rest = CHR ''='' \<or> hd rest = CHR '':'')
                then (let name = rstrip before;
                          value = fst (find_chars_or_comment None False (tl rest));
                          value = rstrip (lskip value)
                      in call_handler handler name value (st\<lparr>prev_name := strncpy0 name MAX_NAME\<rparr>))
                else note_error st))"

subsection \<open>The loop over the lines\<close>

type_synonym 's ini_reader = "nat \<Rightarrow> 's \<Rightarrow> (string \<times> 's) option"

partial_function (option) parse_lines :: "'s ini_reader \<Rightarrow> 'u ini_handler \<Rightarrow> 's \<Rightarrow> 'u ini_state
    \<Rightarrow> 'u ini_state option" where
  "parse_lines reader handler stream st =
     (case reader INI_MAX_LINE stream of
        None \<Rightarrow> Some st
      | Some (line, stream) \<Rightarrow> parse_lines reader handler stream (ini_line handler line st))"

text \<open>The return value and the user data; \<open>None\<close> when the loop does not end.\<close>

definition ini_parse_stream :: "'s ini_reader \<Rightarrow> 's \<Rightarrow> 'u ini_handler \<Rightarrow> 'u \<Rightarrow> (int \<times> 'u) option" where
  "ini_parse_stream reader stream handler u =
     map_option (\<lambda>st. (int (ini_error st), user st)) (parse_lines reader handler stream (ini_start u))"

subsection \<open>Readers\<close>

text \<open>Bytes are copied up to a newline, while more than one byte of the buffer is left.\<close>

fun copy_line :: "nat \<Rightarrow> string \<Rightarrow> string \<times> string" where
  "copy_line num [] = ([], [])"
| "copy_line num (c # s) =
     (if num \<le> 1 then ([], c # s)
      else if c = NL then ([c], s)
      else (case copy_line (num - 1) s of (l, r) \<Rightarrow> (c # l, r)))"

definition ini_reader_string :: "string ini_reader" where
  "ini_reader_string num ctx = (if ctx = [] \<or> num < 2 then None else Some (copy_line num ctx))"

text \<open>
  \<open>fgets\<close> on a file whose remaining bytes are the stream: the line ends at the first NUL byte for
  a reader of the buffer.
\<close>

definition fgets :: "string ini_reader" where
  "fgets num file =
     (if file = [] \<or> num < 2 then None
      else (case copy_line num file of (l, r) \<Rightarrow> Some (takeWhile (\<lambda>c. c \<noteq> NUL) l, r)))"

definition ini_parse_string :: "string \<Rightarrow> 'u ini_handler \<Rightarrow> 'u \<Rightarrow> (int \<times> 'u) option" where
  "ini_parse_string str handler u = ini_parse_stream ini_reader_string str handler u"

definition ini_parse_file :: "string \<Rightarrow> 'u ini_handler \<Rightarrow> 'u \<Rightarrow> (int \<times> 'u) option" where
  "ini_parse_file file handler u = ini_parse_stream fgets file handler u"

text \<open>\<open>fopen\<close> is the look-up of the file's contents, which may fail.\<close>

definition ini_parse :: "(path \<Rightarrow> string option) \<Rightarrow> path \<Rightarrow> 'u ini_handler \<Rightarrow> 'u \<Rightarrow> (int \<times> 'u) option" where
  "ini_parse fopen filename handler u =
     (case fopen filename of None \<Rightarrow> Some (-1, u) | Some file \<Rightarrow> ini_parse_file file handler u)"

end
