(* ===== verification/Errinj.thy ===== *)
theory Errinj
  imports Ini Errno_Linux
begin

text \<open>
  \<open>unreliablefs/unreliablefs_errinj.c\<close> with its header, \<open>unreliablefs.h\<close> and the operation names of
  \<open>unreliablefs_ops.c\<close>: which error an operation of the file system is to fail with. The host
  is the kernel of \<open>Posix\<close>, the number of live heap blocks, the random numbers to come, the
  pid of the caller, a record of the signals and sleeps, and the regular expression functions,
  which are parameters. An allocation fails when the schedule of faults says so. \<open>None\<close> is a read
  outside an array or a lock that is already held.
\<close>

subsection \<open>Data\<close>

datatype fuse_op = OP_GETATTR | OP_READLINK | OP_MKNOD | OP_MKDIR | OP_UNLINK | OP_RMDIR | OP_SYMLINK
  | OP_RENAME | OP_LINK | OP_CHMOD | OP_CHOWN | OP_TRUNCATE | OP_OPEN | OP_READ | OP_WRITE | OP_STATFS
  | OP_FLUSH | OP_RELEASE | OP_FSYNC | OP_SETXATTR | OP_GETXATTR | OP_LISTXATTR | OP_REMOVEXATTR
  | OP_OPENDIR | OP_READDIR | OP_RELEASEDIR | OP_FSYNCDIR | OP_ACCESS | OP_CREAT | OP_FTRUNCATE
  | OP_FGETATTR | OP_LOCK | OP_IOCTL | OP_FLOCK | OP_FALLOCATE | OP_UTIMENS | OP_LSTAT

text \<open>The enumerators in their order: an operation's number is its place.\<close>

definition fuse_ops :: "fuse_op list" where
  "fuse_ops = [OP_GETATTR, OP_READLINK, OP_MKNOD, OP_MKDIR, OP_UNLINK, OP_RMDIR, OP_SYMLINK,
     OP_RENAME, OP_LINK, OP_CHMOD, OP_CHOWN, OP_TRUNCATE, OP_OPEN, OP_READ, OP_WRITE, OP_STATFS,
     OP_FLUSH, OP_RELEASE, OP_FSYNC, OP_SETXATTR, OP_GETXATTR, OP_LISTXATTR, OP_REMOVEXATTR,
     OP_OPENDIR, OP_READDIR, OP_RELEASEDIR, OP_FSYNCDIR, OP_ACCESS, OP_CREAT, OP_FTRUNCATE,
     OP_FGETATTR, OP_LOCK, OP_IOCTL, OP_FLOCK, OP_FALLOCATE, OP_UTIMENS, OP_LSTAT]"

definition fuse_op_names :: "string list" where
  "fuse_op_names = [''getattr'', ''readlink'', ''mknod'', ''mkdir'', ''unlink'', ''rmdir'', ''symlink'',
     ''rename'', ''link'', ''chmod'', ''chown'', ''truncate'', ''open'', ''read'', ''write'', ''statfs'',
     ''flush'', ''release'', ''fsync'', ''setxattr'', ''getxattr'', ''listxattr'', ''removexattr'',
     ''opendir'', ''readdir'', ''releasedir'', ''fsyncdir'', ''access'', ''creat'', ''ftruncate'',
     ''fgetattr'', ''lock'', ''ioctl'', ''flock'', ''fallocate'', ''utimens'', ''lstat'']"

definition op_number :: "fuse_op \<Rightarrow> nat" where
  "op_number op = length (takeWhile (\<lambda>x. x \<noteq> op) fuse_ops)"

definition fuse_op_name :: "fuse_op \<Rightarrow> string" where
  "fuse_op_name op = fuse_op_names ! op_number op"

datatype errinj_type = ERRINJ_ERRNO | ERRINJ_KILL_CALLER | ERRINJ_NOOP | ERRINJ_SLOWDOWN

definition errinj_types :: "errinj_type list" where
  "errinj_types = [ERRINJ_ERRNO, ERRINJ_KILL_CALLER, ERRINJ_NOOP, ERRINJ_SLOWDOWN]"

definition errinj_name :: "string list" where
  "errinj_name = [''errinj_errno'', ''errinj_kill_caller'', ''errinj_noop'', ''errinj_slowdown'']"

abbreviation (input) ERRNO_NOOP :: int where "ERRNO_NOOP \<equiv> -999"
abbreviation (input) MIN_PROBABLITY :: int where "MIN_PROBABLITY \<equiv> 0"
abbreviation (input) MAX_PROBABLITY :: int where "MAX_PROBABLITY \<equiv> 100"
abbreviation (input) DEFAULT_SIGNAL_NAME :: int where "DEFAULT_SIGNAL_NAME \<equiv> 9"

record errinj_conf =
  err_injection_name :: "string option"
  op_regexp :: "string option"
  path_regexp :: "string option"
  errno_regexp :: "string option"
  probability :: u32
  duration :: u32
  inj_type :: errinj_type

text \<open>A block from \<open>calloc\<close>, its type assigned.\<close>

definition new_errinj :: "errinj_type \<Rightarrow> errinj_conf" where
  "new_errinj t = \<lparr>err_injection_name = None, op_regexp = None, path_regexp = None, errno_regexp = None,
     probability = 0, duration = 0, inj_type = t\<rparr>"

record unreliablefs_config =
  errors :: "errinj_conf list option"
  basedir :: path
  config_path :: path
  seed :: u32
  debug :: u32
  mutex :: bool               \<comment> \<open>held\<close>

record host =
  os :: fsys
  heap :: int                 \<comment> \<open>blocks allocated and not freed\<close>
  rand_seq :: "nat \<Rightarrow> nat"
  rand_pos :: nat
  caller :: "int option"      \<comment> \<open>the pid in the context of the FUSE request\<close>
  signals :: "(int \<times> int) list"
  sleeps :: "int list"
  regcomp :: "string \<Rightarrow> int"
  regexec :: "string \<Rightarrow> string \<Rightarrow> int"

subsection \<open>The C library\<close>

definition c_rand :: "host \<Rightarrow> nat \<times> host" where
  "c_rand h = (rand_seq h (rand_pos h), h\<lparr>rand_pos := Suc (rand_pos h)\<rparr>)"

definition c_alloc :: "host \<Rightarrow> bool \<times> host" where
  "c_alloc h = (case take_fault (os h) of
       (Fail e, s) \<Rightarrow> (False, h\<lparr>os := s\<lparr>errno := e\<rparr>\<rparr>)
     | (_, s) \<Rightarrow> (True, h\<lparr>os := s, heap := heap h + 1\<rparr>))"

definition c_free :: "host \<Rightarrow> host" where
  "c_free h = h\<lparr>heap := heap h - 1\<rparr>"

definition c_strdup :: "string \<Rightarrow> host \<Rightarrow> string option \<times> host" where
  "c_strdup v h = (case c_alloc h of (ok, h) \<Rightarrow> (if ok then Some v else None, h))"

definition c_kill :: "int \<Rightarrow> int \<Rightarrow> host \<Rightarrow> host" where
  "c_kill pid sig h = h\<lparr>signals := signals h @ [(pid, sig)]\<rparr>"

text \<open>\<open>nanosleep\<close> rejects a number of nanoseconds that is not less than a second.\<close>

definition c_nanosleep :: "int \<Rightarrow> host \<Rightarrow> int \<times> host" where
  "c_nanosleep ns h = (if 0 \<le> ns \<and> ns < 10 ^ 9 then (0, h\<lparr>sleeps := sleeps h @ [ns]\<rparr>)
     else (-1, h\<lparr>os := (os h)\<lparr>errno := EINVAL\<rparr>\<rparr>))"

text \<open>\<open>fopen\<close> for reading, with the bytes the stream will deliver: a directory opens and delivers none.\<close>

definition c_fopen :: "path \<Rightarrow> fsys \<Rightarrow> string option \<times> fsys" where
  "c_fopen p s = (case take_fault s of
       (Fail e, s) \<Rightarrow> (None, s\<lparr>errno := e\<rparr>)
     | (_, s) \<Rightarrow> (case lookup s p of
           None \<Rightarrow> (None, s\<lparr>errno := ENOENT\<rparr>)
         | Some nd \<Rightarrow> (Some (if i_isdir nd then [] else i_data nd), s)))"

subsection \<open>Random errors\<close>

definition rand_range :: "int \<Rightarrow> int \<Rightarrow> host \<Rightarrow> int \<times> host" where
  "rand_range min_n max_n h = (case c_rand h of (r, h) \<Rightarrow> (int r mod (max_n - min_n + 1) + min_n, h))"

text \<open>\<open>RANDOM_ELEMENT\<close>: \<open>None\<close> when the index is outside the array.\<close>

definition RANDOM_ELEMENT :: "int list \<Rightarrow> host \<Rightarrow> (int \<times> host) option" where
  "RANDOM_ELEMENT arr h =
     (case rand_range 0 (int (length arr)) h of
        (i, h) \<Rightarrow> if 0 \<le> i \<and> nat i < length arr then Some (arr ! nat i, h) else None)"

fun op_errnos :: "fuse_op \<Rightarrow> int list" where
  "op_errnos OP_LSTAT = errno_lstat"
| "op_errnos OP_GETATTR = errno_lstat"
| "op_errnos OP_READLINK = errno_readlink"
| "op_errnos OP_MKNOD = errno_mknod"
| "op_errnos OP_MKDIR = errno_mkdir"
| "op_errnos OP_UNLINK = errno_unlink"
| "op_errnos OP_RMDIR = errno_rmdir"
| "op_errnos OP_SYMLINK = errno_symlink"
| "op_errnos OP_RENAME = errno_rename"
| "op_errnos OP_LINK = errno_link"
| "op_errnos OP_CHMOD = errno_chmod"
| "op_errnos OP_CHOWN = errno_chmod"
| "op_errnos OP_TRUNCATE = errno_truncate"
| "op_errnos OP_OPEN = errno_creat"
| "op_errnos OP_READ = errno_read"
| "op_errnos OP_WRITE = errno_write"
| "op_errnos OP_STATFS = errno_statfs"
| "op_errnos OP_FLUSH = errno_close"
| "op_errnos OP_RELEASE = errno_close"
| "op_errnos OP_FSYNC = errno_fsync"
| "op_errnos OP_SETXATTR = errno_setxattr"
| "op_errnos OP_GETXATTR = errno_getxattr"
| "op_errnos OP_LISTXATTR = errno_listxattr"
| "op_errnos OP_REMOVEXATTR = errno_removexattr"
| "op_errnos OP_OPENDIR = errno_opendir"
| "op_errnos OP_READDIR = errno_readdir"
| "op_errnos OP_RELEASEDIR = errno_close"
| "op_errnos OP_FSYNCDIR = errno_fsync"
| "op_errnos OP_ACCESS = errno_access"
| "op_errnos OP_CREAT = errno_creat"
| "op_errnos OP_FTRUNCATE = errno_ftruncate"
| "op_errnos OP_FGETATTR = errno_lstat"
| "op_errnos OP_LOCK = errno_fcntl"
| "op_errnos OP_IOCTL = errno_ioctl"
| "op_errnos OP_FLOCK = errno_flock"
| "op_errnos OP_FALLOCATE = errno_fallocate"
| "op_errnos OP_UTIMENS = errno_utimensat"

definition op_random_errno :: "fuse_op \<Rightarrow> host \<Rightarrow> (int \<times> host) option" where
  "op_random_errno op_n h = RANDOM_ELEMENT (op_errnos op_n) h"

subsection \<open>Injection\<close>

definition is_regex_matched :: "string option \<Rightarrow> string \<Rightarrow> host \<Rightarrow> int" where
  "is_regex_matched regex str h =
     (case regex of
        None \<Rightarrow> 0
      | Some r \<Rightarrow> if regcomp h r \<noteq> 0 then regcomp h r else regexec h r str)"

text \<open>One entry of the queue: the result so far and the one after it.\<close>

definition inject_one :: "path \<Rightarrow> fuse_op \<Rightarrow> errinj_conf \<Rightarrow> int \<Rightarrow> host \<Rightarrow> (int \<times> host) option" where
  "inject_one path operation err rc h =
     (case rand_range MIN_PROBABLITY MAX_PROBABLITY h of
        (p, h) \<Rightarrow>
          if \<not> (word_of_int p :: u32) \<le> probability err then Some (rc, h)
          else if is_regex_matched (path_regexp err) path h \<noteq> 0 then Some (rc, h)
          else if is_regex_matched (op_regexp err) (fuse_op_name operation) h \<noteq> 0 then Some (rc, h)
          else (case inj_type err of
                  ERRINJ_NOOP \<Rightarrow> Some (- ERRNO_NOOP, h)
                | ERRINJ_KILL_CALLER \<Rightarrow>
                    Some (rc, case caller h of None \<Rightarrow> h | Some pid \<Rightarrow> c_kill pid DEFAULT_SIGNAL_NAME h)
                | ERRINJ_ERRNO \<Rightarrow> map_option (\<lambda>(rc, h). (- rc, h)) (op_random_errno operation h)
                | ERRINJ_SLOWDOWN \<Rightarrow> Some (rc, snd (c_nanosleep (uint (duration err)) h))))"

fun inject_all :: "path \<Rightarrow> fuse_op \<Rightarrow> errinj_conf list \<Rightarrow> int \<Rightarrow> host \<Rightarrow> (int \<times> host) option" where
  "inject_all path operation [] rc h = Some (rc, h)"
| "inject_all path operation (err # errs) rc h =
     (case inject_one path operation err rc h of
        None \<Rightarrow> None
      | Some (rc, h) \<Rightarrow> inject_all path operation errs rc h)"

subsection \<open>Configuration\<close>

text \<open>The number of the type, -1 for an unknown name.\<close>

definition errinj_type_by_name :: "string \<Rightarrow> int" where
  "errinj_type_by_name name =
     fold (\<lambda>i idx. if errinj_name ! i = name then int i else idx) [0..<length errinj_name] (-1)"

fun set_first :: "errinj_type \<Rightarrow> (errinj_conf \<Rightarrow> errinj_conf) \<Rightarrow> errinj_conf list \<Rightarrow> errinj_conf list" where
  "set_first t g [] = []"
| "set_first t g (e # es) = (if inj_type e = t then g e # es else e # set_first t g es)"

fun find_first :: "errinj_type \<Rightarrow> errinj_conf list \<Rightarrow> errinj_conf option" where
  "find_first t [] = None"
| "find_first t (e # es) = (if inj_type e = t then Some e else find_first t es)"

definition free_opt :: "string option \<Rightarrow> host \<Rightarrow> host" where
  "free_opt r h = (if r = None then h else c_free h)"

definition conf_option_handler :: "(errinj_conf list \<times> host) ini_handler" where
  "conf_option_handler section key value cfg =
     (let cur_type = errinj_type_by_name section in
      if cur_type = -1 then (-1, cfg)
      else
        (let t = errinj_types ! nat cur_type; (q, h) = cfg;
             (entry, q, h) =
               (case find_first t q of
                  Some err \<Rightarrow> (Some err, q, h)
                | None \<Rightarrow> (case c_alloc h of (ok, h) \<Rightarrow>
                     if ok then (Some (new_errinj t), q @ [new_errinj t], h) else (None, q, h)))
         in case entry of
              None \<Rightarrow> (-1, q, h)
            | Some err \<Rightarrow>
                if key = ''path_regexp'' then
                  (case c_strdup value (free_opt (path_regexp err) h) of
                     (v, h) \<Rightarrow> (1, set_first t (\<lambda>e. e\<lparr>path_regexp := v\<rparr>) q, h))
                else if key = ''op_regexp'' then
                  (case c_strdup value (free_opt (op_regexp err) h) of
                     (v, h) \<Rightarrow> (1, set_first t (\<lambda>e. e\<lparr>op_regexp := v\<rparr>) q, h))
                else if key = ''probability'' then
                  (1, set_first t (\<lambda>e. e\<lparr>probability := word_of_int (atoi value)\<rparr>) q, h)
                else if key = ''duration'' then
                  (1, set_first t (\<lambda>e. e\<lparr>duration := word_of_int (atoi value)\<rparr>) q, h)
                else (0, q, h)))"

definition config_init :: "path \<Rightarrow> host \<Rightarrow> (errinj_conf list option \<times> host) option" where
  "config_init conf_path h =
     (case c_alloc h of (ok, h) \<Rightarrow>
        if \<not> ok then Some (None, h)
        else (case sys_access conf_path 0 (os h) of (rc, s) \<Rightarrow>
          if rc = 0 then
            map_option (\<lambda>(rc, q, h). (if rc < 0 then None else Some q, h))
              (ini_parse (\<lambda>p. fst (c_fopen p s)) conf_path conf_option_handler
                 ([], h\<lparr>os := snd (c_fopen conf_path s)\<rparr>))
          else Some (Some [], h\<lparr>os := s\<rparr>)))"

text \<open>The entries are freed one by one, then the queue.\<close>

fun free_entries :: "errinj_conf list \<Rightarrow> host \<Rightarrow> host" where
  "free_entries [] h = h"
| "free_entries (err # es) h = free_entries es (c_free (free_opt (op_regexp err) (free_opt (path_regexp err) h)))"

definition config_delete :: "errinj_conf list option \<Rightarrow> host \<Rightarrow> host" where
  "config_delete queue h = (case queue of None \<Rightarrow> h | Some q \<Rightarrow> c_free (free_entries q h))"

subsection \<open>The entry point\<close>

definition error_inject :: "path \<Rightarrow> fuse_op \<Rightarrow> unreliablefs_config \<Rightarrow> host
    \<Rightarrow> (int \<times> unreliablefs_config \<times> host) option" where
  "error_inject path operation conf h =
     (if mutex conf then None
      else
        (let conf = conf\<lparr>mutex := True\<rparr> in
         if path = config_path conf then
           (case config_init path (config_delete (errors conf) h) of
              None \<Rightarrow> None
            | Some (errs, h) \<Rightarrow> Some (0, conf\<lparr>errors := errs, mutex := False\<rparr>, h))
         else
           (case errors conf of
              None \<Rightarrow> Some (0, conf\<lparr>mutex := False\<rparr>, h)
            | Some q \<Rightarrow>
               (case inject_all path operation q 0 h of
                  None \<Rightarrow> None
                | Some (rc, h) \<Rightarrow> Some (rc, conf\<lparr>mutex := False\<rparr>, h)))))"

end
