(* ===== verification/Posix_More.thy ===== *)
theory Posix_More
  imports Posix
begin

text \<open>
  The system calls only the unreliable file system makes, over the same kernel: links, special
  files, extended attributes, synchronisation, locks, preallocation, time stamps and directory
  streams. A symbolic link is an inode whose mode has the type of a link and whose data are the
  target; paths are not resolved through it. \<open>ioctl\<close> returns what the schedule says, a lock is
  granted unless the schedule refuses it.
\<close>

abbreviation (input) S_IFMT :: u32 where "S_IFMT \<equiv> 61440"
abbreviation (input) S_IFLNK :: u32 where "S_IFLNK \<equiv> 40960"
abbreviation (input) XATTR_CREATE :: u32 where "XATTR_CREATE \<equiv> 1"
abbreviation (input) XATTR_REPLACE :: u32 where "XATTR_REPLACE \<equiv> 2"

text \<open>A \<open>struct stat\<close> filled with zero bytes.\<close>

definition stat_zero :: stat where
  "stat_zero = \<lparr>st_dev = 0, st_ino = 0, st_mode = 0, st_nlink = 0, st_uid = 0, st_gid = 0, st_rdev = 0,
     st_size = 0, st_blksize = 0, st_blocks = 0, st_atim = 0, st_mtim = 0, st_ctim = 0,
     st_atime = 0, st_mtime = 0, st_ctime = 0\<rparr>"

definition call :: "(fsys \<Rightarrow> int \<times> fsys) \<Rightarrow> fsys \<Rightarrow> int \<times> fsys" where
  "call body s = (case take_fault s of (Fail e, s) \<Rightarrow> fail e s | (_, s) \<Rightarrow> body s)"

definition name_taken :: "path \<Rightarrow> fsys \<Rightarrow> bool" where
  "name_taken p s \<longleftrightarrow> map_of (names s) p \<noteq> None"

definition sys_link :: "path \<Rightarrow> path \<Rightarrow> fsys \<Rightarrow> int \<times> fsys" where
  "sys_link old new = call (\<lambda>s.
     case map_of (names s) old of
       None \<Rightarrow> fail ENOENT s
     | Some i \<Rightarrow>
         if name_taken new s then fail EEXIST s
         else if (case inodes s i of None \<Rightarrow> False | Some nd \<Rightarrow> i_isdir nd) then fail 1 s
         else (0, s\<lparr>names := AList.update new i (names s)\<rparr>))"

definition sys_mknod :: "path \<Rightarrow> u32 \<Rightarrow> u64 \<Rightarrow> fsys \<Rightarrow> int \<times> fsys" where
  "sys_mknod p mode dev = call (\<lambda>s.
     if name_taken p s then fail EEXIST s
     else (let i = next_ino s; s = new_inode p False mode s
           in (0, s\<lparr>inodes := (inodes s)(i := map_option (\<lambda>nd. nd\<lparr>i_attr := (i_attr nd)\<lparr>st_rdev := dev\<rparr>\<rparr>)
                                                 (inodes s i))\<rparr>)))"

definition sys_symlink :: "string \<Rightarrow> path \<Rightarrow> fsys \<Rightarrow> int \<times> fsys" where
  "sys_symlink target p = call (\<lambda>s.
     if name_taken p s then fail EEXIST s
     else (0, set_data (next_ino s) target (new_inode p False (S_IFLNK OR 511) s)))"

text \<open>The number of bytes stored, and those bytes: \<open>readlink\<close> adds no terminator.\<close>

definition sys_readlink :: "path \<Rightarrow> nat \<Rightarrow> fsys \<Rightarrow> int \<times> bytes \<times> fsys" where
  "sys_readlink p n s = (case take_fault s of
       (Fail e, s) \<Rightarrow> (-1, [], s\<lparr>errno := e\<rparr>)
     | (_, s) \<Rightarrow> (case lookup s p of
           None \<Rightarrow> (-1, [], s\<lparr>errno := ENOENT\<rparr>)
         | Some nd \<Rightarrow>
             if st_mode (i_attr nd) AND S_IFMT \<noteq> S_IFLNK \<or> n = 0 then (-1, [], s\<lparr>errno := EINVAL\<rparr>)
             else (let t = take n (i_data nd) in (int (length t), t, s))))"

definition on_fd :: "int \<Rightarrow> (ofile \<Rightarrow> fsys \<Rightarrow> int \<times> fsys) \<Rightarrow> fsys \<Rightarrow> int \<times> fsys" where
  "on_fd fd body = call (\<lambda>s. case ofile_of s fd of None \<Rightarrow> fail EBADF s | Some f \<Rightarrow> body f s)"

definition sys_fsync :: "int \<Rightarrow> fsys \<Rightarrow> int \<times> fsys" where
  "sys_fsync fd = on_fd fd (\<lambda>f s. (0, s))"

definition sys_fdatasync :: "int \<Rightarrow> fsys \<Rightarrow> int \<times> fsys" where
  "sys_fdatasync fd = on_fd fd (\<lambda>f s. (0, s))"

definition sys_fcntl_lock :: "int \<Rightarrow> int \<Rightarrow> fsys \<Rightarrow> int \<times> fsys" where
  "sys_fcntl_lock fd cmd = on_fd fd (\<lambda>f s. (0, s))"

definition sys_flock :: "int \<Rightarrow> int \<Rightarrow> fsys \<Rightarrow> int \<times> fsys" where
  "sys_flock fd op = on_fd fd (\<lambda>f s. (0, s))"

definition sys_ioctl :: "int \<Rightarrow> int \<Rightarrow> fsys \<Rightarrow> int \<times> fsys" where
  "sys_ioctl fd cmd s = (case take_fault s of
       (Fail e, s) \<Rightarrow> fail e s
     | (f, s) \<Rightarrow> (case ofile_of s fd of None \<Rightarrow> fail EBADF s
                   | Some _ \<Rightarrow> (case f of Short k \<Rightarrow> int k | _ \<Rightarrow> 0, s)))"

definition sys_fallocate :: "int \<Rightarrow> int \<Rightarrow> int \<Rightarrow> fsys \<Rightarrow> int \<times> fsys" where
  "sys_fallocate fd off len = on_fd fd (\<lambda>f s.
     case inodes s (of_ino f) of
       None \<Rightarrow> fail EBADF s
     | Some nd \<Rightarrow>
         if \<not> of_w f then fail EBADF s
         else if off < 0 \<or> len \<le> 0 then fail EINVAL s
         else (0, set_data (of_ino f) (i_data nd @ replicate (nat (off + len) - length (i_data nd)) NUL) s))"

text \<open>A null pointer sets the current time, which this kernel does not have.\<close>

type_synonym timespec = "u64 \<times> u64"  \<comment> \<open>seconds, nanoseconds\<close>

definition sys_utimensat :: "path \<Rightarrow> (timespec \<times> timespec) option \<Rightarrow> fsys \<Rightarrow> int \<times> fsys" where
  "sys_utimensat p ts = set_attr p (\<lambda>a. case ts of None \<Rightarrow> a
     | Some ((as, an), (ms, mn)) \<Rightarrow> a\<lparr>st_atime := as, st_atim := an, st_mtime := ms, st_mtim := mn\<rparr>)"

subsection \<open>Extended attributes\<close>

definition sys_setxattr :: "path \<Rightarrow> string \<Rightarrow> string \<Rightarrow> u32 \<Rightarrow> fsys \<Rightarrow> int \<times> fsys" where
  "sys_setxattr p name val flags = call (\<lambda>s.
     if lookup s p = None then fail ENOENT s
     else if has_flag flags XATTR_CREATE \<and> map_of (xattrs s p) name \<noteq> None then fail EEXIST s
     else if has_flag flags XATTR_REPLACE \<and> map_of (xattrs s p) name = None then fail ENODATA s
     else (0, s\<lparr>xattrs := (xattrs s)(p := AList.update name val (xattrs s p))\<rparr>))"

definition sys_removexattr :: "path \<Rightarrow> string \<Rightarrow> fsys \<Rightarrow> int \<times> fsys" where
  "sys_removexattr p name = call (\<lambda>s.
     if lookup s p = None then fail ENOENT s
     else if map_of (xattrs s p) name = None then fail ENODATA s
     else (0, s\<lparr>xattrs := (xattrs s)(p := AList.delete name (xattrs s p))\<rparr>))"

text \<open>The names, each with its terminator.\<close>

definition sys_listxattr :: "path \<Rightarrow> nat \<Rightarrow> fsys \<Rightarrow> int \<times> bytes \<times> fsys" where
  "sys_listxattr p n s = (case take_fault s of
       (Fail e, s) \<Rightarrow> (-1, [], s\<lparr>errno := e\<rparr>)
     | (_, s) \<Rightarrow>
         (if lookup s p = None then (-1, [], s\<lparr>errno := ENOENT\<rparr>)
          else (let l = concat (map (\<lambda>x. fst x @ [NUL]) (xattrs s p))
                in if n = 0 then (int (length l), [], s)
                   else if n < length l then (-1, [], s\<lparr>errno := ERANGE\<rparr>)
                   else (int (length l), l, s))))"

end
