(* ===== verification/Unreliable_Ops.thy ===== *)
theory Unreliable_Ops
  imports Errinj Posix_More
begin

text \<open>
  \<open>unreliablefs/unreliablefs_ops.c\<close>: the operations of the unreliable file system. Each asks
  \<open>error_inject\<close> first and passes the request to the kernel only when nothing is injected. The
  state is the configuration, the host and the open directory streams; a stream is a number from
  1, 0 being the null pointer. An operation returns its value, what it stored for the caller and
  the state; \<open>None\<close> is undefined behaviour. A buffer the operation leaves alone is given back.
\<close>

record ufs =
  uconf :: unreliablefs_config
  uhost :: host
  dirs :: "dirent list option list"

record ufi =                  \<comment> \<open>the fields of \<open>fuse_file_info\<close> that are used\<close>
  uflags :: u32
  ufh :: u64

abbreviation kernel :: "ufs \<Rightarrow> fsys" where
  "kernel st \<equiv> os (uhost st)"

definition with_kernel :: "fsys \<Rightarrow> ufs \<Rightarrow> ufs" where
  "with_kernel s st = st\<lparr>uhost := (uhost st)\<lparr>os := s\<rparr>\<rparr>"

type_synonym 'a outcome = "(int \<times> 'a \<times> ufs) option"

text \<open>The beginning of every operation; \<open>out\<close> is what the caller's buffer holds.\<close>

definition injected :: "path \<Rightarrow> fuse_op \<Rightarrow> 'a \<Rightarrow> (ufs \<Rightarrow> 'a outcome) \<Rightarrow> ufs \<Rightarrow> 'a outcome" where
  "injected path operation out body st =
     (case error_inject path operation (uconf st) (uhost st) of
        None \<Rightarrow> None
      | Some (ret, c, h) \<Rightarrow>
          (let st = st\<lparr>uconf := c, uhost := h\<rparr> in
           if ret = - ERRNO_NOOP then Some (0, out, st)
           else if ret \<noteq> 0 then Some (ret, out, st)
           else body st))"

text \<open>The end of most: \<open>-errno\<close> when the call returned -1, 0 otherwise.\<close>

definition result :: "(fsys \<Rightarrow> int \<times> fsys) \<Rightarrow> ufs \<Rightarrow> unit outcome" where
  "result sys st =
     (case sys (kernel st) of (ret, s) \<Rightarrow> Some (if ret = -1 then - errno s else 0, (), with_kernel s st))"

definition negative :: "(fsys \<Rightarrow> int \<times> fsys) \<Rightarrow> ufs \<Rightarrow> unit outcome" where
  "negative sys st =
     (case sys (kernel st) of (ret, s) \<Rightarrow> Some (if ret < 0 then - errno s else 0, (), with_kernel s st))"

definition fh_int :: "ufi \<Rightarrow> int" where
  "fh_int fi = sint (ucast (ufh fi) :: u32)"

subsection \<open>Attributes and names\<close>

definition unreliable_lstat :: "path \<Rightarrow> stat \<Rightarrow> ufs \<Rightarrow> stat outcome" where
  "unreliable_lstat path buf = injected path OP_LSTAT buf (\<lambda>st.
     case sys_lstat path (kernel st) of
       (ret, b, s) \<Rightarrow> Some (if ret = -1 then (- errno s, stat_zero, with_kernel s st) else (0, b, with_kernel s st)))"

definition unreliable_getattr :: "path \<Rightarrow> stat \<Rightarrow> ufs \<Rightarrow> stat outcome" where
  "unreliable_getattr path buf = injected path OP_GETATTR buf (\<lambda>st.
     case sys_lstat path (kernel st) of
       (ret, b, s) \<Rightarrow> Some (if ret = -1 then (- errno s, stat_zero, with_kernel s st) else (0, b, with_kernel s st)))"

text \<open>The buffer has \<open>bufsiz\<close> bytes; the terminator is stored at the index \<open>ret\<close>.\<close>

definition unreliable_readlink :: "path \<Rightarrow> bytes \<Rightarrow> nat \<Rightarrow> ufs \<Rightarrow> bytes outcome" where
  "unreliable_readlink path buf bufsiz = injected path OP_READLINK buf (\<lambda>st.
     case sys_readlink path bufsiz (kernel st) of
       (ret, t, s) \<Rightarrow>
         if ret = -1 then Some (- errno s, buf, with_kernel s st)
         else if length t < bufsiz then Some (0, t @ NUL # drop (Suc (length t)) buf, with_kernel s st)
         else None)"

definition unreliable_mknod :: "path \<Rightarrow> u32 \<Rightarrow> u64 \<Rightarrow> ufs \<Rightarrow> unit outcome" where
  "unreliable_mknod path mode dev = injected path OP_MKNOD () (result (sys_mknod path mode dev))"

definition unreliable_mkdir :: "path \<Rightarrow> u32 \<Rightarrow> ufs \<Rightarrow> unit outcome" where
  "unreliable_mkdir path mode = injected path OP_MKDIR () (result (sys_mkdir path mode))"

definition unreliable_unlink :: "path \<Rightarrow> ufs \<Rightarrow> unit outcome" where
  "unreliable_unlink path = injected path OP_UNLINK () (result (sys_unlink path))"

definition unreliable_rmdir :: "path \<Rightarrow> ufs \<Rightarrow> unit outcome" where
  "unreliable_rmdir path = injected path OP_RMDIR () (result (sys_rmdir path))"

definition unreliable_symlink :: "string \<Rightarrow> path \<Rightarrow> ufs \<Rightarrow> unit outcome" where
  "unreliable_symlink target linkpath = injected target OP_SYMLINK () (result (sys_symlink target linkpath))"

definition unreliable_rename :: "path \<Rightarrow> path \<Rightarrow> ufs \<Rightarrow> unit outcome" where
  "unreliable_rename oldpath newpath = injected oldpath OP_RENAME () (result (sys_rename oldpath newpath))"

definition unreliable_link :: "path \<Rightarrow> path \<Rightarrow> ufs \<Rightarrow> unit outcome" where
  "unreliable_link oldpath newpath = injected oldpath OP_LINK () (negative (sys_link oldpath newpath))"

definition unreliable_chmod :: "path \<Rightarrow> u32 \<Rightarrow> ufs \<Rightarrow> unit outcome" where
  "unreliable_chmod path mode = injected path OP_CHMOD () (negative (sys_chmod path mode))"

definition unreliable_chown :: "path \<Rightarrow> u32 \<Rightarrow> u32 \<Rightarrow> ufs \<Rightarrow> unit outcome" where
  "unreliable_chown path owner group' = injected path OP_CHOWN () (result (sys_chown path owner group'))"

definition unreliable_truncate :: "path \<Rightarrow> int \<Rightarrow> ufs \<Rightarrow> unit outcome" where
  "unreliable_truncate path len = injected path OP_TRUNCATE () (result (sys_truncate path len))"

definition unreliable_ftruncate :: "path \<Rightarrow> int \<Rightarrow> ufi \<Rightarrow> ufs \<Rightarrow> unit outcome" where
  "unreliable_ftruncate path len fi = injected path OP_FTRUNCATE () (result (sys_truncate path len))"

definition unreliable_access :: "path \<Rightarrow> u32 \<Rightarrow> ufs \<Rightarrow> unit outcome" where
  "unreliable_access path mode = injected path OP_ACCESS () (result (sys_access path mode))"

definition unreliable_utimens :: "path \<Rightarrow> (timespec \<times> timespec) option \<Rightarrow> ufs \<Rightarrow> unit outcome" where
  "unreliable_utimens path ts = injected path OP_UTIMENS () (result (sys_utimensat path ts))"

definition unreliable_statfs :: "path \<Rightarrow> statvfs \<Rightarrow> ufs \<Rightarrow> statvfs outcome" where
  "unreliable_statfs path buf = injected path OP_STATFS buf (\<lambda>st.
     case sys_statvfs path (kernel st) of
       (ret, b, s) \<Rightarrow> Some (if ret = -1 then (- errno s, buf, with_kernel s st) else (0, b, with_kernel s st)))"

subsection \<open>Open files\<close>

text \<open>\<open>open\<close> passes no mode: the FUSE library never asks it to create a file.\<close>

definition unreliable_open :: "path \<Rightarrow> ufi \<Rightarrow> ufs \<Rightarrow> ufi outcome" where
  "unreliable_open path fi = injected path OP_OPEN fi (\<lambda>st.
     case sys_open path (uflags fi) 0 (kernel st) of
       (ret, s) \<Rightarrow>
         Some (if ret = -1 then (- errno s, fi, with_kernel s st)
               else (0, fi\<lparr>ufh := word_of_int ret\<rparr>, with_kernel s st)))"

definition unreliable_create :: "path \<Rightarrow> u32 \<Rightarrow> ufi \<Rightarrow> ufs \<Rightarrow> ufi outcome" where
  "unreliable_create path mode fi = injected path OP_CREAT fi (\<lambda>st.
     case sys_open path (uflags fi) mode (kernel st) of
       (ret, s) \<Rightarrow>
         Some (if ret = -1 then (- errno s, fi, with_kernel s st)
               else (0, fi\<lparr>ufh := word_of_int ret\<rparr>, with_kernel s st)))"

text \<open>The descriptor to use: the open file's, or a new one when there is no file info.\<close>

definition descriptor :: "path \<Rightarrow> u32 \<Rightarrow> ufi option \<Rightarrow> fsys \<Rightarrow> int \<times> fsys" where
  "descriptor path flags fi s = (case fi of None \<Rightarrow> sys_open path flags 0 s | Some fi \<Rightarrow> (fh_int fi, s))"

definition close_own :: "ufi option \<Rightarrow> int \<Rightarrow> fsys \<Rightarrow> fsys" where
  "close_own fi fd s = (case fi of None \<Rightarrow> snd (sys_close fd s) | Some _ \<Rightarrow> s)"

definition unreliable_read :: "path \<Rightarrow> bytes \<Rightarrow> nat \<Rightarrow> nat \<Rightarrow> ufi option \<Rightarrow> ufs \<Rightarrow> bytes outcome" where
  "unreliable_read path buf size' off fi = injected path OP_READ buf (\<lambda>st.
     case descriptor path O_RDONLY fi (kernel st) of
       (fd, s) \<Rightarrow>
         if fd = -1 then Some (- errno s, buf, with_kernel s st)
         else (case sys_pread fd size' off s of
           (ret, bs, s) \<Rightarrow>
             (let ret = to_int32 ret; ret = (if ret = -1 then - errno s else ret)
              in Some (ret, bs @ drop (length bs) buf, with_kernel (close_own fi fd s) st))))"

definition unreliable_write :: "path \<Rightarrow> bytes \<Rightarrow> nat \<Rightarrow> ufi option \<Rightarrow> ufs \<Rightarrow> unit outcome" where
  "unreliable_write path buf off fi = injected path OP_WRITE () (\<lambda>st.
     case descriptor path O_WRONLY fi (kernel st) of
       (fd, s) \<Rightarrow>
         if fd = -1 then Some (- errno s, (), with_kernel s st)
         else (case sys_pwrite fd buf off s of
           (ret, s) \<Rightarrow>
             (let ret = to_int32 ret; ret = (if ret = -1 then - errno s else ret)
              in Some (ret, (), with_kernel (close_own fi fd s) st))))"

definition unreliable_flush :: "path \<Rightarrow> ufi \<Rightarrow> ufs \<Rightarrow> unit outcome" where
  "unreliable_flush path fi = injected path OP_FLUSH ()
     (result (\<lambda>s. case sys_dup (fh_int fi) s of (fd, s) \<Rightarrow> sys_close fd s))"

definition unreliable_release :: "path \<Rightarrow> ufi \<Rightarrow> ufs \<Rightarrow> unit outcome" where
  "unreliable_release path fi = injected path OP_RELEASE () (result (sys_close (fh_int fi)))"

definition unreliable_fsync :: "path \<Rightarrow> int \<Rightarrow> ufi \<Rightarrow> ufs \<Rightarrow> unit outcome" where
  "unreliable_fsync path datasync fi = injected path OP_FSYNC ()
     (if datasync \<noteq> 0 then result (sys_fdatasync (fh_int fi)) else result (sys_fsync (fh_int fi)))"

definition unreliable_fgetattr :: "path \<Rightarrow> stat \<Rightarrow> ufi \<Rightarrow> ufs \<Rightarrow> stat outcome" where
  "unreliable_fgetattr path buf fi = injected path OP_FGETATTR buf (\<lambda>st.
     case sys_fstat (fh_int fi) (kernel st) of
       (ret, b, s) \<Rightarrow> Some (if ret = -1 then (- errno s, buf, with_kernel s st) else (0, b, with_kernel s st)))"

definition unreliable_lock :: "path \<Rightarrow> ufi \<Rightarrow> int \<Rightarrow> ufs \<Rightarrow> unit outcome" where
  "unreliable_lock path fi cmd = injected path OP_LOCK () (result (sys_fcntl_lock (fh_int fi) cmd))"

definition unreliable_ioctl :: "path \<Rightarrow> int \<Rightarrow> ufi \<Rightarrow> ufs \<Rightarrow> unit outcome" where
  "unreliable_ioctl path cmd fi = injected path OP_IOCTL () (\<lambda>st.
     case sys_ioctl (fh_int fi) cmd (kernel st) of
       (ret, s) \<Rightarrow> Some (if ret = -1 then - errno s else ret, (), with_kernel s st))"

definition unreliable_flock :: "path \<Rightarrow> ufi \<Rightarrow> int \<Rightarrow> ufs \<Rightarrow> unit outcome" where
  "unreliable_flock path fi op = injected path OP_FLOCK () (result (sys_flock (fh_int fi) op))"

text \<open>\<open>fi\<close> is dereferenced even when it is null.\<close>

definition unreliable_fallocate :: "path \<Rightarrow> int \<Rightarrow> int \<Rightarrow> int \<Rightarrow> ufi option \<Rightarrow> ufs \<Rightarrow> unit outcome" where
  "unreliable_fallocate path mode off len fi = injected path OP_FALLOCATE () (\<lambda>st.
     if mode \<noteq> 0 then Some (- EOPNOTSUPP, (), st)
     else (case descriptor path O_WRONLY fi (kernel st) of
       (fd, s) \<Rightarrow>
         if fd = -1 then Some (- errno s, (), with_kernel s st)
         else (case fi of
                 None \<Rightarrow> None
               | Some f \<Rightarrow> (case sys_fallocate (fh_int f) off len s of
                   (ret, s) \<Rightarrow> Some (if ret = -1 then - errno s else 0, (), with_kernel s st)))))"

subsection \<open>Extended attributes\<close>

definition unreliable_setxattr :: "path \<Rightarrow> string \<Rightarrow> string \<Rightarrow> u32 \<Rightarrow> ufs \<Rightarrow> unit outcome" where
  "unreliable_setxattr path name val flags =
     injected path OP_SETXATTR () (result (sys_setxattr path name val flags))"

text \<open>The size \<open>getxattr\<close> returns is dropped.\<close>

definition unreliable_getxattr :: "path \<Rightarrow> string \<Rightarrow> bytes \<Rightarrow> nat \<Rightarrow> ufs \<Rightarrow> bytes outcome" where
  "unreliable_getxattr path name buf size' = injected path OP_GETXATTR buf (\<lambda>st.
     case sys_getxattr path name size' (kernel st) of
       (ret, v, s) \<Rightarrow>
         Some (if ret = -1 then (- errno s, buf, with_kernel s st)
               else (0, v @ drop (length v) buf, with_kernel s st)))"

definition unreliable_listxattr :: "path \<Rightarrow> bytes \<Rightarrow> nat \<Rightarrow> ufs \<Rightarrow> bytes outcome" where
  "unreliable_listxattr path buf size' = injected path OP_LISTXATTR buf (\<lambda>st.
     case sys_listxattr path size' (kernel st) of
       (ret, v, s) \<Rightarrow>
         Some (if to_int32 ret = -1 then (- errno s, buf, with_kernel s st)
               else (to_int32 ret, v @ drop (length v) buf, with_kernel s st)))"

definition unreliable_removexattr :: "path \<Rightarrow> string \<Rightarrow> ufs \<Rightarrow> unit outcome" where
  "unreliable_removexattr path name = injected path OP_REMOVEXATTR () (result (sys_removexattr path name))"

subsection \<open>Directories\<close>

text \<open>A new stream, and its pointer; 0 when the directory cannot be opened.\<close>

definition c_opendir :: "path \<Rightarrow> ufs \<Rightarrow> nat \<times> ufs" where
  "c_opendir path st =
     (case sys_opendir path (kernel st) of
        (None, s) \<Rightarrow> (0, with_kernel s st)
      | (Some ds, s) \<Rightarrow>
          (let n = lowest_free (dirs st)
           in (Suc n, (with_kernel s st)\<lparr>dirs := set_slot n (Some ds) (dirs st)\<rparr>)))"

definition dir_stream :: "nat \<Rightarrow> ufs \<Rightarrow> dirent list option" where
  "dir_stream dp st = (case dp of 0 \<Rightarrow> None | Suc n \<Rightarrow> slot (dirs st) n)"

text \<open>A null pointer is rejected; a pointer that is no open stream is undefined.\<close>

definition c_closedir :: "nat \<Rightarrow> ufs \<Rightarrow> (int \<times> ufs) option" where
  "c_closedir dp st =
     (case dp of
        0 \<Rightarrow> Some (-1, with_kernel ((kernel st)\<lparr>errno := EINVAL\<rparr>) st)
      | Suc n \<Rightarrow>
          (if slot (dirs st) n = None then None
           else (case take_fault (kernel st) of
                   (Fail e, s) \<Rightarrow> Some (-1, (with_kernel (s\<lparr>errno := e\<rparr>) st)\<lparr>dirs := set_slot n None (dirs st)\<rparr>)
                 | (_, s) \<Rightarrow> Some (0, (with_kernel s st)\<lparr>dirs := set_slot n None (dirs st)\<rparr>))))"

definition unreliable_opendir :: "path \<Rightarrow> ufi \<Rightarrow> ufs \<Rightarrow> ufi outcome" where
  "unreliable_opendir path fi = injected path OP_OPENDIR fi (\<lambda>st.
     case c_opendir path st of
       (dp, st) \<Rightarrow> Some (if dp = 0 then (- errno (kernel st), fi, st) else (0, fi\<lparr>ufh := word_of_nat dp\<rparr>, st)))"

text \<open>\<open>filler\<close> is the callback of the FUSE library with its buffer; a result other than 0 ends the loop.\<close>

type_synonym 'b filler = "'b \<Rightarrow> string \<Rightarrow> stat \<Rightarrow> int \<times> 'b"

fun fill_entries :: "'b filler \<Rightarrow> dirent list \<Rightarrow> 'b \<Rightarrow> 'b" where
  "fill_entries filler [] buf = buf"
| "fill_entries filler ((ino, name, ty) # de) buf =
     (case filler buf name (stat_zero\<lparr>st_ino := word_of_nat ino, st_mode := push_bit 12 (word_of_nat ty)\<rparr>) of
        (r, buf) \<Rightarrow> if r \<noteq> 0 then buf else fill_entries filler de buf)"

definition unreliable_readdir :: "path \<Rightarrow> 'b \<Rightarrow> 'b filler \<Rightarrow> int \<Rightarrow> ufi option \<Rightarrow> ufs \<Rightarrow> 'b outcome" where
  "unreliable_readdir path buf filler off fi = injected path OP_READDIR buf (\<lambda>st.
     case c_opendir path st of
       (dp, st) \<Rightarrow>
         if dp = 0 then Some (- errno (kernel st), buf, st)
         else (case dir_stream dp st of
                 None \<Rightarrow> None
               | Some ds \<Rightarrow>
                   map_option (\<lambda>(ret, st). (0, fill_entries filler ds buf, st)) (c_closedir dp st)))"

definition unreliable_releasedir :: "path \<Rightarrow> ufi \<Rightarrow> ufs \<Rightarrow> unit outcome" where
  "unreliable_releasedir path fi = injected path OP_RELEASEDIR () (\<lambda>st.
     map_option (\<lambda>(ret, st). (if ret = -1 then - errno (kernel st) else 0, (), st))
       (c_closedir (unat (ufh fi)) st))"

text \<open>The descriptor of a stream can always be synchronised, unless the schedule refuses it.\<close>

definition sync_dir :: "fsys \<Rightarrow> int \<times> fsys" where
  "sync_dir = call (\<lambda>s. (0, s))"

definition unreliable_fsyncdir :: "path \<Rightarrow> int \<Rightarrow> ufi option \<Rightarrow> ufs \<Rightarrow> unit outcome" where
  "unreliable_fsyncdir path datasync fi = injected path OP_FSYNCDIR () (\<lambda>st.
     case c_opendir path st of
       (dp, st) \<Rightarrow>
         if dp = 0 then Some (- errno (kernel st), (), st)
         else (case sync_dir (kernel st) of
                 (ret, s) \<Rightarrow>
                   (let st = with_kernel s st in
                    if ret = -1 then Some (- errno s, (), st)
                    else map_option (\<lambda>(ret, st). (0, (), st)) (c_closedir dp st))))"

subsection \<open>Operations without effect\<close>

definition unreliable_init :: "ufs \<Rightarrow> ufs" where
  "unreliable_init st = st"

definition unreliable_destroy :: "ufs \<Rightarrow> ufs" where
  "unreliable_destroy st = st"

definition unreliable_bmap :: "path \<Rightarrow> nat \<Rightarrow> ufs \<Rightarrow> unit outcome" where
  "unreliable_bmap path blocksize st = Some (0, (), st)"

definition unreliable_poll :: "path \<Rightarrow> ufi \<Rightarrow> ufs \<Rightarrow> unit outcome" where
  "unreliable_poll path fi st = Some (0, (), st)"

end
