(* ===== verification/Ini_Facts.thy ===== *)
theory Ini_Facts
  imports Ini
begin

text \<open>
  The INI parser: the contract of a reader as a locale, with the loop's termination and its
  equality with a fold over the lines proved inside it; the readers of the program satisfy it. A
  line is an event, and rendering a configuration and parsing it gives the handler every entry.
\<close>

subsection \<open>Readers\<close>

text \<open>The lines of a text as a buffer of \<open>n\<close> bytes sees them.\<close>

lemma copy_line_shape:
  assumes "2 \<le> n" "s \<noteq> []" "copy_line n s = (l, r)"
  shows "l \<noteq> [] \<and> s = l @ r \<and> length l < n"
  using assms
proof (induction n s arbitrary: l r rule: copy_line.induct)
  case (2 num c s)
  obtain l' r' where lr: "copy_line (num - 1) s = (l', r')" by fastforce
  have "c \<noteq> NL \<Longrightarrow> s = l' @ r' \<and> length l' < num - 1"
  proof -
    assume "c \<noteq> NL"
    show ?thesis
    proof (cases "num = 2 \<or> s = []")
      case True
      with lr 2(2) show ?thesis by (cases s) auto
    next
      case False
      with 2(1) [OF _ \<open>c \<noteq> NL\<close> _ _ lr] 2(2) show ?thesis by auto
    qed
  qed
  with 2(2-) lr show ?case by (auto split: if_splits)
qed simp

function split_lines :: "string \<Rightarrow> string list" where
  "split_lines s = (if s = [] then []
     else (case copy_line INI_MAX_LINE s of (l, r) \<Rightarrow> l # split_lines r))"
  by pat_completeness auto
termination
proof (relation "measure length", goal_cases)
  case (2 s l r)
  then show ?case using copy_line_shape [of INI_MAX_LINE s l r] by (auto simp: neq_Nil_conv)
qed simp

declare split_lines.simps [simp del]

locale ini_source =
  fixes reader :: "'s ini_reader" and rest :: "'s \<Rightarrow> string" and clean :: "'s \<Rightarrow> bool"
  assumes at_end: "clean s \<Longrightarrow> rest s = [] \<Longrightarrow> reader INI_MAX_LINE s = None"
    and next_line: "clean s \<Longrightarrow> rest s \<noteq> [] \<Longrightarrow> copy_line INI_MAX_LINE (rest s) = (l, r) \<Longrightarrow>
      \<exists>t. reader INI_MAX_LINE s = Some (l, t) \<and> rest t = r \<and> clean t"
begin

text \<open>The loop ends, and it folds the line step over the lines.\<close>

lemma parse_lines_fold:
  "clean s \<Longrightarrow> parse_lines reader handler s st = Some (fold (ini_line handler) (split_lines (rest s)) st)"
proof (induction "rest s" arbitrary: s st rule: length_induct)
  case 1
  show ?case
  proof (cases "rest s = []")
    case True
    with 1 show ?thesis by (simp add: parse_lines.simps at_end split_lines.simps)
  next
    case False
    obtain l r where lr: "copy_line INI_MAX_LINE (rest s) = (l, r)" by fastforce
    obtain t where t: "reader INI_MAX_LINE s = Some (l, t)" "rest t = r" "clean t"
      using next_line [OF 1(2) False lr] by blast
    have "length (rest t) < length (rest s)"
      using copy_line_shape [OF _ False lr] t(2) by (auto simp: neq_Nil_conv)
    with 1(1) t have "parse_lines reader handler t (ini_line handler l st)
        = Some (fold (ini_line handler) (split_lines r) (ini_line handler l st))" by blast
    with t(1) False lr show ?thesis
      by (subst parse_lines.simps) (simp add: split_lines.simps [of "rest s"])
  qed
qed

lemma parse_stream_fold:
  assumes "clean s"
  shows "ini_parse_stream reader s handler u =
    (let st = fold (ini_line handler) (split_lines (rest s)) (ini_start u) in Some (int (ini_error st), user st))"
  by (simp add: ini_parse_stream_def parse_lines_fold [OF assms] Let_def)

end

interpretation strr: ini_source ini_reader_string "\<lambda>s. s" "\<lambda>s. True"
  by unfold_locales (auto simp: ini_reader_string_def)

lemma copy_line_set: "copy_line n s = (l, r) \<Longrightarrow> set l \<subseteq> set s \<and> set r \<subseteq> set s"
  by (induction n s arbitrary: l r rule: copy_line.induct) (fastforce split: if_splits prod.splits)+

interpretation fgetsr: ini_source fgets "\<lambda>s. s" "\<lambda>s. NUL \<notin> set s"
proof
  fix s l r
  assume "NUL \<notin> set s" "s \<noteq> []" "copy_line INI_MAX_LINE s = (l, r)"
  moreover from this have "takeWhile (\<lambda>c. c \<noteq> NUL) l = l" "NUL \<notin> set r"
    using copy_line_set [of INI_MAX_LINE s l r] by (auto simp: takeWhile_eq_all_conv)
  ultimately show "\<exists>t. fgets INI_MAX_LINE s = Some (l, t) \<and> t = r \<and> NUL \<notin> set t"
    by (simp add: fgets_def)
qed (simp add: fgets_def)

text \<open>Even a file with NUL bytes is read to its end.\<close>

lemma parse_file_total: "\<exists>st. parse_lines fgets handler s st0 = Some st"
proof (induction s arbitrary: st0 rule: length_induct)
  case (1 s)
  show ?case
  proof (cases "s = []")
    case True
    then show ?thesis by (simp add: parse_lines.simps fgets_def)
  next
    case False
    obtain l r where lr: "copy_line INI_MAX_LINE s = (l, r)" by fastforce
    then have "length r < length s" using copy_line_shape [OF _ False lr] by (auto simp: neq_Nil_conv)
    then obtain st where "parse_lines fgets handler r (ini_line handler (takeWhile (\<lambda>c. c \<noteq> NUL) l) st0) = Some st"
      using 1 by blast
    moreover have "fgets INI_MAX_LINE s = Some (takeWhile (\<lambda>c. c \<noteq> NUL) l, r)"
      using lr False by (simp add: fgets_def)
    ultimately show ?thesis by (subst parse_lines.simps) simp
  qed
qed

lemma ini_parse_total: "\<exists>r u'. ini_parse fopen f handler u = Some (r, u')"
  using parse_file_total [of handler _ "ini_start u"]
  by (cases "fopen f") (force simp: ini_parse_def ini_parse_file_def ini_parse_stream_def)+

lemma parse_file_string: "NUL \<notin> set str \<Longrightarrow> ini_parse_file str handler u = ini_parse_string str handler u"
  using fgetsr.parse_stream_fold [of str handler u] strr.parse_stream_fold [of str handler u]
  by (simp add: ini_parse_file_def ini_parse_string_def)

subsection \<open>A line is an event\<close>

datatype ini_event = Skipped | Continued string | Section string | Pair string string | Malformed

text \<open>What a line means, given its number and whether a name precedes it.\<close>

definition line_event :: "nat \<Rightarrow> bool \<Rightarrow> string \<Rightarrow> ini_event" where
  "line_event n named line =
     (let bom = (n = 1 \<and> prefix UTF8_BOM line);
          text = rstrip (if bom then drop 3 line else line);
          start = lskip text
      in if start = [] \<or> hd start \<in> set '';#'' then Skipped
         else if named \<and> (bom \<or> start \<noteq> text) then Continued start
         else if hd start = CHR ''['' then
           (let (name, rest) = find_chars_or_comment (Some '']'') False (tl start)
            in if rest \<noteq> [] \<and> hd rest = CHR '']'' then Section (strncpy0 name MAX_SECTION) else Malformed)
         else
           (let (before, rest) = find_chars_or_comment (Some ''=:'') False start
            in if rest \<noteq> [] \<and> (hd rest = CHR ''='' \<or> hd rest = CHR '':'')
               then Pair (rstrip before) (rstrip (lskip (fst (find_chars_or_comment None False (tl rest)))))
               else Malformed))"

definition act :: "'u ini_handler \<Rightarrow> ini_event \<Rightarrow> 'u ini_state \<Rightarrow> 'u ini_state" where
  "act handler ev st = (case ev of
       Skipped \<Rightarrow> st
     | Continued v \<Rightarrow> call_handler handler (prev_name st) v st
     | Section n \<Rightarrow> st\<lparr>ini_section := n, prev_name := []\<rparr>
     | Pair n v \<Rightarrow> call_handler handler n v (st\<lparr>prev_name := strncpy0 n MAX_NAME\<rparr>)
     | Malformed \<Rightarrow> note_error st)"

lemma ini_line_act:
  "ini_line handler line st = act handler (line_event (Suc (lineno st)) (prev_name st \<noteq> []) line)
     (st\<lparr>lineno := Suc (lineno st)\<rparr>)"
proof -
  let ?st = "st\<lparr>lineno := Suc (lineno st)\<rparr>"
  have sel: "lineno ?st = Suc (lineno st)" "prev_name ?st = prev_name st" by simp_all
  define bom where "bom = (Suc (lineno st) = 1 \<and> prefix UTF8_BOM line)"
  define body where "body = rstrip (if bom then drop 3 line else line)"
  define start where "start = lskip body"
  obtain n1 r1 where f1: "find_chars_or_comment (Some '']'') False (tl start) = (n1, r1)" by fastforce
  obtain n2 r2 where f2: "find_chars_or_comment (Some ''=:'') False start = (n2, r2)" by fastforce
  have line: "ini_line handler line st =
    (if start = [] \<or> hd start \<in> set '';#'' then ?st
     else if prev_name st \<noteq> [] \<and> (bom \<or> start \<noteq> body) then call_handler handler (prev_name st) start ?st
     else if hd start = CHR ''['' then
       (if r1 \<noteq> [] \<and> hd r1 = CHR '']'' then ?st\<lparr>ini_section := strncpy0 n1 MAX_SECTION, prev_name := []\<rparr>
        else note_error ?st)
     else if r2 \<noteq> [] \<and> (hd r2 = CHR ''='' \<or> hd r2 = CHR '':'')
       then call_handler handler (rstrip n2) (rstrip (lskip (fst (find_chars_or_comment None False (tl r2)))))
              (?st\<lparr>prev_name := strncpy0 (rstrip n2) MAX_NAME\<rparr>)
       else note_error ?st)"
    unfolding ini_line_def Let_def sel bom_def [symmetric] body_def [symmetric]
      start_def [symmetric] f1 f2 prod.case
    by (rule refl)
  have event: "line_event (Suc (lineno st)) (prev_name st \<noteq> []) line =
    (if start = [] \<or> hd start \<in> set '';#'' then Skipped
     else if prev_name st \<noteq> [] \<and> (bom \<or> start \<noteq> body) then Continued start
     else if hd start = CHR ''['' then
       (if r1 \<noteq> [] \<and> hd r1 = CHR '']'' then Section (strncpy0 n1 MAX_SECTION) else Malformed)
     else if r2 \<noteq> [] \<and> (hd r2 = CHR ''='' \<or> hd r2 = CHR '':'')
       then Pair (rstrip n2) (rstrip (lskip (fst (find_chars_or_comment None False (tl r2)))))
       else Malformed)"
    unfolding line_event_def Let_def bom_def [symmetric] body_def [symmetric]
      start_def [symmetric] f1 f2 prod.case
    by (rule refl)
  show ?thesis
    unfolding line event
    by (cases "start = [] \<or> hd start \<in> set '';#''";
        cases "prev_name st \<noteq> [] \<and> (bom \<or> start \<noteq> body)"; cases "hd start = CHR ''[''";
        cases "r1 \<noteq> [] \<and> hd r1 = CHR '']''"; cases "r2 \<noteq> [] \<and> (hd r2 = CHR ''='' \<or> hd r2 = CHR '':'')")
      (simp_all only: if_True if_False act_def ini_event.case sel simp_thms)
qed

subsection \<open>The error is the first failing line\<close>

text \<open>Whether a line notes an error, which does not depend on earlier errors.\<close>

definition line_fails :: "'u ini_handler \<Rightarrow> string \<Rightarrow> 'u ini_state \<Rightarrow> bool" where
  "line_fails handler line st \<longleftrightarrow> ini_error (ini_line handler line (st\<lparr>ini_error := 0\<rparr>)) \<noteq> 0"

lemma act_error:
  assumes "0 < lineno st"
  shows "ini_error (act handler ev st) = (if ini_error st \<noteq> 0 then ini_error st
      else if ini_error (act handler ev (st\<lparr>ini_error := 0\<rparr>)) \<noteq> 0 then lineno st else 0)"
    and "(act handler ev st)\<lparr>ini_error := 0\<rparr> = (act handler ev (st\<lparr>ini_error := 0\<rparr>))\<lparr>ini_error := 0\<rparr>"
    and "lineno (act handler ev st) = lineno st"
  using assms by (cases ev; auto simp: act_def call_handler_def note_error_def Let_def split: prod.split)+

lemma ini_line_error:
  "ini_error (ini_line handler line st) = (if ini_error st \<noteq> 0 then ini_error st
     else if line_fails handler line st then Suc (lineno st) else 0)"
  "(ini_line handler line st)\<lparr>ini_error := 0\<rparr> = (ini_line handler line (st\<lparr>ini_error := 0\<rparr>))\<lparr>ini_error := 0\<rparr>"
  "lineno (ini_line handler line st) = Suc (lineno st)"
proof -
  let ?st = "st\<lparr>lineno := Suc (lineno st)\<rparr>" and ?ev = "line_event (Suc (lineno st)) (prev_name st \<noteq> []) line"
  have pos: "0 < lineno ?st" by simp
  have sel: "ini_error ?st = ini_error st" "lineno ?st = Suc (lineno st)" "prev_name ?st = prev_name st"
    and sel0: "lineno (st\<lparr>ini_error := 0\<rparr>) = lineno st" "prev_name (st\<lparr>ini_error := 0\<rparr>) = prev_name st"
    and upd: "st\<lparr>ini_error := 0, lineno := Suc (lineno st)\<rparr> = ?st\<lparr>ini_error := 0\<rparr>" by simp_all
  note a = act_error [OF pos, of handler ?ev, unfolded sel]
  show "ini_error (ini_line handler line st) = (if ini_error st \<noteq> 0 then ini_error st
     else if line_fails handler line st then Suc (lineno st) else 0)"
    unfolding line_fails_def ini_line_act sel0 upd by (rule a(1))
  show "(ini_line handler line st)\<lparr>ini_error := 0\<rparr> = (ini_line handler line (st\<lparr>ini_error := 0\<rparr>))\<lparr>ini_error := 0\<rparr>"
    unfolding ini_line_act sel0 upd by (rule a(2))
  show "lineno (ini_line handler line st) = Suc (lineno st)"
    unfolding ini_line_act by (rule a(3))
qed

text \<open>The state in which line \<open>k\<close> is read.\<close>

definition state_at :: "'u ini_handler \<Rightarrow> string list \<Rightarrow> nat \<Rightarrow> 'u ini_state \<Rightarrow> 'u ini_state" where
  "state_at handler ls k st = fold (ini_line handler) (take k ls) st"

lemma lineno_state_at: "k \<le> length ls \<Longrightarrow> lineno (state_at handler ls k st) = lineno st + k"
proof (induction k)
  case 0
  then show ?case by (simp add: state_at_def)
next
  case (Suc k)
  then have "take (Suc k) ls = take k ls @ [ls ! k]" by (simp add: take_Suc_conv_app_nth)
  with Suc show ?case by (simp add: state_at_def ini_line_error(3))
qed

lemma fold_lines_error:
  assumes "ini_error st = 0" "k \<le> length ls"
  shows "ini_error (state_at handler ls k st) = 0 \<longleftrightarrow>
      (\<forall>j < k. \<not> line_fails handler (ls ! j) (state_at handler ls j st))"
    and "j < k \<Longrightarrow> line_fails handler (ls ! j) (state_at handler ls j st) \<Longrightarrow>
      (\<forall>i < j. \<not> line_fails handler (ls ! i) (state_at handler ls i st)) \<Longrightarrow>
      ini_error (state_at handler ls k st) = lineno st + Suc j"
proof -
  let ?f = "\<lambda>j. line_fails handler (ls ! j) (state_at handler ls j st)"
  have step: "state_at handler ls (Suc i) st = ini_line handler (ls ! i) (state_at handler ls i st)"
    if "i < length ls" for i
    using that by (simp add: state_at_def take_Suc_conv_app_nth)
  have both: "(ini_error (state_at handler ls k st) = 0 \<longleftrightarrow> (\<forall>j < k. \<not> ?f j)) \<and>
    (\<forall>j < k. ?f j \<longrightarrow> (\<forall>i < j. \<not> ?f i) \<longrightarrow> ini_error (state_at handler ls k st) = lineno st + Suc j)"
    if "k \<le> length ls" for k
    using that
  proof (induction k)
    case 0
    then show ?case using assms(1) by (simp add: state_at_def)
  next
    case (Suc k)
    then have IH: "ini_error (state_at handler ls k st) = 0 \<longleftrightarrow> (\<forall>j < k. \<not> ?f j)"
      "\<forall>j < k. ?f j \<longrightarrow> (\<forall>i < j. \<not> ?f i) \<longrightarrow> ini_error (state_at handler ls k st) = lineno st + Suc j"
      by simp_all
    have k: "k < length ls" "lineno (state_at handler ls k st) = lineno st + k"
      using Suc.prems by (simp_all add: lineno_state_at)
    show ?case
      using IH k(2) unfolding step [OF k(1)] ini_line_error(1)
      by (auto simp: less_Suc_eq)
  qed
  then show "ini_error (state_at handler ls k st) = 0 \<longleftrightarrow> (\<forall>j < k. \<not> ?f j)"
    and "j < k \<Longrightarrow> ?f j \<Longrightarrow> (\<forall>i < j. \<not> ?f i) \<Longrightarrow> ini_error (state_at handler ls k st) = lineno st + Suc j"
    using both [OF assms(2)] by blast+
qed

subsection \<open>Rendering and parsing\<close>

definition ini_plain :: "char \<Rightarrow> bool" where
  "ini_plain c \<longleftrightarrow> \<not> isspace c \<and> c \<noteq> NUL \<and> c \<notin> set '';#=:[]'' \<and> c \<noteq> CHR 0xEF"

definition ini_word :: "string \<Rightarrow> bool" where
  "ini_word w \<longleftrightarrow> w \<noteq> [] \<and> list_all ini_plain w \<and> length w < MAX_NAME"

definition ini_value :: "string \<Rightarrow> bool" where
  "ini_value v \<longleftrightarrow> NL \<notin> set v \<and> NUL \<notin> set v \<and> CHR '';'' \<notin> set v \<and>
     (v = [] \<or> \<not> isspace (hd v) \<and> \<not> isspace (last v))"

definition ini_entry_ok :: "string \<times> string \<Rightarrow> bool" where
  "ini_entry_ok e \<longleftrightarrow> ini_word (fst e) \<and> ini_value (snd e) \<and> length (fst e) + length (snd e) + 2 < INI_MAX_LINE"

type_synonym ini_config = "(string \<times> (string \<times> string) list) list"

definition ini_config_ok :: "ini_config \<Rightarrow> bool" where
  "ini_config_ok cfg \<longleftrightarrow> list_all (\<lambda>(s, es). ini_word s \<and> list_all ini_entry_ok es) cfg"

definition entry_line :: "string \<times> string \<Rightarrow> string" where
  "entry_line e = fst e @ ''='' @ snd e"

definition header_line :: "string \<Rightarrow> string" where
  "header_line s = ''['' @ s @ '']''"

definition config_lines :: "ini_config \<Rightarrow> string list" where
  "config_lines cfg = concat (map (\<lambda>(s, es). header_line s # map entry_line es) cfg)"

definition render :: "ini_config \<Rightarrow> string" where
  "render cfg = concat (map (\<lambda>l. l @ [NL]) (config_lines cfg))"

text \<open>The handler called for every entry in order.\<close>

definition feed :: "'u ini_handler \<Rightarrow> ini_config \<Rightarrow> 'u \<Rightarrow> 'u" where
  "feed handler cfg = fold (\<lambda>(s, es). fold (\<lambda>e u. snd (handler s (fst e) (snd e) u)) es) cfg"

lemma isspace_NL [simp]: "isspace NL"
  by (simp add: isspace_def)

lemma rstrip_snoc [simp]: "isspace c \<Longrightarrow> rstrip (s @ [c]) = rstrip s"
  by (simp add: rstrip_def)

lemma rstrip_id: "s = [] \<or> \<not> isspace (last s) \<Longrightarrow> rstrip s = s"
  by (cases s rule: rev_cases) (auto simp: rstrip_def)

lemma lskip_id: "s = [] \<or> \<not> isspace (hd s) \<Longrightarrow> lskip s = s"
  by (cases s) (auto simp: lskip_def)

lemma find_hit:
  "\<forall>c \<in> set a. c \<notin> set cs \<and> c \<noteq> CHR '';'' \<Longrightarrow> x \<in> set cs \<Longrightarrow>
   find_chars_or_comment (Some cs) w (a @ x # r) = (a, x # r)"
  by (induction a arbitrary: w) auto

lemma find_none: "CHR '';'' \<notin> set v \<Longrightarrow> find_chars_or_comment None w v = (v, [])"
  by (induction v arbitrary: w) auto

lemma plain_char:
  assumes "ini_plain c"
  shows "c \<notin> set '';#=:[]''" "\<not> isspace c" "c \<noteq> NL" "c \<noteq> NUL" "c \<noteq> CHR 0xEF"
proof -
  show "c \<notin> set '';#=:[]''" "\<not> isspace c" "c \<noteq> NUL" "c \<noteq> CHR 0xEF"
    using assms unfolding ini_plain_def by blast+
  then show "c \<noteq> NL" using isspace_NL by blast
qed

lemma word_chars:
  assumes "ini_word w" "c \<in> set w"
  shows "c \<notin> set '';#=:[]''" "\<not> isspace c" "c \<noteq> NL" "c \<noteq> NUL" "c \<noteq> CHR 0xEF"
proof -
  have "ini_plain c" using assms by (simp add: ini_word_def list_all_iff)
  then show "c \<notin> set '';#=:[]''" "\<not> isspace c" "c \<noteq> NL" "c \<noteq> NUL" "c \<noteq> CHR 0xEF"
    using plain_char by blast+
qed

lemma word_NL: "ini_word w \<Longrightarrow> NL \<notin> set w"
  using word_chars(3) by blast

lemma not_bom: "s = [] \<or> hd s \<noteq> CHR 0xEF \<Longrightarrow> \<not> prefix UTF8_BOM s"
  by (cases s) (auto simp: UTF8_BOM_def)

text \<open>A line that starts and ends with a non-space character is read as it is.\<close>

lemma line_event_text:
  assumes "body \<noteq> []" "\<not> isspace (hd body)" "\<not> isspace (last body)" "hd body \<noteq> CHR 0xEF"
    and "hd body \<notin> set '';#''"
  shows "line_event n named (body @ [NL]) =
    (if hd body = CHR ''['' then
       (let (name, rest) = find_chars_or_comment (Some '']'') False (tl body)
        in if rest \<noteq> [] \<and> hd rest = CHR '']'' then Section (strncpy0 name MAX_SECTION) else Malformed)
     else
       (let (before, rest) = find_chars_or_comment (Some ''=:'') False body
        in if rest \<noteq> [] \<and> (hd rest = CHR ''='' \<or> hd rest = CHR '':'')
           then Pair (rstrip before) (rstrip (lskip (fst (find_chars_or_comment None False (tl rest)))))
           else Malformed))"
proof -
  have "\<not> prefix UTF8_BOM (body @ [NL])" using assms by (intro not_bom) simp
  moreover have "rstrip (body @ [NL]) = body" using assms by (simp add: rstrip_id)
  moreover have "lskip body = body" using assms by (simp add: lskip_id)
  ultimately show ?thesis using assms(1,5) by (simp add: line_event_def)
qed

lemma header_event:
  assumes "ini_word s"
  shows "line_event n named (header_line s @ [NL]) = Section s"
proof -
  have "\<forall>c \<in> set s. c \<notin> set '']'' \<and> c \<noteq> CHR '';''" using word_chars(1) [OF assms] by auto
  then have f: "find_chars_or_comment (Some '']'') False (s @ '']'') = (s, '']'')"
    by (rule find_hit) simp
  have "strncpy0 s MAX_SECTION = s" using assms by (simp add: ini_word_def strncpy0_def)
  then show ?thesis
    using f by (subst line_event_text) (simp_all add: header_line_def isspace_def)
qed

lemma entry_event:
  assumes "ini_entry_ok e"
  shows "line_event n named (entry_line e @ [NL]) = Pair (fst e) (snd e)"
proof -
  obtain k v where e: "e = (k, v)" by fastforce
  have k: "ini_word k" and v: "ini_value v" using assms by (simp_all add: e ini_entry_ok_def)
  let ?b = "k @ CHR ''='' # v"
  have ne: "k \<noteq> []" using k by (simp add: ini_word_def)
  then have "hd k \<in> set k" "last k \<in> set k" by simp_all
  note h = word_chars [OF k this(1)] and l = word_chars(2) [OF k this(2)]
  have "\<forall>c \<in> set k. c \<notin> set ''=:'' \<and> c \<noteq> CHR '';''" using word_chars(1) [OF k] by auto
  then have f: "find_chars_or_comment (Some ''=:'') False ?b = (k, CHR ''='' # v)"
    by (rule find_hit) simp
  have b: "?b \<noteq> []" "\<not> isspace (hd ?b)" "hd ?b \<noteq> CHR 0xEF" "hd ?b \<notin> set '';#''" "hd ?b \<noteq> CHR ''[''"
    using ne h(1,2,5) by auto
  have last: "\<not> isspace (last ?b)"
    using v by (cases v rule: rev_cases) (auto simp: ini_value_def isspace_def)
  have parts: "rstrip k = k" "rstrip (lskip v) = v" "fst (find_chars_or_comment None False v) = v"
    using l v by (auto simp: rstrip_id lskip_id ini_value_def find_none)
  have "entry_line e = ?b" by (simp add: e entry_line_def)
  then show ?thesis
    using line_event_text [OF b(1,2) last b(3,4), of n named] b(5) f parts by (simp add: e)
qed

lemma call_handler_ok:
  "fst (handler (ini_section st) n v (user st)) \<noteq> 0 \<Longrightarrow>
   call_handler handler n v st = st\<lparr>user := snd (handler (ini_section st) n v (user st))\<rparr>"
  by (simp add: call_handler_def case_prod_beta Let_def)

lemma copy_line_NL: "NL \<notin> set l \<Longrightarrow> length l + 1 < n \<Longrightarrow> copy_line n (l @ NL # r) = (l @ [NL], r)"
  by (induction l arbitrary: n) auto

lemma split_lines_concat:
  "list_all (\<lambda>l. NL \<notin> set l \<and> length l + 1 < INI_MAX_LINE) ls \<Longrightarrow>
   split_lines (concat (map (\<lambda>l. l @ [NL]) ls)) = map (\<lambda>l. l @ [NL]) ls"
proof (induction ls)
  case Nil
  then show ?case by (simp add: split_lines.simps)
next
  case (Cons l ls)
  have "copy_line INI_MAX_LINE (l @ NL # concat (map (\<lambda>l. l @ [NL]) ls))
      = (l @ [NL], concat (map (\<lambda>l. l @ [NL]) ls))"
    using Cons.prems by (intro copy_line_NL) simp_all
  with Cons show ?case by (subst split_lines.simps) simp
qed

lemma config_lines_ok:
  assumes "ini_config_ok cfg"
  shows "list_all (\<lambda>l. NL \<notin> set l \<and> length l + 1 < INI_MAX_LINE) (config_lines cfg)"
proof -
  have "NL \<notin> set (header_line s) \<and> length (header_line s) + 1 < INI_MAX_LINE" if "ini_word s" for s
    using word_NL [OF that] that by (simp add: header_line_def ini_word_def)
  moreover have "NL \<notin> set (entry_line e) \<and> length (entry_line e) + 1 < INI_MAX_LINE" if "ini_entry_ok e" for e
    using that word_NL [of "fst e"] by (simp add: entry_line_def ini_entry_ok_def ini_value_def)
  ultimately show ?thesis
    using assms by (fastforce simp: ini_config_ok_def config_lines_def list_all_iff)
qed

lemma call_handler_user:
  "\<exists>e. call_handler handler n v st = st\<lparr>ini_error := e, user := snd (handler (ini_section st) n v (user st))\<rparr> \<and>
     (fst (handler (ini_section st) n v (user st)) \<noteq> 0 \<longrightarrow> e = ini_error st)"
  by (simp add: call_handler_def case_prod_beta Let_def note_error_def) (metis ini_state.surjective ini_state.update_convs(4,5))

lemma fold_entries:
  assumes "list_all ini_entry_ok es"
  shows "\<exists>k p e. fold (ini_line handler) (map (\<lambda>l. l @ [NL]) (map entry_line es)) st =
    st\<lparr>prev_name := p, lineno := k, ini_error := e,
       user := fold (\<lambda>e u. snd (handler (ini_section st) (fst e) (snd e) u)) es (user st)\<rparr> \<and>
    ((\<forall>s n v u. fst (handler s n v u) \<noteq> 0) \<longrightarrow> e = ini_error st)"
  using assms
proof (induction es arbitrary: st)
  case Nil
  show ?case by (intro exI [of _ "lineno st"] exI [of _ "prev_name st"] exI [of _ "ini_error st"]) simp
next
  case (Cons x es)
  let ?s = "st\<lparr>lineno := Suc (lineno st), prev_name := strncpy0 (fst x) MAX_NAME\<rparr>"
  obtain e where raw: "call_handler handler (fst x) (snd x) ?s =
      ?s\<lparr>ini_error := e, user := snd (handler (ini_section ?s) (fst x) (snd x) (user ?s))\<rparr>"
    "fst (handler (ini_section ?s) (fst x) (snd x) (user ?s)) \<noteq> 0 \<longrightarrow> e = ini_error ?s"
    using call_handler_user [of handler "fst x" "snd x" ?s] by blast
  have e: "call_handler handler (fst x) (snd x) ?s =
      ?s\<lparr>ini_error := e, user := snd (handler (ini_section st) (fst x) (snd x) (user st))\<rparr>"
    "(\<forall>s n v u. fst (handler s n v u) \<noteq> 0) \<longrightarrow> e = ini_error st"
    using raw by simp_all
  let ?st = "?s\<lparr>ini_error := e, user := snd (handler (ini_section st) (fst x) (snd x) (user st))\<rparr>"
  have line: "ini_line handler (entry_line x @ [NL]) st = ?st"
    using Cons.prems e(1) by (simp add: ini_line_act entry_event act_def)
  obtain k p e' where es: "fold (ini_line handler) (map (\<lambda>l. l @ [NL]) (map entry_line es)) ?st =
      ?st\<lparr>prev_name := p, lineno := k, ini_error := e',
        user := fold (\<lambda>e u. snd (handler (ini_section ?st) (fst e) (snd e) u)) es (user ?st)\<rparr>"
    "(\<forall>s n v u. fst (handler s n v u) \<noteq> 0) \<longrightarrow> e' = ini_error ?st"
    using Cons.IH [of ?st] Cons.prems by fastforce
  show ?case
    using line es e(2) by (intro exI [of _ k] exI [of _ p] exI [of _ e']) simp
qed

lemma fold_config:
  assumes "ini_config_ok cfg"
  shows "user (fold (ini_line handler) (map (\<lambda>l. l @ [NL]) (config_lines cfg)) st) = feed handler cfg (user st) \<and>
    ((\<forall>s n v u. fst (handler s n v u) \<noteq> 0) \<longrightarrow>
     ini_error (fold (ini_line handler) (map (\<lambda>l. l @ [NL]) (config_lines cfg)) st) = ini_error st)"
  using assms
proof (induction cfg arbitrary: st)
  case Nil
  then show ?case by (simp add: config_lines_def feed_def)
next
  case (Cons c cfg)
  obtain s es where c: "c = (s, es)" by fastforce
  let ?st = "st\<lparr>lineno := Suc (lineno st), ini_section := s, prev_name := []\<rparr>"
  have h: "ini_line handler (header_line s @ [NL]) st = ?st"
    using Cons.prems c by (simp add: ini_line_act header_event act_def ini_config_ok_def)
  have "list_all ini_entry_ok es" using Cons.prems c by (simp add: ini_config_ok_def)
  from fold_entries [OF this, of handler ?st]
  obtain k p e where raw: "fold (ini_line handler) (map (\<lambda>l. l @ [NL]) (map entry_line es)) ?st =
      ?st\<lparr>prev_name := p, lineno := k, ini_error := e,
        user := fold (\<lambda>e u. snd (handler (ini_section ?st) (fst e) (snd e) u)) es (user ?st)\<rparr>"
    "(\<forall>s n v u. fst (handler s n v u) \<noteq> 0) \<longrightarrow> e = ini_error ?st" by blast
  have es: "fold (ini_line handler) (map (\<lambda>l. l @ [NL]) (map entry_line es)) ?st =
      ?st\<lparr>prev_name := p, lineno := k, ini_error := e,
        user := fold (\<lambda>e u. snd (handler s (fst e) (snd e) u)) es (user st)\<rparr>"
    "(\<forall>s n v u. fst (handler s n v u) \<noteq> 0) \<longrightarrow> e = ini_error st"
    using raw by simp_all
  have "config_lines (c # cfg) = header_line s # map entry_line es @ config_lines cfg"
    by (simp add: c config_lines_def)
  with h es Cons.IH Cons.prems show ?case by (simp add: c feed_def ini_config_ok_def)
qed

text \<open>What the parser does with a rendered configuration, whatever the handler returns.\<close>

lemma parse_render:
  assumes "ini_config_ok cfg"
  shows "\<exists>r \<ge> 0. ini_parse_string (render cfg) handler u = Some (r, feed handler cfg u) \<and>
    ((\<forall>s n v u. fst (handler s n v u) \<noteq> 0) \<longrightarrow> r = 0)"
proof -
  have "split_lines (render cfg) = map (\<lambda>l. l @ [NL]) (config_lines cfg)"
    unfolding render_def by (rule split_lines_concat [OF config_lines_ok [OF assms]])
  then show ?thesis
    using fold_config [OF assms, of handler "ini_start u"] strr.parse_stream_fold [of "render cfg" handler u]
    by (simp add: ini_parse_string_def Let_def ini_start_def)
qed

lemma render_no_NUL:
  assumes "ini_config_ok cfg"
  shows "NUL \<notin> set (render cfg)"
proof -
  have "NUL \<notin> set (header_line s)" if "ini_word s" for s
    using word_chars(4) [OF that] by (auto simp: header_line_def)
  moreover have "NUL \<notin> set (entry_line e)" if "ini_entry_ok e" for e
    using that word_chars(4) [of "fst e"] by (auto simp: entry_line_def ini_entry_ok_def ini_value_def)
  ultimately have "list_all (\<lambda>l. NUL \<notin> set l) (config_lines cfg)"
    using assms by (fastforce simp: ini_config_ok_def config_lines_def list_all_iff)
  then show ?thesis by (induction "config_lines cfg") (auto simp: render_def list_all_iff)
qed

subsection \<open>What a handler keeps\<close>

text \<open>A property of the user data every call of the handler keeps is kept by a parse.\<close>

locale ini_callback =
  fixes handler :: "'u ini_handler" and inv :: "'u \<Rightarrow> bool"
  assumes keeps: "inv u \<Longrightarrow> inv (snd (handler s n v u))"
begin

lemma line_keeps: "inv (user st) \<Longrightarrow> inv (user (ini_line handler line st))"
proof -
  assume i: "inv (user st)"
  have "inv (user (call_handler handler n v t))" if "user t = user st" for n v t
    using call_handler_user [of handler n v t] keeps i that by auto
  then show ?thesis
    using i by (auto simp: ini_line_act act_def note_error_def split: ini_event.split)
qed

lemma parse_keeps:
  assumes "ini_parse fopen f handler u = Some (r, u')" "inv u"
  shows "inv u'"
proof -
  have "inv (user st')" if "inv (user st)" "parse_lines fgets handler s st = Some st'" for s st st'
    using that
  proof (induction s arbitrary: st rule: length_induct)
    case (1 s)
    show ?case
    proof (cases "s = []")
      case True
      with 1 show ?thesis by (simp add: parse_lines.simps fgets_def)
    next
      case False
      obtain l r where lr: "copy_line INI_MAX_LINE s = (l, r)" by fastforce
      then have "length r < length s" using copy_line_shape [OF _ False lr] by (auto simp: neq_Nil_conv)
      moreover have "fgets INI_MAX_LINE s = Some (takeWhile (\<lambda>c. c \<noteq> NUL) l, r)"
        using lr False by (simp add: fgets_def)
      ultimately show ?thesis using 1 line_keeps by (subst (asm) (2) parse_lines.simps) auto
    qed
  qed
  from this [of "ini_start u"] show ?thesis
    using assms by (auto simp: ini_parse_def ini_parse_file_def ini_parse_stream_def ini_start_def
      split: option.splits)
qed

end

end
