(* ===== verification/Errinj_Facts.thy ===== *)
theory Errinj_Facts
  imports Errinj Ini_Facts
begin

text \<open>
  Error injection: the queue holds each type at most once and every block of it is accounted for,
  which the handler of the configuration file keeps (an interpretation of the parser's callback
  interface); the errors an entry can produce; loading a rendered configuration.
\<close>

subsection \<open>The heap\<close>

definition opt_block :: "string option \<Rightarrow> int" where
  "opt_block r = (if r = None then 0 else 1)"

definition entry_blocks :: "errinj_conf \<Rightarrow> int" where
  "entry_blocks e = 1 + opt_block (path_regexp e) + opt_block (op_regexp e)"

definition blocks :: "errinj_conf list \<Rightarrow> int" where
  "blocks q = sum_list (map entry_blocks q)"

lemma opt_block_simps [simp]: "opt_block None = 0" "opt_block (Some r) = 1"
  by (simp_all add: opt_block_def)

lemma heap_alloc: "c_alloc h = (ok, h') \<Longrightarrow> heap h' = heap h + (if ok then 1 else 0)"
  by (auto simp: c_alloc_def split: prod.splits fault.splits)

lemma heap_strdup: "c_strdup v h = (r, h') \<Longrightarrow> heap h' = heap h + opt_block r"
  using heap_alloc [of h] by (auto simp: c_strdup_def split: prod.splits if_splits)

lemma heap_free_opt: "heap (free_opt r h) = heap h - opt_block r"
  by (simp add: free_opt_def c_free_def opt_block_def)

lemma heap_free_entries: "heap (free_entries q h) = heap h - blocks q"
  by (induction q arbitrary: h) (simp_all add: blocks_def entry_blocks_def c_free_def heap_free_opt)

lemma heap_delete: "heap (config_delete (Some q) h) = heap h - blocks q - 1"
  by (simp add: config_delete_def c_free_def heap_free_entries)

lemma delete_keeps: "os (config_delete r h) = os h" "rand_pos (config_delete r h) = rand_pos h"
proof -
  have "os (free_entries q h) = os h \<and> rand_pos (free_entries q h) = rand_pos h" for q
    by (induction q arbitrary: h) (simp_all add: c_free_def free_opt_def)
  then show "os (config_delete r h) = os h" "rand_pos (config_delete r h) = rand_pos h"
    by (simp_all add: config_delete_def c_free_def split: option.split)
qed

lemma find_first_mem: "find_first t q = Some e \<Longrightarrow> e \<in> set q \<and> inj_type e = t"
  by (induction q) (auto split: if_splits)

lemma find_first_None: "find_first t q = None \<longleftrightarrow> t \<notin> inj_type ` set q"
  by (induction q) auto

lemma find_first_append: "find_first t (q @ [e]) =
    (case find_first t q of None \<Rightarrow> if inj_type e = t then Some e else None | Some x \<Rightarrow> Some x)"
  by (induction q) auto

lemma set_first_types:
  "(\<And>e. inj_type (g e) = inj_type e) \<Longrightarrow> map inj_type (set_first t g q) = map inj_type q"
  by (induction q) auto

lemma set_first_blocks:
  "find_first t q = Some e \<Longrightarrow> blocks (set_first t g q) = blocks q - entry_blocks e + entry_blocks (g e)"
  by (induction q) (auto simp: blocks_def split: if_splits)

subsection \<open>The handler keeps the queue\<close>

definition queue_ok :: "int \<Rightarrow> errinj_conf list \<times> host \<Rightarrow> bool" where
  "queue_ok base u \<longleftrightarrow> distinct (map inj_type (fst u)) \<and> heap (snd u) = base + blocks (fst u)"

lemma queue_ok_new:
  assumes "queue_ok base (q, h)" "find_first t q = None" "c_alloc h = (True, h')"
  shows "queue_ok base (q @ [new_errinj t], h')"
  using assms heap_alloc [OF assms(3)]
  by (auto simp: queue_ok_def find_first_None blocks_def entry_blocks_def new_errinj_def)

lemma queue_ok_set:
  assumes "queue_ok base (q, h)" "find_first t q = Some e" "\<And>e. inj_type (g e) = inj_type e"
    and "heap h' = heap h + entry_blocks (g e) - entry_blocks e"
  shows "queue_ok base (set_first t g q, h')"
  using assms by (simp add: queue_ok_def set_first_types set_first_blocks)

text \<open>What the handler does to the entry, once it is in the queue.\<close>

definition set_option :: "errinj_conf \<Rightarrow> errinj_conf list \<Rightarrow> string \<Rightarrow> string \<Rightarrow> host
    \<Rightarrow> int \<times> errinj_conf list \<times> host" where
  "set_option err q key value h =
     (let t = inj_type err in
      if key = ''path_regexp'' then
        (case c_strdup value (free_opt (path_regexp err) h) of
           (v, h) \<Rightarrow> (1, set_first t (\<lambda>e. e\<lparr>path_regexp := v\<rparr>) q, h))
      else if key = ''op_regexp'' then
        (case c_strdup value (free_opt (op_regexp err) h) of
           (v, h) \<Rightarrow> (1, set_first t (\<lambda>e. e\<lparr>op_regexp := v\<rparr>) q, h))
      else if key = ''probability'' then
        (1, set_first t (\<lambda>e. e\<lparr>probability := word_of_int (atoi value)\<rparr>) q, h)
      else if key = ''duration'' then
        (1, set_first t (\<lambda>e. e\<lparr>duration := word_of_int (atoi value)\<rparr>) q, h)
      else (0, q, h))"

lemma set_option_ok:
  assumes "queue_ok base (q, h)" "find_first t q = Some err"
  shows "queue_ok base (snd (set_option err q key value h))"
proof -
  have t: "inj_type err = t" using find_first_mem [OF assms(2)] by simp
  obtain v1 h1 where p: "c_strdup value (free_opt (path_regexp err) h) = (v1, h1)" by fastforce
  obtain v2 h2 where o: "c_strdup value (free_opt (op_regexp err) h) = (v2, h2)" by fastforce
  have "queue_ok base (set_first t (\<lambda>e. e\<lparr>path_regexp := v1\<rparr>) q, h1)"
    by (rule queue_ok_set [OF assms]) (simp_all add: heap_strdup [OF p] heap_free_opt entry_blocks_def)
  moreover have "queue_ok base (set_first t (\<lambda>e. e\<lparr>op_regexp := v2\<rparr>) q, h2)"
    by (rule queue_ok_set [OF assms]) (simp_all add: heap_strdup [OF o] heap_free_opt entry_blocks_def)
  moreover have "queue_ok base (set_first t (\<lambda>e. e\<lparr>probability := word_of_int (atoi value)\<rparr>) q, h)"
    by (rule queue_ok_set [OF assms]) (simp_all add: entry_blocks_def)
  moreover have "queue_ok base (set_first t (\<lambda>e. e\<lparr>duration := word_of_int (atoi value)\<rparr>) q, h)"
    by (rule queue_ok_set [OF assms]) (simp_all add: entry_blocks_def)
  ultimately show ?thesis
    using assms(1) by (simp only: set_option_def t Let_def p o prod.case split: if_split) simp
qed

lemma handler_eq:
  "conf_option_handler section key value (q, h) =
     (let cur_type = errinj_type_by_name section; t = errinj_types ! nat cur_type in
      if cur_type = -1 then (-1, q, h)
      else (case find_first t q of
              Some err \<Rightarrow> set_option err q key value h
            | None \<Rightarrow> (case c_alloc h of (ok, h) \<Rightarrow>
                if ok then set_option (new_errinj t) (q @ [new_errinj t]) key value h else (-1, q, h))))"
proof -
  have t: "inj_type (new_errinj t) = t" for t by (simp add: new_errinj_def)
  show ?thesis
    using find_first_mem [of "errinj_types ! nat (errinj_type_by_name section)" q]
    by (auto simp: conf_option_handler_def set_option_def Let_def t split: option.splits prod.splits)
qed

interpretation eh: ini_callback conf_option_handler "queue_ok base" for base
proof
  fix u s n v
  assume ok: "queue_ok base u"
  obtain q h where u: "u = (q, h)" by fastforce
  let ?t = "errinj_types ! nat (errinj_type_by_name s)"
  show "queue_ok base (snd (conf_option_handler s n v u))"
  proof (cases "find_first ?t q")
    case None
    obtain b h' where al: "c_alloc h = (b, h')" by fastforce
    have n: "find_first ?t (q @ [new_errinj ?t]) = Some (new_errinj ?t)"
      using None by (simp add: find_first_append new_errinj_def)
    have f: "\<not> b \<Longrightarrow> heap h' = heap h" using heap_alloc [OF al] by simp
    show ?thesis
      using ok None al f set_option_ok [OF queue_ok_new n] unfolding u handler_eq
      by (cases b) (auto simp: Let_def queue_ok_def)
  next
    case (Some err)
    then show ?thesis
      using ok set_option_ok [OF _ Some] unfolding u handler_eq by (auto simp: Let_def)
  qed
qed

definition config_ok :: "int \<Rightarrow> unreliablefs_config \<Rightarrow> host \<Rightarrow> bool" where
  "config_ok base c h \<longleftrightarrow> (case errors c of None \<Rightarrow> heap h = base | Some q \<Rightarrow> queue_ok (base + 1) (q, h))"

lemma config_init_total: "\<exists>r h'. config_init p h = Some (r, h')"
proof -
  have "\<exists>r u'. ini_parse f p conf_option_handler u = Some (r, u')" for f u
    by (rule ini_parse_total)
  then show ?thesis
    by (auto simp: config_init_def split: prod.splits) (metis option.simps(9) prod.exhaust)
qed

text \<open>The queue is lost when the file cannot be opened after \<open>access\<close> has found it.\<close>

lemma config_init_ok:
  assumes "config_init p h = Some (r, h')"
  shows "case r of None \<Rightarrow> heap h' = heap h \<or> heap h' = heap h + 1
    | Some q \<Rightarrow> queue_ok (heap h + 1) (q, h')"
proof -
  obtain b h1 where al: "c_alloc h = (b, h1)" by fastforce
  note hp = heap_alloc [OF al]
  obtain rc s where ac: "sys_access p 0 (os h1) = (rc, s)" by fastforce
  let ?u = "([], h1\<lparr>os := snd (c_fopen p s)\<rparr>) :: errinj_conf list \<times> host"
  show ?thesis
  proof (cases "b \<and> rc = 0")
    case True
    then obtain e q' where e: "ini_parse (\<lambda>p. fst (c_fopen p s)) p conf_option_handler ?u = Some (e, q', h')"
      "r = (if e < 0 then None else Some q')"
      using assms al ac by (auto simp: config_init_def)
    have "queue_ok (heap h + 1) ?u" using hp True by (simp add: queue_ok_def blocks_def)
    from eh.parse_keeps [OF e(1) this] have ok: "queue_ok (heap h + 1) (q', h')" .
    have "heap h' = heap h + 1" if "e < 0"
      using e(1) that hp True
      by (auto simp: ini_parse_def ini_parse_file_def ini_parse_stream_def split: option.splits)
    with ok e(2) show ?thesis by auto
  next
    case False
    then show ?thesis
      using assms al ac hp by (auto simp: config_init_def queue_ok_def blocks_def split: if_splits)
  qed
qed

lemma config_ok_delete: "config_ok base c h \<Longrightarrow> heap (config_delete (errors c) h) = base"
  by (auto simp: config_ok_def queue_ok_def heap_delete split: option.splits) (simp add: config_delete_def)

subsection \<open>What an entry does\<close>

definition matches :: "path \<Rightarrow> fuse_op \<Rightarrow> errinj_conf \<Rightarrow> host \<Rightarrow> bool" where
  "matches path operation err h \<longleftrightarrow> is_regex_matched (path_regexp err) path h = 0 \<and>
     is_regex_matched (op_regexp err) (fuse_op_name operation) h = 0"

text \<open>What no injection changes.\<close>

definition same_host :: "host \<Rightarrow> host \<Rightarrow> bool" where
  "same_host h h' \<longleftrightarrow> heap h' = heap h \<and> regcomp h' = regcomp h \<and> regexec h' = regexec h \<and>
     rand_seq h' = rand_seq h \<and> caller h' = caller h \<and>
     (\<exists>e. os h' = (os h)\<lparr>errno := e\<rparr>)"

lemma same_host_refl [simp]: "same_host h h"
  by (simp add: same_host_def) (metis fsys.surjective fsys.update_convs(5))

lemma same_host_trans: "same_host a b \<Longrightarrow> same_host b c \<Longrightarrow> same_host a c"
  by (auto simp: same_host_def)

lemma same_host_matches: "same_host h h' \<Longrightarrow> matches path op err h' = matches path op err h"
  by (simp add: matches_def same_host_def is_regex_matched_def split: option.split)

lemma errno_exists: "\<exists>e. (s :: fsys) = s\<lparr>errno := e\<rparr>"
  by (metis fsys.surjective fsys.update_convs(5))

lemma same_host_draw: "same_host h (h\<lparr>rand_pos := k\<rparr>)" "same_host h (c_kill pid sig h)"
    "same_host h (snd (c_nanosleep ns h))"
  using errno_exists [of "os h"] by (auto simp: same_host_def c_kill_def c_nanosleep_def)

lemma rand_range_eq: "rand_range a b h =
    (int (rand_seq h (rand_pos h)) mod (b - a + 1) + a, h\<lparr>rand_pos := Suc (rand_pos h)\<rparr>)"
  by (simp add: rand_range_def c_rand_def)

lemma RANDOM_ELEMENT_eq: "RANDOM_ELEMENT arr h =
    (let i = rand_seq h (rand_pos h) mod Suc (length arr)
     in if i = length arr then None else Some (arr ! i, h\<lparr>rand_pos := Suc (rand_pos h)\<rparr>))"
proof -
  have "int (rand_seq h (rand_pos h)) mod (int (length arr) + 1)
      = int (rand_seq h (rand_pos h) mod Suc (length arr))"
    by (simp add: zmod_int add.commute)
  moreover have "rand_seq h (rand_pos h) mod Suc (length arr) < Suc (length arr)" by simp
  ultimately show ?thesis
    by (auto simp: RANDOM_ELEMENT_def rand_range_eq Let_def simp del: mod_less_divisor)
qed

definition drawn :: "host \<Rightarrow> u32" where
  "drawn h = word_of_nat (rand_seq h (rand_pos h) mod 101)"

lemma drawn_le: "drawn h \<le> 100"
proof -
  have "rand_seq h (rand_pos h) mod 101 < 101" by simp
  then show ?thesis by (simp add: drawn_def word_le_nat_alt unat_of_nat take_bit_nat_eq_self del: mod_less_divisor)
qed

lemma drawn_zero: "drawn h \<le> 0 \<longleftrightarrow> rand_seq h (rand_pos h) mod 101 = 0"
proof -
  have "rand_seq h (rand_pos h) mod 101 < 101" by simp
  then show ?thesis by (simp add: drawn_def word_le_nat_alt unat_of_nat take_bit_nat_eq_self del: mod_less_divisor)
qed

lemma inject_one_eq: "inject_one path operation err rc h =
    (let h1 = h\<lparr>rand_pos := Suc (rand_pos h)\<rparr> in
     if drawn h \<le> probability err \<and> matches path operation err h
     then (case inj_type err of
             ERRINJ_NOOP \<Rightarrow> Some (999, h1)
           | ERRINJ_KILL_CALLER \<Rightarrow>
               Some (rc, case caller h of None \<Rightarrow> h1 | Some pid \<Rightarrow> c_kill pid DEFAULT_SIGNAL_NAME h1)
           | ERRINJ_ERRNO \<Rightarrow> map_option (\<lambda>(rc, h). (- rc, h)) (op_random_errno operation h1)
           | ERRINJ_SLOWDOWN \<Rightarrow> Some (rc, snd (c_nanosleep (uint (duration err)) h1)))
     else Some (rc, h1))"
proof -
  have "int (rand_seq h (rand_pos h)) mod 101 = int (rand_seq h (rand_pos h) mod 101)"
    by (simp add: zmod_int)
  then have d: "(word_of_int (int (rand_seq h (rand_pos h)) mod 101) :: u32) = drawn h"
    by (simp only: drawn_def of_int_of_nat_eq)
  have m: "is_regex_matched r x (h\<lparr>rand_pos := k\<rparr>) = is_regex_matched r x h" for r x k
    by (simp add: is_regex_matched_def split: option.split)
  show ?thesis
    by (simp add: inject_one_def rand_range_eq d m matches_def Let_def split: errinj_type.split)
qed

lemma op_random_errno_mem:
  "op_random_errno op h = Some (e, h') \<Longrightarrow> e \<in> set (op_errnos op) \<and> same_host h h'"
  using same_host_draw(1) [of h "Suc (rand_pos h)"] mod_less_divisor [of "Suc (length (op_errnos op))" "rand_seq h (rand_pos h)"]
  by (auto simp: op_random_errno_def RANDOM_ELEMENT_eq Let_def less_Suc_eq split: if_splits)

text \<open>Where a result may come from.\<close>

definition explained :: "path \<Rightarrow> fuse_op \<Rightarrow> host \<Rightarrow> errinj_conf \<Rightarrow> int \<Rightarrow> bool" where
  "explained path operation h err rc \<longleftrightarrow> matches path operation err h \<and>
     (inj_type err = ERRINJ_NOOP \<and> rc = 999 \<or>
      inj_type err = ERRINJ_ERRNO \<and> - rc \<in> set (op_errnos operation))"

lemma inject_one_result:
  assumes "inject_one path op err rc h = Some (rc', h')"
  shows "same_host h h' \<and> (rc' = rc \<or> explained path op h err rc')"
proof -
  let ?h1 = "h\<lparr>rand_pos := Suc (rand_pos h)\<rparr>"
  have h1: "same_host h ?h1" by (rule same_host_draw)
  show ?thesis
  proof (cases "drawn h \<le> probability err \<and> matches path op err h")
    case True
    then show ?thesis
      using assms h1 same_host_trans [OF h1 same_host_draw(2)] same_host_trans [OF h1 same_host_draw(3)]
        same_host_trans [OF h1 op_random_errno_mem [THEN conjunct2]] op_random_errno_mem [of op ?h1]
      by (cases "inj_type err") (auto simp: inject_one_eq Let_def explained_def split: option.splits)
  next
    case False
    with assms h1 show ?thesis by (auto simp: inject_one_eq Let_def)
  qed
qed

lemma explained_same: "same_host h h' \<Longrightarrow> explained path op h' err rc = explained path op h err rc"
  by (simp add: explained_def same_host_matches)

lemma inject_all_result:
  "inject_all path op q rc h = Some (rc', h') \<Longrightarrow>
   same_host h h' \<and> (rc' = rc \<or> (\<exists>err \<in> set q. explained path op h err rc'))"
proof (induction q arbitrary: rc h)
  case (Cons e q)
  obtain rc1 h1 where one: "inject_one path op e rc h = Some (rc1, h1)"
    "inject_all path op q rc1 h1 = Some (rc', h')"
    using Cons.prems by (auto split: option.splits)
  note o = inject_one_result [OF one(1)]
  show ?case
    using o Cons.IH [OF one(2)] same_host_trans explained_same [of h h1 path op] by auto
qed simp

lemma inject_one_defined:
  "inj_type err \<noteq> ERRINJ_ERRNO \<Longrightarrow> \<exists>rc' h'. inject_one path op err rc h = Some (rc', h')"
  by (cases "inj_type err") (auto simp: inject_one_eq Let_def)

lemma inject_all_defined:
  "\<forall>err \<in> set q. inj_type err \<noteq> ERRINJ_ERRNO \<Longrightarrow> \<exists>rc' h'. inject_all path op q rc h = Some (rc', h')"
proof (induction q arbitrary: rc h)
  case (Cons e q)
  obtain rc1 h1 where "inject_one path op e rc h = Some (rc1, h1)"
    using inject_one_defined [of e path op rc h] Cons.prems by auto
  with Cons show ?case by simp
qed simp

text \<open>Without an error entry, a certain no-op entry decides the result.\<close>

lemma inject_all_noop:
  assumes "\<forall>err \<in> set q. inj_type err \<noteq> ERRINJ_ERRNO"
    and "rc = 999 \<or> (\<exists>err \<in> set q. inj_type err = ERRINJ_NOOP \<and> 100 \<le> probability err \<and> matches path op err h)"
  shows "\<exists>h'. inject_all path op q rc h = Some (999, h')"
  using assms
proof (induction q arbitrary: rc h)
  case (Cons e q)
  obtain rc1 h1 where one: "inject_one path op e rc h = Some (rc1, h1)"
    using inject_one_defined [of e path op rc h] Cons.prems by auto
  note o = inject_one_result [OF one]
  have "rc1 = 999" if "rc = 999"
    using that o Cons.prems(1) by (auto simp: explained_def)
  moreover have "rc1 = 999" if "inj_type e = ERRINJ_NOOP" "100 \<le> probability e" "matches path op e h"
    using that one order_trans [OF drawn_le] by (auto simp: inject_one_eq Let_def)
  ultimately show ?case
    using Cons.IH [of rc1 h1] Cons.prems one same_host_matches [of h h1 path op] o by auto
qed simp

end
