(* ===== verification/Unreliable_Facts.thy ===== *)
theory Unreliable_Facts
  imports Unreliable_Ops Errinj_Facts Posix_Samples
begin

text \<open>
  The unreliable file system: what error injection leaves alone, the contract of a system call
  that changes nothing when it fails (a locale, interpreted on every call that changes the disk),
  and the operations with the injection decided.
\<close>

subsection \<open>The disk\<close>

definition disk :: "fsys \<Rightarrow> (path \<times> nat) list \<times> (nat \<Rightarrow> inode option) \<times> (path \<Rightarrow> (string \<times> string) list)" where
  "disk s = (names s, inodes s, xattrs s)"

lemma disk_simps [simp]:
  "disk (s\<lparr>errno := e\<rparr>) = disk s" "disk (s\<lparr>faults := fs\<rparr>) = disk s" "disk (s\<lparr>fds := f\<rparr>) = disk s"
  "disk (set_fd fd x s) = disk s"
  by (simp_all add: disk_def set_fd_def)

lemma disk_take_fault: "take_fault s = (f, t) \<Longrightarrow> disk t = disk s"
  by (auto simp: take_fault_def split: list.splits)

lemma disk_fail [simp]: "disk (snd (fail e s)) = disk s" "fst (fail e s) = -1"
  by (simp_all add: fail_def)

lemma fail_eq: "fail e s = (r, t) \<longleftrightarrow> r = -1 \<and> t = s\<lparr>errno := e\<rparr>"
  by (auto simp: fail_def)

lemma disk_alloc: "c_alloc h = (b, h') \<Longrightarrow> disk (os h') = disk (os h)"
  by (auto simp: c_alloc_def split: prod.splits fault.splits dest: disk_take_fault)

lemma disk_strdup: "c_strdup v h = (r, h') \<Longrightarrow> disk (os h') = disk (os h)"
  by (auto simp: c_strdup_def split: prod.splits dest: disk_alloc)

lemma os_free_opt [simp]: "os (free_opt r h) = os h"
  by (simp add: free_opt_def c_free_def)

lemma disk_set_option: "disk (os (snd (snd (set_option err q key v h)))) = disk (os h)"
proof -
  obtain v1 h1 where p: "c_strdup v (free_opt (path_regexp err) h) = (v1, h1)" by fastforce
  obtain v2 h2 where o: "c_strdup v (free_opt (op_regexp err) h) = (v2, h2)" by fastforce
  show ?thesis
    using disk_strdup [OF p] disk_strdup [OF o]
    by (simp only: set_option_def Let_def p o prod.case snd_conv os_free_opt split: if_split) simp
qed

interpretation dk: ini_callback conf_option_handler "\<lambda>u. disk (os (snd u)) = d" for d
proof
  fix u :: "errinj_conf list \<times> host" and s n v
  assume d: "disk (os (snd u)) = d"
  obtain q h where u: "u = (q, h)" by fastforce
  obtain b h' where al: "c_alloc h = (b, h')" by fastforce
  show "disk (os (snd (snd (conf_option_handler s n v u)))) = d"
    using d disk_alloc [OF al]
    by (simp add: u handler_eq al Let_def disk_set_option split: option.split)
qed

lemma disk_fopen: "disk (snd (c_fopen p s)) = disk s"
  by (auto simp: c_fopen_def split: prod.split fault.split option.split dest: disk_take_fault)

lemma disk_access: "sys_access p m s = (r, t) \<Longrightarrow> disk t = disk s"
  by (auto simp: sys_access_def fail_def split: prod.splits fault.splits if_splits dest: disk_take_fault)

lemma disk_config_init:
  assumes "config_init p h = Some (r, h')"
  shows "disk (os h') = disk (os h)"
proof -
  obtain b h1 where al: "c_alloc h = (b, h1)" by fastforce
  obtain rc s where ac: "sys_access p 0 (os h1) = (rc, s)" by fastforce
  note d = disk_alloc [OF al] disk_access [OF ac]
  show ?thesis
  proof (cases "b \<and> rc = 0")
    case True
    then obtain e q' where e: "ini_parse (\<lambda>p. fst (c_fopen p s)) p conf_option_handler
        ([], h1\<lparr>os := snd (c_fopen p s)\<rparr>) = Some (e, q', h')"
      using assms al ac by (auto simp: config_init_def)
    show ?thesis using dk.parse_keeps [OF e, of "disk (os h)"] d by (simp add: disk_fopen)
  next
    case False
    then show ?thesis using assms al ac d by (auto simp: config_init_def split: if_splits)
  qed
qed

lemma disk_error_inject:
  assumes "error_inject path op c h = Some (rc, c', h')"
  shows "disk (os h') = disk (os h)"
proof (cases "path = config_path c")
  case True
  then obtain r where "config_init path (config_delete (errors c) h) = Some (r, h')"
    using assms by (auto simp: error_inject_def Let_def split: if_splits option.splits)
  then show ?thesis using disk_config_init delete_keeps by metis
next
  case False
  then have "h' = h \<or> (\<exists>q. inject_all path op q 0 h = Some (rc, h'))"
    using assms by (auto simp: error_inject_def Let_def split: if_splits option.splits)
  then have "\<exists>e. os h' = (os h)\<lparr>errno := e\<rparr>"
    using inject_all_result [of path op _ 0 h rc h'] errno_exists [of "os h"] by (auto simp: same_host_def)
  then show ?thesis by auto
qed

subsection \<open>Calls that change nothing when they fail\<close>

locale failing_call =
  fixes sys :: "fsys \<Rightarrow> int \<times> fsys"
  assumes failed: "sys s = (r, t) \<Longrightarrow> r \<noteq> 0 \<Longrightarrow> disk t = disk s"
begin

lemma result_failed:
  "result sys st = Some (rc, u, st') \<Longrightarrow> rc \<noteq> 0 \<Longrightarrow> disk (kernel st') = disk (kernel st)"
  using failed by (auto simp: result_def with_kernel_def split: prod.splits if_splits)

lemma negative_failed:
  "negative sys st = Some (rc, u, st') \<Longrightarrow> rc \<noteq> 0 \<Longrightarrow> disk (kernel st') = disk (kernel st)"
  using failed by (auto simp: negative_def with_kernel_def split: prod.splits if_splits)

lemma op_failed:
  assumes "injected path op () body st = Some (rc, u, st')" "rc \<noteq> 0" "body = result sys \<or> body = negative sys"
  shows "disk (kernel st') = disk (kernel st)"
proof -
  obtain ret c h where e: "error_inject path op (uconf st) (uhost st) = Some (ret, c, h)"
    using assms(1) by (auto simp: injected_def split: option.splits)
  show ?thesis
  proof (cases "ret = 0")
    case True
    then have "body (st\<lparr>uconf := c, uhost := h\<rparr>) = Some (rc, u, st')"
      using assms(1) e by (simp add: injected_def Let_def)
    then have "disk (kernel st') = disk (os h)"
      using assms(2,3) result_failed negative_failed by fastforce
    then show ?thesis using disk_error_inject [OF e] by simp
  next
    case False
    then show ?thesis
      using assms(1) e disk_error_inject [OF e] by (auto simp: injected_def Let_def split: if_splits)
  qed
qed

end

lemmas call_cases = prod.splits fault.splits option.splits if_splits

lemma call_failed:
  assumes "\<And>s r t. body s = (r, t) \<Longrightarrow> r \<noteq> 0 \<Longrightarrow> disk t = disk s"
  shows "failing_call (call body)"
proof
  fix s r t
  assume a: "call body s = (r, t)" "r \<noteq> 0"
  obtain f s' where f: "take_fault s = (f, s')" by fastforce
  have d: "disk s' = disk s" by (rule disk_take_fault [OF f])
  show "disk t = disk s"
  proof (cases "\<exists>e. f = Fail e")
    case True
    then show ?thesis using a(1) f d by (auto simp: call_def fail_eq)
  next
    case False
    then have "body s' = (r, t)" using a(1) f by (cases f) (simp_all add: call_def)
    from assms [OF this a(2)] d show ?thesis by simp
  qed
qed

interpretation mkdir_c: failing_call "sys_mkdir p m" for p m
  by unfold_locales (auto simp: sys_mkdir_def fail_eq split: call_cases dest: disk_take_fault)

interpretation unlink_c: failing_call "sys_unlink p" for p
  by unfold_locales (auto simp: sys_unlink_def fail_eq split: call_cases dest: disk_take_fault)

interpretation rmdir_c: failing_call "sys_rmdir p" for p
  by unfold_locales (auto simp: sys_rmdir_def fail_eq split: call_cases dest: disk_take_fault)

interpretation rename_c: failing_call "sys_rename p q" for p q
  by unfold_locales (auto simp: sys_rename_def fail_eq Let_def split: call_cases dest: disk_take_fault)

interpretation truncate_c: failing_call "sys_truncate p n" for p n
  by unfold_locales (auto simp: sys_truncate_def fail_eq split: call_cases dest: disk_take_fault)

lemma set_attr_failed: "failing_call (set_attr p g)"
  by unfold_locales (auto simp: set_attr_def fail_eq split: call_cases dest: disk_take_fault)

interpretation chmod_c: failing_call "sys_chmod p m" for p m
  unfolding sys_chmod_def by (rule set_attr_failed)

interpretation chown_c: failing_call "sys_chown p u g" for p u g
  unfolding sys_chown_def by (rule set_attr_failed)

interpretation utimens_c: failing_call "sys_utimensat p ts" for p ts
  unfolding sys_utimensat_def by (rule set_attr_failed)

interpretation link_c: failing_call "sys_link p q" for p q
  unfolding sys_link_def by (rule call_failed) (auto simp: fail_eq split: call_cases)

interpretation mknod_c: failing_call "sys_mknod p m d" for p m d
  unfolding sys_mknod_def by (rule call_failed) (auto simp: fail_eq Let_def split: call_cases)

interpretation symlink_c: failing_call "sys_symlink p q" for p q
  unfolding sys_symlink_def by (rule call_failed) (auto simp: fail_eq split: call_cases)

interpretation setxattr_c: failing_call "sys_setxattr p n v f" for p n v f
  unfolding sys_setxattr_def by (rule call_failed) (auto simp: fail_eq split: call_cases)

interpretation removexattr_c: failing_call "sys_removexattr p n" for p n
  unfolding sys_removexattr_def by (rule call_failed) (auto simp: fail_eq split: call_cases)

subsection \<open>Injection decided\<close>

definition no_injection :: "path \<Rightarrow> ufs \<Rightarrow> bool" where
  "no_injection p st \<longleftrightarrow> \<not> mutex (uconf st) \<and> p \<noteq> config_path (uconf st) \<and>
     (errors (uconf st) = None \<or> errors (uconf st) = Some [])"

lemma injected_off: "no_injection p st \<Longrightarrow> injected p op out body st = body st"
proof -
  assume a: "no_injection p st"
  then have "(uconf st)\<lparr>mutex := False\<rparr> = uconf st" by (simp add: no_injection_def)
  then have "error_inject p op (uconf st) (uhost st) = Some (0, uconf st, uhost st)"
    using a by (auto simp: no_injection_def error_inject_def Let_def)
  then show ?thesis by (simp add: injected_def)
qed

lemma injected_on:
  "error_inject p op (uconf st) (uhost st) = Some (ret, c, h) \<Longrightarrow> ret \<noteq> 0 \<Longrightarrow>
   injected p op out body st = Some (if ret = 999 then 0 else ret, out, st\<lparr>uconf := c, uhost := h\<rparr>)"
  by (simp add: injected_def Let_def)

lemma with_kernel_simps [simp]:
  "kernel (with_kernel s st) = s" "uconf (with_kernel s st) = uconf st" "dirs (with_kernel s st) = dirs st"
  "no_injection p (with_kernel s st) = no_injection p st"
  by (simp_all add: with_kernel_def no_injection_def)

subsection \<open>Directory streams\<close>

definition count_some :: "'a option list \<Rightarrow> nat" where
  "count_some xs = length (filter (\<lambda>d. d \<noteq> None) xs)"

definition open_streams :: "ufs \<Rightarrow> nat" where
  "open_streams st = count_some (dirs st)"

lemma count_set_slot: "count_some (set_slot (lowest_free xs) (Some v) xs) = Suc (count_some xs)"
  by (induction xs rule: lowest_free.induct) (auto simp: set_slot_def count_some_def)

lemma set_slot_again: "set_slot n None (set_slot n v xs) = set_slot n None xs"
  by (auto simp: set_slot_def list_update_append)

lemma count_clear_slot: "count_some (set_slot (lowest_free xs) None xs) = count_some xs"
  by (induction xs rule: lowest_free.induct) (auto simp: set_slot_def count_some_def)

lemma open_streams_kernel [simp]: "open_streams (with_kernel s st) = open_streams st"
  by (simp add: open_streams_def)

text \<open>A stream that was just opened is closed again, and nothing remains of it.\<close>

lemma opendir_spec:
  assumes "sys_opendir p (kernel st) = (Some ds, s)"
  obtains dp st1 where "c_opendir p st = (Suc dp, st1)" "kernel st1 = s" "dir_stream (Suc dp) st1 = Some ds"
    "open_streams st1 = Suc (open_streams st)" "uconf st1 = uconf st"
    "\<And>t. \<exists>r st2. c_closedir (Suc dp) (with_kernel t st1) = Some (r, st2) \<and> open_streams st2 = open_streams st \<and>
       disk (kernel st2) = disk t"
proof
  let ?n = "lowest_free (dirs st)"
  let ?st1 = "(with_kernel s st)\<lparr>dirs := set_slot ?n (Some ds) (dirs st)\<rparr>"
  show "c_opendir p st = (Suc ?n, ?st1)" using assms by (simp add: c_opendir_def Let_def)
  show "kernel ?st1 = s" "uconf ?st1 = uconf st" by (simp_all add: with_kernel_def)
  show "dir_stream (Suc ?n) ?st1 = Some ds" by (simp add: dir_stream_def)
  show "open_streams ?st1 = Suc (open_streams st)" by (simp add: open_streams_def count_set_slot)
  show "\<exists>r st2. c_closedir (Suc ?n) (with_kernel t ?st1) = Some (r, st2) \<and> open_streams st2 = open_streams st \<and>
      disk (kernel st2) = disk t" for t
  proof -
    obtain f u where f: "take_fault t = (f, u)" by fastforce
    show ?thesis
      using disk_take_fault [OF f]
      by (cases f) (simp_all add: c_closedir_def f with_kernel_def open_streams_def set_slot_again count_clear_slot)
  qed
qed

end
