(* ===== verification/Errinj_Load.thy ===== *)
theory Errinj_Load
  imports Errinj_Facts
begin

text \<open>
  Loading a configuration: a queue rendered as a configuration file, one section per entry, is what
  \<open>config_init\<close> reads back from that file on a quiet host.
\<close>

subsection \<open>A queue as a configuration\<close>

definition type_name :: "errinj_type \<Rightarrow> string" where
  "type_name t = errinj_name ! length (takeWhile (\<lambda>x. x \<noteq> t) errinj_types)"

definition opt_entry :: "string \<Rightarrow> string option \<Rightarrow> (string \<times> string) list" where
  "opt_entry k r = (case r of None \<Rightarrow> [] | Some v \<Rightarrow> [(k, v)])"

definition errinj_section :: "errinj_conf \<Rightarrow> string \<times> (string \<times> string) list" where
  "errinj_section e = (type_name (inj_type e),
     opt_entry ''path_regexp'' (path_regexp e) @ opt_entry ''op_regexp'' (op_regexp e) @
     [(''probability'', show_nat (unat (probability e))), (''duration'', show_nat (unat (duration e)))])"

definition regexp_ok :: "string option \<Rightarrow> bool" where
  "regexp_ok r \<longleftrightarrow> (case r of None \<Rightarrow> True | Some v \<Rightarrow> ini_value v \<and> length v < 180)"

definition errinj_ok :: "errinj_conf \<Rightarrow> bool" where
  "errinj_ok e \<longleftrightarrow> err_injection_name e = None \<and> errno_regexp e = None \<and>
     regexp_ok (path_regexp e) \<and> regexp_ok (op_regexp e) \<and>
     unat (probability e) < 2 ^ 31 \<and> unat (duration e) < 2 ^ 31"

lemma length_show_nat: "n < 10 ^ k \<Longrightarrow> 0 < k \<Longrightarrow> length (show_nat n) \<le> k"
proof (induction n arbitrary: k rule: show_nat.induct)
  case (1 n)
  show ?case
  proof (cases "n < 10")
    case True
    with 1 show ?thesis by (subst show_nat.simps) simp
  next
    case False
    then obtain j where j: "k = Suc j" "0 < j" using 1(2,3) by (cases k; cases "k - 1") auto
    then have "n div 10 < 10 ^ j" using 1(2) by (simp add: less_mult_imp_div_less mult.commute)
    then have "length (show_nat (n div 10)) \<le> j" using 1(1) False j by blast
    with False j show ?thesis by (subst show_nat.simps) simp
  qed
qed

lemma show_nat_value: "n < 2 ^ 31 \<Longrightarrow> ini_value (show_nat n) \<and> length (show_nat n) \<le> 10"
proof
  have d: "isdigit c" if "c \<in> set (show_nat n)" for c using show_nat_digits that by blast
  have "\<not> isspace (hd (show_nat n))" "\<not> isspace (last (show_nat n))"
    using d isdigit_not by (metis hd_in_set last_in_set show_nat_nonempty)+
  moreover have "CHR '';'' \<notin> set (show_nat n)" "NUL \<notin> set (show_nat n)"
    using d [of "CHR '';''"] d [of NUL] by (auto simp: isdigit_def)
  ultimately show "ini_value (show_nat n)" by (simp add: ini_value_def)
  show "length (show_nat n) \<le> 10" if "n < 2 ^ 31"
    using length_show_nat [of n 10] that by simp
qed

lemma type_name_props:
  "ini_word (type_name t)" "errinj_type_by_name (type_name t) \<noteq> -1"
  "errinj_types ! nat (errinj_type_by_name (type_name t)) = t"
proof -
  show "ini_word (type_name t)" by (cases t) (simp_all only:, code_simp+)
  show "errinj_type_by_name (type_name t) \<noteq> -1" by (cases t) (simp_all only:, code_simp+)
  show "errinj_types ! nat (errinj_type_by_name (type_name t)) = t" by (cases t) (simp_all only:, code_simp+)
qed

lemma section_config_ok: "list_all errinj_ok q \<Longrightarrow> ini_config_ok (map errinj_section q)"
proof -
  have w: "ini_word ''path_regexp''" "ini_word ''op_regexp''" "ini_word ''probability''" "ini_word ''duration''"
    by code_simp+
  have o: "list_all ini_entry_ok (opt_entry k r)" if "ini_word k" "length k \<le> 11" "regexp_ok r" for k r
    using that by (auto simp: opt_entry_def regexp_ok_def ini_entry_ok_def split: option.splits)
  have "ini_word (fst (errinj_section e)) \<and> list_all ini_entry_ok (snd (errinj_section e))" if "errinj_ok e" for e
    using that show_nat_value [of "unat (probability e)"] show_nat_value [of "unat (duration e)"] w
    by (simp add: errinj_section_def type_name_props errinj_ok_def o) (simp add: ini_entry_ok_def)
  then show "list_all errinj_ok q \<Longrightarrow> ini_config_ok (map errinj_section q)"
    by (fastforce simp: ini_config_ok_def list_all_iff)
qed

subsection \<open>Reading it back\<close>

abbreviation add_blocks :: "int \<Rightarrow> host \<Rightarrow> host" where
  "add_blocks n h \<equiv> h\<lparr>heap := heap h + n\<rparr>"

lemma quiet_alloc: "faults (os h) = [] \<Longrightarrow> c_alloc h = (True, add_blocks 1 h)"
  by (simp add: c_alloc_def take_fault_def)

lemma set_first_last: "inj_type e \<notin> inj_type ` set q \<Longrightarrow> set_first (inj_type e) g (q @ [e]) = q @ [g e]"
  by (induction q) auto

definition with_option :: "string \<Rightarrow> string \<Rightarrow> errinj_conf \<Rightarrow> errinj_conf" where
  "with_option key value e =
     (if key = ''path_regexp'' then e\<lparr>path_regexp := Some value\<rparr>
      else if key = ''op_regexp'' then e\<lparr>op_regexp := Some value\<rparr>
      else if key = ''probability'' then e\<lparr>probability := word_of_int (atoi value)\<rparr>
      else if key = ''duration'' then e\<lparr>duration := word_of_int (atoi value)\<rparr> else e)"

lemma with_option_type [simp]: "inj_type (with_option k v e) = inj_type e"
  by (simp add: with_option_def)

lemma set_option_last:
  assumes "inj_type e \<notin> inj_type ` set q" "faults (os h) = []"
  shows "snd (set_option e (q @ [e]) key value h) =
    (q @ [with_option key value e], add_blocks (entry_blocks (with_option key value e) - entry_blocks e) h)"
  using assms
  by (simp add: set_option_def c_strdup_def quiet_alloc free_opt_def c_free_def with_option_def
      set_first_last entry_blocks_def opt_block_def Let_def)

lemma handler_last:
  assumes "inj_type e \<notin> inj_type ` set q" "faults (os h) = []" "inj_type e = t"
  shows "snd (conf_option_handler (type_name t) key value (q @ [e], h)) =
    (q @ [with_option key value e], add_blocks (entry_blocks (with_option key value e) - entry_blocks e) h)"
proof -
  have "find_first t (q @ [e]) = Some e"
    using assms(1,3) find_first_None [of t q] by (simp add: find_first_append)
  then show ?thesis
    using set_option_last [OF assms(1,2)] by (simp add: handler_eq type_name_props Let_def)
qed

lemma handler_first:
  assumes "t \<notin> inj_type ` set q" "faults (os h) = []"
  shows "snd (conf_option_handler (type_name t) key value (q, h)) =
    (q @ [with_option key value (new_errinj t)], add_blocks (entry_blocks (with_option key value (new_errinj t))) h)"
proof -
  have "find_first t q = None" using assms(1) find_first_None [of t q] by simp
  moreover have "inj_type (new_errinj t) = t" "entry_blocks (new_errinj t) = 1"
    by (simp_all add: new_errinj_def entry_blocks_def)
  ultimately show ?thesis
    using assms set_option_last [of "new_errinj t" q "add_blocks 1 h" key "value"]
    by (simp add: handler_eq type_name_props quiet_alloc Let_def)
qed

text \<open>A section as a whole.\<close>

lemma fold_last:
  assumes "inj_type e \<notin> inj_type ` set q" "faults (os h) = []" "inj_type e = t"
  shows "fold (\<lambda>x u. snd (conf_option_handler (type_name t) (fst x) (snd x) u)) es (q @ [e], h) =
    (let e' = fold (\<lambda>x. with_option (fst x) (snd x)) es e
     in (q @ [e'], add_blocks (entry_blocks e' - entry_blocks e) h))"
  using assms
proof (induction es arbitrary: e h)
  case (Cons x es)
  then show ?case by (simp add: handler_last Let_def)
qed simp

lemma fold_section:
  assumes "t \<notin> inj_type ` set q" "faults (os h) = []" "es \<noteq> []"
  shows "fold (\<lambda>x u. snd (conf_option_handler (type_name t) (fst x) (snd x) u)) es (q, h) =
    (let e = fold (\<lambda>x. with_option (fst x) (snd x)) es (new_errinj t)
     in (q @ [e], add_blocks (entry_blocks e) h))"
proof -
  obtain x xs where es: "es = x # xs" using assms(3) by (cases es) auto
  have "inj_type (with_option (fst x) (snd x) (new_errinj t)) = t" by (simp add: new_errinj_def)
  then show ?thesis
    using assms(1,2) fold_last [of "with_option (fst x) (snd x) (new_errinj t)" q _ t xs]
    by (simp add: es handler_first Let_def)
qed

lemma atoi_show_nat: "n < 2 ^ 31 \<Longrightarrow> atoi (show_nat n) = int n"
  by (simp add: atoi_def strtol_def strtol_subject_show_nat to_int32_nat)

lemma atoi_show_word: "unat (w :: u32) < 2 ^ 31 \<Longrightarrow> word_of_int (atoi (show_nat (unat w))) = w"
  by (simp only: atoi_show_nat of_int_of_nat_eq) simp

lemma section_entry:
  assumes "errinj_ok e"
  shows "fold (\<lambda>x. with_option (fst x) (snd x)) (snd (errinj_section e)) (new_errinj (inj_type e)) = e"
  using assms
  by (cases e; cases "path_regexp e"; cases "op_regexp e")
    (simp_all add: errinj_section_def opt_entry_def with_option_def new_errinj_def errinj_ok_def atoi_show_word)

lemma feed_queue:
  assumes "list_all errinj_ok q" "distinct (map inj_type (p @ q))" "faults (os h) = []"
  shows "feed conf_option_handler (map errinj_section q) (p, h) = (p @ q, add_blocks (blocks q) h)"
  using assms
proof (induction q arbitrary: p h)
  case Nil
  then show ?case by (simp add: feed_def blocks_def)
next
  case (Cons e q)
  have "inj_type e \<notin> inj_type ` set p" "snd (errinj_section e) \<noteq> []" "fst (errinj_section e) = type_name (inj_type e)"
    using Cons.prems(2) by (auto simp: errinj_section_def)
  then have "feed conf_option_handler [errinj_section e] (p, h) = (p @ [e], add_blocks (entry_blocks e) h)"
    using fold_section [of "inj_type e" p h "snd (errinj_section e)"] section_entry Cons.prems(1,3)
    by (simp add: feed_def case_prod_beta Let_def)
  then have "feed conf_option_handler (map errinj_section (e # q)) (p, h) =
      feed conf_option_handler (map errinj_section q) (p @ [e], add_blocks (entry_blocks e) h)"
    by (simp add: feed_def)
  then show ?case
    using Cons.IH [of "p @ [e]" "add_blocks (entry_blocks e) h"] Cons.prems by (simp add: blocks_def)
qed

lemma config_init_render:
  assumes "list_all errinj_ok q" "distinct (map inj_type q)" "faults (os h) = []"
    and "lookup (os h) p = Some nd" "\<not> i_isdir nd" "i_data nd = render (map errinj_section q)"
  shows "config_init p h = Some (Some q, add_blocks (1 + blocks q) h)"
proof -
  note c = section_config_ok [OF assms(1)]
  have f: "c_fopen p (os h) = (Some (render (map errinj_section q)), os h)"
    using assms(3-6) by (simp add: c_fopen_def take_fault_def)
  have a: "sys_access p 0 (os h) = (0, os h)"
    using assms(3,4) by (simp add: sys_access_def take_fault_def)
  have al: "c_alloc h = (True, add_blocks 1 h)" by (rule quiet_alloc [OF assms(3)])
  have os: "os (add_blocks 1 h) = os h" by simp
  obtain r where r: "0 \<le> r" "ini_parse_string (render (map errinj_section q)) conf_option_handler ([], add_blocks 1 h)
      = Some (r, feed conf_option_handler (map errinj_section q) ([], add_blocks 1 h))"
    using parse_render [OF c, of conf_option_handler "([], add_blocks 1 h)"] by blast
  have fd: "feed conf_option_handler (map errinj_section q) ([], add_blocks 1 h) = (q, add_blocks (1 + blocks q) h)"
    using feed_queue [OF assms(1), of "[]" "add_blocks 1 h"] assms(2,3) by simp
  have "ini_parse (\<lambda>p. fst (c_fopen p (os h))) p conf_option_handler ([], add_blocks 1 h)
      = Some (r, q, add_blocks (1 + blocks q) h)"
    using r(2) fd by (simp add: ini_parse_def f parse_file_string [OF render_no_NUL [OF c]])
  then show ?thesis
    using r(1) by (simp add: config_init_def al a f)
qed

end
