(* ===== verification/Errinj_Properties.thy ===== *)
theory Errinj_Properties
  imports Errinj_Load Posix_Samples
begin

text \<open>
  The properties of the error injection, each with the configuration at which it is applied.
\<close>

definition sample_host :: "fsys \<Rightarrow> (nat \<Rightarrow> nat) \<Rightarrow> int \<Rightarrow> host" where
  "sample_host s rnd n = \<lparr>os = s, heap = n, rand_seq = rnd, rand_pos = 0, caller = Some 42, signals = [], sleeps = [],
     regcomp = (\<lambda>_. 0), regexec = (\<lambda>r t. if r = t \<or> r = ''.*'' then 0 else 1)\<rparr>"

definition sample_config :: "errinj_conf list \<Rightarrow> unreliablefs_config" where
  "sample_config q = \<lparr>errors = Some q, basedir = ''/b'', config_path = ''/b/c'', seed = 1, debug = 0, mutex = False\<rparr>"

definition sample_errinj :: "errinj_type \<Rightarrow> u32 \<Rightarrow> errinj_conf" where
  "sample_errinj t p = (new_errinj t)\<lparr>path_regexp := Some ''.*'', probability := p\<rparr>"

text \<open>C21. An injected result is always one the configuration explains: 0, or 999 for a no-op entry,
or the negative of one of the errors listed for the operation for an error entry, the entry's path
and operation expressions matching. The lock is released and the configuration is as it was.\<close>

theorem error_inject_result:
  assumes "error_inject path op conf h = Some (rc, conf', h')" "path \<noteq> config_path conf"
  shows "conf' = conf \<and> \<not> mutex conf' \<and> heap h' = heap h \<and>
    (rc = 0 \<or> (\<exists>q. errors conf = Some q \<and> (\<exists>err \<in> set q. matches path op err h \<and>
       (inj_type err = ERRINJ_NOOP \<and> rc = 999 \<or>
        inj_type err = ERRINJ_ERRNO \<and> - rc \<in> set (op_errnos op)))))"
proof -
  have m: "\<not> mutex conf" using assms(1) by (auto simp: error_inject_def split: if_splits)
  then have c: "conf\<lparr>mutex := False\<rparr> = conf" by simp
  show ?thesis
  proof (cases "errors conf")
    case None
    then show ?thesis using assms m c by (auto simp: error_inject_def)
  next
    case (Some q)
    then have "inject_all path op q 0 h = Some (rc, h')" "conf' = conf"
      using assms m c by (auto simp: error_inject_def Let_def split: option.splits)
    then show ?thesis
      using inject_all_result [of path op q 0 h rc h'] Some m by (auto simp: same_host_def explained_def)
  qed
qed

lemmas sample_defs = sample_host_def sample_config_def sample_errinj_def new_errinj_def

lemma sample_rand [simp]:
  "rand_seq (sample_host s rnd n) = rnd" "rand_pos (sample_host s rnd n) = 0" "os (sample_host s rnd n) = s"
  "heap (sample_host s rnd n) = n"
  by (simp_all add: sample_host_def)

theorem error_inject_result_witness:
  "\<exists>h'. error_inject ''/b/x'' OP_READDIR (sample_config [sample_errinj ERRINJ_ERRNO 100])
      (sample_host (empty_fs []) (\<lambda>_. 0) 5) = Some (-9, sample_config [sample_errinj ERRINJ_ERRNO 100], h') \<and>
    heap h' = 5 \<and> 9 \<in> set (op_errnos OP_READDIR)"
proof -
  let ?c = "sample_config [sample_errinj ERRINJ_ERRNO 100]" and ?h = "sample_host (empty_fs []) (\<lambda>_. 0) 5"
  obtain h' where h': "error_inject ''/b/x'' OP_READDIR ?c ?h = Some (-9, ?c, h')"
    by (simp add: error_inject_def inject_one_eq drawn_def matches_def is_regex_matched_def op_random_errno_def
        RANDOM_ELEMENT_eq errno_readdir_def sample_defs Let_def)
  then show ?thesis
    using error_inject_result [OF h'] by (auto simp: sample_defs)
qed

text \<open>C22. No memory is lost but in one case: the blocks alive are those of the queue, which holds each
type at most once, before and after every call. The exception is a configuration file that
exists for \<open>access\<close> and then cannot be opened, which leaves an empty queue behind.\<close>

theorem error_inject_accounts:
  assumes "config_ok base conf h" "error_inject path op conf h = Some (rc, conf', h')"
  shows "\<not> mutex conf' \<and>
    (config_ok base conf' h' \<or> path = config_path conf \<and> errors conf' = None \<and> heap h' = base + 1)"
proof (cases "path = config_path conf")
  case True
  obtain r h1 where ci: "config_init path (config_delete (errors conf) h) = Some (r, h1)"
    using config_init_total by blast
  then have "conf' = conf\<lparr>errors := r, mutex := False\<rparr>" "h' = h1"
    using assms(2) True by (auto simp: error_inject_def Let_def split: if_splits)
  then show ?thesis
    using config_init_ok [OF ci] config_ok_delete [OF assms(1)] True
    by (auto simp: config_ok_def split: option.splits)
next
  case False
  obtain c: "errors conf' = errors conf" "\<not> mutex conf'" "heap h' = heap h"
    using assms(2) False inject_all_result [of path op _ 0 h rc h']
    by (auto simp: error_inject_def same_host_def Let_def split: if_splits option.splits)
  then show ?thesis using assms(1) by (simp add: config_ok_def queue_ok_def split: option.splits)
qed

theorem error_inject_accounts_witness:
  "\<exists>conf' h'. error_inject ''/b/c'' OP_OPEN (sample_config [sample_errinj ERRINJ_NOOP 0])
       (sample_host (one_file ''/b/c'' ''[x]'' [Pass, Pass, Fail 5]) (\<lambda>_. 0) 3) = Some (0, conf', h') \<and>
     errors conf' = None \<and> heap h' = 1"
proof -
  let ?c = "sample_config [sample_errinj ERRINJ_NOOP 0]"
    and ?h = "sample_host (one_file ''/b/c'' ''[x]'' [Pass, Pass, Fail 5]) (\<lambda>_. 0) 3"
  have ok: "config_ok 0 ?c ?h"
    by (simp add: config_ok_def queue_ok_def blocks_def entry_blocks_def sample_defs)
  obtain conf' h' where e: "error_inject ''/b/c'' OP_OPEN ?c ?h = Some (0, conf', h')" "errors conf' = None"
      "heap h' = 1"
    by (simp add: error_inject_def config_init_def config_delete_def c_alloc_def c_free_def free_opt_def
        take_fault_def sys_access_def c_fopen_def ini_parse_def one_file_def empty_fs_def lookup_def
        sample_defs Let_def)
  then show ?thesis using error_inject_accounts [OF ok e(1)] by blast
qed

text \<open>C23. Touching the configuration file reloads it: when the file is a rendered queue, every operation
on its path returns 0, with no error injected and no random number drawn, and the queue is then
the one rendered.\<close>

theorem error_inject_reloads:
  assumes "\<not> mutex conf" "path = config_path conf" "faults (os h) = []"
    and "list_all errinj_ok q" "distinct (map inj_type q)"
    and "lookup (os h) path = Some nd" "\<not> i_isdir nd" "i_data nd = render (map errinj_section q)"
  shows "\<exists>h'. error_inject path op conf h = Some (0, conf\<lparr>errors := Some q\<rparr>, h') \<and>
    os h' = os h \<and> rand_pos h' = rand_pos h"
proof -
  let ?h = "config_delete (errors conf) h"
  have h: "os ?h = os h" "rand_pos ?h = rand_pos h"
    using delete_keeps [of "errors conf" h] by simp_all
  have "config_init path ?h = Some (Some q, add_blocks (1 + blocks q) ?h)"
    using config_init_render [of q ?h path nd] assms(3-8) h by simp
  moreover have "conf\<lparr>errors := Some q, mutex := False\<rparr> = conf\<lparr>errors := Some q\<rparr>" using assms(1) by simp
  ultimately show ?thesis using assms(1,2) h by (simp add: error_inject_def Let_def)
qed

theorem error_inject_reloads_witness:
  "\<exists>h'. error_inject ''/b/c'' OP_WRITE (sample_config [])
      (sample_host (one_file ''/b/c'' (render (map errinj_section [sample_errinj ERRINJ_NOOP 30])) []) (\<lambda>_. 0) 1)
    = Some (0, sample_config [sample_errinj ERRINJ_NOOP 30], h') \<and>
    os h' = one_file ''/b/c'' (render (map errinj_section [sample_errinj ERRINJ_NOOP 30])) [] \<and> rand_pos h' = 0"
proof -
  let ?q = "[sample_errinj ERRINJ_NOOP 30]"
  let ?s = "one_file ''/b/c'' (render (map errinj_section ?q)) []"
  let ?h = "sample_host ?s (\<lambda>_. 0) 1"
  have q: "list_all errinj_ok ?q" "distinct (map inj_type ?q)"
    by (simp_all add: errinj_ok_def regexp_ok_def ini_value_def sample_defs isspace_def)
  have c: "\<not> mutex (sample_config [])" "''/b/c'' = config_path (sample_config [])"
    "(sample_config [])\<lparr>errors := Some ?q\<rparr> = sample_config ?q"
    by (simp_all add: sample_config_def)
  have f: "lookup (os ?h) ''/b/c'' = Some \<lparr>i_isdir = False, i_data = render (map errinj_section ?q), i_attr = stat0\<rparr>"
    "faults (os ?h) = []"
    by (simp_all add: lookup_def one_file_def empty_fs_def del: list.map)
  from error_inject_reloads [OF c(1,2) f(2) q f(1), of OP_WRITE] show ?thesis
    by (simp only: c(3) sample_rand inode.simps simp_thms)
qed

text \<open>C24. Without error entries the call always returns; a no-op entry of probability 100 whose
expressions match decides the result, whatever the random numbers.\<close>

theorem noop_entry_decides:
  assumes "\<not> mutex conf" "path \<noteq> config_path conf" "errors conf = Some q"
    and "\<forall>err \<in> set q. inj_type err \<noteq> ERRINJ_ERRNO"
    and "\<exists>err \<in> set q. inj_type err = ERRINJ_NOOP \<and> 100 \<le> probability err \<and> matches path op err h"
  shows "\<exists>h'. error_inject path op conf h = Some (999, conf, h')"
proof -
  obtain h' where "inject_all path op q 0 h = Some (999, h')"
    using inject_all_noop [OF assms(4), of 0 path op h] assms(5) by auto
  moreover have "conf\<lparr>mutex := False\<rparr> = conf" using assms(1) by simp
  ultimately show ?thesis using assms(1-3) by (simp add: error_inject_def Let_def)
qed

theorem noop_entry_decides_witness:
  "\<exists>h'. error_inject ''/b/x'' OP_WRITE
      (sample_config [sample_errinj ERRINJ_NOOP 100, sample_errinj ERRINJ_KILL_CALLER 100])
      (sample_host (empty_fs []) (\<lambda>n. n) 0)
    = Some (999, sample_config [sample_errinj ERRINJ_NOOP 100, sample_errinj ERRINJ_KILL_CALLER 100], h')"
  by (rule noop_entry_decides) (auto simp: sample_defs matches_def is_regex_matched_def)

text \<open>C25. The random error may be read outside its table. With a single certain error entry that
matches, the call is undefined exactly when the second random number is congruent to the size of
the operation's table modulo that size plus one; otherwise the result is the negative of a listed error.\<close>

theorem errno_entry_out_of_bounds:
  assumes "\<not> mutex conf" "path \<noteq> config_path conf" "errors conf = Some [err]"
    and "inj_type err = ERRINJ_ERRNO" "100 \<le> probability err" "matches path op err h"
  shows "error_inject path op conf h = None \<longleftrightarrow>
    rand_seq h (Suc (rand_pos h)) mod Suc (length (op_errnos op)) = length (op_errnos op)"
  using assms order_trans [OF drawn_le assms(5)]
  by (auto simp: error_inject_def inject_one_eq op_random_errno_def RANDOM_ELEMENT_eq Let_def split: option.splits)

theorem errno_entry_out_of_bounds_witness:
  "error_inject ''/b/x'' OP_READDIR (sample_config [sample_errinj ERRINJ_ERRNO 100])
     (sample_host (empty_fs []) (\<lambda>n. n) 0) = None"
  using errno_entry_out_of_bounds [of "sample_config [sample_errinj ERRINJ_ERRNO 100]" "''/b/x''"
      "sample_errinj ERRINJ_ERRNO 100" OP_READDIR "sample_host (empty_fs []) (\<lambda>n. n) 0"]
  by (simp add: sample_defs matches_def is_regex_matched_def errno_readdir_def)

text \<open>C26. A probability of 0 does not disable an entry: a single no-op entry with probability 0 takes
effect exactly when the number drawn is a multiple of 101.\<close>

theorem probability_zero_fires:
  assumes "\<not> mutex conf" "path \<noteq> config_path conf" "errors conf = Some [err]"
    and "inj_type err = ERRINJ_NOOP" "probability err = 0" "matches path op err h"
  shows "\<exists>h'. error_inject path op conf h =
    Some (if rand_seq h (rand_pos h) mod 101 = 0 then 999 else 0, conf, h')"
proof -
  have "drawn h \<le> 0 \<longleftrightarrow> rand_seq h (rand_pos h) mod 101 = 0" by (rule drawn_zero)
  moreover have "conf\<lparr>mutex := False\<rparr> = conf" using assms(1) by simp
  ultimately show ?thesis
    using assms by (simp add: error_inject_def inject_one_eq Let_def)
qed

theorem probability_zero_fires_witness:
  "\<exists>h'. error_inject ''/b/x'' OP_WRITE (sample_config [sample_errinj ERRINJ_NOOP 0])
     (sample_host (empty_fs []) (\<lambda>n. 202) 0) = Some (999, sample_config [sample_errinj ERRINJ_NOOP 0], h')"
  using probability_zero_fires [of "sample_config [sample_errinj ERRINJ_NOOP 0]" "''/b/x''"
      "sample_errinj ERRINJ_NOOP 0" OP_WRITE "sample_host (empty_fs []) (\<lambda>n. 202) 0"]
  by (simp add: sample_defs matches_def is_regex_matched_def)

end
