(* ===== verification/Unreliable_Properties.thy ===== *)
theory Unreliable_Properties
  imports Unreliable_Facts Errinj_Properties
begin

text \<open>
  The properties of the unreliable file system's operations, each with a state at which it is
  applied.
\<close>

definition sample_ufs :: "errinj_conf list \<Rightarrow> fsys \<Rightarrow> ufs" where
  "sample_ufs q s = \<lparr>uconf = sample_config q, uhost = sample_host s (\<lambda>n. n) 0, dirs = []\<rparr>"

lemma sample_ufs_simps [simp]:
  "kernel (sample_ufs q s) = s" "uconf (sample_ufs q s) = sample_config q" "dirs (sample_ufs q s) = []"
  "no_injection p (sample_ufs [] s) = (p \<noteq> ''/b/c'')"
  by (auto simp: sample_ufs_def no_injection_def sample_config_def)

lemmas unreliable_defs = unreliable_mknod_def unreliable_mkdir_def unreliable_unlink_def unreliable_rmdir_def
  unreliable_symlink_def unreliable_rename_def unreliable_link_def unreliable_chmod_def unreliable_chown_def
  unreliable_truncate_def unreliable_ftruncate_def unreliable_write_def unreliable_flush_def
  unreliable_release_def unreliable_fsync_def unreliable_access_def unreliable_lock_def unreliable_ioctl_def
  unreliable_flock_def unreliable_fallocate_def unreliable_setxattr_def unreliable_removexattr_def
  unreliable_releasedir_def unreliable_fsyncdir_def unreliable_utimens_def

text \<open>A kernel with an open file, one with a directory, one with a symbolic link.\<close>

definition open_file :: "path \<Rightarrow> bytes \<Rightarrow> fsys" where
  "open_file p d = (one_file p d [])\<lparr>fds := [Some \<lparr>of_ino = 0, of_off = 0, of_r = True, of_w = True\<rparr>]\<rparr>"

definition one_inode :: "path \<Rightarrow> bool \<Rightarrow> bytes \<Rightarrow> u32 \<Rightarrow> fault list \<Rightarrow> fsys" where
  "one_inode p dir d mode fs = (empty_fs fs)\<lparr>names := [(p, 0)], next_ino := 1,
     inodes := [0 \<mapsto> \<lparr>i_isdir = dir, i_data = d, i_attr = stat_zero\<lparr>st_mode := mode\<rparr>\<rparr>]\<rparr>"

subsection \<open>Failures\<close>

text \<open>C31. An operation that reports a failure has changed nothing on the disk, whether the error was
injected or came from the kernel.\<close>

theorem failed_operation_changes_nothing:
  assumes "run \<in> {unreliable_mknod p m d, unreliable_mkdir p m, unreliable_unlink p, unreliable_rmdir p,
      unreliable_symlink p q, unreliable_rename p q, unreliable_link p q, unreliable_chmod p m,
      unreliable_chown p m g, unreliable_truncate p n, unreliable_ftruncate p n fi,
      unreliable_utimens p ts, unreliable_setxattr p q v m, unreliable_removexattr p q}"
    and "run st = Some (rc, u, st')" "rc \<noteq> 0"
  shows "disk (kernel st') = disk (kernel st)"
proof -
  note r = assms(2)
  note goals = mknod_c.op_failed [OF _ assms(3)] mkdir_c.op_failed [OF _ assms(3)] unlink_c.op_failed [OF _ assms(3)]
    rmdir_c.op_failed [OF _ assms(3)] symlink_c.op_failed [OF _ assms(3)] rename_c.op_failed [OF _ assms(3)]
    link_c.op_failed [OF _ assms(3)] chmod_c.op_failed [OF _ assms(3)] chown_c.op_failed [OF _ assms(3)]
    truncate_c.op_failed [OF _ assms(3)] utimens_c.op_failed [OF _ assms(3)]
    setxattr_c.op_failed [OF _ assms(3)] removexattr_c.op_failed [OF _ assms(3)]
  from assms(1) show ?thesis
    apply (elim insertE emptyE)
    using r unfolding unreliable_defs by (blast intro: goals)+
qed

theorem failed_operation_changes_nothing_witness:
  "\<exists>st'. unreliable_unlink ''/a'' (sample_ufs [sample_errinj ERRINJ_ERRNO 100] (one_file ''/a'' ''x'' []))
      = Some (-16, (), st') \<and> file_at (kernel st') ''/a'' = Some ''x''"
proof -
  let ?st = "sample_ufs [sample_errinj ERRINJ_ERRNO 100] (one_file ''/a'' ''x'' [])"
  obtain st' where st': "unreliable_unlink ''/a'' ?st = Some (-16, (), st')"
    by (simp add: unreliable_unlink_def injected_def error_inject_def inject_one_eq drawn_def matches_def
        is_regex_matched_def op_random_errno_def RANDOM_ELEMENT_eq errno_unlink_def sample_defs sample_ufs_def Let_def)
  have "disk (kernel st') = disk (kernel ?st)"
    by (rule failed_operation_changes_nothing [where run = "unreliable_unlink ''/a''" and p = "''/a''" and q = "[]"
          and m = 0 and d = 0 and g = 0 and n = 0 and fi = "\<lparr>uflags = 0, ufh = 0\<rparr>" and v = "[]" and ts = None
          and rc = "-16" and u = "()"])
      (simp, rule st', simp)
  then have "file_at (kernel st') = file_at (kernel ?st)" by (simp add: disk_def file_at_def [abs_def] lookup_def)
  then show ?thesis using st' by simp
qed

text \<open>C32. An injected outcome replaces the operation: the disk is untouched, the operation returns the
injected error, and it reports success when the injection is a no-op.\<close>

theorem injection_replaces_operation:
  assumes "error_inject p op (uconf st) (uhost st) = Some (ret, c, h)" "ret \<noteq> 0"
    and "(op, run) \<in> {(OP_MKNOD, unreliable_mknod p m d), (OP_MKDIR, unreliable_mkdir p m), (OP_UNLINK, unreliable_unlink p),
      (OP_RMDIR, unreliable_rmdir p), (OP_SYMLINK, unreliable_symlink p q), (OP_RENAME, unreliable_rename p q),
      (OP_LINK, unreliable_link p q), (OP_CHMOD, unreliable_chmod p m), (OP_CHOWN, unreliable_chown p m g),
      (OP_TRUNCATE, unreliable_truncate p n), (OP_FTRUNCATE, unreliable_ftruncate p n fi),
      (OP_WRITE, unreliable_write p v k fo), (OP_FLUSH, unreliable_flush p fi), (OP_RELEASE, unreliable_release p fi),
      (OP_FSYNC, unreliable_fsync p n fi), (OP_ACCESS, unreliable_access p m), (OP_LOCK, unreliable_lock p fi n),
      (OP_IOCTL, unreliable_ioctl p n fi), (OP_FLOCK, unreliable_flock p fi n),
      (OP_FALLOCATE, unreliable_fallocate p n i j fo), (OP_SETXATTR, unreliable_setxattr p q v m),
      (OP_REMOVEXATTR, unreliable_removexattr p q), (OP_RELEASEDIR, unreliable_releasedir p fi),
      (OP_FSYNCDIR, unreliable_fsyncdir p n fo), (OP_UTIMENS, unreliable_utimens p ts)}"
  shows "run st = Some (if ret = 999 then 0 else ret, (), st\<lparr>uconf := c, uhost := h\<rparr>) \<and>
    disk (kernel (st\<lparr>uconf := c, uhost := h\<rparr>)) = disk (kernel st)"
proof
  have "\<exists>body. run = injected p op () body"
    using assms(3) by (elim insertE emptyE) (auto simp: unreliable_defs)
  then show "run st = Some (if ret = 999 then 0 else ret, (), st\<lparr>uconf := c, uhost := h\<rparr>)"
    using injected_on [OF assms(1,2)] by auto
  show "disk (kernel (st\<lparr>uconf := c, uhost := h\<rparr>)) = disk (kernel st)"
    using disk_error_inject [OF assms(1)] by simp
qed

theorem injection_replaces_operation_witness:
  "\<exists>st'. unreliable_unlink ''/a'' (sample_ufs [sample_errinj ERRINJ_NOOP 100] (one_file ''/a'' ''x'' []))
      = Some (0, (), st') \<and> disk (kernel st') = disk (one_file ''/a'' ''x'' [])"
proof -
  let ?st = "sample_ufs [sample_errinj ERRINJ_NOOP 100] (one_file ''/a'' ''x'' [])"
  obtain c h where e: "error_inject ''/a'' OP_UNLINK (uconf ?st) (uhost ?st) = Some (999, c, h)"
    by (simp add: error_inject_def inject_one_eq drawn_def matches_def is_regex_matched_def sample_defs
        sample_ufs_def Let_def)
  have "unreliable_unlink ''/a'' ?st = Some (if (999 :: int) = 999 then 0 else 999, (), ?st\<lparr>uconf := c, uhost := h\<rparr>) \<and>
      disk (kernel (?st\<lparr>uconf := c, uhost := h\<rparr>)) = disk (kernel ?st)"
    by (rule injection_replaces_operation [where run = "unreliable_unlink ''/a''" and m = 0 and d = 0 and q = "[]"
          and g = 0 and n = 0 and fi = "\<lparr>uflags = 0, ufh = 0\<rparr>" and v = "[]" and k = 0 and fo = None and i = 0
          and j = 0 and ts = None, OF e]) simp_all
  then show ?thesis by auto
qed

subsection \<open>Without injection\<close>

text \<open>C33. Without configured errors the operations are the kernel's: what is written to an open file is
read back from it, and the file is the old contents overwritten at the offset.\<close>

theorem unreliable_reads_own_write:
  assumes "no_injection p st" "ready (kernel st)" "fd_on (kernel st) (fh_int fi) p off True True"
    and "file_at (kernel st) p = Some d" "length buf < 2 ^ 31" "len < 2 ^ 31"
  shows "\<exists>st1 st2. unreliable_write p buf pos (Some fi) st = Some (int (length buf), (), st1) \<and>
    unreliable_read p out len at (Some fi) st1 =
      (let r = take len (drop at (overwrite pos buf d)) in Some (int (length r), r @ drop (length r) out, st2)) \<and>
    file_at (kernel st2) = (file_at (kernel st))(p \<mapsto> overwrite pos buf d)"
proof -
  have fd: "0 \<le> fh_int fi" using fd_on_ofile [OF assms(3)] by simp
  obtain t where t: "sys_pwrite (fh_int fi) buf pos (kernel st) = (int (length buf), t)" "ready t"
    "file_at t = (file_at (kernel st))(p \<mapsto> overwrite pos buf d)" "fd_on t (fh_int fi) p off True True"
    using sys_pwrite_spec [OF assms(2-4), of buf pos] by blast
  let ?r = "take len (drop at (overwrite pos buf d))"
  obtain u where u: "sys_pread (fh_int fi) len at t = (int (length ?r), ?r, u)" "file_at u = file_at t"
    using sys_pread_spec [OF t(2,4), of "overwrite pos buf d" len at] t(3) by auto
  have len: "to_int32 (int (length buf)) = int (length buf)" "to_int32 (int (length ?r)) = int (length ?r)"
    using assms(5,6) by (simp_all only: to_int32_nat) (simp add: to_int32_nat)
  have "unreliable_write p buf pos (Some fi) st = Some (int (length buf), (), with_kernel t st)"
    using fd t(1) len(1) by (simp add: unreliable_write_def injected_off [OF assms(1)] descriptor_def close_own_def Let_def)
  moreover have "unreliable_read p out len at (Some fi) (with_kernel t st) =
      Some (int (length ?r), ?r @ drop (length ?r) out, with_kernel u (with_kernel t st))"
    using fd u(1) len(2) assms(1)
    by (simp add: unreliable_read_def injected_off descriptor_def close_own_def Let_def)
  ultimately show ?thesis using u(2) t(3) by (simp add: Let_def)
qed

theorem unreliable_reads_own_write_witness:
  "\<exists>st1 st2. unreliable_write ''/a'' ''XY'' 3 (Some \<lparr>uflags = 2, ufh = 0\<rparr>) (sample_ufs [] (open_file ''/a'' ''hello''))
      = Some (2, (), st1) \<and>
    unreliable_read ''/a'' [] 10 1 (Some \<lparr>uflags = 2, ufh = 0\<rparr>) st1 = Some (4, ''elXY'', st2) \<and>
    file_at (kernel st2) ''/a'' = Some ''helXY''"
proof -
  let ?s = "open_file ''/a'' ''hello''" and ?fi = "\<lparr>uflags = 2, ufh = 0\<rparr>"
  have s: "ready ?s" "fd_on ?s (fh_int ?fi) ''/a'' 0 True True" "file_at ?s ''/a'' = Some ''hello''"
    by (simp_all add: open_file_def one_file_def empty_fs_def ready_def quiet_def fs_ok_def fd_on_def ofile_of_def
        slot_def fh_int_def file_at_def lookup_def file_data_def)
  have "no_injection ''/a'' (sample_ufs [] ?s)" by simp
  from unreliable_reads_own_write [OF this, of ?fi 0 "''hello''" "''XY''" 10 3 "[]" 1] s
  show ?thesis by (simp add: overwrite_def Let_def) fastforce
qed

text \<open>C34. \<open>fsyncdir\<close> closes the directory it opens only when the synchronisation succeeds: a failure
leaves one more stream open.\<close>

theorem fsyncdir_leaks:
  assumes "no_injection p st" "sys_opendir p (kernel st) = (Some ds, s)" "sync_dir s = (ret, t)"
  shows "\<exists>st'. unreliable_fsyncdir p n fi st = Some (if ret = -1 then - errno t else 0, (), st') \<and>
    open_streams st' = open_streams st + (if ret = -1 then 1 else 0)"
proof -
  obtain dp st1 where o: "c_opendir p st = (Suc dp, st1)" "kernel st1 = s" "open_streams st1 = Suc (open_streams st)"
    and cl: "\<And>t. \<exists>r st2. c_closedir (Suc dp) (with_kernel t st1) = Some (r, st2) \<and> open_streams st2 = open_streams st \<and>
      disk (kernel st2) = disk t"
    using opendir_spec [OF assms(2)] by metis
  obtain r st2 where c: "c_closedir (Suc dp) (with_kernel t st1) = Some (r, st2)" "open_streams st2 = open_streams st"
    using cl by blast
  show ?thesis
    using assms(3) o c by (simp add: unreliable_fsyncdir_def injected_off [OF assms(1)] Let_def)
qed

theorem fsyncdir_leaks_witness:
  "\<exists>st'. unreliable_fsyncdir ''/d'' 0 None (sample_ufs [] (one_inode ''/d'' True [] 0 [Pass, Fail 5])) = Some (-5, (), st') \<and>
    open_streams st' = 1"
proof -
  let ?s = "one_inode ''/d'' True [] 0 [Pass, Fail 5]"
  have "no_injection ''/d'' (sample_ufs [] ?s)" by simp
  moreover have "sys_opendir ''/d'' ?s = (Some (dir_entries ?s ''/d'' 0), ?s\<lparr>faults := [Fail 5]\<rparr>)"
    by (simp add: sys_opendir_def take_fault_def one_inode_def empty_fs_def dir_entries_def)
  moreover have "sync_dir (?s\<lparr>faults := [Fail 5]\<rparr>) = (-1, ?s\<lparr>faults := [], errno := 5\<rparr>)"
    by (simp add: sync_dir_def call_def take_fault_def fail_def)
  ultimately show ?thesis
    using fsyncdir_leaks [of "''/d''" "sample_ufs [] ?s"] by (fastforce simp: open_streams_def count_some_def)
qed

text \<open>C35. \<open>readdir\<close> hands every entry of the directory to the filler in order, as long as the filler takes
them, and closes the stream.\<close>

theorem readdir_lists_all:
  assumes "no_injection p st" "sys_opendir p (kernel st) = (Some ds, s)"
  shows "\<exists>st'. unreliable_readdir p [] (\<lambda>b name stbuf. (0, b @ [(name, st_ino stbuf)])) off fi st =
      Some (0, map (\<lambda>(i, name, ty). (name, of_nat i)) ds, st') \<and>
    open_streams st' = open_streams st"
proof -
  obtain dp st1 where o: "c_opendir p st = (Suc dp, st1)" "kernel st1 = s" "dir_stream (Suc dp) st1 = Some ds"
    and cl: "\<And>t. \<exists>r st2. c_closedir (Suc dp) (with_kernel t st1) = Some (r, st2) \<and> open_streams st2 = open_streams st \<and>
      disk (kernel st2) = disk t"
    using opendir_spec [OF assms(2)] by metis
  have "with_kernel s st1 = st1" using o(2) by (simp add: with_kernel_def)
  then obtain r st2 where c: "c_closedir (Suc dp) st1 = Some (r, st2)" "open_streams st2 = open_streams st"
    using cl [of s] by auto
  have "fill_entries (\<lambda>b name stbuf. (0, b @ [(name, st_ino stbuf)])) ds b
      = b @ map (\<lambda>(i, name, ty). (name, of_nat i)) ds" for b :: "(string \<times> u64) list"
    by (induction ds arbitrary: b) (auto simp: stat_zero_def)
  then show ?thesis
    using o c by (simp add: unreliable_readdir_def injected_off [OF assms(1)])
qed

theorem readdir_lists_all_witness:
  "\<exists>st'. unreliable_readdir ''/d'' [] (\<lambda>b name stbuf. (0, b @ [(name, st_ino stbuf)])) 0 None
      (sample_ufs [] (one_inode ''/d'' True [] 0 [])) = Some (0, [(''.'', 0)], st') \<and> open_streams st' = 0"
proof -
  let ?s = "one_inode ''/d'' True [] 0 []"
  have "no_injection ''/d'' (sample_ufs [] ?s)" by simp
  moreover have "sys_opendir ''/d'' (kernel (sample_ufs [] ?s)) = (Some [(0, ''.'', 4)], ?s)"
    by (simp add: sys_opendir_def take_fault_def one_inode_def empty_fs_def dir_entries_def child_name_def
        List.map_filter_def)
  ultimately show ?thesis
    using readdir_lists_all [of "''/d''" "sample_ufs [] ?s" "[(0, ''.'', 4)]" ?s 0 None]
    by (simp add: open_streams_def count_some_def)
qed

text \<open>C36. \<open>readlink\<close> writes past the caller's buffer exactly when the target does not leave room for
the terminator; otherwise it stores the whole target.\<close>

theorem readlink_bounds:
  assumes "no_injection p st" "quiet (kernel st)" "lookup (kernel st) p = Some nd"
    and "st_mode (i_attr nd) AND S_IFMT = S_IFLNK" "0 < n"
  shows "unreliable_readlink p buf n st =
    (if n \<le> length (i_data nd) then None
     else Some (0, i_data nd @ NUL # drop (Suc (length (i_data nd))) buf, st))"
proof -
  have "with_kernel (kernel st) st = st" by (simp add: with_kernel_def)
  then show ?thesis
    using assms(2-5)
    by (auto simp: unreliable_readlink_def injected_off [OF assms(1)] sys_readlink_def posix_simps Let_def)
qed

theorem readlink_bounds_witness:
  "unreliable_readlink ''/l'' [] 3 (sample_ufs [] (one_inode ''/l'' False ''abc'' S_IFLNK [])) = None \<and>
   unreliable_readlink ''/l'' [] 4 (sample_ufs [] (one_inode ''/l'' False ''abc'' S_IFLNK []))
     = Some (0, ''abc'' @ [NUL], sample_ufs [] (one_inode ''/l'' False ''abc'' S_IFLNK []))"
proof -
  let ?st = "sample_ufs [] (one_inode ''/l'' False ''abc'' S_IFLNK [])"
  have "no_injection ''/l'' ?st" "quiet (kernel ?st)"
    "lookup (kernel ?st) ''/l'' = Some \<lparr>i_isdir = False, i_data = ''abc'', i_attr = stat_zero\<lparr>st_mode := S_IFLNK\<rparr>\<rparr>"
    by (simp_all add: one_inode_def empty_fs_def quiet_def lookup_def)
  from readlink_bounds [OF this, of 3 "[]"] readlink_bounds [OF this, of 4 "[]"] show ?thesis by simp
qed

end
