(* ===== verification/Uploads.thy ===== *)
theory Uploads
  imports Server_Facts
begin

text \<open>
  Concurrent uploads. gRPC runs every call of \<open>CloseFile\<close> in a thread of its own, and the threads
  share only the file system. Here a call is a session holding the local variables of the handler;
  it receives one request at a time and finishes when its stream ends. A step of the system is a
  step of one session, so the steps of different sessions interleave in any order.
\<close>

subsection \<open>One session\<close>

record upload =
  up_first :: bool
  up_fd :: int
  up_path :: path
  up_temp :: path

datatype session = Running upload | Done RPCResponse

definition begin_upload :: "fsys \<Rightarrow> session" where
  "begin_upload s = Running \<lparr>up_first = True, up_fd = junk s, up_path = [], up_temp = []\<rparr>"

text \<open>One round of the loop over the requests, which may return.\<close>

definition receive :: "RPCRequest \<Rightarrow> upload \<Rightarrow> fsys \<Rightarrow> session \<times> fsys" where
  "receive request u s =
     (case srv_close_loop [request] (up_first u) (up_fd u) (up_path u) (up_temp u) s of
        (Inl reply, s) \<Rightarrow> (Done reply, s)
      | (Inr (fd, p, tempPath), s) \<Rightarrow>
          (Running \<lparr>up_first = False, up_fd = fd, up_path = p, up_temp = tempPath\<rparr>, s))"

text \<open>The code after the loop.\<close>

definition end_upload :: "upload \<Rightarrow> fsys \<Rightarrow> RPCResponse \<times> fsys" where
  "end_upload u s =
     (let s = snd (sys_close (up_fd u) s);
          (ret, s) = sys_rename (up_temp u) (up_path u) s
      in if ret < 0 then (failed s, s)
         else (let s = snd (sys_unlink (up_temp u) s)
               in (RPCResponse_default\<lparr>r_status := 0\<rparr>, s)))"

text \<open>A session that is served alone.\<close>

fun serve :: "RPCRequest list \<Rightarrow> session \<Rightarrow> fsys \<Rightarrow> RPCResponse \<times> fsys" where
  "serve rqs (Done reply) s = (reply, s)"
| "serve [] (Running u) s = end_upload u s"
| "serve (rq # rqs) (Running u) s = (case receive rq u s of (x, s) \<Rightarrow> serve rqs x s)"

lemma close_loop_Cons:
  "srv_close_loop (rq # rqs) f fd p tp s =
    (case srv_close_loop [rq] f fd p tp s of
       (Inl reply, s) \<Rightarrow> (Inl reply, s)
     | (Inr (fd, p, tp), s) \<Rightarrow> srv_close_loop rqs False fd p tp s)"
  by (simp add: Let_def split: prod.split option.split)

lemma serve_close_loop:
  "serve rqs (Running \<lparr>up_first = f, up_fd = fd, up_path = p, up_temp = tp\<rparr>) s =
    (case srv_close_loop rqs f fd p tp s of
       (Inl reply, s) \<Rightarrow> (reply, s)
     | (Inr (fd, p, tp), s) \<Rightarrow> end_upload \<lparr>up_first = False, up_fd = fd, up_path = p, up_temp = tp\<rparr> s)"
proof (induction rqs arbitrary: f fd p tp s)
  case Nil
  then show ?case by (simp add: end_upload_def Let_def split: prod.split)
next
  case (Cons rq rqs)
  obtain x t where x: "srv_close_loop [rq] f fd p tp s = (x, t)" by fastforce
  show ?case
  proof (cases x)
    case (Inl reply)
    then show ?thesis
      using x unfolding close_loop_Cons [of rq rqs] by (simp add: receive_def)
  next
    case (Inr y)
    obtain fd' p' tp' where y: "y = (fd', p', tp')" by (metis prod_cases3)
    show ?thesis
      using x Inr y Cons.IH unfolding close_loop_Cons [of rq rqs] by (simp add: receive_def)
  qed
qed

lemma serve_CloseFile: "serve rqs (begin_upload s) s = srv_CloseFile rqs s"
  unfolding begin_upload_def serve_close_loop srv_CloseFile_def
  by (simp add: end_upload_def Let_def split: sum.split prod.split)

subsection \<open>All sessions\<close>

datatype uevent = Begin nat | Message nat RPCRequest | Finish nat

type_synonym uploads = "fsys \<times> (nat \<Rightarrow> session option)"

inductive upload_step :: "uploads \<Rightarrow> uevent \<Rightarrow> uploads \<Rightarrow> bool" where
  opened: "\<sigma> i = None \<Longrightarrow> upload_step (s, \<sigma>) (Begin i) (s, \<sigma>(i \<mapsto> begin_upload s))"
| received: "\<sigma> i = Some (Running u) \<Longrightarrow> receive rq u s = (x, t) \<Longrightarrow>
    upload_step (s, \<sigma>) (Message i rq) (t, \<sigma>(i \<mapsto> x))"
| finished: "\<sigma> i = Some (Running u) \<Longrightarrow> end_upload u s = (r, t) \<Longrightarrow>
    upload_step (s, \<sigma>) (Finish i) (t, \<sigma>(i \<mapsto> Done r))"

inductive_simps upload_step_simps [simp]:
  "upload_step (s, \<sigma>) (Begin i) st" "upload_step (s, \<sigma>) (Message i rq) st" "upload_step (s, \<sigma>) (Finish i) st"

inductive_cases upload_stepE: "upload_step (s, \<sigma>) e st"

inductive uploads_run :: "fsys \<Rightarrow> uevent list \<Rightarrow> uploads \<Rightarrow> bool" for s where
  start: "uploads_run s [] (s, Map.empty)"
| more: "uploads_run s tr st \<Longrightarrow> upload_step st e st' \<Longrightarrow> uploads_run s (tr @ [e]) st'"

text \<open>The requests a session has received.\<close>

definition msgs :: "nat \<Rightarrow> uevent list \<Rightarrow> RPCRequest list" where
  "msgs i tr = concat (map (\<lambda>e. case e of Message j rq \<Rightarrow> (if j = i then [rq] else []) | _ \<Rightarrow> []) tr)"

lemma msgs_simps [simp]:
  "msgs i [] = []" "msgs i (tr @ [Begin j]) = msgs i tr" "msgs i (tr @ [Finish j]) = msgs i tr"
  "msgs i (tr @ [Message j rq]) = msgs i tr @ (if j = i then [rq] else [])"
  by (simp_all add: msgs_def)

text \<open>
  Clients as \<open>wiscAFSClient::CloseFile\<close> behaves: a session uploads one file, its requests carry
  their sizes, and it sends at least one before it ends its stream.
\<close>

fun polite_event :: "(nat \<Rightarrow> path) \<Rightarrow> uevent list \<Rightarrow> uevent \<Rightarrow> bool" where
  "polite_event target tr (Begin i) = True"
| "polite_event target tr (Message i rq) = (q_filename rq = target i \<and> sized rq)"
| "polite_event target tr (Finish i) = (msgs i tr \<noteq> [])"

fun polite_from :: "(nat \<Rightarrow> path) \<Rightarrow> uevent list \<Rightarrow> uevent list \<Rightarrow> bool" where
  "polite_from target seen [] = True"
| "polite_from target seen (e # es) = (polite_event target seen e \<and> polite_from target (seen @ [e]) es)"

abbreviation polite :: "(nat \<Rightarrow> path) \<Rightarrow> uevent list \<Rightarrow> bool" where
  "polite target tr \<equiv> polite_from target [] tr"

lemma polite_snoc: "polite_from target seen (tr @ [e]) \<longleftrightarrow>
    polite_from target seen tr \<and> polite_event target (seen @ tr) e"
  by (induction tr arbitrary: seen) auto

end
