(* ===== verification/Uploads_Facts.thy ===== *)
theory Uploads_Facts
  imports Uploads
begin

text \<open>
  The invariant of interleaved uploads with different targets, by induction over the run: every
  running session has its own descriptor on its own temporary file, which holds what the session
  has received; a target changes only when its session finishes.
\<close>

subsection \<open>Names that a call leaves alone\<close>

definition keeps_names :: "fsys \<Rightarrow> fsys \<Rightarrow> bool" where
  "keeps_names s t \<longleftrightarrow> (\<forall>q. map_of (names s) q \<noteq> None \<longrightarrow> map_of (names t) q = map_of (names s) q)"

lemma keeps_namesI: "names t = names s \<Longrightarrow> keeps_names s t"
  by (simp add: keeps_names_def)

lemma keeps_names_trans: "keeps_names s t \<Longrightarrow> keeps_names t u \<Longrightarrow> keeps_names s u"
  unfolding keeps_names_def by metis

lemma sys_open_keeps: "sys_open p fl md s = (fd, t) \<Longrightarrow> keeps_names s t"
  by (auto simp: keeps_names_def sys_open_def take_fault_def fail_def install_def new_inode_def set_fd_def
      set_data_def update_conv' Let_def split: list.splits fault.splits option.splits if_splits)

lemma fd_on_move:
  assumes "fd_on s g q off r w" "ofile_of t g = ofile_of s g" "keeps_names s t \<or> map_of (names t) q = map_of (names s) q"
  shows "fd_on t g q off r w"
  using assms by (auto simp: fd_on_def keeps_names_def)

lemma fd_on_same_path:
  assumes "fs_ok s" "fd_on s g p o1 r1 w1" "fd_on s g q o2 r2 w2"
  shows "p = q"
  using assms fs_ok_inj by (auto simp: fd_on_def)

subsection \<open>One step of a session\<close>

lemma receive_first:
  assumes "ready s" "q_filename rq = p" "sized rq" "\<not> is_dir_at s (temp_path p)" "up_first u"
  shows "\<exists>fd t. receive rq u s =
      (Running \<lparr>up_first = False, up_fd = fd, up_path = p, up_temp = temp_path p\<rparr>, t) \<and> ready t \<and>
    file_at t = (file_at s)(temp_path p \<mapsto> q_data rq) \<and> is_dir_at t = is_dir_at s \<and> keeps_names s t \<and>
    fd_on t fd (temp_path p) (length (q_data rq)) True True \<and> ofile_of s fd = None \<and> fds_but fd s t"
proof -
  let ?tp = "temp_path p"
  obtain k st a where a: "sys_lstat p s = (k, st, a)" "k \<ge> -1" "ready a" "file_at a = file_at s"
    "is_dir_at a = is_dir_at s" "fds a = fds s" "names a = names s"
    using sys_lstat_same [of p s] assms(1)
    by (cases "sys_lstat p s") (auto simp: ready_def sys_lstat_def posix_simps split: option.splits)
  obtain fd b where b: "sys_open ?tp creat_flags 511 a = (fd, b)" "0 \<le> fd" "ready b"
    "file_at b = (file_at s)(?tp \<mapsto> [])" "is_dir_at b = is_dir_at s" "fd_on b fd ?tp 0 True True"
    "ofile_of a fd = None" "fds_but fd a b"
    using sys_open_creat [OF a(3), of ?tp creat_flags 511] assms(4) a(4,5) by auto
  have bt: "file_at b ?tp = Some []" using b(4) by simp
  obtain t where t: "sys_write fd (q_data rq) b = (int (length (q_data rq)), t)" "ready t"
    "file_at t = (file_at b)(?tp \<mapsto> q_data rq)" "fd_on t fd ?tp (length (q_data rq)) True True"
    "fds_but fd b t" "is_dir_at t = is_dir_at b" "names t = names b"
    using sys_write_spec [OF b(3,6) bt, of "q_data rq"] by auto
  have sz: "c_bytes b (q_data rq) (unat (q_fileSize rq)) = q_data rq"
    using assms(3) by (simp add: sized_def)
  have "srv_close_loop [rq] (up_first u) (up_fd u) (up_path u) (up_temp u) s = (Inr (fd, p, ?tp), t)"
    using a(1,2) b(1,2) t(1) sz assms(2,5) by simp
  then have "receive rq u s = (Running \<lparr>up_first = False, up_fd = fd, up_path = p, up_temp = ?tp\<rparr>, t)"
    by (simp add: receive_def)
  moreover have "keeps_names s t"
    using sys_open_keeps [OF b(1)] a(7) t(7) by (simp add: keeps_names_def)
  moreover have "ofile_of a g = ofile_of s g" for g using a(6) by (simp add: ofile_of_def)
  ultimately show ?thesis
    using t b by (auto simp: fds_but_def)
qed

lemma receive_at:
  assumes "ready s" "fd_on s (up_fd u) (up_temp u) off True True" "file_at s (up_temp u) = Some e"
    and "sized rq" "\<not> up_first u"
  shows "\<exists>t. receive rq u s = (Running u, t) \<and> ready t \<and>
    file_at t = (file_at s)(up_temp u \<mapsto> overwrite off (q_data rq) e) \<and> is_dir_at t = is_dir_at s \<and> keeps_names s t \<and>
    fd_on t (up_fd u) (up_temp u) (off + length (q_data rq)) True True \<and> fds_but (up_fd u) s t"
proof -
  obtain t where t: "sys_write (up_fd u) (q_data rq) s = (int (length (q_data rq)), t)" "ready t"
    "file_at t = (file_at s)(up_temp u \<mapsto> overwrite off (q_data rq) e)"
    "fd_on t (up_fd u) (up_temp u) (off + length (q_data rq)) True True"
    "fds_but (up_fd u) s t" "is_dir_at t = is_dir_at s" "names t = names s"
    using sys_write_spec [OF assms(1-3), of "q_data rq"] by auto
  have sz: "c_bytes s (q_data rq) (unat (q_fileSize rq)) = q_data rq"
    using assms(4) by (simp add: sized_def)
  have u: "\<lparr>up_first = False, up_fd = up_fd u, up_path = up_path u, up_temp = up_temp u\<rparr> = u"
    using assms(5) by simp
  have "srv_close_loop [rq] (up_first u) (up_fd u) (up_path u) (up_temp u) s
      = (Inr (up_fd u, up_path u, up_temp u), t)"
    using t(1) sz assms(5) by simp
  then have "receive rq u s = (Running u, t)" using u by (simp add: receive_def)
  with t show ?thesis by (auto intro: keeps_namesI)
qed

lemmas receive_more = receive_at [where off = "length e" for e, simplified]

lemma end_upload_spec:
  assumes "ready s" "ofile_of s (up_fd u) \<noteq> None" "file_at s (up_temp u) = Some e"
    and "\<not> is_dir_at s (up_path u)" "up_temp u \<noteq> up_path u"
  shows "\<exists>t. end_upload u s = (RPCResponse_default\<lparr>r_status := 0\<rparr>, t) \<and> ready t \<and>
    file_at t = (file_at s)(up_temp u := None, up_path u \<mapsto> e) \<and> is_dir_at t = is_dir_at s \<and>
    fds_but (up_fd u) s t \<and> ofile_of t (up_fd u) = None \<and>
    (\<forall>q. q \<noteq> up_temp u \<longrightarrow> q \<noteq> up_path u \<longrightarrow> map_of (names t) q = map_of (names s) q)"
proof -
  obtain a where a: "sys_close (up_fd u) s = (0, a)" "ready a" "file_at a = file_at s" "fds_but (up_fd u) s a"
    "is_dir_at a = is_dir_at s" "names a = names s" "ofile_of a (up_fd u) = None"
    using sys_close_spec [OF assms(1,2)] by auto
  obtain f where f: "sys_rename (up_temp u) (up_path u) a = (0, f)" "ready f"
    "file_at f = (file_at a)(up_temp u := None, up_path u \<mapsto> e)" "fds f = fds a"
    using sys_rename_spec [OF a(2), of "up_temp u" e "up_path u"] a(3,5) assms(3-5) by auto
  note k = rename_keeps [OF a(2) _ _ assms(5) f(1), of e]
  obtain l t where t: "sys_unlink (up_temp u) f = (l, t)" by fastforce
  have gone: "file_at f (up_temp u) = None" using f(3) assms(5) by simp
  have t': "ready t" "file_at t = file_at f" "fds t = fds f" "is_dir_at t = is_dir_at f" "names t = names f"
    using sys_unlink_nofile [OF gone t] f(2) gone t
    by (auto simp: ready_def sys_unlink_def posix_simps fail_def file_at_def file_data_def lookup_def
        split: option.splits if_splits)
  have "ofile_of t g = ofile_of a g" for g using t'(3) f(4) by (simp add: ofile_of_def)
  then show ?thesis
    using a f t t' k assms(3,4) by (simp add: end_upload_def Let_def fds_but_def)
qed

subsection \<open>All sessions\<close>

text \<open>Different sessions have different targets, no target is the temporary file of another, and
none of these paths is a directory.\<close>

definition apart :: "(nat \<Rightarrow> path) \<Rightarrow> fsys \<Rightarrow> bool" where
  "apart target s \<longleftrightarrow> (\<forall>i j. target i = target j \<longrightarrow> i = j) \<and> (\<forall>i j. target i \<noteq> temp_path (target j)) \<and>
     (\<forall>i. \<not> is_dir_at s (target i) \<and> \<not> is_dir_at s (temp_path (target i)))"

lemma temp_path_inj [simp]: "temp_path p = temp_path q \<longleftrightarrow> p = q"
  by (simp add: temp_path_def)

definition session_ok :: "(nat \<Rightarrow> path) \<Rightarrow> uevent list \<Rightarrow> fsys \<Rightarrow> nat \<Rightarrow> session option \<Rightarrow> bool" where
  "session_ok target tr s i x \<longleftrightarrow> (case x of
       None \<Rightarrow> msgs i tr = []
     | Some (Done r) \<Rightarrow> r_status r = 0
     | Some (Running u) \<Rightarrow>
         if up_first u then msgs i tr = []
         else msgs i tr \<noteq> [] \<and> up_path u = target i \<and> up_temp u = temp_path (target i) \<and>
           fd_on s (up_fd u) (temp_path (target i)) (length (payload (msgs i tr))) True True \<and>
           file_at s (temp_path (target i)) = Some (payload (msgs i tr)))"

definition is_done :: "session option \<Rightarrow> bool" where
  "is_done x \<longleftrightarrow> (case x of Some (Done r) \<Rightarrow> True | _ \<Rightarrow> False)"

lemma is_done_simps [simp]:
  "\<not> is_done None" "is_done (Some (Done r))" "\<not> is_done (Some (Running u))" "\<not> is_done (Some (begin_upload s))"
  by (simp_all add: is_done_def begin_upload_def)

definition uploads_inv :: "(nat \<Rightarrow> path) \<Rightarrow> fsys \<Rightarrow> uevent list \<Rightarrow> uploads \<Rightarrow> bool" where
  "uploads_inv target s0 tr st \<longleftrightarrow> (case st of (s, \<sigma>) \<Rightarrow>
     ready s \<and> is_dir_at s = is_dir_at s0 \<and> (\<forall>i. session_ok target tr s i (\<sigma> i)) \<and>
     (\<forall>q. (\<forall>i. q \<noteq> temp_path (target i) \<and> q \<noteq> target i) \<longrightarrow> file_at s q = file_at s0 q) \<and>
     (\<forall>i. file_at s (target i) =
        (if is_done (\<sigma> i) then Some (payload (msgs i tr)) else file_at s0 (target i))))"

lemma session_frame:
  assumes "session_ok target tr s j x" "msgs j tr' = msgs j tr"
    and "file_at t (temp_path (target j)) = file_at s (temp_path (target j))"
    and "\<And>u o'. x = Some (Running u) \<Longrightarrow> \<not> up_first u \<Longrightarrow> fd_on s (up_fd u) (temp_path (target j)) o' True True \<Longrightarrow>
      ofile_of t (up_fd u) = ofile_of s (up_fd u)"
    and "keeps_names s t \<or> map_of (names t) (temp_path (target j)) = map_of (names s) (temp_path (target j))"
  shows "session_ok target tr' t j x"
proof (cases "\<exists>u. x = Some (Running u) \<and> \<not> up_first u")
  case True
  then obtain u where u: "x = Some (Running u)" "\<not> up_first u" by blast
  then have fd: "fd_on s (up_fd u) (temp_path (target j)) (length (payload (msgs j tr))) True True"
    using assms(1) by (simp add: session_ok_def)
  have "fd_on t (up_fd u) (temp_path (target j)) (length (payload (msgs j tr))) True True"
    by (rule fd_on_move [OF fd assms(4) [OF u fd] assms(5)])
  then show ?thesis using assms(1-3) u by (simp add: session_ok_def)
next
  case False
  then show ?thesis using assms(1,2) by (auto simp: session_ok_def split: option.splits session.splits)
qed

lemma fds_differ:
  assumes "ready s" "fd_on s g (temp_path p) o1 r1 w1" "fd_on s g' (temp_path q) o2 r2 w2" "p \<noteq> q"
  shows "g \<noteq> g'"
  using fd_on_same_path [of s g "temp_path p" o1 r1 w1 "temp_path q" o2 r2 w2] assms by (auto simp: ready_def)

lemma payload_snoc [simp]: "payload (rqs @ [rq]) = payload rqs @ q_data rq"
  by (simp add: payload_def)

lemma step_message:
  assumes "uploads_inv target s0 tr (s, \<sigma>)" "apart target s0" "polite_event target tr (Message i rq)"
    and "\<sigma> i = Some (Running u)" "receive rq u s = (x, t)"
  shows "uploads_inv target s0 (tr @ [Message i rq]) (t, \<sigma>(i \<mapsto> x))"
proof -
  let ?p = "target i" and ?tr = "tr @ [Message i rq]"
  have inv: "ready s" "is_dir_at s = is_dir_at s0" "session_ok target tr s j (\<sigma> j)"
    "(\<forall>k. q \<noteq> temp_path (target k) \<and> q \<noteq> target k) \<Longrightarrow> file_at s q = file_at s0 q"
    "file_at s (target j) = (if is_done (\<sigma> j) then Some (payload (msgs j tr)) else file_at s0 (target j))" for j q
    using assms(1) by (simp_all add: uploads_inv_def)
  have rq: "q_filename rq = ?p" "sized rq" using assms(3) by simp_all
  have ap: "target j = ?p \<longleftrightarrow> j = i" "target j \<noteq> temp_path (target k)" "\<not> is_dir_at s (temp_path ?p)" for j k
    using assms(2) inv(2) by (auto simp: apart_def)
  have ok: "session_ok target tr s i (Some (Running u))" using inv(3) [of i] assms(4) by simp
  obtain fd where t: "ready t" "is_dir_at t = is_dir_at s" "keeps_names s t"
    "file_at t = (file_at s)(temp_path ?p \<mapsto> payload (msgs i tr) @ q_data rq)"
    "x = Running \<lparr>up_first = False, up_fd = fd, up_path = ?p, up_temp = temp_path ?p\<rparr>"
    "fd_on t fd (temp_path ?p) (length (payload (msgs i tr) @ q_data rq)) True True" "fds_but fd s t"
    "\<And>g q o' . fd_on s g (temp_path q) o' True True \<Longrightarrow> q \<noteq> ?p \<Longrightarrow> g \<noteq> fd"
  proof (cases "up_first u")
    case True
    then have e: "payload (msgs i tr) = []" using ok by (simp add: session_ok_def)
    obtain fd where r: "x = Running \<lparr>up_first = False, up_fd = fd, up_path = ?p, up_temp = temp_path ?p\<rparr>" "ready t"
      "file_at t = (file_at s)(temp_path ?p \<mapsto> q_data rq)" "is_dir_at t = is_dir_at s" "keeps_names s t"
      "fd_on t fd (temp_path ?p) (length (q_data rq)) True True" "ofile_of s fd = None" "fds_but fd s t"
      using receive_first [OF inv(1) rq ap(3) True] assms(5) by auto
    have "g \<noteq> fd" if "fd_on s g (temp_path q) o' True True" for g q o'
      using fd_on_ofile [OF that] r(7) by auto
    with r e show ?thesis by (intro that [of fd]) simp_all
  next
    case False
    then have v: "up_path u = ?p" "up_temp u = temp_path ?p"
      "fd_on s (up_fd u) (up_temp u) (length (payload (msgs i tr))) True True"
      "file_at s (up_temp u) = Some (payload (msgs i tr))"
      using ok by (simp_all add: session_ok_def)
    have u: "u = \<lparr>up_first = False, up_fd = up_fd u, up_path = ?p, up_temp = temp_path ?p\<rparr>"
      using v(1,2) False by (cases u) simp
    obtain "x = Running u" "ready t" "file_at t = (file_at s)(up_temp u \<mapsto> payload (msgs i tr) @ q_data rq)"
      "is_dir_at t = is_dir_at s" "keeps_names s t"
      "fd_on t (up_fd u) (up_temp u) (length (payload (msgs i tr) @ q_data rq)) True True" "fds_but (up_fd u) s t"
      using receive_more [OF inv(1) v(3,4) rq(2) False] assms(5) by auto
    moreover have "g \<noteq> up_fd u" if "fd_on s g (temp_path q) o' True True" "q \<noteq> ?p" for g q o'
      using fds_differ [OF inv(1) that(1) v(3) [unfolded v(2)] that(2)] .
    ultimately show ?thesis using u v(2) by (intro that [of "up_fd u"]) simp_all
  qed
  have "session_ok target ?tr t j ((\<sigma>(i \<mapsto> x)) j)" for j
  proof (cases "j = i")
    case True
    then show ?thesis using t by (simp add: session_ok_def)
  next
    case False
    then have d: "target j \<noteq> ?p" using ap(1) by simp
    have "session_ok target ?tr t j (\<sigma> j)"
      using t(3,4,7,8) d False by (intro session_frame [OF inv(3) [of j]]) (auto simp: fds_but_def)
    then show ?thesis using False by simp
  qed
  moreover have "file_at t (target j) = (if is_done ((\<sigma>(i \<mapsto> x)) j) then Some (payload (msgs j ?tr)) else file_at s0 (target j))" for j
    using inv(5) [of j] ap(2) [of j i] t(4,5) assms(4) by auto
  ultimately show ?thesis
    using inv(2,4) t(1,2,4) unfolding uploads_inv_def by simp
qed

lemma step_begin:
  assumes "uploads_inv target s0 tr (s, \<sigma>)" "\<sigma> i = None"
  shows "uploads_inv target s0 (tr @ [Begin i]) (s, \<sigma>(i \<mapsto> begin_upload s))"
proof -
  have "session_ok target (tr @ [Begin i]) s j ((\<sigma>(i \<mapsto> begin_upload s)) j)" for j
    using assms by (cases "j = i")
      (force simp: uploads_inv_def session_ok_def begin_upload_def split: option.splits session.splits)+
  then show ?thesis
    using assms unfolding uploads_inv_def by (auto simp del: fun_upd_apply) (simp_all split: if_splits)
qed

lemma step_finish:
  assumes "uploads_inv target s0 tr (s, \<sigma>)" "apart target s0" "polite_event target tr (Finish i)"
    and "\<sigma> i = Some (Running u)" "end_upload u s = (r, t)"
  shows "uploads_inv target s0 (tr @ [Finish i]) (t, \<sigma>(i \<mapsto> Done r))"
proof -
  let ?p = "target i" and ?tr = "tr @ [Finish i]"
  have inv: "ready s" "is_dir_at s = is_dir_at s0" "session_ok target tr s j (\<sigma> j)"
    "(\<forall>k. q \<noteq> temp_path (target k) \<and> q \<noteq> target k) \<Longrightarrow> file_at s q = file_at s0 q"
    "file_at s (target j) = (if is_done (\<sigma> j) then Some (payload (msgs j tr)) else file_at s0 (target j))" for j q
    using assms(1) by (simp_all add: uploads_inv_def)
  have ap: "target j = ?p \<longleftrightarrow> j = i" "target j \<noteq> temp_path (target k)" "\<not> is_dir_at s ?p" for j k
    using assms(2) inv(2) by (auto simp: apart_def)
  have u: "up_path u = ?p" "up_temp u = temp_path ?p"
    "fd_on s (up_fd u) (temp_path ?p) (length (payload (msgs i tr))) True True"
    "file_at s (temp_path ?p) = Some (payload (msgs i tr))"
    using inv(3) [of i] assms(3,4) by (auto simp: session_ok_def split: if_splits)
  have "ofile_of s (up_fd u) \<noteq> None" using fd_on_ofile [OF u(3)] by simp
  then have t: "r = RPCResponse_default\<lparr>r_status := 0\<rparr>" "ready t" "is_dir_at t = is_dir_at s" "fds_but (up_fd u) s t"
    "file_at t = (file_at s)(temp_path ?p := None, ?p \<mapsto> payload (msgs i tr))"
    "\<And>q. q \<noteq> temp_path ?p \<Longrightarrow> q \<noteq> ?p \<Longrightarrow> map_of (names t) q = map_of (names s) q"
    using end_upload_spec [OF inv(1), of u "payload (msgs i tr)"] u ap(2) [of i i] ap(3) assms(5) by auto
  have "session_ok target ?tr t j ((\<sigma>(i \<mapsto> Done r)) j)" for j
  proof (cases "j = i")
    case True
    then show ?thesis using t(1) by (simp add: session_ok_def)
  next
    case False
    then have d: "target j \<noteq> ?p" using ap(1) by simp
    have tj: "temp_path (target j) \<noteq> ?p" using ap(2) [of i j] by simp
    have "g \<noteq> up_fd u" if "fd_on s g (temp_path (target j)) o' True True" for g o'
      using fds_differ [OF inv(1) that u(3) d] .
    then have "session_ok target ?tr t j (\<sigma> j)"
      using t(4-6) d tj by (intro session_frame [OF inv(3) [of j]]) (auto simp: fds_but_def)
    then show ?thesis using False by simp
  qed
  moreover have "file_at t (target j) = (if is_done ((\<sigma>(i \<mapsto> Done r)) j) then Some (payload (msgs j ?tr)) else file_at s0 (target j))" for j
    using inv(5) [of j] ap(1,2) [of j] t(5) by (cases "j = i") auto
  ultimately show ?thesis
    using inv(2,4) t(2,3,5) unfolding uploads_inv_def by simp
qed

lemma uploads_run_inv:
  assumes "uploads_run s0 tr st" "ready s0" "apart target s0" "polite target tr"
  shows "uploads_inv target s0 tr st"
  using assms(1,4)
proof (induction rule: uploads_run.induct)
  case start
  then show ?case using assms(2) by (simp add: uploads_inv_def session_ok_def)
next
  case (more tr st e st')
  obtain s \<sigma> where st: "st = (s, \<sigma>)" by fastforce
  have inv: "uploads_inv target s0 tr (s, \<sigma>)" and pol: "polite_event target tr e"
    using more.IH more.prems st by (simp_all add: polite_snoc)
  from more.hyps(2) [unfolded st] show ?case
  proof (rule upload_stepE)
    fix i
    assume "e = Begin i" "st' = (s, \<sigma>(i \<mapsto> begin_upload s))" "\<sigma> i = None"
    then show ?case using step_begin [OF inv] by simp
  next
    fix i u rq x t
    assume "e = Message i rq" "st' = (t, \<sigma>(i \<mapsto> x))" "\<sigma> i = Some (Running u)" "receive rq u s = (x, t)"
    then show ?case using step_message [OF inv assms(3)] pol by simp
  next
    fix i u r t
    assume "e = Finish i" "st' = (t, \<sigma>(i \<mapsto> Done r))" "\<sigma> i = Some (Running u)" "end_upload u s = (r, t)"
    then show ?case using step_finish [OF inv assms(3)] pol by simp
  qed
qed

subsection \<open>Two sessions with the same target\<close>

lemma end_upload_gone:
  assumes "ready s" "ofile_of s (up_fd u) \<noteq> None" "file_at s (up_temp u) = None" "\<not> is_dir_at s (up_temp u)"
  shows "\<exists>r t. end_upload u s = (r, t) \<and> r_status r = -1 \<and> file_at t = file_at s"
proof -
  obtain a where a: "sys_close (up_fd u) s = (0, a)" "ready a" "file_at a = file_at s" "is_dir_at a = is_dir_at s"
    using sys_close_spec [OF assms(1,2)] by auto
  have "map_of (names a) (up_temp u) = None"
  proof (rule ccontr)
    assume "map_of (names a) (up_temp u) \<noteq> None"
    then obtain i nd where "map_of (names a) (up_temp u) = Some i" "inodes a i = Some nd"
      using fs_ok_names [of a "up_temp u"] a(2) by (auto simp: ready_def)
    moreover have "file_at a (up_temp u) = None" "\<not> is_dir_at a (up_temp u)" using assms(3,4) a(3,4) by simp_all
    ultimately show False
      by (auto simp: file_at_def is_dir_at_def lookup_def file_data_def split: if_splits)
  qed
  then show ?thesis
    using a by (simp add: end_upload_def sys_rename_absent ready_def failed_def)
qed

text \<open>
  Two sessions upload the same file: what the first writes after the second has opened the
  temporary file lands in the file of the second, at its own offset.
\<close>

lemma collision:
  assumes "ready s" "\<not> is_dir_at s p" "\<not> is_dir_at s (temp_path p)"
    and "q_filename a = p" "q_filename b = p" "sized a" "sized b" "sized c"
  shows "\<exists>u0 t0 u1 t1 t2 r0 t3 r1 t4. receive a \<lparr>up_first = True, up_fd = junk s, up_path = [], up_temp = []\<rparr> s = (Running u0, t0) \<and>
    receive b \<lparr>up_first = True, up_fd = junk s, up_path = [], up_temp = []\<rparr> t0 = (Running u1, t1) \<and>
    receive c u0 t1 = (Running u0, t2) \<and>
    end_upload u0 t2 = (r0, t3) \<and> end_upload u1 t3 = (r1, t4) \<and> r_status r0 = 0 \<and> r_status r1 = -1 \<and>
    file_at t4 p = Some (overwrite (length (q_data a)) (q_data c) (q_data b))"
proof -
  let ?u = "\<lparr>up_first = True, up_fd = junk s, up_path = [], up_temp = []\<rparr>" and ?tp = "temp_path p"
  have np: "?tp \<noteq> p" by (simp add: temp_path_def)
  obtain f0 t0 where r0: "receive a ?u s = (Running \<lparr>up_first = False, up_fd = f0, up_path = p, up_temp = ?tp\<rparr>, t0)"
    "ready t0" "is_dir_at t0 = is_dir_at s" "fd_on t0 f0 ?tp (length (q_data a)) True True"
    using receive_first [OF assms(1,4,6,3), of ?u] by auto
  obtain f1 t1 where r1: "receive b ?u t0 = (Running \<lparr>up_first = False, up_fd = f1, up_path = p, up_temp = ?tp\<rparr>, t1)"
    "ready t1" "file_at t1 = (file_at t0)(?tp \<mapsto> q_data b)" "is_dir_at t1 = is_dir_at t0" "keeps_names t0 t1"
    "fd_on t1 f1 ?tp (length (q_data b)) True True" "ofile_of t0 f1 = None" "fds_but f1 t0 t1"
    using receive_first [OF r0(2) assms(5,7), of ?u] assms(3) r0(3) by auto
  let ?u0 = "\<lparr>up_first = False, up_fd = f0, up_path = p, up_temp = ?tp\<rparr>"
    and ?u1 = "\<lparr>up_first = False, up_fd = f1, up_path = p, up_temp = ?tp\<rparr>"
  have ne: "f0 \<noteq> f1" using fd_on_ofile [OF r0(4)] r1(7) by auto
  then have f0: "fd_on t1 f0 ?tp (length (q_data a)) True True"
    using fd_on_move [OF r0(4), of t1] r1(5,8) by (simp add: fds_but_def)
  obtain t2 where r2: "receive c ?u0 t1 = (Running ?u0, t2)" "ready t2" "is_dir_at t2 = is_dir_at t1"
    "file_at t2 = (file_at t1)(?tp \<mapsto> overwrite (length (q_data a)) (q_data c) (q_data b))"
    "ofile_of t2 f0 \<noteq> None" "fds_but f0 t1 t2"
    using receive_at [OF r1(2), of ?u0 "length (q_data a)" "q_data b" c] f0 r1(3) assms(8) fd_on_ofile by fastforce
  obtain t3 where r3: "end_upload ?u0 t2 = (RPCResponse_default\<lparr>r_status := 0\<rparr>, t3)" "ready t3"
    "file_at t3 = (file_at t2)(?tp := None, p \<mapsto> overwrite (length (q_data a)) (q_data c) (q_data b))"
    "is_dir_at t3 = is_dir_at t2" "fds_but f0 t2 t3"
    using end_upload_spec [OF r2(2), of ?u0] r2(3-5) r1(4) r0(3) assms(2) np by auto
  have "ofile_of t3 f1 \<noteq> None"
    using fd_on_ofile [OF r1(6)] r2(6) r3(5) ne by (simp add: fds_but_def)
  moreover have "file_at t3 ?tp = None" using r3(3) np by simp
  moreover have "\<not> is_dir_at t3 ?tp" using r3(4) r2(3) r1(4) r0(3) assms(3) by simp
  ultimately obtain r t4 where "end_upload ?u1 t3 = (r, t4)" "r_status r = -1" "file_at t4 = file_at t3"
    using end_upload_gone [OF r3(2), of ?u1] by auto
  then show ?thesis
    using r0(1) r1(1) r2(1) r3(1,3) by (fastforce simp: RPCResponse_default_def)
qed

end
