(* ===== verification/Upload_Properties.thy ===== *)
theory Upload_Properties
  imports Uploads_Facts Samples
begin

text \<open>
  The properties of uploads that run at the same time, each with a run at which it is applied.
\<close>

text \<open>C12. Uploads of different files do not disturb each other. In a quiet kernel, whatever the
interleaving of the sessions' steps, at every moment every target holds its old contents until its
session finishes and exactly what that session sent afterwards, every finished session has replied
status 0, and no other file has changed.\<close>

theorem uploads_isolated:
  assumes "uploads_run s0 tr (s, \<sigma>)" "ready s0" "apart target s0" "polite target tr"
  shows "(\<forall>i. file_at s (target i) =
      (if is_done (\<sigma> i) then Some (payload (msgs i tr)) else file_at s0 (target i))) \<and>
    (\<forall>i r. \<sigma> i = Some (Done r) \<longrightarrow> r_status r = 0) \<and>
    (\<forall>q. (\<forall>i. q \<noteq> temp_path (target i) \<and> q \<noteq> target i) \<longrightarrow> file_at s q = file_at s0 q)"
proof -
  have inv: "uploads_inv target s0 tr (s, \<sigma>)" by (rule uploads_run_inv [OF assms])
  have "r_status r = 0" if "\<sigma> i = Some (Done r)" for i r
  proof -
    have "session_ok target tr s i (\<sigma> i)" using inv by (simp add: uploads_inv_def)
    with that show ?thesis by (simp add: session_ok_def)
  qed
  then show ?thesis using inv by (simp add: uploads_inv_def)
qed

text \<open>Two sessions interleave; only the second has finished.\<close>

definition sample_target :: "nat \<Rightarrow> path" where
  "sample_target i = ''/a'' @ replicate i CHR ''x''"

lemma sample_target_apart: "apart sample_target (one_file ''/a'' ''old'' [])"
proof -
  have "CHR ''.'' \<notin> set (sample_target i)" "CHR ''.'' \<in> set (temp_path (sample_target j))" for i j
    by (simp_all add: sample_target_def temp_path_def)
  then have "sample_target i \<noteq> temp_path (sample_target j)" for i j by metis
  moreover have "sample_target i = sample_target j \<longleftrightarrow> i = j" for i j
    by (simp add: sample_target_def)
  ultimately show ?thesis by (simp add: apart_def)
qed

definition sample_trace :: "uevent list" where
  "sample_trace = [Begin 0, Begin 1, Message 0 (upload_of ''/a'' ''ne''), Message 1 (upload_of ''/ax'' ''other''),
     Message 0 (upload_of ''/a'' ''w''), Finish 1]"

text \<open>The steps as a function.\<close>

fun upload_next :: "uevent \<Rightarrow> uploads \<Rightarrow> uploads option" where
  "upload_next (Begin i) (s, \<sigma>) = (if \<sigma> i = None then Some (s, \<sigma>(i \<mapsto> begin_upload s)) else None)"
| "upload_next (Message i rq) (s, \<sigma>) = (case \<sigma> i of Some (Running u) \<Rightarrow>
     (case receive rq u s of (x, t) \<Rightarrow> Some (t, \<sigma>(i \<mapsto> x))) | _ \<Rightarrow> None)"
| "upload_next (Finish i) (s, \<sigma>) = (case \<sigma> i of Some (Running u) \<Rightarrow>
     (case end_upload u s of (r, t) \<Rightarrow> Some (t, \<sigma>(i \<mapsto> Done r))) | _ \<Rightarrow> None)"

fun upload_exec :: "uevent list \<Rightarrow> uploads \<Rightarrow> uploads option" where
  "upload_exec [] st = Some st"
| "upload_exec (e # es) st = (case upload_next e st of None \<Rightarrow> None | Some st \<Rightarrow> upload_exec es st)"

lemma upload_next_step: "upload_next e st = Some st' \<Longrightarrow> upload_step st e st'"
  by (cases st; cases e) (auto split: if_splits option.splits session.splits prod.splits)

lemma upload_exec_run: "uploads_run s tr st \<Longrightarrow> upload_exec es st = Some st' \<Longrightarrow> uploads_run s (tr @ es) st'"
proof (induction es arbitrary: tr st)
  case (Cons e es)
  obtain st1 where st1: "upload_next e st = Some st1" "upload_exec es st1 = Some st'"
    using Cons.prems(2) by (auto split: option.splits)
  have "uploads_run s (tr @ [e]) st1" by (rule more [OF Cons.prems(1) upload_next_step [OF st1(1)]])
  from Cons.IH [OF this st1(2)] show ?case by simp
qed simp

theorem uploads_isolated_witness:
  "\<exists>s \<sigma>. uploads_run (one_file ''/a'' ''old'' []) sample_trace (s, \<sigma>) \<and> file_at s ''/a'' = Some ''old'' \<and>
    file_at s ''/ax'' = Some ''other''"
proof -
  let ?s0 = "one_file ''/a'' ''old'' []"
  have "map_option (\<lambda>(s, \<sigma>). (is_done (\<sigma> 0), is_done (\<sigma> 1))) (upload_exec sample_trace (?s0, Map.empty))
      = Some (False, True)"
    unfolding sample_trace_def by code_simp
  then obtain s \<sigma> where ex: "upload_exec sample_trace (?s0, Map.empty) = Some (s, \<sigma>)"
    and d: "\<not> is_done (\<sigma> 0)" "is_done (\<sigma> 1)" by auto
  have run: "uploads_run ?s0 sample_trace (s, \<sigma>)"
    using upload_exec_run [OF start ex] by simp
  have pol: "polite sample_target sample_trace"
    by (simp add: sample_trace_def sample_target_def msgs_def)
  have t: "sample_target 0 = ''/a''" "sample_target 1 = ''/ax''" by (simp_all add: sample_target_def)
  have m: "payload (msgs 1 sample_trace) = ''other''" by (simp add: sample_trace_def msgs_def payload_def)
  have "\<forall>i. file_at s (sample_target i) =
      (if is_done (\<sigma> i) then Some (payload (msgs i sample_trace)) else file_at ?s0 (sample_target i))"
    using uploads_isolated [OF run _ sample_target_apart pol] by simp
  from this [THEN spec, of 0] this [THEN spec, of 1] show ?thesis
    using run d t m by auto
qed

text \<open>C13. Uploads of the same file corrupt it, because they share one temporary file. When a second
session starts before the first has sent its last request, the first finishes with status 0 and the
file is neither what the first sent nor what the second sent, but the second's data overwritten by the
rest of the first's at the first's offset; the second fails.\<close>

theorem uploads_collide:
  assumes "ready s" "\<not> is_dir_at s p" "\<not> is_dir_at s (temp_path p)"
    and "q_filename a = p" "q_filename b = p" "sized a" "sized b" "sized c"
  shows "\<exists>t \<sigma> r0 r1. uploads_run s [Begin 0, Begin 1, Message 0 a, Message 1 b, Message 0 c, Finish 0, Finish 1] (t, \<sigma>) \<and>
    \<sigma> 0 = Some (Done r0) \<and> r_status r0 = 0 \<and> \<sigma> 1 = Some (Done r1) \<and> r_status r1 = -1 \<and>
    file_at t p = Some (overwrite (length (q_data a)) (q_data c) (q_data b))"
proof -
  obtain u0 t0 u1 t1 t2 r0 t3 r1 t4 where c:
    "receive a \<lparr>up_first = True, up_fd = junk s, up_path = [], up_temp = []\<rparr> s = (Running u0, t0)"
    "receive b \<lparr>up_first = True, up_fd = junk s, up_path = [], up_temp = []\<rparr> t0 = (Running u1, t1)"
    "receive c u0 t1 = (Running u0, t2)" "end_upload u0 t2 = (r0, t3)" "end_upload u1 t3 = (r1, t4)"
    "r_status r0 = 0" "r_status r1 = -1"
    "file_at t4 p = Some (overwrite (length (q_data a)) (q_data c) (q_data b))"
    using collision [OF assms] by blast
  let ?\<sigma> = "[0 \<mapsto> Done r0, 1 \<mapsto> Done r1] :: nat \<Rightarrow> session option"
  have "\<exists>\<sigma>. upload_exec [Begin 0, Begin 1, Message 0 a, Message 1 b, Message 0 c, Finish 0, Finish 1] (s, Map.empty)
      = Some (t4, \<sigma>) \<and> \<sigma> 0 = Some (Done r0) \<and> \<sigma> 1 = Some (Done r1)"
    using c(1-5) by (simp add: begin_upload_def)
  then show ?thesis
    using upload_exec_run [OF start] c(6-8) by fastforce
qed

theorem uploads_collide_witness:
  "\<exists>t \<sigma>. uploads_run (one_file ''/a'' ''old'' []) [Begin 0, Begin 1, Message 0 (upload_of ''/a'' ''aaaa''),
      Message 1 (upload_of ''/a'' ''bb''), Message 0 (upload_of ''/a'' ''cc''), Finish 0, Finish 1] (t, \<sigma>) \<and>
    file_at t ''/a'' = Some (''bb'' @ [NUL, NUL] @ ''cc'')"
proof -
  let ?s = "one_file ''/a'' ''old'' []"
  let ?a = "upload_of ''/a'' ''aaaa''" and ?b = "upload_of ''/a'' ''bb''" and ?c = "upload_of ''/a'' ''cc''"
  have h: "ready ?s" "\<not> is_dir_at ?s ''/a''" "\<not> is_dir_at ?s (temp_path ''/a'')" "q_filename ?a = ''/a''"
    "q_filename ?b = ''/a''" "sized ?a" "sized ?b" "sized ?c"
    by simp_all
  obtain t \<sigma> where r: "uploads_run ?s [Begin 0, Begin 1, Message 0 ?a, Message 1 ?b, Message 0 ?c, Finish 0, Finish 1] (t, \<sigma>)"
    "file_at t ''/a'' = Some (overwrite (length (q_data ?a)) (q_data ?c) (q_data ?b))"
    using uploads_collide [OF h] by blast
  have "overwrite (length (q_data ?a)) (q_data ?c) (q_data ?b) = ''bb'' @ [NUL, NUL] @ ''cc''"
    by (simp add: overwrite_def eval_nat_numeral)
  with r show ?thesis by (intro exI [of _ t] exI [of _ \<sigma>]) simp
qed

end
