(* ===== verification/Ini_Properties.thy ===== *)
theory Ini_Properties
  imports Ini_Facts
begin

text \<open>
  The properties of the INI parser, each with the text at which it is applied.
\<close>

text \<open>C40. The parser terminates on every file, whatever its bytes and whatever the handler does; it
returns -1 exactly when the file cannot be opened, and otherwise 0 or a line number.\<close>

theorem ini_parse_terminates:
  "\<exists>r u'. ini_parse fopen filename handler u = Some (r, u') \<and> (r = -1 \<longleftrightarrow> fopen filename = None) \<and> -1 \<le> r"
proof (cases "fopen filename")
  case (Some str)
  then show ?thesis
    using parse_file_total [of handler str "ini_start u"]
    by (auto simp: ini_parse_def ini_parse_file_def ini_parse_stream_def)
qed (simp add: ini_parse_def)

text \<open>C39. Parsing a string and parsing a file with the same bytes agree, and both are the line step
applied to the lines of the text in order; a line longer than 199 bytes counts as several.\<close>

theorem ini_parse_is_fold:
  assumes "NUL \<notin> set str"
  shows "ini_parse_file str handler u = ini_parse_string str handler u \<and>
    ini_parse_string str handler u =
      (let st = fold (ini_line handler) (split_lines str) (ini_start u) in Some (int (ini_error st), user st))"
  using fgetsr.parse_stream_fold [OF assms, of handler u] strr.parse_stream_fold [of str handler u]
  by (simp add: ini_parse_file_def ini_parse_string_def)

theorem ini_parse_is_fold_witness:
  "ini_parse_file ''[a]'' (\<lambda>_ _ _ n. (1, Suc n)) (0 :: nat) = ini_parse_string ''[a]'' (\<lambda>_ _ _ n. (1, Suc n)) 0"
  using ini_parse_is_fold [of "''[a]''" "\<lambda>_ _ _ n. (1, Suc n)" "0 :: nat"] by simp

text \<open>C38. The return value is the number of the first failing line. It is 0 when no line fails;
when line \<open>j\<close> (counted from 0) is the first that fails it is \<open>j + 1\<close>, and the lines after it are parsed
nevertheless: the user data are those of the whole text.\<close>

theorem ini_error_is_first_line:
  assumes "ini_parse_string str handler u = Some (r, u')"
  defines "ls \<equiv> split_lines str"
  defines "fails \<equiv> \<lambda>j. line_fails handler (ls ! j) (state_at handler ls j (ini_start u))"
  shows "(r = 0 \<longleftrightarrow> (\<forall>j < length ls. \<not> fails j)) \<and>
    (\<forall>j < length ls. fails j \<longrightarrow> (\<forall>i < j. \<not> fails i) \<longrightarrow> r = int j + 1) \<and>
    u' = user (state_at handler ls (length ls) (ini_start u))"
proof -
  have "r = int (ini_error (state_at handler ls (length ls) (ini_start u)))"
    "u' = user (state_at handler ls (length ls) (ini_start u))"
    using assms(1) strr.parse_stream_fold [of str handler u]
    by (simp_all add: ini_parse_string_def Let_def state_at_def ls_def)
  moreover have "ini_error (ini_start u) = 0" "lineno (ini_start u) = 0" by (simp_all add: ini_start_def)
  ultimately show ?thesis
    using fold_lines_error [where st = "ini_start u" and k = "length ls" and ls = ls and handler = handler] by (auto simp: fails_def)
qed

theorem ini_error_is_first_line_witness:
  "\<not> (\<forall>j < length (split_lines [CHR ''a'', NL, CHR ''b'']).
       \<not> line_fails (\<lambda>_ _ _ n. (1, Suc n)) (split_lines [CHR ''a'', NL, CHR ''b''] ! j)
          (state_at (\<lambda>_ _ _ n. (1, Suc n)) (split_lines [CHR ''a'', NL, CHR ''b'']) j (ini_start (0 :: nat))))"
proof -
  have "split_lines [CHR ''a'', NL, CHR ''b''] = [[CHR ''a'', NL], [CHR ''b'']]"
    by (simp add: split_lines.simps)
  then have "ini_parse_string [CHR ''a'', NL, CHR ''b''] (\<lambda>_ _ _ n. (1, Suc n)) (0 :: nat) = Some (1, 0)"
    using strr.parse_stream_fold [of "[CHR ''a'', NL, CHR ''b'']" "\<lambda>_ _ _ n. (1, Suc n)" "0 :: nat"]
    by (simp add: ini_parse_string_def) code_simp
  then show ?thesis
    using ini_error_is_first_line [of "[CHR ''a'', NL, CHR ''b'']" "\<lambda>_ _ _ n. (1, Suc n)" "0 :: nat" 1 0]
    by simp
qed

text \<open>C37. Rendering and parsing are inverse. A configuration whose section and entry names are words
of at most 49 plain characters, and whose values have no line break, semicolon or outer space and fit the
buffer, is rendered to a text from which the parser gives the handler every entry of every section,
in order, with status 0.\<close>

theorem ini_roundtrip:
  assumes "ini_config_ok cfg" "\<forall>s n v u. fst (handler s n v u) \<noteq> 0"
  shows "ini_parse_string (render cfg) handler u = Some (0, feed handler cfg u)"
  using parse_render [OF assms(1), of handler u] assms(2) by auto

theorem ini_roundtrip_witness:
  "ini_parse_string (render [(''errinj_errno'', [(''path_regexp'', ''.*''), (''probability'', ''30'')])])
     (\<lambda>s n v u. (1, u @ [(s, n, v)])) []
   = Some (0, [(''errinj_errno'', ''path_regexp'', ''.*''), (''errinj_errno'', ''probability'', ''30'')])"
proof -
  have "ini_config_ok [(''errinj_errno'', [(''path_regexp'', ''.*''), (''probability'', ''30'')])]"
    by code_simp
  from ini_roundtrip [OF this, of "\<lambda>s n v u. (1, u @ [(s, n, v)])" "[]"]
  show ?thesis by (simp add: feed_def)
qed

end
