(* ===== verification/Errno_BSD.thy ===== *)
theory Errno_BSD
  imports Errinj
begin

text \<open>
  The error numbers FreeBSD, OpenBSD and macOS share and Linux numbers differently; the numbers up to
  34, apart from those below, are the same everywhere.
\<close>

abbreviation (input) EDEADLK_bsd :: int where "EDEADLK_bsd \<equiv> 11"
abbreviation (input) EAGAIN_bsd :: int where "EAGAIN_bsd \<equiv> 35"
abbreviation (input) EWOULDBLOCK_bsd :: int where "EWOULDBLOCK_bsd \<equiv> 35"
abbreviation (input) EDESTADDRREQ_bsd :: int where "EDESTADDRREQ_bsd \<equiv> 39"
abbreviation (input) ENETDOWN_bsd :: int where "ENETDOWN_bsd \<equiv> 50"
abbreviation (input) ENETUNREACH_bsd :: int where "ENETUNREACH_bsd \<equiv> 51"
abbreviation (input) ECONNRESET_bsd :: int where "ECONNRESET_bsd \<equiv> 54"
abbreviation (input) ENOBUFS_bsd :: int where "ENOBUFS_bsd \<equiv> 55"
abbreviation (input) ENOTCONN_bsd :: int where "ENOTCONN_bsd \<equiv> 57"
abbreviation (input) ETIMEDOUT_bsd :: int where "ETIMEDOUT_bsd \<equiv> 60"
abbreviation (input) ELOOP_bsd :: int where "ELOOP_bsd \<equiv> 62"
abbreviation (input) ENAMETOOLONG_bsd :: int where "ENAMETOOLONG_bsd \<equiv> 63"
abbreviation (input) ENOTEMPTY_bsd :: int where "ENOTEMPTY_bsd \<equiv> 66"
abbreviation (input) EDQUOT_bsd :: int where "EDQUOT_bsd \<equiv> 69"
abbreviation (input) ENOLCK_bsd :: int where "ENOLCK_bsd \<equiv> 77"

end
