(* ===== verification/Errno_FreeBSD.thy ===== *)
theory Errno_FreeBSD
  imports Errno_BSD
begin

text \<open>
  \<open>unreliablefs/unreliablefs_errno_freebsd.h\<close>: for each system call, the errors an injection may
  choose from on FreeBSD.
  The argument is the value of \<open>__FreeBSD__\<close>, the release of the system.
\<close>

abbreviation (input) EOPNOTSUPP_freebsd :: int where "EOPNOTSUPP_freebsd \<equiv> 45"
abbreviation (input) EFTYPE_freebsd :: int where "EFTYPE_freebsd \<equiv> 79"
abbreviation (input) EOVERFLOW_freebsd :: int where "EOVERFLOW_freebsd \<equiv> 84"
abbreviation (input) ENOTCAPABLE_freebsd :: int where "ENOTCAPABLE_freebsd \<equiv> 93"
abbreviation (input) ECAPMODE_freebsd :: int where "ECAPMODE_freebsd \<equiv> 94"
abbreviation (input) EINTEGRITY_freebsd :: int where "EINTEGRITY_freebsd \<equiv> 97"

definition errno_access_freebsd :: "nat \<Rightarrow> int list" where
  "errno_access_freebsd version =
     [EACCES, EFAULT]
     @ (if 12 \<le> version then [EINTEGRITY_freebsd] else [])
     @ [EINVAL, EIO, ELOOP_bsd, ENAMETOOLONG_bsd, ENOENT, ENOTDIR, EROFS, ETXTBSY]"

definition errno_chmod_freebsd :: "nat \<Rightarrow> int list" where
  "errno_chmod_freebsd version =
     [EACCES, EFAULT, EFTYPE_freebsd]
     @ (if 12 \<le> version then [EINTEGRITY_freebsd] else [])
     @ [EIO, ELOOP_bsd, ENAMETOOLONG_bsd, ENOENT, ENOTDIR, EPERM, EPERM, EROFS]"

definition errno_creat_freebsd :: "nat \<Rightarrow> int list" where
  "errno_creat_freebsd version =
     [EACCES, EBADF, ECAPMODE_freebsd, EDQUOT_bsd, EEXIST, EFAULT]
     @ (if 12 \<le> version then [EINTEGRITY_freebsd] else [])
     @ [EINTR, EINVAL, EIO, EISDIR, ELOOP_bsd, EMFILE, EMLINK, ENAMETOOLONG_bsd, ENFILE, ENOENT,
     ENOSPC, ENOTCAPABLE_freebsd, ENOTDIR, ENXIO, EOPNOTSUPP_freebsd, EPERM, EROFS, ETXTBSY,
     EWOULDBLOCK_bsd]"

definition errno_ftruncate_freebsd :: "nat \<Rightarrow> int list" where
  "errno_ftruncate_freebsd version =
     [EACCES, EBADF, EFAULT, EFBIG]
     @ (if 12 \<le> version then [EINTEGRITY_freebsd] else [])
     @ [EINVAL, EIO, EISDIR, ELOOP_bsd, ENAMETOOLONG_bsd, ENOENT, ENOTDIR, EPERM, EROFS,
     ETXTBSY]"

definition errno_link_freebsd :: "nat \<Rightarrow> int list" where
  "errno_link_freebsd version =
     [EACCES, EBADF, EDQUOT_bsd, EEXIST, EFAULT]
     @ (if 12 \<le> version then [EINTEGRITY_freebsd] else [])
     @ [EINVAL, EIO, ELOOP_bsd, EMLINK, ENAMETOOLONG_bsd, ENOENT, ENOSPC, ENOTDIR,
     EOPNOTSUPP_freebsd, EPERM, EROFS, EXDEV]"

definition errno_mkdir_freebsd :: "nat \<Rightarrow> int list" where
  "errno_mkdir_freebsd version =
     [EACCES, EBADF, EDQUOT_bsd, EEXIST, EFAULT]
     @ (if 12 \<le> version then [EINTEGRITY_freebsd] else [])
     @ [EIO, ELOOP_bsd, EMLINK, ENAMETOOLONG_bsd, ENOENT, ENOSPC, ENOTDIR, EPERM, EROFS]"

definition errno_mknod_freebsd :: "nat \<Rightarrow> int list" where
  "errno_mknod_freebsd version =
     [EACCES, EBADF, EDQUOT_bsd, EEXIST, EFAULT]
     @ (if 12 \<le> version then [EINTEGRITY_freebsd] else [])
     @ [EINVAL, EIO, ELOOP_bsd, ENAMETOOLONG_bsd, ENOENT, ENOSPC, ENOTDIR, EPERM, EROFS]"

definition errno_opendir_freebsd :: "nat \<Rightarrow> int list" where
  "errno_opendir_freebsd version =
     [EACCES, ELOOP_bsd, ENAMETOOLONG_bsd, ENOENT, ENOTDIR]"

definition errno_readdir_freebsd :: "nat \<Rightarrow> int list" where
  "errno_readdir_freebsd version =
     [EBADF, EFAULT]
     @ (if 12 \<le> version then [EINTEGRITY_freebsd] else [])
     @ [EINVAL, EIO]"

definition errno_read_freebsd :: "nat \<Rightarrow> int list" where
  "errno_read_freebsd version =
     [EAGAIN_bsd, EBADF, EBUSY, ECONNRESET_bsd, EFAULT]
     @ (if 12 \<le> version then [EINTEGRITY_freebsd] else [])
     @ [EINTR, EINVAL, EIO, EISDIR, EOPNOTSUPP_freebsd, EOVERFLOW_freebsd]"

definition errno_readlink_freebsd :: "nat \<Rightarrow> int list" where
  "errno_readlink_freebsd version =
     [EACCES, EFAULT]
     @ (if 12 \<le> version then [EINTEGRITY_freebsd] else [])
     @ [EINVAL, EIO, ELOOP_bsd, ENAMETOOLONG_bsd, ENOENT, ENOTDIR]"

definition errno_rename_freebsd :: "nat \<Rightarrow> int list" where
  "errno_rename_freebsd version =
     [EACCES, ECAPMODE_freebsd, EDQUOT_bsd, EFAULT]
     @ (if 12 \<le> version then [EINTEGRITY_freebsd] else [])
     @ [EINVAL, EIO, EISDIR, ELOOP_bsd, ENAMETOOLONG_bsd, ENOENT, ENOSPC, ENOTDIR,
     ENOTEMPTY_bsd, EPERM, EROFS, EXDEV]"

definition errno_rmdir_freebsd :: "nat \<Rightarrow> int list" where
  "errno_rmdir_freebsd version =
     [EACCES, EBUSY, EFAULT]
     @ (if 12 \<le> version then [EINTEGRITY_freebsd] else [])
     @ [EINVAL, EIO, ELOOP_bsd, ENAMETOOLONG_bsd, ENOENT, ENOTDIR, ENOTEMPTY_bsd, EPERM, EROFS]"

definition errno_symlink_freebsd :: "nat \<Rightarrow> int list" where
  "errno_symlink_freebsd version =
     [EACCES, EDQUOT_bsd, EEXIST, EFAULT]
     @ (if 12 \<le> version then [EINTEGRITY_freebsd] else [])
     @ [EIO, ELOOP_bsd, ENAMETOOLONG_bsd, ENOENT, ENOSPC, ENOTDIR, EPERM, EROFS]"

definition errno_truncate_freebsd :: "nat \<Rightarrow> int list" where
  "errno_truncate_freebsd version =
     [EACCES, EFAULT, EFBIG]
     @ (if 12 \<le> version then [EINTEGRITY_freebsd] else [])
     @ [EINVAL, EIO, EISDIR, ELOOP_bsd, ENAMETOOLONG_bsd, ENOENT, ENOTDIR, EPERM, EROFS,
     ETXTBSY]"

definition errno_unlink_freebsd :: "nat \<Rightarrow> int list" where
  "errno_unlink_freebsd version =
     [EACCES, EFAULT]
     @ (if 12 \<le> version then [EINTEGRITY_freebsd] else [])
     @ [EIO, EISDIR, ELOOP_bsd, ENAMETOOLONG_bsd, ENOENT, ENOSPC, ENOTDIR, EPERM, EROFS]"

definition errno_write_freebsd :: "nat \<Rightarrow> int list" where
  "errno_write_freebsd version =
     [EAGAIN_bsd, EBADF, EDQUOT_bsd, EFAULT, EFBIG]
     @ (if 12 \<le> version then [EINTEGRITY_freebsd] else [])
     @ [EINTR, EINVAL, EIO, ENOSPC, EPIPE, EROFS]"

definition errno_lstat_freebsd :: "nat \<Rightarrow> int list" where
  "errno_lstat_freebsd version =
     [EACCES, EFAULT]
     @ (if 12 \<le> version then [EINTEGRITY_freebsd] else [])
     @ [EIO, ELOOP_bsd, ENAMETOOLONG_bsd, ENOENT, ENOTDIR, EOVERFLOW_freebsd]"

definition errno_statfs_freebsd :: "nat \<Rightarrow> int list" where
  "errno_statfs_freebsd version =
     [EACCES, EFAULT]
     @ (if 12 \<le> version then [EINTEGRITY_freebsd] else [])
     @ [EIO, ELOOP_bsd, ENAMETOOLONG_bsd, ENOENT, ENOTDIR]"

definition errno_close_freebsd :: "nat \<Rightarrow> int list" where
  "errno_close_freebsd version =
     [EBADF, EINTR, ENOSPC, ECONNRESET_bsd]"

definition errno_utimensat_freebsd :: "nat \<Rightarrow> int list" where
  "errno_utimensat_freebsd version =
     [EACCES, EBADF, EFAULT]
     @ (if 12 \<le> version then [EINTEGRITY_freebsd] else [])
     @ [EINVAL, EIO, ELOOP_bsd, ENAMETOOLONG_bsd, ENOENT, ENOTDIR, EPERM, EROFS, ESRCH]"

definition errno_fsync_freebsd :: "nat \<Rightarrow> int list" where
  "errno_fsync_freebsd version =
     [EBADF]
     @ (if 12 \<le> version then [EINTEGRITY_freebsd] else [])
     @ [EINVAL, EIO]"

definition errno_flock_freebsd :: "nat \<Rightarrow> int list" where
  "errno_flock_freebsd version =
     [EBADF, EINVAL, ENOLCK_bsd, EOPNOTSUPP_freebsd, EWOULDBLOCK_bsd]"

definition errno_ioctl_freebsd :: "nat \<Rightarrow> int list" where
  "errno_ioctl_freebsd version =
     [EBADF, EFAULT, EINVAL, ENOTTY]"

definition errno_fcntl_freebsd :: "nat \<Rightarrow> int list" where
  "errno_fcntl_freebsd version =
     [EAGAIN_bsd, EBADF, EDEADLK_bsd, EINTR, EINVAL, EMFILE, ENOLCK_bsd, ENOTTY,
     EOPNOTSUPP_freebsd, EOVERFLOW_freebsd, EPERM, ESRCH]"

lemmas errno_freebsd_defs =
  errno_access_freebsd_def errno_chmod_freebsd_def errno_creat_freebsd_def
  errno_ftruncate_freebsd_def errno_link_freebsd_def errno_mkdir_freebsd_def
  errno_mknod_freebsd_def errno_opendir_freebsd_def errno_readdir_freebsd_def
  errno_read_freebsd_def errno_readlink_freebsd_def errno_rename_freebsd_def
  errno_rmdir_freebsd_def errno_symlink_freebsd_def errno_truncate_freebsd_def
  errno_unlink_freebsd_def errno_write_freebsd_def errno_lstat_freebsd_def
  errno_statfs_freebsd_def errno_close_freebsd_def errno_utimensat_freebsd_def
  errno_fsync_freebsd_def errno_flock_freebsd_def errno_ioctl_freebsd_def
  errno_fcntl_freebsd_def

text \<open>
  The table \<open>op_random_errno\<close> draws from; \<open>None\<close> for the operations that are not compiled:
  extended attributes and \<open>fallocate\<close> are not available, and \<open>flock\<close> is compiled only where \<open>fallocate\<close> is.
\<close>

fun op_errnos_freebsd :: "nat \<Rightarrow> fuse_op \<Rightarrow> int list option" where
  "op_errnos_freebsd version OP_LSTAT = Some (errno_lstat_freebsd version)"
| "op_errnos_freebsd version OP_GETATTR = Some (errno_lstat_freebsd version)"
| "op_errnos_freebsd version OP_READLINK = Some (errno_readlink_freebsd version)"
| "op_errnos_freebsd version OP_MKNOD = Some (errno_mknod_freebsd version)"
| "op_errnos_freebsd version OP_MKDIR = Some (errno_mkdir_freebsd version)"
| "op_errnos_freebsd version OP_UNLINK = Some (errno_unlink_freebsd version)"
| "op_errnos_freebsd version OP_RMDIR = Some (errno_rmdir_freebsd version)"
| "op_errnos_freebsd version OP_SYMLINK = Some (errno_symlink_freebsd version)"
| "op_errnos_freebsd version OP_RENAME = Some (errno_rename_freebsd version)"
| "op_errnos_freebsd version OP_LINK = Some (errno_link_freebsd version)"
| "op_errnos_freebsd version OP_CHMOD = Some (errno_chmod_freebsd version)"
| "op_errnos_freebsd version OP_CHOWN = Some (errno_chmod_freebsd version)"
| "op_errnos_freebsd version OP_TRUNCATE = Some (errno_truncate_freebsd version)"
| "op_errnos_freebsd version OP_OPEN = Some (errno_creat_freebsd version)"
| "op_errnos_freebsd version OP_READ = Some (errno_read_freebsd version)"
| "op_errnos_freebsd version OP_WRITE = Some (errno_write_freebsd version)"
| "op_errnos_freebsd version OP_STATFS = Some (errno_statfs_freebsd version)"
| "op_errnos_freebsd version OP_FLUSH = Some (errno_close_freebsd version)"
| "op_errnos_freebsd version OP_RELEASE = Some (errno_close_freebsd version)"
| "op_errnos_freebsd version OP_FSYNC = Some (errno_fsync_freebsd version)"
| "op_errnos_freebsd version OP_OPENDIR = Some (errno_opendir_freebsd version)"
| "op_errnos_freebsd version OP_READDIR = Some (errno_readdir_freebsd version)"
| "op_errnos_freebsd version OP_RELEASEDIR = Some (errno_close_freebsd version)"
| "op_errnos_freebsd version OP_FSYNCDIR = Some (errno_fsync_freebsd version)"
| "op_errnos_freebsd version OP_ACCESS = Some (errno_access_freebsd version)"
| "op_errnos_freebsd version OP_CREAT = Some (errno_creat_freebsd version)"
| "op_errnos_freebsd version OP_FTRUNCATE = Some (errno_ftruncate_freebsd version)"
| "op_errnos_freebsd version OP_FGETATTR = Some (errno_lstat_freebsd version)"
| "op_errnos_freebsd version OP_LOCK = Some (errno_fcntl_freebsd version)"
| "op_errnos_freebsd version OP_IOCTL = Some (errno_ioctl_freebsd version)"
| "op_errnos_freebsd version OP_UTIMENS = Some (errno_utimensat_freebsd version)"
| "op_errnos_freebsd version op = None"

end
