(* ===== verification/Errno_OpenBSD.thy ===== *)
theory Errno_OpenBSD
  imports Errno_BSD
begin

text \<open>
  \<open>unreliablefs/unreliablefs_errno_openbsd.h\<close>: for each system call, the errors an injection may
  choose from on OpenBSD.
\<close>

abbreviation (input) EOPNOTSUPP_openbsd :: int where "EOPNOTSUPP_openbsd \<equiv> 45"
abbreviation (input) EOVERFLOW_openbsd :: int where "EOVERFLOW_openbsd \<equiv> 87"

definition errno_access_openbsd :: "int list" where
  "errno_access_openbsd = [
     EACCES, EFAULT, EINVAL, EIO, ELOOP_bsd, ENAMETOOLONG_bsd, ENOENT, ENOTDIR, EPERM, EROFS,
     ETXTBSY]"

definition errno_chmod_openbsd :: "int list" where
  "errno_chmod_openbsd = [
     EACCES, EFAULT, EINVAL, EIO, ELOOP_bsd, ENAMETOOLONG_bsd, ENOENT, ENOTDIR, EPERM, EROFS]"

definition errno_creat_openbsd :: "int list" where
  "errno_creat_openbsd = [
     EACCES, EBUSY, EDQUOT_bsd, EEXIST, EFAULT, EINTR, EINVAL, EIO, EISDIR, ELOOP_bsd,
     EMFILE, ENAMETOOLONG_bsd, ENFILE, ENOENT, ENOSPC, ENOTDIR, ENXIO, EOPNOTSUPP_openbsd,
     EPERM, EROFS, ETXTBSY, EWOULDBLOCK_bsd]"

definition errno_ftruncate_openbsd :: "int list" where
  "errno_ftruncate_openbsd = [
     EBADF, EFBIG, EINVAL, EIO]"

definition errno_link_openbsd :: "int list" where
  "errno_link_openbsd = [
     EACCES, EDQUOT_bsd, EEXIST, EFAULT, EIO, ELOOP_bsd, EMLINK, ENAMETOOLONG_bsd, ENOENT,
     ENOSPC, ENOTDIR, EOPNOTSUPP_openbsd, EPERM, EROFS, EXDEV]"

definition errno_mkdir_openbsd :: "int list" where
  "errno_mkdir_openbsd = [
     EACCES, EDQUOT_bsd, EEXIST, EFAULT, EIO, ELOOP_bsd, ENAMETOOLONG_bsd, ENOENT, ENOSPC,
     ENOTDIR, EROFS]"

definition errno_mknod_openbsd :: "int list" where
  "errno_mknod_openbsd = [
     EACCES, EDQUOT_bsd, EEXIST, EFAULT, EINVAL, EIO, ELOOP_bsd, ENAMETOOLONG_bsd, ENOENT,
     ENOSPC, ENOTDIR, EPERM, EROFS]"

definition errno_opendir_openbsd :: "int list" where
  "errno_opendir_openbsd = [
     ENOTDIR, EAGAIN_bsd, EBADF, EDEADLK_bsd, EINTR, EINVAL, EMFILE, ENOLCK_bsd,
     EOVERFLOW_openbsd, ESRCH, EBADF, EFAULT, EIO, EACCES, EBUSY, EDQUOT_bsd, EEXIST, EFAULT,
     EINTR, EINVAL, EIO, EISDIR, ELOOP_bsd, EMFILE, ENAMETOOLONG_bsd, ENFILE, ENOENT, ENOSPC,
     ENOTDIR, ENXIO, EOPNOTSUPP_openbsd, EPERM, EROFS, ETXTBSY, EWOULDBLOCK_bsd, ENOMEM]"

definition errno_readdir_openbsd :: "int list" where
  "errno_readdir_openbsd = [
     EBADF, EFAULT, EINVAL, EIO]"

definition errno_read_openbsd :: "int list" where
  "errno_read_openbsd = [
     EAGAIN_bsd, EBADF, EFAULT, EINTR, EINVAL, EIO, EISDIR, ENOTCONN_bsd]"

definition errno_readlink_openbsd :: "int list" where
  "errno_readlink_openbsd = [
     EACCES, EFAULT, EINVAL, EIO, ELOOP_bsd, ENAMETOOLONG_bsd, ENOENT, ENOTDIR]"

definition errno_rename_openbsd :: "int list" where
  "errno_rename_openbsd = [
     EACCES, EDQUOT_bsd, EFAULT, EINVAL, EIO, EISDIR, ELOOP_bsd, EMLINK, ENAMETOOLONG_bsd,
     ENOENT, ENOSPC, ENOTDIR, ENOTEMPTY_bsd, EPERM, EROFS, EXDEV]"

definition errno_rmdir_openbsd :: "int list" where
  "errno_rmdir_openbsd = [
     EACCES, EBUSY, EFAULT, EINVAL, EIO, ELOOP_bsd, ENAMETOOLONG_bsd, ENOENT, ENOTDIR,
     ENOTEMPTY_bsd, EPERM, EROFS]"

definition errno_symlink_openbsd :: "int list" where
  "errno_symlink_openbsd = [
     EACCES, EDQUOT_bsd, EEXIST, EFAULT, EIO, ELOOP_bsd, ENAMETOOLONG_bsd, ENOENT, ENOSPC,
     ENOTDIR, EROFS]"

definition errno_truncate_openbsd :: "int list" where
  "errno_truncate_openbsd = [
     EACCES, EFAULT, EFBIG, EINVAL, EIO, EISDIR, ELOOP_bsd, ENAMETOOLONG_bsd, ENOENT,
     ENOTDIR, EROFS, ETXTBSY]"

definition errno_unlink_openbsd :: "int list" where
  "errno_unlink_openbsd = [
     EACCES, EBUSY, EFAULT, EIO, ELOOP_bsd, ENAMETOOLONG_bsd, ENOENT, ENOTDIR, EPERM, EROFS]"

definition errno_write_openbsd :: "int list" where
  "errno_write_openbsd = [
     EAGAIN_bsd, EBADF, EDESTADDRREQ_bsd, EDQUOT_bsd, EFAULT, EFBIG, EINTR, EINVAL, EIO,
     ENETDOWN_bsd, ENOSPC, EPIPE]"

definition errno_lstat_openbsd :: "int list" where
  "errno_lstat_openbsd = [
     EACCES, EFAULT, EIO, ELOOP_bsd, ENAMETOOLONG_bsd, ENOENT, ENOTDIR]"

definition errno_statfs_openbsd :: "int list" where
  "errno_statfs_openbsd = [
     EACCES, EFAULT, EIO, ELOOP_bsd, ENAMETOOLONG_bsd, ENOENT, ENOTDIR]"

definition errno_close_openbsd :: "int list" where
  "errno_close_openbsd = [
     EBADF, EINTR, EIO]"

definition errno_utimensat_openbsd :: "int list" where
  "errno_utimensat_openbsd = [
     EACCES, EBADF, EFAULT, EINVAL, EIO, ELOOP_bsd, ENAMETOOLONG_bsd, ENOENT, ENOTDIR, EPERM,
     EROFS]"

definition errno_fsync_openbsd :: "int list" where
  "errno_fsync_openbsd = [
     EBADF, EINVAL, EIO]"

definition errno_flock_openbsd :: "int list" where
  "errno_flock_openbsd = [
     EBADF, EINVAL, EOPNOTSUPP_openbsd, EWOULDBLOCK_bsd]"

definition errno_fcntl_openbsd :: "int list" where
  "errno_fcntl_openbsd = [
     EAGAIN_bsd, EBADF, EDEADLK_bsd, EINTR, EINVAL, EMFILE, ENOLCK_bsd, EOVERFLOW_openbsd,
     ESRCH]"

lemmas errno_openbsd_defs =
  errno_access_openbsd_def errno_chmod_openbsd_def errno_creat_openbsd_def
  errno_ftruncate_openbsd_def errno_link_openbsd_def errno_mkdir_openbsd_def
  errno_mknod_openbsd_def errno_opendir_openbsd_def errno_readdir_openbsd_def
  errno_read_openbsd_def errno_readlink_openbsd_def errno_rename_openbsd_def
  errno_rmdir_openbsd_def errno_symlink_openbsd_def errno_truncate_openbsd_def
  errno_unlink_openbsd_def errno_write_openbsd_def errno_lstat_openbsd_def
  errno_statfs_openbsd_def errno_close_openbsd_def errno_utimensat_openbsd_def
  errno_fsync_openbsd_def errno_flock_openbsd_def errno_fcntl_openbsd_def

text \<open>
  The table \<open>op_random_errno\<close> draws from; \<open>None\<close> for the operations that are not compiled:
  extended attributes, \<open>fallocate\<close> and \<open>ioctl\<close> are left out, and with \<open>fallocate\<close> also \<open>flock\<close>.
\<close>

fun op_errnos_openbsd :: "fuse_op \<Rightarrow> int list option" where
  "op_errnos_openbsd OP_LSTAT = Some errno_lstat_openbsd"
| "op_errnos_openbsd OP_GETATTR = Some errno_lstat_openbsd"
| "op_errnos_openbsd OP_READLINK = Some errno_readlink_openbsd"
| "op_errnos_openbsd OP_MKNOD = Some errno_mknod_openbsd"
| "op_errnos_openbsd OP_MKDIR = Some errno_mkdir_openbsd"
| "op_errnos_openbsd OP_UNLINK = Some errno_unlink_openbsd"
| "op_errnos_openbsd OP_RMDIR = Some errno_rmdir_openbsd"
| "op_errnos_openbsd OP_SYMLINK = Some errno_symlink_openbsd"
| "op_errnos_openbsd OP_RENAME = Some errno_rename_openbsd"
| "op_errnos_openbsd OP_LINK = Some errno_link_openbsd"
| "op_errnos_openbsd OP_CHMOD = Some errno_chmod_openbsd"
| "op_errnos_openbsd OP_CHOWN = Some errno_chmod_openbsd"
| "op_errnos_openbsd OP_TRUNCATE = Some errno_truncate_openbsd"
| "op_errnos_openbsd OP_OPEN = Some errno_creat_openbsd"
| "op_errnos_openbsd OP_READ = Some errno_read_openbsd"
| "op_errnos_openbsd OP_WRITE = Some errno_write_openbsd"
| "op_errnos_openbsd OP_STATFS = Some errno_statfs_openbsd"
| "op_errnos_openbsd OP_FLUSH = Some errno_close_openbsd"
| "op_errnos_openbsd OP_RELEASE = Some errno_close_openbsd"
| "op_errnos_openbsd OP_FSYNC = Some errno_fsync_openbsd"
| "op_errnos_openbsd OP_OPENDIR = Some errno_opendir_openbsd"
| "op_errnos_openbsd OP_READDIR = Some errno_readdir_openbsd"
| "op_errnos_openbsd OP_RELEASEDIR = Some errno_close_openbsd"
| "op_errnos_openbsd OP_FSYNCDIR = Some errno_fsync_openbsd"
| "op_errnos_openbsd OP_ACCESS = Some errno_access_openbsd"
| "op_errnos_openbsd OP_CREAT = Some errno_creat_openbsd"
| "op_errnos_openbsd OP_FTRUNCATE = Some errno_ftruncate_openbsd"
| "op_errnos_openbsd OP_FGETATTR = Some errno_lstat_openbsd"
| "op_errnos_openbsd OP_LOCK = Some errno_fcntl_openbsd"
| "op_errnos_openbsd OP_UTIMENS = Some errno_utimensat_openbsd"
| "op_errnos_openbsd op = None"

end
