(* ===== verification/Errno_MacOS.thy ===== *)
theory Errno_MacOS
  imports Errno_BSD
begin

text \<open>
  \<open>unreliablefs/unreliablefs_errno_macosx.h\<close>: for each system call, the errors an injection may
  choose from on macOS.
\<close>

abbreviation (input) ENOTSUP_macosx :: int where "ENOTSUP_macosx \<equiv> 45"
abbreviation (input) EOVERFLOW_macosx :: int where "EOVERFLOW_macosx \<equiv> 84"
abbreviation (input) ENOATTR_macosx :: int where "ENOATTR_macosx \<equiv> 93"
abbreviation (input) EOPNOTSUPP_macosx :: int where "EOPNOTSUPP_macosx \<equiv> 102"

definition errno_access_macosx :: "int list" where
  "errno_access_macosx = [
     EACCES, EFAULT, EINVAL, EIO, ELOOP_bsd, ENAMETOOLONG_bsd, ENOENT, ENOTDIR, EROFS,
     ETXTBSY]"

definition errno_chmod_macosx :: "int list" where
  "errno_chmod_macosx = [
     EACCES, EFAULT, EINTR, EIO, ELOOP_bsd, ENAMETOOLONG_bsd, ENOENT, ENOTDIR, EPERM, EROFS]"

definition errno_creat_macosx :: "int list" where
  "errno_creat_macosx = [
     EACCES, EAGAIN_bsd, EDQUOT_bsd, EEXIST, EFAULT, EINTR, EINVAL, EIO, EISDIR, ELOOP_bsd,
     EMFILE, ENAMETOOLONG_bsd, ENFILE, ENOENT, ENOSPC, ENOTDIR, ENXIO, EOPNOTSUPP_macosx,
     EOVERFLOW_macosx, EROFS, ETXTBSY]"

definition errno_ftruncate_macosx :: "int list" where
  "errno_ftruncate_macosx = [
     EBADF, EFBIG, EINTR, EINVAL, EIO, EROFS]"

definition errno_link_macosx :: "int list" where
  "errno_link_macosx = [
     EACCES, EDQUOT_bsd, EEXIST, EFAULT, EIO, ELOOP_bsd, EMLINK, ENAMETOOLONG_bsd, ENOENT,
     ENOSPC, ENOTDIR, EPERM, EROFS, EXDEV]"

definition errno_mkdir_macosx :: "int list" where
  "errno_mkdir_macosx = [
     EACCES, EDQUOT_bsd, EEXIST, EFAULT, EIO, ELOOP_bsd, EMLINK, ENAMETOOLONG_bsd, ENOENT,
     ENOSPC, ENOTDIR, EROFS]"

definition errno_mknod_macosx :: "int list" where
  "errno_mknod_macosx = [
     EACCES, EDQUOT_bsd, EEXIST, EFAULT, EINVAL, EIO, ELOOP_bsd, ENAMETOOLONG_bsd, ENOENT,
     ENOSPC, ENOTDIR, EPERM, EROFS]"

definition errno_opendir_macosx :: "int list" where
  "errno_opendir_macosx = []"

definition errno_readdir_macosx :: "int list" where
  "errno_readdir_macosx = []"

definition errno_read_macosx :: "int list" where
  "errno_read_macosx = [
     EAGAIN_bsd, EBADF, ECONNRESET_bsd, EFAULT, EINTR, EINVAL, EIO, EISDIR, ENOBUFS_bsd,
     ENOMEM, ENOTCONN_bsd, ENXIO, ETIMEDOUT_bsd]"

definition errno_readlink_macosx :: "int list" where
  "errno_readlink_macosx = [
     EACCES, EFAULT, EINVAL, EIO, ELOOP_bsd, ENAMETOOLONG_bsd, ENOENT, ENOTDIR]"

definition errno_rename_macosx :: "int list" where
  "errno_rename_macosx = [
     EACCES, EDQUOT_bsd, EFAULT, EINVAL, EIO, EISDIR, ELOOP_bsd, ENAMETOOLONG_bsd, ENOENT,
     ENOSPC, ENOTDIR, ENOTEMPTY_bsd, EPERM, EROFS, EXDEV]"

definition errno_rmdir_macosx :: "int list" where
  "errno_rmdir_macosx = [
     EACCES, EBUSY, EFAULT, EIO, ELOOP_bsd, ENAMETOOLONG_bsd, ENOENT, ENOTDIR, ENOTEMPTY_bsd,
     EPERM, EROFS]"

definition errno_symlink_macosx :: "int list" where
  "errno_symlink_macosx = [
     EACCES, EDQUOT_bsd, EEXIST, EFAULT, EIO, ELOOP_bsd, ENAMETOOLONG_bsd, ENOENT, ENOSPC,
     ENOTDIR, EROFS]"

definition errno_truncate_macosx :: "int list" where
  "errno_truncate_macosx = [
     EACCES, EFAULT, EFBIG, EINTR, EINVAL, EIO, EISDIR, ELOOP_bsd, ENAMETOOLONG_bsd, ENOENT,
     ENOTDIR, EROFS, ETXTBSY]"

definition errno_unlink_macosx :: "int list" where
  "errno_unlink_macosx = [
     EACCES, EBUSY, EFAULT, EIO, ELOOP_bsd, ENAMETOOLONG_bsd, ENOENT, ENOTDIR, EPERM, EROFS]"

definition errno_write_macosx :: "int list" where
  "errno_write_macosx = [
     EAGAIN_bsd, EBADF, ECONNRESET_bsd, EDQUOT_bsd, EFAULT, EFBIG, EINTR, EINVAL, EIO,
     ENETDOWN_bsd, ENETUNREACH_bsd, ENOSPC, ENXIO, EPIPE, EWOULDBLOCK_bsd]"

definition errno_lstat_macosx :: "int list" where
  "errno_lstat_macosx = [
     EACCES, EFAULT, EIO, ELOOP_bsd, ENAMETOOLONG_bsd, ENOENT, ENOTDIR, EOVERFLOW_macosx]"

definition errno_statfs_macosx :: "int list" where
  "errno_statfs_macosx = [
     EACCES, EFAULT, EIO, ELOOP_bsd, ENAMETOOLONG_bsd, ENOENT, ENOTDIR]"

definition errno_close_macosx :: "int list" where
  "errno_close_macosx = [
     EBADF, EINTR, EIO]"

definition errno_utimensat_macosx :: "int list" where
  "errno_utimensat_macosx = [
     EACCES, EBADF, EFAULT, EINVAL, EIO, ELOOP_bsd, ENAMETOOLONG_bsd, ENOENT, ENOTDIR, EPERM,
     EROFS, ESRCH]"

definition errno_fsync_macosx :: "int list" where
  "errno_fsync_macosx = [
     EBADF, EINTR, EINVAL, EIO]"

definition errno_setxattr_macosx :: "int list" where
  "errno_setxattr_macosx = [
     E2BIG, EACCES, EEXIST, EFAULT, EINVAL, EIO, ELOOP_bsd, ENAMETOOLONG_bsd, ENOATTR_macosx,
     ENOSPC, ENOTDIR, ENOTSUP_macosx, EPERM, ERANGE, EROFS]"

definition errno_getxattr_macosx :: "int list" where
  "errno_getxattr_macosx = [
     EACCES, EFAULT, EINVAL, EIO, EISDIR, ELOOP_bsd, ENAMETOOLONG_bsd, ENOATTR_macosx,
     ENOTDIR, ENOTSUP_macosx, EPERM, ERANGE]"

definition errno_listxattr_macosx :: "int list" where
  "errno_listxattr_macosx = [
     EACCES, EFAULT, EINVAL, EIO, ELOOP_bsd, ENAMETOOLONG_bsd, ENOTDIR, ENOTSUP_macosx,
     EPERM, ERANGE]"

definition errno_removexattr_macosx :: "int list" where
  "errno_removexattr_macosx = [
     EACCES, EFAULT, EINVAL, EIO, ELOOP_bsd, ENAMETOOLONG_bsd, ENOATTR_macosx, ENOTDIR,
     ENOTSUP_macosx, EPERM, EROFS]"

definition errno_flock_macosx :: "int list" where
  "errno_flock_macosx = [
     EBADF, EINVAL, ENOTSUP_macosx, EWOULDBLOCK_bsd]"

definition errno_ioctl_macosx :: "int list" where
  "errno_ioctl_macosx = [
     EBADF, EINVAL, ENOTTY]"

definition errno_fcntl_macosx :: "int list" where
  "errno_fcntl_macosx = [
     EACCES, EBADF, EDEADLK_bsd, EINTR, EINVAL, EMFILE, ENOLCK_bsd, EOVERFLOW_macosx, ESRCH]"

lemmas errno_macosx_defs =
  errno_access_macosx_def errno_chmod_macosx_def errno_creat_macosx_def
  errno_ftruncate_macosx_def errno_link_macosx_def errno_mkdir_macosx_def errno_mknod_macosx_def
  errno_opendir_macosx_def errno_readdir_macosx_def errno_read_macosx_def
  errno_readlink_macosx_def errno_rename_macosx_def errno_rmdir_macosx_def
  errno_symlink_macosx_def errno_truncate_macosx_def errno_unlink_macosx_def
  errno_write_macosx_def errno_lstat_macosx_def errno_statfs_macosx_def errno_close_macosx_def
  errno_utimensat_macosx_def errno_fsync_macosx_def errno_setxattr_macosx_def
  errno_getxattr_macosx_def errno_listxattr_macosx_def errno_removexattr_macosx_def
  errno_flock_macosx_def errno_ioctl_macosx_def errno_fcntl_macosx_def

text \<open>
  The table \<open>op_random_errno\<close> draws from; \<open>None\<close> for the operations that are not compiled:
  \<open>fallocate\<close> is not available, and \<open>flock\<close> is compiled only where it is.
\<close>

fun op_errnos_macosx :: "fuse_op \<Rightarrow> int list option" where
  "op_errnos_macosx OP_LSTAT = Some errno_lstat_macosx"
| "op_errnos_macosx OP_GETATTR = Some errno_lstat_macosx"
| "op_errnos_macosx OP_READLINK = Some errno_readlink_macosx"
| "op_errnos_macosx OP_MKNOD = Some errno_mknod_macosx"
| "op_errnos_macosx OP_MKDIR = Some errno_mkdir_macosx"
| "op_errnos_macosx OP_UNLINK = Some errno_unlink_macosx"
| "op_errnos_macosx OP_RMDIR = Some errno_rmdir_macosx"
| "op_errnos_macosx OP_SYMLINK = Some errno_symlink_macosx"
| "op_errnos_macosx OP_RENAME = Some errno_rename_macosx"
| "op_errnos_macosx OP_LINK = Some errno_link_macosx"
| "op_errnos_macosx OP_CHMOD = Some errno_chmod_macosx"
| "op_errnos_macosx OP_CHOWN = Some errno_chmod_macosx"
| "op_errnos_macosx OP_TRUNCATE = Some errno_truncate_macosx"
| "op_errnos_macosx OP_OPEN = Some errno_creat_macosx"
| "op_errnos_macosx OP_READ = Some errno_read_macosx"
| "op_errnos_macosx OP_WRITE = Some errno_write_macosx"
| "op_errnos_macosx OP_STATFS = Some errno_statfs_macosx"
| "op_errnos_macosx OP_FLUSH = Some errno_close_macosx"
| "op_errnos_macosx OP_RELEASE = Some errno_close_macosx"
| "op_errnos_macosx OP_FSYNC = Some errno_fsync_macosx"
| "op_errnos_macosx OP_SETXATTR = Some errno_setxattr_macosx"
| "op_errnos_macosx OP_GETXATTR = Some errno_getxattr_macosx"
| "op_errnos_macosx OP_LISTXATTR = Some errno_listxattr_macosx"
| "op_errnos_macosx OP_REMOVEXATTR = Some errno_removexattr_macosx"
| "op_errnos_macosx OP_OPENDIR = Some errno_opendir_macosx"
| "op_errnos_macosx OP_READDIR = Some errno_readdir_macosx"
| "op_errnos_macosx OP_RELEASEDIR = Some errno_close_macosx"
| "op_errnos_macosx OP_FSYNCDIR = Some errno_fsync_macosx"
| "op_errnos_macosx OP_ACCESS = Some errno_access_macosx"
| "op_errnos_macosx OP_CREAT = Some errno_creat_macosx"
| "op_errnos_macosx OP_FTRUNCATE = Some errno_ftruncate_macosx"
| "op_errnos_macosx OP_FGETATTR = Some errno_lstat_macosx"
| "op_errnos_macosx OP_LOCK = Some errno_fcntl_macosx"
| "op_errnos_macosx OP_IOCTL = Some errno_ioctl_macosx"
| "op_errnos_macosx OP_UTIMENS = Some errno_utimensat_macosx"
| "op_errnos_macosx op = None"

end
