(* ===== verification/Errno_Properties.thy ===== *)
theory Errno_Properties
  imports Errinj_Facts Errno_FreeBSD Errno_OpenBSD Errno_MacOS
begin

text \<open>
  The error tables of the four systems the program is built for, and what \<open>op_random_errno\<close> draws
  from them.
\<close>

datatype platform = Linux | FreeBSD nat | OpenBSD | MacOS

fun op_errnos_on :: "platform \<Rightarrow> fuse_op \<Rightarrow> int list option" where
  "op_errnos_on Linux op = Some (op_errnos op)"
| "op_errnos_on (FreeBSD version) op = op_errnos_freebsd version op"
| "op_errnos_on OpenBSD op = op_errnos_openbsd op"
| "op_errnos_on MacOS op = op_errnos_macosx op"

text \<open>An operation without a table reaches the \<open>default\<close> branch.\<close>

definition op_random_errno_on :: "platform \<Rightarrow> fuse_op \<Rightarrow> host \<Rightarrow> (int \<times> host) option" where
  "op_random_errno_on pf op h = (case op_errnos_on pf op of None \<Rightarrow> Some (-1, h) | Some es \<Rightarrow> RANDOM_ELEMENT es h)"

text \<open>Which tables are empty.\<close>

lemma linux_tables: "op_errnos op \<noteq> []"
  by (cases op; simp add: errno_linux_defs)

lemma freebsd_tables: "op_errnos_freebsd version op = Some es \<Longrightarrow> es \<noteq> []"
  by (cases op; simp; elim subst; simp add: errno_freebsd_defs)

lemma openbsd_tables: "op_errnos_openbsd op = Some es \<Longrightarrow> es \<noteq> []"
  by (cases op; simp; elim subst; simp add: errno_openbsd_defs)

lemma macosx_tables: "op_errnos_macosx op = Some es \<Longrightarrow> es = [] \<longleftrightarrow> op = OP_OPENDIR \<or> op = OP_READDIR"
  by (cases op; simp; elim subst; simp add: errno_macosx_defs)

lemma tables_on:
  assumes "op_errnos_on pf op = Some es"
  shows "es = [] \<longleftrightarrow> pf = MacOS \<and> (op = OP_OPENDIR \<or> op = OP_READDIR)"
  using assms linux_tables [of op] freebsd_tables openbsd_tables macosx_tables
  by (cases pf; force)

text \<open>C28. On macOS no error can be injected into \<open>opendir\<close> and \<open>readdir\<close>: their tables are empty, so
that every draw reads outside them, whatever the generator gives. No other table of any system has
this fault.\<close>

theorem macos_directory_errors_undefined:
  "(\<forall>h. op_random_errno_on pf op h = None) \<longleftrightarrow> pf = MacOS \<and> (op = OP_OPENDIR \<or> op = OP_READDIR)"
proof (cases "op_errnos_on pf op")
  case None
  then show ?thesis by (auto simp: op_random_errno_on_def)
next
  case (Some es)
  have "(\<forall>h. RANDOM_ELEMENT es h = None) \<longleftrightarrow> es = []"
  proof
    assume all: "\<forall>h. RANDOM_ELEMENT es h = None"
    have "RANDOM_ELEMENT es ((undefined :: host)\<lparr>rand_seq := \<lambda>_. 0\<rparr>) \<noteq> None" if "es \<noteq> []"
      using that by (simp add: RANDOM_ELEMENT_eq)
    with all show "es = []" by auto
  qed (simp add: RANDOM_ELEMENT_eq)
  with Some tables_on [OF Some] show ?thesis by (simp add: op_random_errno_on_def)
qed

end
