(* ===== verification/Startup.thy ===== *)
theory Startup
  imports Errinj
begin

text \<open>
  \<open>unreliablefs/unreliablefs.c\<close>: the table of FUSE callbacks, the options, and \<open>main\<close> from the options
  to the loop of FUSE and the clean-up after it. What libfuse and the C library decide is a parameter:
  the parser of the command line, which is given the option table and the callback, the loop, the
  generator a seed selects and the canonical form of a path.
\<close>

subsection \<open>The callbacks\<close>

text \<open>What the build defines: \<open>HAVE_XATTR\<close>, \<open>__OpenBSD__\<close>, \<open>HAVE_FLOCK\<close>, \<open>HAVE_FALLOCATE\<close>, \<open>HAVE_UTIMENSAT\<close>.\<close>

record build =
  have_xattr :: bool
  openbsd :: bool
  have_flock :: bool
  have_fallocate :: bool
  have_utimensat :: bool

definition unreliable_ops :: "build \<Rightarrow> (string \<times> string) list" where
  "unreliable_ops b =
     [(''getattr'', ''wiscAFS_getattr''), (''readlink'', ''unreliable_readlink''),
      (''mknod'', ''unreliable_mknod''), (''mkdir'', ''wiscAFS_mkdir''), (''unlink'', ''wiscAFS_unlink''),
      (''rmdir'', ''wiscAFS_rmdir''), (''symlink'', ''unreliable_symlink''),
      (''rename'', ''wiscAFS_rename''), (''link'', ''unreliable_link''), (''chmod'', ''wiscAFS_chmod''),
      (''chown'', ''wiscAFS_chown''), (''truncate'', ''wiscAFS_truncate''), (''open'', ''wiscAFS_open''),
      (''read'', ''wiscAFS_read''), (''write'', ''wiscAFS_write''), (''statfs'', ''unreliable_statfs''),
      (''flush'', ''wiscAFS_flush''), (''release'', ''wiscAFS_release''), (''fsync'', ''unreliable_fsync'')]
     @ (if have_xattr b then
          [(''setxattr'', ''unreliable_setxattr''), (''getxattr'', ''wiscAFS_getxattr''),
           (''listxattr'', ''unreliable_listxattr''), (''removexattr'', ''unreliable_removexattr'')]
        else [])
     @ [(''opendir'', ''wiscAFS_opendir''), (''readdir'', ''wiscAFS_readdir''),
        (''releasedir'', ''unreliable_releasedir''), (''fsyncdir'', ''unreliable_fsyncdir''),
        (''init'', ''wiscAFS_init''), (''destroy'', ''unreliable_destroy''), (''access'', ''wiscAFS_access''),
        (''create'', ''wiscAFS_create''), (''fgetattr'', ''wiscAFS_fgetattr''), (''lock'', ''unreliable_lock'')]
     @ (if openbsd b then [] else [(''ioctl'', ''unreliable_ioctl'')])
     @ (if have_flock b then [(''flock'', ''unreliable_flock'')] else [])
     @ (if have_fallocate b then [(''fallocate'', ''unreliable_fallocate'')] else [])
     @ (if have_utimensat b then [(''utimens'', ''unreliable_utimens'')] else [])"

subsection \<open>The options\<close>

text \<open>
  The option table: where the value of an option goes, or the key the callback is asked with. The
  arguments that are in no row have the key \<open>KEY_OTHER\<close>.
\<close>

datatype opt_key = KEY_HELP | KEY_VERSION | KEY_DEBUG | KEY_OTHER

datatype opt_target = To_seed | To_basedir | To_key opt_key | Discard

definition unreliablefs_opts :: "(string \<times> opt_target) list" where
  "unreliablefs_opts =
     [(''-seed=%u'', To_seed), (''-basedir=%s'', To_basedir),
      (''-d'', To_key KEY_DEBUG), (''-V'', To_key KEY_VERSION), (''-v'', To_key KEY_VERSION),
      (''--version'', To_key KEY_VERSION), (''-h'', To_key KEY_HELP), (''--help'', To_key KEY_HELP),
      (''subdir'', Discard), (''modules='', Discard)]"

type_synonym fuse_loop = "string list \<Rightarrow> unreliablefs_config \<Rightarrow> host \<Rightarrow> (int \<times> unreliablefs_config \<times> host) option"

text \<open>\<open>Inl\<close> is the status the process exits with, \<open>Inr 1\<close> keeps the argument.\<close>

definition unreliablefs_opt_proc :: "fuse_loop \<Rightarrow> opt_key \<Rightarrow> string list \<Rightarrow> unreliablefs_config \<Rightarrow> host
    \<Rightarrow> ((int + int) \<times> host) option" where
  "unreliablefs_opt_proc fuse_main key outargs conf h =
     (case key of
        KEY_HELP \<Rightarrow> Some (Inl 1, h)
      | KEY_VERSION \<Rightarrow>
          (case fuse_main (outargs @ [''--version'']) conf h of None \<Rightarrow> None | Some (_, _, h) \<Rightarrow> Some (Inl 1, h))
      | _ \<Rightarrow> Some (Inr 1, h))"

text \<open>
  \<open>fuse_opt_parse\<close> of libfuse, a parameter: from the table, the callback and the arguments of the process
  to an exit of the process or the remaining arguments and the configuration.
\<close>

type_synonym opt_proc = "opt_key \<Rightarrow> string list \<Rightarrow> unreliablefs_config \<Rightarrow> host \<Rightarrow> ((int + int) \<times> host) option"

type_synonym opt_parser = "(string \<times> opt_target) list \<Rightarrow> opt_proc \<Rightarrow> string list \<Rightarrow> unreliablefs_config \<Rightarrow> host
    \<Rightarrow> ((int + string list \<times> unreliablefs_config) \<times> host) option"

text \<open>
  What libfuse documents and the code relies on: the parser leaves the process only through the
  callback; when nothing fails it allocates the string of every \<open>%s\<close> option, here of the \<open>strings argv\<close>
  arguments that give a base directory, and keeps the fields that are in no row.
\<close>

definition option_parser :: "opt_parser \<Rightarrow> (string list \<Rightarrow> nat) \<Rightarrow> bool" where
  "option_parser parse strings \<longleftrightarrow>
     (\<forall>proc argv conf h r h'. parse unreliablefs_opts proc argv conf h = Some (r, h') \<longrightarrow>
        (case r of
           Inl status \<Rightarrow> (\<exists>key args conf h. proc key args conf h = Some (Inl status, h'))
         | Inr (args, conf') \<Rightarrow>
             faults (os h) = [] \<longrightarrow>
             (\<forall>key args conf h k h'. proc key args conf h = Some (Inr k, h') \<longrightarrow> h' = h) \<longrightarrow>
             faults (os h') = [] \<and> heap h' = heap h + int (strings argv) \<and> errors conf' = errors conf))"

subsection \<open>main\<close>

abbreviation (input) PATH_MAX :: nat where "PATH_MAX \<equiv> 4096"
abbreviation (input) EXIT_FAILURE :: int where "EXIT_FAILURE \<equiv> 1"

definition DEFAULT_CONF_NAME :: string where
  "DEFAULT_CONF_NAME = ''unreliablefs.conf''"

definition is_dir :: "path \<Rightarrow> fsys \<Rightarrow> bool \<times> fsys" where
  "is_dir p s = (case take_fault s of
       (Fail e, s) \<Rightarrow> (False, s\<lparr>errno := e\<rparr>)
     | (_, s) \<Rightarrow> (case lookup s p of
           None \<Rightarrow> (False, s\<lparr>errno := ENOENT\<rparr>)
         | Some nd \<Rightarrow> (i_isdir nd, s)))"

text \<open>\<open>sprintf\<close> into \<open>subdir_option\<close>: \<open>None\<close> when the string and its NUL do not fit.\<close>

definition subdir_option :: "path \<Rightarrow> string option" where
  "subdir_option base =
     (let opt = ''-omodules=subdir,subdir='' @ base in if length opt < PATH_MAX then Some opt else None)"

definition c_snprintf :: "nat \<Rightarrow> string \<Rightarrow> string" where
  "c_snprintf sz str = take (sz - 1) str"

definition c_realpath :: "(fsys \<Rightarrow> path \<Rightarrow> path option) \<Rightarrow> path \<Rightarrow> host \<Rightarrow> path option \<times> host" where
  "c_realpath resolve p h =
     (case c_alloc h of (ok, h) \<Rightarrow>
        if \<not> ok then (None, h)
        else (case resolve (os h) p of None \<Rightarrow> (None, c_free h) | Some q \<Rightarrow> (Some q, h)))"

definition build_config_path :: "path \<Rightarrow> path" where
  "build_config_path base =
     (let sz = length DEFAULT_CONF_NAME + length base + 2 in c_snprintf sz (base @ ''/'' @ DEFAULT_CONF_NAME))"

definition mutex_init :: "host \<Rightarrow> int \<times> host" where
  "mutex_init h = (case take_fault (os h) of
       (Fail e, s) \<Rightarrow> (e, h\<lparr>os := s\<rparr>)
     | (_, s) \<Rightarrow> (0, h\<lparr>os := s\<rparr>))"

text \<open>
  The arguments libfuse allocates are freed by \<open>fuse_opt_free_args\<close> at every return and are left out; the
  string it allocates for \<open>-basedir\<close> is replaced by the real path and lost.
\<close>

text \<open>
  The exit status; \<open>None\<close> stands for undefined behaviour, in \<open>main\<close> or in the loop. First the part
  of \<open>main\<close> from reading the configuration to the end, then the part before it.
\<close>

definition run_mount :: "fuse_loop \<Rightarrow> string list \<Rightarrow> unreliablefs_config \<Rightarrow> host \<Rightarrow> (int \<times> host) option" where
  "run_mount fuse_main args conf h =
     (case config_init (config_path conf) h of
        None \<Rightarrow> None
      | Some (errs, h) \<Rightarrow>
          (let conf = conf\<lparr>errors := errs\<rparr>; (rc, h) = mutex_init h
           in if rc \<noteq> 0 then Some (EXIT_FAILURE, h)
              else (case fuse_main args conf h of
                  None \<Rightarrow> None
                | Some (ret, conf, h) \<Rightarrow> Some (ret, c_free (config_delete (errors conf) h)))))"

definition main :: "fuse_loop \<Rightarrow> opt_parser \<Rightarrow> (fsys \<Rightarrow> path \<Rightarrow> path option) \<Rightarrow> (u32 \<Rightarrow> nat \<Rightarrow> nat) \<Rightarrow> u32
    \<Rightarrow> string list \<Rightarrow> host \<Rightarrow> (int \<times> host) option" where
  "main fuse_main fuse_opt_parse resolve generator time argv h =
     (let conf = \<lparr>errors = None, basedir = ''/'', config_path = [], seed = time, debug = 0, mutex = False\<rparr>
      in case fuse_opt_parse unreliablefs_opts (unreliablefs_opt_proc fuse_main) argv conf h of
           None \<Rightarrow> None
         | Some (Inl status, h) \<Rightarrow> Some (status, h)
         | Some (Inr (args, conf), h) \<Rightarrow>
             (let h = h\<lparr>rand_seq := generator (seed conf), rand_pos := 0\<rparr>;
                  (dir, s) = is_dir (basedir conf) (os h);
                  h = h\<lparr>os := s\<rparr>
              in if \<not> dir then Some (EXIT_FAILURE, h)
                 else (case subdir_option (basedir conf) of
                     None \<Rightarrow> None
                   | Some opt \<Rightarrow>
                      (case c_realpath resolve (basedir conf) h of
                         (None, h) \<Rightarrow> Some (EXIT_FAILURE, h)
                       | (Some real_path, h) \<Rightarrow>
                          (let conf = conf\<lparr>basedir := real_path\<rparr>; (ok, h) = c_alloc h
                           in if \<not> ok then Some (EXIT_FAILURE, h)
                              else run_mount fuse_main (args @ [opt])
                                     (conf\<lparr>config_path := build_config_path real_path\<rparr>) h)))))"

end
