(* ===== verification/Startup_Facts.thy ===== *)
theory Startup_Facts
  imports Startup Errinj_Load
begin

text \<open>
  Memory over the life of the program: on a host without faults every operation keeps the queue
  loaded and its blocks accounted for, whatever the loop is asked to do.
\<close>

text \<open>A loop that passes a sequence of operations to \<open>error_inject\<close>, as the callbacks of
\<open>unreliablefs_ops.c\<close> do, and ends with status 0.\<close>

fun inject_loop :: "(path \<times> fuse_op) list \<Rightarrow> unreliablefs_config \<Rightarrow> host \<Rightarrow> (unreliablefs_config \<times> host) option" where
  "inject_loop [] conf h = Some (conf, h)"
| "inject_loop ((path, op) # reqs) conf h =
     (case error_inject path op conf h of None \<Rightarrow> None | Some (_, conf, h) \<Rightarrow> inject_loop reqs conf h)"

definition mounted :: "(path \<times> fuse_op) list \<Rightarrow> fuse_loop" where
  "mounted reqs args conf h = map_option (\<lambda>(conf, h). (0, conf, h)) (inject_loop reqs conf h)"

abbreviation calm_host :: "host \<Rightarrow> bool" where
  "calm_host h \<equiv> faults (os h) = []"

lemma calm_alloc: "c_alloc h = (ok, h') \<Longrightarrow> calm_host h \<Longrightarrow> ok \<and> os h' = os h"
  by (auto simp: c_alloc_def take_fault_def)

lemma calm_strdup: "c_strdup v h = (r, h') \<Longrightarrow> calm_host h \<Longrightarrow> calm_host h'"
  by (auto simp: c_strdup_def c_alloc_def take_fault_def)

lemma free_opt_os [simp]: "os (free_opt r h) = os h"
  by (simp add: free_opt_def c_free_def)

lemma set_option_calm: "calm_host h \<Longrightarrow> calm_host (snd (snd (set_option err q key v h)))"
  by (auto simp: set_option_def Let_def dest: calm_strdup split: prod.split)

text \<open>The handler keeps the host calm, and so does parsing with it.\<close>

interpretation calm: ini_callback conf_option_handler "\<lambda>u. calm_host (snd u)"
proof
  fix u :: "errinj_conf list \<times> host" and s n v
  assume "calm_host (snd u)"
  then show "calm_host (snd (snd (conf_option_handler s n v u)))"
    by (cases u) (auto simp: handler_eq Let_def set_option_calm dest: calm_alloc split: option.split prod.split)
qed

lemma calm_config_init:
  assumes "calm_host h" "config_init p h = Some (r, h')"
  shows "\<exists>q. r = Some q \<and> calm_host h' \<and> queue_ok (heap h + 1) (q, h')"
proof -
  have al: "c_alloc h = (True, add_blocks 1 h)" by (rule quiet_alloc [OF assms(1)])
  obtain rc s where ac: "sys_access p 0 (os h) = (rc, s)" by fastforce
  have s: "faults s = []" "rc = 0 \<Longrightarrow> lookup s p \<noteq> None"
    using ac assms(1) by (auto simp: sys_access_def take_fault_def fail_def split: if_splits)
  have "\<exists>q. r = Some q \<and> calm_host h'"
  proof (cases "rc = 0")
    case True
    then obtain nd where nd: "lookup s p = Some nd" using s(2) by auto
    let ?d = "if i_isdir nd then [] else i_data nd"
    have f: "c_fopen p s = (Some ?d, s)" using s(1) nd by (simp add: c_fopen_def take_fault_def)
    obtain e q where e: "ini_parse (\<lambda>p. fst (c_fopen p s)) p conf_option_handler ([], (add_blocks 1 h)\<lparr>os := s\<rparr>)
        = Some (e, q, h')" "r = (if e < 0 then None else Some q)"
      using assms(2) al ac True f by (auto simp: config_init_def)
    have "calm_host h'" using calm.parse_keeps [OF e(1)] s(1) by simp
    moreover have "\<not> e < 0"
      using e(1) f by (auto simp: ini_parse_def ini_parse_file_def ini_parse_stream_def split: option.splits)
    ultimately show ?thesis using e(2) by simp
  next
    case False
    then show ?thesis using assms al ac s(1) by (auto simp: config_init_def)
  qed
  then show ?thesis using config_init_ok [OF assms(2)] by auto
qed

text \<open>What the loop keeps.\<close>

definition tidy :: "int \<Rightarrow> unreliablefs_config \<Rightarrow> host \<Rightarrow> bool" where
  "tidy base conf h \<longleftrightarrow> calm_host h \<and> config_ok base conf h"

lemma inject_tidy:
  assumes "tidy base conf h" "error_inject path op conf h = Some (rc, conf', h')"
  shows "tidy base conf' h'"
proof (cases "path = config_path conf")
  case True
  let ?h = "config_delete (errors conf) h"
  obtain r where r: "config_init path ?h = Some (r, h')" "conf' = conf\<lparr>errors := r, mutex := False\<rparr>"
    using assms(2) True by (auto simp: error_inject_def Let_def split: if_splits option.splits)
  have "calm_host ?h" "heap ?h = base"
    using assms(1) delete_keeps [of "errors conf" h] config_ok_delete [of base conf h] by (simp_all add: tidy_def)
  then show ?thesis using calm_config_init [OF _ r(1)] r(2) by (auto simp: tidy_def config_ok_def)
next
  case False
  then have "errors conf' = errors conf \<and> heap h' = heap h \<and> faults (os h') = faults (os h)"
    using assms(2) inject_all_result [of path op _ 0 h rc h']
    by (fastforce simp: error_inject_def same_host_def Let_def split: if_splits option.splits)
  then show ?thesis using assms(1) by (auto simp: tidy_def config_ok_def queue_ok_def split: option.splits)
qed

lemma loop_tidy:
  "tidy base conf h \<Longrightarrow> inject_loop reqs conf h = Some (conf', h') \<Longrightarrow> tidy base conf' h'"
proof (induction reqs arbitrary: conf h)
  case (Cons req reqs)
  obtain path op where "req = (path, op)" by fastforce
  then show ?case using Cons inject_tidy [of base conf h path op] by (auto split: option.splits)
qed simp

text \<open>The callback leaves the host alone unless the program exits, with status 1.\<close>

lemma opt_proc_result:
  "unreliablefs_opt_proc loop key args conf h = Some (Inr k, h') \<Longrightarrow> h' = h"
  "unreliablefs_opt_proc loop key args conf h = Some (Inl status, h') \<Longrightarrow> status = 1"
  by (auto simp: unreliablefs_opt_proc_def split: opt_key.splits option.splits)

lemma parse_continues:
  assumes "option_parser parse strings" "calm_host h"
    and "parse unreliablefs_opts (unreliablefs_opt_proc loop) argv conf h = Some (Inr (args, conf'), h')"
  shows "calm_host h' \<and> heap h' = heap h + int (strings argv) \<and> errors conf' = errors conf"
proof -
  note law = assms(1) [unfolded option_parser_def, THEN spec, THEN spec, THEN spec, THEN spec, THEN spec,
      THEN spec, THEN mp, OF assms(3), simplified, rule_format]
  show ?thesis by (rule law) (auto simp: assms(2) dest: opt_proc_result(1))
qed

lemma parse_exits:
  assumes "option_parser parse strings"
    and "parse unreliablefs_opts (unreliablefs_opt_proc loop) argv conf h = Some (Inl status, h')"
  shows "status = 1"
proof -
  note law = assms(1) [unfolded option_parser_def, THEN spec, THEN spec, THEN spec, THEN spec, THEN spec,
      THEN spec, THEN mp, OF assms(2), simplified]
  then show ?thesis using opt_proc_result(2) by blast
qed

lemma calm_is_dir: "is_dir p s = (d, t) \<Longrightarrow> faults s = [] \<Longrightarrow> faults t = []"
  by (auto simp: is_dir_def take_fault_def split: option.splits)

lemma build_config_path_exact: "build_config_path base = base @ ''/'' @ DEFAULT_CONF_NAME"
  by (simp add: build_config_path_def c_snprintf_def Let_def)

lemma run_mount_heap:
  assumes "calm_host h" "run_mount (mounted reqs) args conf h = Some (code, h')"
  shows "heap h' = heap h - 1"
proof -
  obtain r h1 where r: "config_init (config_path conf) h = Some (r, h1)"
    using assms(2) by (auto simp: run_mount_def split: option.splits)
  obtain q where q: "r = Some q" "calm_host h1" "queue_ok (heap h + 1) (q, h1)"
    using calm_config_init [OF assms(1) r] by blast
  have m: "mutex_init h1 = (0, h1)" using q(2) by (simp add: mutex_init_def take_fault_def)
  obtain c2 h2 where l: "inject_loop reqs (conf\<lparr>errors := r\<rparr>) h1 = Some (c2, h2)"
    and e: "h' = c_free (config_delete (errors c2) h2)"
    using assms(2) r m by (auto simp: run_mount_def mounted_def split: option.splits)
  have "tidy (heap h) (conf\<lparr>errors := r\<rparr>) h1" using q by (simp add: tidy_def config_ok_def)
  from loop_tidy [OF this l] show ?thesis
    using e config_ok_delete [of "heap h" c2 h2] by (simp add: tidy_def c_free_def)
qed

end
