(* ===== verification/Startup_Properties.thy ===== *)
theory Startup_Properties
  imports Startup_Facts Errinj_Properties
begin

text \<open>
  The program from its start to its end, and when it reloads its configuration.
\<close>

















text \<open>C30. With the default base directory the configuration is never reloaded. \<open>main\<close> then looks for
\<open>//unreliablefs.conf\<close>, and no operation on a path without a double slash, as FUSE passes them, is on
that path: the queue is the one loaded at the start.\<close>

theorem default_base_never_reloads:
  assumes "config_path conf = build_config_path ''/''" "\<not> sublist ''//'' path"
    and "error_inject path op conf h = Some (rc, conf', h')"
  shows "config_path conf = ''//unreliablefs.conf'' \<and> errors conf' = errors conf"
proof -
  have c: "config_path conf = ''//unreliablefs.conf''"
    using assms(1) by (simp add: build_config_path_exact DEFAULT_CONF_NAME_def)
  then have "path \<noteq> config_path conf" using assms(2) by (auto simp: sublist_code)
  then show ?thesis
    using c assms(3) by (auto simp: error_inject_def Let_def split: if_splits option.splits)
qed

theorem default_base_never_reloads_witness:
  "\<exists>conf h'. config_path conf = build_config_path ''/'' \<and> errors conf = Some [] \<and>
     error_inject ''/unreliablefs.conf'' OP_WRITE conf (sample_host (one_file ''/unreliablefs.conf'' ''[errinj_noop]'' []) (\<lambda>_. 0) 1)
       = Some (0, conf, h')"
proof -
  let ?c = "(sample_config [])\<lparr>config_path := build_config_path ''/''\<rparr>"
  let ?h = "sample_host (one_file ''/unreliablefs.conf'' ''[errinj_noop]'' []) (\<lambda>_. 0) 1"
  have e: "error_inject ''/unreliablefs.conf'' OP_WRITE ?c ?h = Some (0, ?c, ?h)"
    by (simp add: error_inject_def build_config_path_exact DEFAULT_CONF_NAME_def sample_config_def Let_def)
  have s: "\<not> sublist ''//'' ''/unreliablefs.conf''" by code_simp
  have "config_path ?c = ''//unreliablefs.conf'' \<and> errors ?c = errors ?c"
    by (rule default_base_never_reloads [OF _ s e]) simp
  then show ?thesis using e by (intro exI [of _ ?c] exI [of _ ?h]) (simp add: sample_config_def)
qed

end
