(* ===== verification/Cache_Properties.thy ===== *)
theory Cache_Properties
  imports Cache_Facts Refinement Client Posix_Samples
begin

text \<open>
  The client's cache as a map, and what a restart of the client keeps of it.
\<close>

subsection \<open>The cache as a map\<close>

datatype cache_call = Add string ClientCacheValue | Update string ClientCacheValue | Drop string
  | Move string string | Look string

datatype cache_answer = Ready | Blocked | Found "ClientCacheValue option"

definition settle :: "DiskCache \<Rightarrow> DiskCache option \<Rightarrow> cache_answer \<times> DiskCache" where
  "settle d r = (case r of None \<Rightarrow> (Blocked, d) | Some e \<Rightarrow> (Ready, e))"

fun cache_step :: "cache_call \<Rightarrow> DiskCache \<Rightarrow> cache_answer \<times> DiskCache" where
  "cache_step (Add k v) d = settle d (addCacheValue k v d)"
| "cache_step (Update k v) d = settle d (updateCacheValue k v d)"
| "cache_step (Drop k) d = settle d (deleteCacheValue k d)"
| "cache_step (Move k k') d = settle d (renameCacheValue k k' d)"
| "cache_step (Look k) d = (Found (getCacheValue k d), d)"

text \<open>An insertion never replaces an entry, an update never creates one.\<close>

fun map_step :: "cache_call \<Rightarrow> (string \<rightharpoonup> ClientCacheValue) \<Rightarrow> cache_answer \<times> (string \<rightharpoonup> ClientCacheValue)" where
  "map_step (Add k v) m = (Ready, if m k = None then m(k \<mapsto> v) else m)"
| "map_step (Update k v) m = (Ready, if m k = None then m else m(k \<mapsto> v))"
| "map_step (Drop k) m = (Ready, m(k := None))"
| "map_step (Move k k') m = (Ready,
     if m k = None then m else if k' = k \<or> m k' = None then m(k := None, k' := m k) else m(k := None))"
| "map_step (Look k) m = (Found (m k), m)"

abbreviation persistent :: "DiskCache \<Rightarrow> bool" where
  "persistent d \<equiv> cache_ok d \<and> cache_saved d"

definition entries :: "DiskCache \<Rightarrow> string \<rightharpoonup> ClientCacheValue" where
  "entries d k = getCacheValue k d"

lemma cache_simulated:
  assumes "persistent d"
  shows "\<exists>a e. cache_step c d = (a, e) \<and> map_step c (entries d) = (a, entries e) \<and> persistent e"
proof (cases c)
  case (Add k v)
  obtain e where e: "addCacheValue k v d = Some e" "cache_ok e"
    "\<forall>j. getCacheValue j e = (if j = k \<and> getCacheValue k d = None then Some v else getCacheValue j d)"
    using dc.add_law assms by blast
  moreover have "cache_saved e" using dc.add_saved e(1) assms by blast
  ultimately show ?thesis
    using Add by (auto simp: settle_def entries_def fun_eq_iff)
next
  case (Update k v)
  obtain e where e: "updateCacheValue k v d = Some e" "cache_ok e"
    "\<forall>j. getCacheValue j e = (if j = k \<and> getCacheValue k d \<noteq> None then Some v else getCacheValue j d)"
    using dc.upd_law assms by blast
  moreover have "cache_saved e" using dc.upd_saved e(1) assms by blast
  ultimately show ?thesis
    using Update by (auto simp: settle_def entries_def fun_eq_iff)
next
  case (Drop k)
  obtain e where e: "deleteCacheValue k d = Some e" "cache_ok e"
    "\<forall>j. getCacheValue j e = (if j = k then None else getCacheValue j d)"
    using dc.del_law assms by blast
  moreover have "cache_saved e" using dc.del_saved e(1) assms by blast
  ultimately show ?thesis
    using Drop by (auto simp: settle_def entries_def fun_eq_iff)
next
  case (Move k k')
  obtain e where e: "renameCacheValue k k' d = Some e" "cache_ok e"
    "\<forall>j. getCacheValue j e = (if getCacheValue k d = None then getCacheValue j d
       else if j = k' \<and> (k' = k \<or> getCacheValue k' d = None) then getCacheValue k d
       else if j = k then None else getCacheValue j d)"
    using dc.ren_law assms by blast
  moreover have "cache_saved e" using dc.ren_saved e(1) assms by blast
  ultimately show ?thesis
    using Move by (auto simp: settle_def entries_def fun_eq_iff)
next
  case (Look k)
  then show ?thesis using assms by (simp add: entries_def)
qed

interpretation cached: refines cache_step map_step entries persistent "\<lambda>_ _. True"
  by unfold_locales (rule cache_simulated)

lemma all_covered_True [simp]: "all_covered (\<lambda>_ _. True) step m cs"
  by (induction cs arbitrary: m) simp_all

text \<open>C5. The cache is a map that is always on disk. For every sequence of operations the answers are
those of a finite map, no operation blocks, the entries at the end are the map's, and whenever the file
can be opened its text is the rendering of exactly these entries.\<close>

theorem cache_refines_map:
  assumes "cache_ok d" "cache_saved d"
  shows "\<exists>as e. run_calls cache_step cs d = (as, e) \<and> run_calls map_step cs (entries d) = (as, entries e) \<and>
    cache_ok e \<and> cache_saved e"
  using cached.run [of d cs] assms by simp

text \<open>An entry renamed onto another one is lost: the old entry of the new name stays.\<close>

definition entry0 :: "int \<Rightarrow> ClientCacheValue" where
  "entry0 fd = ClientCacheValue_new (cache_setFileInfo FileInfo_default) True fd"

definition new_cache :: "string option \<Rightarrow> DiskCache" where
  "new_cache text = \<lparr>cache = [], cache_file = text, file_opens = True, semaphore = 1\<rparr>"

theorem cache_refines_map_witness:
  "\<exists>e. run_calls cache_step [Add ''/a'' (entry0 3), Add ''/b'' (entry0 4), Move ''/a'' ''/b'', Look ''/b'', Look ''/a'']
      (new_cache (Some []))
    = ([Ready, Ready, Ready, Found (Some (entry0 4)), Found None], e) \<and> cache_saved e"
proof -
  let ?cs = "[Add ''/a'' (entry0 3), Add ''/b'' (entry0 4), Move ''/a'' ''/b'', Look ''/b'', Look ''/a'']"
  have "cache_ok (new_cache (Some []))" "cache_saved (new_cache (Some []))" "entries (new_cache (Some [])) = Map.empty"
    by (simp_all add: new_cache_def cache_ok_def cache_saved_def entries_def getCacheValue_def fun_eq_iff)
  moreover have "fst (run_calls map_step ?cs Map.empty) = [Ready, Ready, Ready, Found (Some (entry0 4)), Found None]"
    by simp
  ultimately show ?thesis
    using cache_refines_map [of "new_cache (Some [])" ?cs] by auto
qed

subsection \<open>A restart of the client\<close>

text \<open>C19. A restart keeps one entry. When the saved entries' names are free of colons and newlines and
the first one's numbers are below 2 to the 31, a new client that reads the file has that entry and no
other, without its dirty mark: the fields of the first line are found again on every later line.\<close>

theorem restart_keeps_first_entry:
  assumes "cache_saved d" "file_opens d" "cache d = (k, v) # m" "fits_int v" "plain k"
    and "\<forall>k' \<in> fst ` set m. NL \<notin> set k'"
  shows "\<exists>c. wiscAFSClient_new (new_cache (cache_file d)) s = Some c \<and>
    cache (diskCache c) = [(k, v\<lparr>isDirty := False\<rparr>)]"
proof -
  have "getlines [] (concat (map (\<lambda>(k, v). save_line k v) (cache d))) = map (\<lambda>(k, v). save_text k v) (cache d)"
    using assms(3,5,6) by (intro getlines_saved) (auto simp: plain_def)
  then show ?thesis
    using assms(1-3) load_lines_first [OF assms(4,5), of "map (\<lambda>(k, v). save_text k v) m"]
    by (simp add: wiscAFSClient_new_def loadCache_def new_cache_def cache_saved_def sem_simps)
qed

definition two_entries :: "ClientCacheValue \<Rightarrow> DiskCache" where
  "two_entries v = saveCache ((new_cache None)\<lparr>cache := [(''/a'', v), (''/b'', entry0 4)]\<rparr>)"

lemma two_entries_facts:
  "cache_saved (two_entries v)" "file_opens (two_entries v)" "cache (two_entries v) = (''/a'', v) # [(''/b'', entry0 4)]"
  "plain ''/a''" "\<forall>k \<in> fst ` set [(''/b'', entry0 4)]. NL \<notin> set k"
  using saveCache_saved by (simp_all add: two_entries_def new_cache_def plain_def)

theorem restart_keeps_first_entry_witness:
  "\<exists>c. wiscAFSClient_new (new_cache (cache_file (two_entries (entry0 3)))) (empty_fs []) = Some c \<and>
     map fst (cache (diskCache c)) = [''/a'']"
proof -
  have "fits_int (entry0 3)"
    by (simp add: fits_int_def entry0_def ClientCacheValue_new_def cache_setFileInfo_def FileInfo_default_def Let_def)
  from restart_keeps_first_entry [OF two_entries_facts(1-3) this two_entries_facts(4,5), of "empty_fs []"]
  show ?thesis by auto
qed

text \<open>C20. A large file keeps the client from starting. When the size or the inode number of the first
saved entry is 2 to the 31 or more, the constructor of the next client does not return: \<open>std::stoi\<close>
throws while the file is read.\<close>

theorem restart_fails_on_large_file:
  assumes "cache_saved d" "file_opens d" "cache d = (k, v) # m" "plain k" "\<forall>k' \<in> fst ` set m. NL \<notin> set k'"
    and "2 ^ 31 \<le> unat (c_size (fileInfo v)) \<or> 2 ^ 31 \<le> unat (c_ino (fileInfo v))"
  shows "wiscAFSClient_new (new_cache (cache_file d)) s = None"
proof -
  have "getlines [] (concat (map (\<lambda>(k, v). save_line k v) (cache d))) = map (\<lambda>(k, v). save_text k v) (cache d)"
    using assms(3-5) by (intro getlines_saved) (auto simp: plain_def)
  moreover have "colon_fields [] (save_text k v) = save_fields k v"
    using assms(4) save_fields_plain(2) [of k v] unfolding save_text_def plain_def
    by (intro colon_fields_concat) blast
  ultimately show ?thesis
    using assms(1-3) parse_entry_too_big [OF assms(6), of k]
    by (simp add: wiscAFSClient_new_def loadCache_def new_cache_def cache_saved_def sem_simps Let_def)
qed

theorem restart_fails_on_large_file_witness:
  "wiscAFSClient_new (new_cache (cache_file (two_entries ((entry0 3)\<lparr>fileInfo := (fileInfo (entry0 3))\<lparr>c_size := 0x80000000\<rparr>\<rparr>))))
     (empty_fs []) = None"
  by (rule restart_fails_on_large_file [OF two_entries_facts]) simp

end
