(* ===== verification/Standalone.thy ===== *)
theory Standalone
  imports Client
begin

text \<open>
  \<open>wiscAFS/wiscAFS_client_standalone.cc\<close>: a client with a \<open>main\<close> of its own, which takes the server's
  address from its argument and makes one call of each kind. \<open>None\<close> stands for a call that blocks or
  an access outside a buffer.
\<close>

subsection \<open>The argument\<close>

text \<open>\<open>std::string::find\<close>\<close>

fun find_sub :: "string \<Rightarrow> string \<Rightarrow> nat option" where
  "find_sub pat [] = (if pat = [] then Some 0 else None)"
| "find_sub pat (c # cs) = (if prefix pat (c # cs) then Some 0 else map_option Suc (find_sub pat cs))"

text \<open>The address, or \<open>None\<close> when the program prints how it is to be used and ends.\<close>

definition target_str :: "string list \<Rightarrow> string option" where
  "target_str argv =
     (if length argv > 1 then
        (let arg_val = argv ! 1; arg_str = ''--target''
         in case find_sub arg_str arg_val of
              None \<Rightarrow> None
            | Some start_pos \<Rightarrow>
                (let start_pos = start_pos + length arg_str
                 in if start_pos < length arg_val \<and> arg_val ! start_pos = CHR ''=''
                    then Some (drop (start_pos + 1) arg_val) else None))
      else Some ''10.10.1.2:50052'')"

subsection \<open>The callback of ReadDir\<close>

text \<open>
  The buffer is a list of bytes. An entry is a \<open>struct dirent\<close> of 280 bytes, with the inode number
  in the first 8 and the name from byte 19 on, written after the first NUL of the buffer.
\<close>

definition first_nul :: "bytes \<Rightarrow> nat option" where
  "first_nul buf = (if NUL \<in> set buf then Some (length (takeWhile (\<lambda>c. c \<noteq> NUL) buf)) else None)"

definition store :: "nat \<Rightarrow> bytes \<Rightarrow> bytes \<Rightarrow> bytes option" where
  "store p bs buf = (if p + length bs \<le> length buf then Some (overwrite p bs buf) else None)"

definition little_endian :: "u64 \<Rightarrow> bytes" where
  "little_endian w = map (\<lambda>i. char_of (unat (drop_bit (8 * i) w AND 255))) [0..<8]"

definition my_filler :: "bytes \<Rightarrow> string \<Rightarrow> u64 \<Rightarrow> bytes option" where
  "my_filler buf name ino = do {
     n \<leftarrow> first_nul buf;
     let p = n + 1;
     buf \<leftarrow> store p (little_endian ino) buf;
     buf \<leftarrow> store (p + 19) (name @ [NUL]) buf;
     store (p + 280) [NUL] buf
   }"

text \<open>Every call writes to the same place: an entry overwrites the one before it.\<close>

lemma first_nul_overwrite:
  assumes "first_nul buf = Some n" "n < p" "p + length bs \<le> length buf"
  shows "first_nul (overwrite p bs buf) = Some n"
proof -
  have "NUL \<in> set buf" using assms(1) by (simp add: first_nul_def split: if_splits)
  then obtain a b where ab: "buf = a @ NUL # b" "NUL \<notin> set a" by (metis split_list_first)
  have tw: "takeWhile (\<lambda>c. c \<noteq> NUL) (a @ NUL # xs) = a" for xs
    using ab(2) by (induction a) auto
  have n: "n = length a" using assms(1) by (simp add: first_nul_def ab(1) tw)
  have w: "overwrite p bs buf = a @ NUL # (take (p - Suc n) b @ bs @ drop (p + length bs) buf)"
    if "bs \<noteq> []" using assms(2,3) that by (simp add: overwrite_def ab(1) n take_Cons')
  show ?thesis using assms(1) w by (cases "bs = []") (simp_all add: first_nul_def tw n)
qed

lemma my_filler_same_place:
  assumes "my_filler buf name ino = Some buf'"
  shows "first_nul buf' = first_nul buf"
  using assms
  by (auto simp: my_filler_def bind_eq_Some_conv store_def Let_def length_overwrite first_nul_overwrite split: if_splits)

subsection \<open>main\<close>

definition standalone_fill :: "bytes option fill" where
  "standalone_fill buf name ino mode = (Option.bind buf (\<lambda>b. my_filler b name (ucast ino)), False)"

definition standalone_main :: "'srv stub \<Rightarrow> string list \<Rightarrow> bytes \<Rightarrow> client \<Rightarrow> 'srv \<Rightarrow> (int \<times> client \<times> 'srv) option" where
  "standalone_main stub argv garbage c srv = (case target_str argv of
     None \<Rightarrow> Some (0, c, srv)
   | Some target \<Rightarrow> do {
       let path1 = ''/users/vramadas/test.txt'';
       let path2 = ''/users/vramadas/delete.txt'';
       let path3 = ''/tmp'';
       let path = ''/tmp/fs/adirect1'';
       (_, c, srv) \<leftarrow> OpenFile stub path1 (O_RDONLY OR 1024) c srv;
       buf \<leftarrow> my_filler garbage ''my_dir'' 1;
       let (_, c, srv) = CreateDir stub path 511 c srv;
       let (_, buf, c, srv) = client_ReadDir stub path (Some buf) standalone_fill c srv;
       _ \<leftarrow> buf;
       (_, c, srv) \<leftarrow> OpenFile stub path2 O_CREAT c srv;
       (_, c, srv) \<leftarrow> GetAttr stub path1 c srv;
       (_, c, srv) \<leftarrow> CloseFile stub path1 True c srv;
       (_, c, srv) \<leftarrow> DeleteFile stub path2 c srv;
       let (_, c, srv) = client_Statfs stub path3 c srv;
       Some (0, c, srv)
     })"

end
