(* ===== verification/Spec2Isabelle.thy ===== *)
theory Spec2Isabelle
  imports Server_Properties Vault_Properties Mount_Properties Unreliable_Properties Upload_Properties Ini_Properties
    Errno_Properties Startup_Properties Cache_Properties Standalone
begin

text \<open>
  wisc-AFS: a file system in the style of AFS, version 1. A FUSE file system
  (\<open>unreliablefs/unreliablefs\<close>) runs on each client machine; its callbacks for files are those of
  \<open>wiscAFS_ops.cc\<close>, which call the client library (\<open>wiscAFS/wiscAFS_client.cc\<close>). The client fetches a
  whole file when it is opened, keeps a local copy that it finds again through a cache
  (\<open>wiscAFS/cache/ClientCache.h\<close>), and uploads the copy when it is flushed. The server
  (\<open>wiscAFS/wiscAFS_server.cc\<close>) handles the remote calls on its own file system. The callbacks that
  are not replaced, and the configuration of injected errors, come from unreliablefs.

  \<^bold>\<open>Theories and sources.\<close>

  \<^item> \<open>AFS_Prelude\<close>: collections of simplification rules, type synonyms, lists and association lists
    shared by all. \<open>CLib\<close>: character classes, \<open>strtol\<close>, \<open>atoi\<close>, \<open>std::stoi\<close>, printing of numbers.
    \<open>Refinement\<close>: the locale of a service that refines another, for sequences of calls.
  \<^item> \<open>Posix\<close>, \<open>Posix_More\<close>: the system calls the program makes, on a record of names, inodes, open files
    and \<open>errno\<close>. Every call first consults a schedule of faults, which may make it fail or transfer
    less; an empty schedule is a quiet kernel. \<open>Posix_Facts\<close>, \<open>Posix_Calls\<close>, \<open>Posix_Faults\<close>: its
    well-formedness, the effect of each call in a quiet kernel, and what remains true when calls fail.
    \<open>Posix_Samples\<close>: concrete file systems.
  \<^item> \<open>Proto\<close>: the messages of \<open>wiscAFS.proto\<close> at their widths and the conversions of attributes.
  \<^item> \<open>Server\<close>: every handler of \<open>wiscAFSImpl\<close>, a function from a request (or the list of requests of a
    stream) and a file system to the reply (or replies) and a file system. \<open>Server_Facts\<close>,
    \<open>Server_Properties\<close>: chunking, uploads with and without failing calls.
  \<^item> \<open>Uploads\<close>, \<open>Uploads_Facts\<close>, \<open>Upload_Properties\<close>: calls of \<open>CloseFile\<close> that overlap. A call is a
    session with the local variables of the handler; the steps of sessions interleave freely.
  \<^item> \<open>Vault\<close>, \<open>Vault_Facts\<close>, \<open>Vault_Properties\<close>: the abstract service, a map of paths to files and
    directories with one step per call, and the proof that the handlers implement it.
  \<^item> \<open>Cache\<close>, \<open>Cache_Facts\<close>, \<open>Cache_Properties\<close>: \<open>DiskCache\<close> with its semaphore and its text file; the
    contract of a cache as a locale; saving, loading and restarting.
  \<^item> \<open>Client\<close>: every operation of \<open>wiscAFSClient\<close> over a stub that is a parameter. \<open>Client_Facts\<close>: each
    returns and keeps the client well-formed for any stub. \<open>Client_Service\<close>: the contract of the
    service behind the stub as a locale, and open and flush proved against it. \<open>Direct\<close>: the stub that
    calls the handlers, which satisfies the contract. \<open>Standalone\<close>: \<open>wiscAFS_client_standalone.cc\<close>.
  \<^item> \<open>Wisc_Ops\<close>: every \<open>wiscAFS_*\<close> callback of \<open>wiscAFS_ops.cc\<close> with its semaphore. \<open>Wisc_Facts\<close>,
    \<open>Samples\<close>, \<open>Mount_Properties\<close>: what the callbacks do, over the client and any service.
  \<^item> \<open>Ini\<close>, \<open>Ini_Facts\<close>, \<open>Ini_Properties\<close>: the parser of \<open>conf.c\<close> with the switches \<open>conf.h\<close> leaves on.
  \<^item> \<open>Errinj\<close>: \<open>unreliablefs_errinj.c\<close>, with the tables of \<open>unreliablefs_errno_linux.h\<close> in
    \<open>Errno_Linux\<close>; \<open>Errinj_Facts\<close>, \<open>Errinj_Load\<close>, \<open>Errinj_Properties\<close>: the queue, loading it from a file,
    what an injection may return. \<open>Errno_BSD\<close>, \<open>Errno_FreeBSD\<close>, \<open>Errno_OpenBSD\<close>, \<open>Errno_MacOS\<close>,
    \<open>Errno_Properties\<close>: the tables of the other systems.
  \<^item> \<open>Unreliable_Ops\<close>, \<open>Unreliable_Facts\<close>, \<open>Unreliable_Properties\<close>: every operation of
    \<open>unreliablefs_ops.c\<close>, first the injection, then the system call.
  \<^item> \<open>Startup\<close>, \<open>Startup_Facts\<close>, \<open>Startup_Properties\<close>: \<open>unreliablefs.c\<close>, the table of callbacks, the
    options and \<open>main\<close>.

  \<^bold>\<open>Conventions.\<close> A result \<open>None\<close> of an operation stands for a call that blocks or for undefined
  behaviour, and the text at each definition says which. Errors of the code are negative results,
  status fields or the left side of a sum, as in the source; so is an exception that leaves a handler. Machine integers are words where their
  width matters and otherwise integers with the conversion written out (\<open>to_int32\<close>). What an
  uninitialised variable or the memory behind a buffer holds is a component of the state
  (\<open>junk\<close>, \<open>overread\<close>), about which nothing is assumed.

  \<^bold>\<open>What is shown.\<close> This theory composes all parts: what one client writes and flushes is what another
  reads after it opens the file, and not before the flush, and a flush returns 0 even when the server
  refuses the upload. For the server: it refines the vault for every sequence of calls, with its errors
  and the exception \<open>CreateFile\<close> throws for large files; under any failing calls a handler agrees only if
  it did its work, and an upload is atomic; fetches and uploads are exact; uploads of different files that
  overlap do not disturb each other, and those of the same file do. For the mount: every callback but
  \<open>read\<close> and \<open>write\<close> returns with its semaphores where they were, for any service; \<open>read\<close> and \<open>write\<close> do
  so on an open file, and \<open>read\<close> on descriptor -1 is shown to misplace one; reads, writes, open and flush
  do to the copy what they should. For the cache: it refines a map that is always on disk; a restart loses all
  entries but one. For the parser: round trip, equivalence with a fold over lines, error line,
  termination. For the injection: cause and memory of every outcome, reloading, and the tables a draw
  reads outside of. For the operations of unreliablefs: failures change nothing, injections replace the
  operation, reads see writes. For the start: memory from start to end, what is lost included.

  \<^bold>\<open>Loops.\<close> Loops over lists and streams are structural. The loops that read a file end because every
  read that is not the last moves the offset (\<open>unread\<close> is the measure). The parser reads from a
  reader that is a parameter and is a \<open>partial_function\<close>; for the readers of \<open>conf.c\<close> it is proved to
  end. No fuel is used.

  \<^bold>\<open>Parameters.\<close> gRPC is the stub of the client and, for overlapping uploads, the interleaving; libfuse
  is the loop of \<open>main\<close>, the parser of the command line (\<open>option_parser\<close> states what it documents) and the
  callback of \<open>readdir\<close>; regular expressions,
  \<open>realpath\<close> and the random generator are functions in the state or arguments.

  \<^bold>\<open>Not modelled.\<close> Output to the terminal; the start of the gRPC server (\<open>RunServer\<close>); time stamps the
  kernel would update; permissions, which are among the scheduled faults; threads inside one mount
  beyond the semaphores; path resolution (a name is the full path string, directories are entries
  with children below them, symbolic links are not followed). The test programs under
  \<open>unreliablefs/unreliablefs/tests\<close> and \<open>tests\<close> are not part of the system.
\<close>

section \<open>Properties that span components\<close>

text \<open>C1. Close-to-open consistency. Client A has a local copy of a file open, writes to it and
flushes; client B then opens the file and reads. Every one of the four operations succeeds, and what
B reads is the range it asked for of the contents A's copy has after the write.\<close>

theorem close_to_open_consistency:
  assumes "mount_ready a" "holds a p d dirty (ffi_fh fa)" "mount_ready b" "ready (fst srv)"
    and "\<not> is_dir_at (fst srv) p" "\<not> is_dir_at (fst srv) (temp_path p)"
    and "length buf < 2 ^ 31" "len < 2 ^ 31" "overwrite off buf d \<noteq> []" "length (overwrite off buf d) < 2 ^ 31"
    and "next_ino (fst srv) < 2 ^ 31" "plain_flags (ffi_flags fb)"
    and "\<forall>i. \<not> is_dir_at (kernel_of b) (copy_path i)"
  shows "\<exists>a1 a2 srv2 fb' b1 srv3 b2.
    wiscAFS_write direct p buf off (Some fa) a srv = Some (int (length buf), a1, srv) \<and>
    wiscAFS_flush direct p fa a1 srv = Some (0, a2, srv2) \<and>
    wiscAFS_open direct p fb b srv2 = Some ((0, fb'), b1, srv3) \<and>
    wiscAFS_read direct p len pos (Some fb') b1 srv3
      = Some ((int (length (take len (drop pos (overwrite off buf d)))),
               take len (drop pos (overwrite off buf d))), b2, srv3)"
proof -
  let ?d = "overwrite off buf d"
  obtain a1 where a1: "wiscAFS_write direct p buf off (Some fa) a srv = Some (int (length buf), a1, srv)"
    "mount_ready a1" "holds a1 p ?d True (ffi_fh fa)"
    using write_copy [OF assms(1,2,7), of direct off srv] by blast
  have srv: "direct_ok srv" "direct_storable srv p" "length ?d < 2 ^ 63"
    using assms(4-6,10) by (simp_all add: direct_defs)
  obtain a2 srv2 where a2: "wiscAFS_flush direct p fa a1 srv = Some (0, a2, srv2)" "direct_ok srv2"
    "direct_view srv2 = (direct_view srv)(p \<mapsto> ?d, temp_path p := None)"
    using ds.flush_stores [OF a1(2,3) assms(9) srv(3,1,2)] by blast
  have view: "direct_view srv2 p = Some ?d" using a2(3) by simp
  have "next_ino (fst srv2) \<le> 2 ^ 31" using next_ino_flush [OF a2(1)] assms(11) by simp
  then have ino: "unat (direct_ino srv2 p) < 2 ^ 31"
    using direct_ino_small [OF a2(2)] view by simp
  obtain fb' b1 srv3 where b1: "wiscAFS_open direct p fb b srv2 = Some ((0, fb'), b1, srv3)"
    "mount_ready b1" "holds b1 p ?d False (ffi_fh fb')"
    using ds.mount_open_fetches [OF assms(3) a2(2) view assms(10,12) ino assms(13)] by blast
  show ?thesis
    using a1(1) a2(1) b1(1) read_copy [OF b1(2,3) assms(8), of direct pos srv3] by blast
qed

theorem close_to_open_consistency_witness:
  "\<exists>a1 a2 srv2 fb' b1 srv3 b2.
    wiscAFS_write direct ''/a'' ''XY'' 3 (Some \<lparr>ffi_flags = 2, ffi_fh = 0\<rparr>) (copy_mount ''/a'' ''hello'' False)
      (one_file ''/a'' ''hello'' [], []) = Some (2, a1, (one_file ''/a'' ''hello'' [], [])) \<and>
    wiscAFS_flush direct ''/a'' \<lparr>ffi_flags = 2, ffi_fh = 0\<rparr> a1 (one_file ''/a'' ''hello'' [], [])
      = Some (0, a2, srv2) \<and>
    wiscAFS_open direct ''/a'' \<lparr>ffi_flags = 2, ffi_fh = 0\<rparr> fresh_mount srv2 = Some ((0, fb'), b1, srv3) \<and>
    wiscAFS_read direct ''/a'' 10 1 (Some fb') b1 srv3 = Some ((4, ''elXY''), b2, srv3)"
  using close_to_open_consistency [of "copy_mount ''/a'' ''hello'' False" "''/a''" "''hello''" False
      "\<lparr>ffi_flags = 2, ffi_fh = 0\<rparr>" fresh_mount "(one_file ''/a'' ''hello'' [], [])" "''XY''" 10 3
      "\<lparr>ffi_flags = 2, ffi_fh = 0\<rparr>" 1]
  by (simp add: overwrite_def plain_flags_def can_read_def has_flag_def)

text \<open>C2. Writes are invisible to others before the flush. After client A has written to its copy,
the server's state is what it was, and client B opening the file reads the server's old contents.\<close>

theorem write_invisible_before_flush:
  assumes "mount_ready a" "holds a p d dirty (ffi_fh fa)" "mount_ready b" "ready (fst srv)"
    and "file_at (fst srv) p = Some d0" "length d0 < 2 ^ 31" "length buf < 2 ^ 31" "len < 2 ^ 31"
    and "next_ino (fst srv) \<le> 2 ^ 31" "plain_flags (ffi_flags fb)"
    and "\<forall>i. \<not> is_dir_at (kernel_of b) (copy_path i)"
  shows "\<exists>a1 fb' b1 srv1 b2.
    wiscAFS_write direct p buf off (Some fa) a srv = Some (int (length buf), a1, srv) \<and>
    wiscAFS_open direct p fb b srv = Some ((0, fb'), b1, srv1) \<and>
    wiscAFS_read direct p len pos (Some fb') b1 srv1
      = Some ((int (length (take len (drop pos d0))), take len (drop pos d0)), b2, srv1)"
proof -
  obtain a1 where a1: "wiscAFS_write direct p buf off (Some fa) a srv = Some (int (length buf), a1, srv)"
    using write_copy [OF assms(1,2,7), of direct off srv] by blast
  have srv: "direct_ok srv" "direct_view srv p = Some d0" using assms(4,5) by (simp_all add: direct_defs)
  have ino: "unat (direct_ino srv p) < 2 ^ 31" using direct_ino_small [OF srv(1)] srv(2) assms(9) by simp
  obtain fb' b1 srv1 where b1: "wiscAFS_open direct p fb b srv = Some ((0, fb'), b1, srv1)"
    "mount_ready b1" "holds b1 p d0 False (ffi_fh fb')"
    using ds.mount_open_fetches [OF assms(3) srv assms(6,10) ino assms(11)] by blast
  show ?thesis
    using a1 b1(1) read_copy [OF b1(2,3) assms(8), of direct pos srv1] by blast
qed

theorem write_invisible_before_flush_witness:
  "\<exists>a1 fb' b1 srv1 b2.
    wiscAFS_write direct ''/a'' ''XY'' 3 (Some \<lparr>ffi_flags = 2, ffi_fh = 0\<rparr>) (copy_mount ''/a'' ''hello'' False)
      (one_file ''/a'' ''hello'' [], []) = Some (2, a1, (one_file ''/a'' ''hello'' [], [])) \<and>
    wiscAFS_open direct ''/a'' \<lparr>ffi_flags = 2, ffi_fh = 0\<rparr> fresh_mount (one_file ''/a'' ''hello'' [], [])
      = Some ((0, fb'), b1, srv1) \<and>
    wiscAFS_read direct ''/a'' 10 1 (Some fb') b1 srv1 = Some ((4, ''ello''), b2, srv1)"
  using write_invisible_before_flush [of "copy_mount ''/a'' ''hello'' False" "''/a''" "''hello''" False
      "\<lparr>ffi_flags = 2, ffi_fh = 0\<rparr>" fresh_mount "(one_file ''/a'' ''hello'' [], [])" "''hello''" "''XY''" 10
      "\<lparr>ffi_flags = 2, ffi_fh = 0\<rparr>" 3 1]
  by (simp add: plain_flags_def can_read_def has_flag_def)

text \<open>C27. A flush hides the server's refusal. The path of a written, non-empty copy has become a directory
on the server: the upload is refused with \<open>EISDIR\<close> and leaves its temporary file behind, and yet the
flush returns 0. The server's tree is otherwise as before, and the copy still counts as written.\<close>

theorem flush_hides_refusal:
  assumes "mount_ready m" "holds m p d True (ffi_fh fi)" "d \<noteq> []" "length d < 2 ^ 63" "ready (fst srv)"
    and "is_dir_at (fst srv) p" "\<not> is_dir_at (fst srv) (temp_path p)"
  shows "\<exists>rqs m' srv'. wiscAFS_flush direct p fi m srv = Some (0, m', srv') \<and> holds m' p d True (ffi_fh fi) \<and>
    payload rqs = d \<and> server_step (Store rqs) (fst srv) = (Refused EISDIR, fst srv') \<and>
    vault_of (fst srv') = (vault_of (fst srv))(temp_path p \<mapsto> Regular d)"
proof -
  have ok: "direct_ok srv" using assms(5) by (simp add: direct_defs)
  obtain g rq c3 c4 srv1 m' where up: "upload_loop direct g (length d) rq c3 (upload_open direct srv) = (Inr (), c4, srv1)"
    "snd srv1 \<noteq> []" "list_all sized (snd srv1)" "q_filename (hd (snd srv1)) = p" "payload (snd srv1) = d"
    and m': "holds m' p d True (ffi_fh fi)"
    and run: "\<And>r srv2. upload_finish direct srv1 = (r, srv2) \<Longrightarrow> wiscAFS_flush direct p fi m srv = Some (0, m', srv2)"
    using ds.flush_uploads [OF assms(1-4) ok] by blast
  have same: "fst srv1 = fst srv" using upload_loop_direct [OF up(1)] by (simp add: direct_def)
  obtain reply t where t: "srv_CloseFile (snd srv1) (fst srv) = (reply, t)" by fastforce
  have "simulated (fst srv) (Store (snd srv1))" using up(2,3) assms(5) by (intro simulated_Store)
  then have "verdict reply = Refused EISDIR \<and> vault_of t = (vault_of (fst srv))(temp_path p \<mapsto> Regular d)"
    using t up(4,5) assms(6,7) by (auto simp: simulated_def vault_dirs Let_def)
  moreover have "upload_finish direct srv1 = (Inr reply, (t, []))" using t same by (simp add: direct_def)
  ultimately show ?thesis
    using run m' up(5) t by (intro exI [of _ "snd srv1"] exI [of _ m'] exI [of _ "(t, [])"]) simp
qed

theorem flush_hides_refusal_witness:
  "\<exists>m' srv'. wiscAFS_flush direct ''/a'' \<lparr>ffi_flags = 2, ffi_fh = 0\<rparr> (copy_mount ''/a'' ''hello'' True)
       (one_dir ''/a'', []) = Some (0, m', srv') \<and>
     vault_of (fst srv') = [''/a'' \<mapsto> Directory, ''/a.ttmmpp'' \<mapsto> Regular ''hello'']"
proof -
  have s: "ready (one_dir ''/a'')" "vault_of (one_dir ''/a'') = [''/a'' \<mapsto> Directory]"
    by (simp_all add: one_dir_facts fun_eq_iff vault_of_views)
  show ?thesis
    using flush_hides_refusal [of "copy_mount ''/a'' ''hello'' True" "''/a''" "''hello''" "\<lparr>ffi_flags = 2, ffi_fh = 0\<rparr>"
        "(one_dir ''/a'', [])"] s
    by (auto simp: one_dir_facts temp_path_def simp del: server_step.simps)
qed

end
